(* ===== verification/TspPrelude.thy ===== *)
theory TspPrelude
  imports Main "HOL-Library.Word" "HOL-Library.Char_ord" "HOL-Library.List_Lexorder"
    "HOL-Library.Multiset"
begin

text \<open>
  Shared vocabulary of the development: the machine integers of the C++ code, bytes and
  strings, the hexadecimal codec that several source files repeat, counter maps, and the
  interface of a self-delimiting byte encoding.

  Integer types: \<open>uint8_t\<close>, \<open>uint32_t\<close> and \<open>uint64_t\<close> are words of that width, so every
  \<open>++\<close> wraps as in the code. \<open>int64_t\<close> (milliseconds) and \<open>int\<close> (enum values) are \<open>int\<close>:
  overflow of a signed type is undefined in C++, and the code never relies on it.
  A \<open>std::string\<close> is a \<open>string\<close> (its bytes), a \<open>std::vector<uint8_t>\<close> a list of bytes.
\<close>

type_synonym u8 = "8 word"
type_synonym u32 = "32 word"
type_synonym u64 = "64 word"
type_synonym bytes = "8 word list"

named_theorems frame_simps \<open>which parts of a state an operation leaves alone\<close>
named_theorems inv_intros \<open>preservation lemmas of the state invariants\<close>

section \<open>Strings as bytes\<close>

definition str_bytes :: "string \<Rightarrow> bytes" where
  "str_bytes s = map of_char s"

lemma length_str_bytes [simp]: "length (str_bytes s) = length s"
  by (simp add: str_bytes_def)

lemma of_char_u8_inject: "(of_char c :: 8 word) = of_char d \<longleftrightarrow> c = d"
proof
  assume "(of_char c :: 8 word) = of_char d"
  then have "word_of_nat (of_char c) = (word_of_nat (of_char d) :: 8 word)"
    by (simp only: of_nat_of_char)
  then have "(of_char c :: nat) mod 256 = of_char d mod 256"
    by (simp add: word_of_nat_eq_iff take_bit_eq_mod)
  then show "c = d" by simp
qed simp

lemma str_bytes_inject [simp]: "str_bytes s = str_bytes t \<longleftrightarrow> s = t"
  by (simp add: str_bytes_def list.inj_map_strong inj_map_eq_map inj_on_def of_char_u8_inject)

definition starts_with :: "string \<Rightarrow> string \<Rightarrow> bool" where
  "starts_with p s \<longleftrightarrow> take (length p) s = p"

section \<open>Hexadecimal digits\<close>

text \<open>
  \<open>nib\<close> is the lambda of that name in \<open>decode_hex\<close> (keyprov\_attempt.cpp),
  \<open>hex_decode\<close> (v2c\_key\_provisioning\_store.cpp) and \<open>hex_to_fingerprint\<close>
  (v2c\_key\_provisioning\_coordinator.cpp); \<open>None\<close> stands for its result -1.
\<close>

definition nib :: "char \<Rightarrow> nat option" where
  "nib c =
     (if CHR ''0'' \<le> c \<and> c \<le> CHR ''9'' then Some (of_char c - 48)
      else if CHR ''a'' \<le> c \<and> c \<le> CHR ''f'' then Some (of_char c - 97 + 10)
      else if CHR ''A'' \<le> c \<and> c \<le> CHR ''F'' then Some (of_char c - 65 + 10)
      else None)"

fun hex_pairs :: "string \<Rightarrow> bytes option" where
  "hex_pairs [] = Some []"
| "hex_pairs [c] = None"
| "hex_pairs (hi # lo # cs) =
     (case (nib hi, nib lo) of
        (Some h, Some l) \<Rightarrow>
          (case hex_pairs cs of
             None \<Rightarrow> None
           | Some bs \<Rightarrow> Some (word_of_nat (16 * h + l) # bs))
      | _ \<Rightarrow> None)"

definition hex_decode :: "string \<Rightarrow> bytes" where
  "hex_decode s = (case hex_pairs s of None \<Rightarrow> [] | Some bs \<Rightarrow> bs)"

definition hex_digit :: "nat \<Rightarrow> char" where
  "hex_digit n = ''0123456789abcdef'' ! n"

definition hex_encode :: "bytes \<Rightarrow> string" where
  "hex_encode bs =
     concat (map (\<lambda>b. [hex_digit (unat b div 16), hex_digit (unat b mod 16)]) bs)"

lemma length_hex_encode [simp]: "length (hex_encode bs) = 2 * length bs"
  by (induction bs) (simp_all add: hex_encode_def)

lemma nib_hex_digit:
  assumes "n < 16"
  shows "nib (hex_digit n) = Some n"
proof -
  have "\<forall>k\<in>set [0..<16]. nib (hex_digit k) = Some k"
    by code_simp
  with assms show ?thesis by simp
qed

lemma nibble_lt: "unat (b :: u8) div 16 < 16"
proof -
  have "unat b < 2 ^ 8" using unsigned_less [of b] by simp
  then show ?thesis by simp
qed

lemma hex_pairs_encode: "hex_pairs (hex_encode bs) = Some bs"
proof (induction bs)
  case Nil
  show ?case by (simp add: hex_encode_def)
next
  case (Cons b bs)
  then show ?case
    by (simp add: hex_encode_def nib_hex_digit nibble_lt)
qed

theorem hex_decode_encode [simp]: "hex_decode (hex_encode bs) = bs"
  by (simp add: hex_decode_def hex_pairs_encode)

section \<open>Counter maps\<close>

text \<open>A \<open>std::map<std::string, uint64_t>\<close> of metrics: \<open>m[key]++\<close> starts at 0.\<close>

type_synonym counter_map = "string \<Rightarrow> u64"

definition bump :: "string \<Rightarrow> counter_map \<Rightarrow> counter_map" where
  "bump k m = m(k := m k + 1)"

section \<open>Unsigned counters below a bound do not wrap\<close>

lemma unat_inc_less:
  fixes x :: "'a::len word"
  assumes "x < y"
  shows "unat (x + 1) = unat x + 1"
proof -
  have "x + 1 \<noteq> 0"
  proof
    assume "x + 1 = 0"
    then have "x = - 1" by (rule max_word_wrap)
    with assms show False using word_order.extremum [of y] by simp
  qed
  then show ?thesis
    by (metis add.commute plus_1_eq_Suc unatSuc Suc_eq_plus1)
qed

section \<open>Self-delimiting encodings\<close>

text \<open>
  The contract the canonical formats of the attempt fingerprint and of the subscription digest
  rely on: the encoding of a value marks its own end, so whatever follows cannot be confused
  with it.
\<close>

locale self_delimiting =
  fixes enc :: "'a \<Rightarrow> 'b list"
    and ok :: "'a \<Rightarrow> bool"
  assumes split_unique: "ok x \<Longrightarrow> ok y \<Longrightarrow> enc x @ r = enc y @ s \<Longrightarrow> x = y \<and> r = s"
begin

lemma inject: "ok x \<Longrightarrow> ok y \<Longrightarrow> enc x = enc y \<Longrightarrow> x = y"
  using split_unique [of x y "[]" "[]"] by simp

lemma split_list:
  assumes "length xs = length ys" and "\<forall>x\<in>set xs. ok x" and "\<forall>y\<in>set ys. ok y"
    and "concat (map enc xs) @ r = concat (map enc ys) @ s"
  shows "xs = ys \<and> r = s"
  using assms
proof (induction xs ys rule: list_induct2)
  case Nil
  then show ?case by simp
next
  case (Cons x xs y ys)
  from Cons.prems(1,2) have ok: "ok x" "ok y" by simp_all
  from Cons.prems(3) have "enc x @ (concat (map enc xs) @ r) = enc y @ (concat (map enc ys) @ s)"
    by simp
  from split_unique [OF ok this] Cons.IH Cons.prems(1,2) show ?case by simp
qed

lemma split_all:
  assumes "\<And>x. enc x \<noteq> []" and "\<forall>x\<in>set xs. ok x" and "\<forall>y\<in>set ys. ok y"
    and "concat (map enc xs) = concat (map enc ys)"
  shows "xs = ys"
  using assms(2-)
proof (induction xs arbitrary: ys)
  case Nil
  then have "concat (map enc ys) = []" by simp
  then show ?case using assms(1) by (cases ys) simp_all
next
  case (Cons x xs)
  have "concat (map enc ys) \<noteq> []" unfolding Cons.prems(3) [symmetric] using assms(1) by simp
  then obtain y ys' where ys: "ys = y # ys'" by (cases ys) simp_all
  from Cons.prems ys split_unique [of x y "concat (map enc xs)" "concat (map enc ys')"]
    Cons.IH [of ys'] show ?case by simp
qed

end

section \<open>Invariants of a step relation\<close>

text \<open>The law every invariant keeps, and what it gives on every run.\<close>

locale step_invariant =
  fixes step :: "'s \<Rightarrow> 's \<Rightarrow> bool" and I :: "'s \<Rightarrow> bool"
  assumes kept: "\<lbrakk>step v w; I v\<rbrakk> \<Longrightarrow> I w"
begin

lemma run: "step\<^sup>*\<^sup>* v w \<Longrightarrow> I v \<Longrightarrow> I w"
  by (induction rule: rtranclp_induct) (auto intro: kept)

end

end
