(* ===== verification/KeyprovProtocol.thy ===== *)
theory KeyprovProtocol
  imports TspPrelude
begin

text \<open>
  The keyprov wire codec (src/include/keyprov\_protocol.h, src/src/keyprov\_protocol.cpp):
  session identity, digest normalisation, the enum/string maps, the three uplink envelope
  builders and the downlink decoder, each with every size and allowlist guard of the code.

  The protobuf messages are records with the fields of src/proto. The generated
  serialisers and parsers are not under src/: they are the fields of \<open>pb_codec\<close>, an
  argument of the builders and of the decoder. An enum field is its wire number (\<open>int\<close>).
  The constants of the TBOX-SEC SDK headers are the fields of \<open>sec_consts\<close>.
\<close>

section \<open>Constants\<close>

definition kKeyprovService :: string where "kKeyprovService = ''security.keyprov''"
definition kKeyprovProtocolVersion :: string where "kKeyprovProtocolVersion = ''keyprov-v1''"
definition kKeyprovPackage :: string where "kKeyprovPackage = ''security.keyprov.v1''"

definition kKeyprovPayloadRequest :: string where
  "kKeyprovPayloadRequest = ''security.keyprov.v1.KeyProvisioningRequest''"
definition kKeyprovPayloadResponse :: string where
  "kKeyprovPayloadResponse = ''security.keyprov.v1.KeyProvisioningResponse''"
definition kKeyprovPayloadAck :: string where
  "kKeyprovPayloadAck = ''security.keyprov.v1.KeyProvisioningAck''"
definition kKeyprovPayloadAckResult :: string where
  "kKeyprovPayloadAckResult = ''security.keyprov.v1.KeyProvisioningAckResult''"
definition kKeyprovPayloadStatusRequest :: string where
  "kKeyprovPayloadStatusRequest = ''security.keyprov.v1.KeyProvisioningStatusRequest''"
definition kKeyprovPayloadStatusResponse :: string where
  "kKeyprovPayloadStatusResponse = ''security.keyprov.v1.KeyProvisioningStatusResponse''"

abbreviation (input) "kKeyprovMaxPayloadBytes \<equiv> (16384::nat)"
abbreviation (input) "kKeyprovMaxWrappedKeyBytes \<equiv> (4096::nat)"
abbreviation (input) "kKeyprovMaxParametersBytes \<equiv> (2048::nat)"
abbreviation (input) "kKeyprovMaxImportProofBytes \<equiv> (1024::nat)"
abbreviation (input) "kKeyprovMaxItems \<equiv> (8::nat)"
abbreviation (input) "kKeyprovMaxStringBytes \<equiv> (128::nat)"
abbreviation (input) "kKeyprovMaxShortStringBytes \<equiv> (64::nat)"
abbreviation (input) "kKeyprovMaxDigestBytes \<equiv> (64::nat)"
abbreviation (input) "kKeyprovEnvelopeDigestBytes \<equiv> (32::nat)"
abbreviation (input) "kKeyprovKeyCheckValueBytes \<equiv> (3::nat)"
abbreviation (input) "kKeyprovRecipientCertDigestBytes \<equiv> (32::nat)"
abbreviation (input) "kKeyprovImportProofP1363Bytes \<equiv> (64::nat)"

definition kKeyprovBusinessDomainV2c :: string where "kKeyprovBusinessDomainV2c = ''V2C_COMM''"
definition kKeyprovPurposeUplink :: string where "kKeyprovPurposeUplink = ''UPLINK_AEAD''"
definition kKeyprovPurposeDownlink :: string where "kKeyprovPurposeDownlink = ''DOWNLINK_AEAD''"
definition kKeyprovSuiteHpkeBaseX25519 :: string where
  "kKeyprovSuiteHpkeBaseX25519 = ''WRAPPING_SUITE_HPKE_BASE_X25519_SHA256_AES128GCM''"
definition kKeyprovSuiteEcdhEsP256 :: string where
  "kKeyprovSuiteEcdhEsP256 = ''WRAPPING_SUITE_ECDH_ES_P256_HKDF_SHA256_AES256GCM''"

abbreviation (input) "kKeyProvPurposeUplinkValue \<equiv> (1::int)"
abbreviation (input) "kKeyProvPurposeDownlinkValue \<equiv> (2::int)"
abbreviation (input) "kKeyProvResultSucceeded \<equiv> (1::int)"
abbreviation (input) "kKeyProvImportImported \<equiv> (1::int)"
abbreviation (input) "kKeyProvStatusUnspecified \<equiv> (0::int)"
abbreviation (input) "kKeyProvStatusRequested \<equiv> (1::int)"
abbreviation (input) "kKeyProvStatusIssued \<equiv> (2::int)"
abbreviation (input) "kKeyProvStatusAckPending \<equiv> (3::int)"
abbreviation (input) "kKeyProvStatusActive \<equiv> (4::int)"
abbreviation (input) "kKeyProvStatusFailed \<equiv> (5::int)"
abbreviation (input) "kKeyProvStatusUnknown \<equiv> (6::int)"
abbreviation (input) "kKeyProvEnvelopeFormatUnspecified \<equiv> (0::int)"
abbreviation (input) "kKeyProvEnvelopeFormatEcdhEsP256V1 \<equiv> (1::int)"
abbreviation (input) "kKeyProvImportProofAlgorithmUnspecified \<equiv> (0::int)"
abbreviation (input) "kKeyProvImportProofAlgorithmEcdsaP256P1363 \<equiv> (1::int)"

section \<open>Session identity\<close>

record mqtt_session =
  ms_daemon_epoch :: string
  ms_connection_generation :: u64
  ms_cert_session_generation :: u64

record session_identity =
  si_ecu_uid :: string
  si_device_identity_digest :: string
  si_certificate_ref :: string
  si_session :: mqtt_session

definition empty_session :: mqtt_session where
  "empty_session = \<lparr>ms_daemon_epoch = [], ms_connection_generation = 0,
     ms_cert_session_generation = 0\<rparr>"

definition empty_identity :: session_identity where
  "empty_identity = \<lparr>si_ecu_uid = [], si_device_identity_digest = [], si_certificate_ref = [],
     si_session = empty_session\<rparr>"

definition uid_char :: "char \<Rightarrow> bool" where
  "uid_char c \<longleftrightarrow> (CHR ''A'' \<le> c \<and> c \<le> CHR ''Z'') \<or> (CHR ''0'' \<le> c \<and> c \<le> CHR ''9'') \<or> c = CHR ''-''"

definition keyprov_is_canonical_uid :: "string \<Rightarrow> bool" where
  "keyprov_is_canonical_uid uid \<longleftrightarrow>
     (if uid = [] \<or> length uid > 64 then False else list_all uid_char uid)"

definition isxdigit :: "char \<Rightarrow> bool" where
  "isxdigit c \<longleftrightarrow> nib c \<noteq> None"

text \<open>\<open>None\<close> is the result false; \<open>Some b\<close> is true with \<open>out = b\<close>.\<close>

definition keyprov_normalize_digest :: "string \<Rightarrow> bytes option" where
  "keyprov_normalize_digest inp =
     (let s = (if starts_with ''sha256:'' inp then drop (length ''sha256:'') inp else inp)
      in if s \<noteq> [] \<and> even (length s) \<and> list_all isxdigit s
         then (let out = hex_decode s
               in if out \<noteq> [] \<and> length out \<le> kKeyprovMaxDigestBytes then Some out else None)
         else if length s > kKeyprovMaxDigestBytes then None
         else Some (str_bytes s))"

text \<open>\<open>Inl reason\<close> is the result false with that reason.\<close>

definition keyprov_validate_identity :: "session_identity \<Rightarrow> string + unit" where
  "keyprov_validate_identity idn =
     (if \<not> keyprov_is_canonical_uid (si_ecu_uid idn) then Inl ''identity_uid_invalid''
      else if si_device_identity_digest idn = [] \<or> si_certificate_ref idn = []
        then Inl ''identity_certificate_incomplete''
      else if ms_daemon_epoch (si_session idn) = []
              \<or> ms_connection_generation (si_session idn) = 0
              \<or> ms_cert_session_generation (si_session idn) = 0
        then Inl ''identity_session_incomplete''
      else Inr ())"

section \<open>Enum and string maps\<close>

definition keyprov_purpose_from_string :: "string \<Rightarrow> int" where
  "keyprov_purpose_from_string name =
     (if name = kKeyprovPurposeUplink then kKeyProvPurposeUplinkValue
      else if name = kKeyprovPurposeDownlink then kKeyProvPurposeDownlinkValue
      else 0)"

definition keyprov_purpose_to_string :: "int \<Rightarrow> string" where
  "keyprov_purpose_to_string p =
     (if p = kKeyProvPurposeUplinkValue then kKeyprovPurposeUplink
      else if p = kKeyProvPurposeDownlinkValue then kKeyprovPurposeDownlink
      else ''UNSPECIFIED'')"

definition keyprov_wrapping_suite_from_string :: "string \<Rightarrow> int" where
  "keyprov_wrapping_suite_from_string name =
     (if name = kKeyprovSuiteHpkeBaseX25519 then 1
      else if name = kKeyprovSuiteEcdhEsP256 then 2
      else 0)"

definition keyprov_wrapping_suite_to_string :: "int \<Rightarrow> string" where
  "keyprov_wrapping_suite_to_string s =
     (if s = 1 then kKeyprovSuiteHpkeBaseX25519
      else if s = 2 then kKeyprovSuiteEcdhEsP256
      else ''UNSPECIFIED'')"

definition keyprov_envelope_format_from_string :: "string \<Rightarrow> int" where
  "keyprov_envelope_format_from_string name =
     (if name = ''ECDH_ES_P256_V1'' \<or> name = ''KEY_ENVELOPE_FORMAT_ECDH_ES_P256_V1'' then 1
      else if name = ''UNSPECIFIED'' \<or> name = ''KEY_ENVELOPE_FORMAT_UNSPECIFIED'' then 0
      else - 1)"

definition keyprov_envelope_format_to_string :: "int \<Rightarrow> string" where
  "keyprov_envelope_format_to_string f = (if f = 1 then ''ECDH_ES_P256_V1'' else ''UNSPECIFIED'')"

section \<open>Messages\<close>

record protocol_error =
  pe_code :: string
  pe_retryable :: bool
  pe_action :: string
  pe_message :: string

definition no_error :: protocol_error where
  "no_error = \<lparr>pe_code = [], pe_retryable = False, pe_action = [], pe_message = []\<rparr>"

text \<open>\<open>vehicle.common.v1.VehicleMessageEnvelope\<close>, the fields this program reads or writes.\<close>

record vehicle_envelope =
  ve_request_id :: string
  ve_timestamp_ms :: int
  ve_protocol_version :: string
  ve_device_id :: string
  ve_idempotency_key :: "string option"
  ve_payload_type :: string
  ve_payload :: bytes
  ve_message_id :: string
  ve_correlation_id :: "string option"
  ve_message_kind :: int
  ve_service :: string
  ve_expire_at_ms :: "int option"
  ve_trace_id :: "string option"

abbreviation (input) "MESSAGE_KIND_UNSPECIFIED \<equiv> (0::int)"
abbreviation (input) "MESSAGE_KIND_REQUEST \<equiv> (1::int)"
abbreviation (input) "MESSAGE_KIND_RESPONSE \<equiv> (2::int)"
abbreviation (input) "MESSAGE_KIND_EVENT \<equiv> (3::int)"

record pb_request =
  pq_request_id :: string
  pq_idempotency_key :: string
  pq_business_domain :: string
  pq_purposes :: "int list"
  pq_device_identity_digest :: bytes
  pq_certificate_profile :: string
  pq_certificate_digest :: bytes
  pq_key_encipherment_key_id :: string
  pq_supported_wrapping_suites :: "int list"
  pq_supported_envelope_formats :: "int list"
  pq_current_versions :: "(int \<times> u64) list"
  pq_timestamp_ms :: int
  pq_expire_at_ms :: int

record pb_import_item =
  pi_purpose :: int
  pi_key_id :: string
  pi_business_key_version :: u64
  pi_result :: int
  pi_envelope_format :: int
  pi_envelope_digest :: bytes
  pi_key_check_value :: bytes
  pi_import_proof_algorithm :: int
  pi_import_proof :: bytes
  pi_recipient_certificate_digest :: bytes
  pi_proof_algorithm :: string

record pb_ack =
  pa_request_id :: string
  pa_items :: "pb_import_item list"
  pa_timestamp_ms :: int

record pb_status_request =
  ps_request_id :: string
  ps_timestamp_ms :: int

record pb_wrapped_item =
  pw_purpose :: int
  pw_key_id :: string
  pw_business_key_version :: u64
  pw_wrapped_key :: bytes
  pw_key_algorithm :: string
  pw_wrapping_suite :: int
  pw_valid_from_ms :: int
  pw_valid_to_ms :: int
  pw_parameters :: bytes
  pw_envelope_digest :: bytes
  pw_key_check_value :: bytes
  pw_envelope_format :: int

record pb_response =
  pr_request_id :: string
  pr_result :: int
  pr_items :: "pb_wrapped_item list"
  pr_expire_at_ms :: int
  pr_error :: "protocol_error option"

record pb_ack_result =
  par_request_id :: string
  par_result :: int
  par_occurred_at_ms :: int
  par_error :: "protocol_error option"

record pb_purpose_status =
  pps_purpose :: int
  pps_key_id :: string
  pps_business_key_version :: u64
  pps_import_result :: int

record pb_status_response =
  psr_request_id :: string
  psr_status :: int
  psr_items :: "pb_purpose_status list"
  psr_occurred_at_ms :: int
  psr_error :: "protocol_error option"

text \<open>\<open>SerializeToString\<close> (\<open>None\<close>: false) and \<open>ParseFrom...\<close> (\<open>None\<close>: false).\<close>

record pb_codec =
  ser_envelope :: "vehicle_envelope \<Rightarrow> bytes option"
  ser_request :: "pb_request \<Rightarrow> bytes option"
  ser_ack :: "pb_ack \<Rightarrow> bytes option"
  ser_status_request :: "pb_status_request \<Rightarrow> bytes option"
  parse_envelope :: "bytes \<Rightarrow> vehicle_envelope option"
  parse_response :: "bytes \<Rightarrow> pb_response option"
  parse_ack_result :: "bytes \<Rightarrow> pb_ack_result option"
  parse_status_response :: "bytes \<Rightarrow> pb_status_response option"

record sec_consts =
  sc_wrapping_suite_ecdh :: string
  sc_format_ecdh_v1 :: int
  sc_proof_alg_p1363 :: string
  sc_capability_contract_version :: u32

text \<open>\<open>tbox::sec::WrappedKeyItem\<close>; a \<open>SecureBuffer\<close> is its bytes.\<close>

record wrapped_item =
  wi_purpose :: string
  wi_key_id :: string
  wi_business_key_version :: u64
  wi_algorithm :: string
  wi_valid_from_ms :: int
  wi_valid_to_ms :: int
  wi_wrapping_suite :: string
  wi_envelope_format :: int
  wi_envelope_digest :: bytes
  wi_key_check_value :: bytes
  wi_key_check_value_present :: bool
  wi_wrapped_key :: bytes
  wi_parameters :: bytes

record request_data =
  rq_request_id :: string
  rq_idempotency_key :: string
  rq_business_domain :: string
  rq_purposes :: "int list"
  rq_certificate_profile :: string
  rq_key_encipherment_key_id :: string
  rq_supported_wrapping_suites :: "int list"
  rq_supported_envelope_formats :: "int list"
  rq_current_versions :: "(int \<times> u64) list"
  rq_timestamp_ms :: int
  rq_expire_at_ms :: int

record response_data =
  rd_request_id :: string
  rd_result :: int
  rd_expire_at_ms :: int
  rd_error :: protocol_error
  rd_items :: "wrapped_item list"

record ack_result_data =
  ad_request_id :: string
  ad_result :: int
  ad_occurred_at_ms :: int
  ad_error :: protocol_error

record status_item =
  st_purpose :: int
  st_key_id :: string
  st_business_key_version :: u64
  st_import_result :: int

record status_response_data =
  sd_request_id :: string
  sd_status :: int
  sd_occurred_at_ms :: int
  sd_error :: protocol_error
  sd_items :: "status_item list"

text \<open>\<open>KeyProvImportItemResult\<close> has the fields of \<open>pb_import_item\<close>.\<close>

type_synonym import_item = pb_import_item

datatype codec_status =
    CodecOk | EnvelopeInvalid | UnsupportedPayloadType | ProtocolVersionMismatch
  | ServiceMismatch | SizeExceeded | FieldInvalid | CodecInternal

definition keyprov_codec_status_to_string :: "codec_status \<Rightarrow> string" where
  "keyprov_codec_status_to_string s =
     (case s of
        CodecOk \<Rightarrow> ''OK''
      | EnvelopeInvalid \<Rightarrow> ''ENVELOPE_INVALID''
      | UnsupportedPayloadType \<Rightarrow> ''UNSUPPORTED_PAYLOAD_TYPE''
      | ProtocolVersionMismatch \<Rightarrow> ''PROTOCOL_VERSION_MISMATCH''
      | ServiceMismatch \<Rightarrow> ''SERVICE_MISMATCH''
      | SizeExceeded \<Rightarrow> ''SIZE_EXCEEDED''
      | FieldInvalid \<Rightarrow> ''FIELD_INVALID''
      | CodecInternal \<Rightarrow> ''INTERNAL'')"

text \<open>
  \<open>KeyProvEncodeOutcome\<close> and \<open>KeyProvDecodeOutcome\<close>: \<open>Inl (status, reason)\<close> for every
  status but Ok, else the bytes or the decoded message. The decoded union carries, for
  every kind, \<open>request_id\<close> (inside the data) and \<open>message_id\<close>.
\<close>

datatype decoded_body =
    DecResponse response_data
  | DecAckResult ack_result_data
  | DecStatusResponse status_response_data

record decoded =
  dc_message_id :: string
  dc_body :: decoded_body

fun dc_request_id :: "decoded_body \<Rightarrow> string" where
  "dc_request_id (DecResponse r) = rd_request_id r"
| "dc_request_id (DecAckResult a) = ad_request_id a"
| "dc_request_id (DecStatusResponse s) = sd_request_id s"

text \<open>A valid identity, for the witnesses of the development.\<close>

definition identity_ex :: session_identity where
  "identity_ex = \<lparr>si_ecu_uid = ''TBOX-1'', si_device_identity_digest = replicate 32 CHR ''x'',
     si_certificate_ref = ''sha256:'' @ replicate 32 CHR ''y'',
     si_session = \<lparr>ms_daemon_epoch = ''e1'', ms_connection_generation = 3,
       ms_cert_session_generation = 1\<rparr>\<rparr>"

lemma identity_ex_valid: "keyprov_validate_identity identity_ex = Inr ()"
  by (simp add: identity_ex_def keyprov_validate_identity_def keyprov_is_canonical_uid_def
      uid_char_def)

lemma identity_ex_digests:
  "keyprov_normalize_digest (si_device_identity_digest identity_ex)
     = Some (str_bytes (replicate 32 CHR ''x''))"
  "keyprov_normalize_digest (si_certificate_ref identity_ex)
     = Some (str_bytes (replicate 32 CHR ''y''))"
  by (simp_all add: identity_ex_def keyprov_normalize_digest_def starts_with_def isxdigit_def
      nib_def Let_def list_all_iff)

end
