(* ===== verification/KeyprovCodec.thy ===== *)
theory KeyprovCodec
  imports KeyprovProtocol
begin

text \<open>
  The three uplink envelope builders and the downlink decoder of
  src/src/keyprov\_protocol.cpp, every guard in the order of the code. The lemmas show
  what an accepted message satisfies (domain, formats, exact attestation lengths, identity
  binding), and that the decoder never delivers a wrapped item outside the allowlist.
\<close>

type_synonym encode_outcome = "(codec_status \<times> string) + bytes"
type_synonym decode_outcome = "(codec_status \<times> string) + decoded"

definition str_within :: "string \<Rightarrow> nat \<Rightarrow> bool" where
  "str_within s m \<longleftrightarrow> length s \<le> m"

definition serialize_envelope :: "pb_codec \<Rightarrow> vehicle_envelope \<Rightarrow> encode_outcome" where
  "serialize_envelope pb env =
     (case ser_envelope pb env of
        None \<Rightarrow> Inl (CodecInternal, ''envelope_serialize_failed'')
      | Some b \<Rightarrow>
          (if length b > kKeyprovMaxPayloadBytes
           then Inl (SizeExceeded, ''envelope_too_large'') else Inr b))"

text \<open>
  \<open>fill_common\<close> on a default envelope; \<open>set_correlation_id\<close> and \<open>set_trace_id\<close> only for a
  nonempty string. The kind, payload, idempotency key and expiry are set by the builders.
\<close>

definition fill_common ::
  "session_identity \<Rightarrow> string \<Rightarrow> string \<Rightarrow> string \<Rightarrow> string \<Rightarrow> string \<Rightarrow> int \<Rightarrow> vehicle_envelope" where
  "fill_common idn request_id message_id correlation_id payload_type trace_id ts =
     \<lparr>ve_request_id = request_id, ve_timestamp_ms = ts,
      ve_protocol_version = kKeyprovProtocolVersion, ve_device_id = si_ecu_uid idn,
      ve_idempotency_key = None, ve_payload_type = payload_type, ve_payload = [],
      ve_message_id = message_id,
      ve_correlation_id = (if correlation_id = [] then None else Some correlation_id),
      ve_message_kind = MESSAGE_KIND_UNSPECIFIED, ve_service = kKeyprovService,
      ve_expire_at_ms = None,
      ve_trace_id = (if trace_id = [] then None else Some trace_id)\<rparr>"

section \<open>Request\<close>

text \<open>The loop over \<open>supported_envelope_formats\<close>: the first bad entry decides.\<close>

fun check_formats :: "int list \<Rightarrow> bool \<Rightarrow> string + bool" where
  "check_formats [] declared = Inr declared"
| "check_formats (f # fs) declared =
     (if f = kKeyProvEnvelopeFormatEcdhEsP256V1 then check_formats fs True
      else if f = kKeyProvEnvelopeFormatUnspecified then Inl ''envelope_format_unspecified''
      else Inl ''envelope_format_unknown'')"

definition request_message :: "request_data \<Rightarrow> bytes \<Rightarrow> bytes \<Rightarrow> pb_request" where
  "request_message rq identity_digest certificate_digest =
     \<lparr>pq_request_id = rq_request_id rq, pq_idempotency_key = rq_idempotency_key rq,
      pq_business_domain = rq_business_domain rq, pq_purposes = rq_purposes rq,
      pq_device_identity_digest = identity_digest,
      pq_certificate_profile = rq_certificate_profile rq,
      pq_certificate_digest = certificate_digest,
      pq_key_encipherment_key_id = rq_key_encipherment_key_id rq,
      pq_supported_wrapping_suites = rq_supported_wrapping_suites rq,
      pq_supported_envelope_formats = rq_supported_envelope_formats rq,
      pq_current_versions = rq_current_versions rq,
      pq_timestamp_ms = rq_timestamp_ms rq, pq_expire_at_ms = rq_expire_at_ms rq\<rparr>"

definition request_guards :: "session_identity \<Rightarrow> request_data \<Rightarrow> (codec_status \<times> string) + bytes \<times> bytes" where
  "request_guards idn rq =
     (case keyprov_validate_identity idn of Inl r \<Rightarrow> Inl (FieldInvalid, r) | Inr _ \<Rightarrow>
      if \<not> str_within (rq_request_id rq) kKeyprovMaxStringBytes
         \<or> \<not> str_within (rq_idempotency_key rq) kKeyprovMaxStringBytes
         \<or> \<not> str_within (rq_business_domain rq) kKeyprovMaxShortStringBytes
      then Inl (FieldInvalid, ''request_field_too_large'')
      else if rq_request_id rq = [] \<or> rq_idempotency_key rq = [] \<or> rq_business_domain rq = []
      then Inl (FieldInvalid, ''request_field_missing'')
      else if rq_business_domain rq \<noteq> kKeyprovBusinessDomainV2c
      then Inl (FieldInvalid, ''business_domain_invalid'')
      else if length (rq_purposes rq) > kKeyprovMaxItems
         \<or> length (rq_supported_wrapping_suites rq) > kKeyprovMaxItems
         \<or> length (rq_supported_envelope_formats rq) > kKeyprovMaxItems
         \<or> length (rq_current_versions rq) > kKeyprovMaxItems
      then Inl (SizeExceeded, ''request_items_too_many'')
      else (case check_formats (rq_supported_envelope_formats rq) False of
              Inl r \<Rightarrow> Inl (FieldInvalid, r)
            | Inr declared \<Rightarrow>
      if \<not> declared then Inl (FieldInvalid, ''envelope_format_missing'')
      else (case keyprov_normalize_digest (si_device_identity_digest idn) of
              None \<Rightarrow> Inl (FieldInvalid, ''identity_digest_invalid'')
            | Some identity_digest \<Rightarrow>
      if identity_digest = [] then Inl (FieldInvalid, ''identity_digest_invalid'')
      else (case keyprov_normalize_digest (si_certificate_ref idn) of
              None \<Rightarrow> Inl (FieldInvalid, ''identity_certificate_ref_invalid'')
            | Some certificate_digest \<Rightarrow>
      if certificate_digest = [] then Inl (FieldInvalid, ''identity_certificate_ref_invalid'')
      else if 0 \<in> set (rq_purposes rq) then Inl (FieldInvalid, ''invalid_purpose'')
      else Inr (identity_digest, certificate_digest)))))"

definition build_keyprov_request_envelope ::
  "pb_codec \<Rightarrow> session_identity \<Rightarrow> request_data \<Rightarrow> string \<Rightarrow> string \<Rightarrow> encode_outcome" where
  "build_keyprov_request_envelope pb idn rq message_id trace_id =
     (case request_guards idn rq of Inl e \<Rightarrow> Inl e | Inr (idd, cd) \<Rightarrow>
      (case ser_request pb (request_message rq idd cd) of
         None \<Rightarrow> Inl (CodecInternal, ''request_serialize_failed'')
       | Some payload \<Rightarrow>
           serialize_envelope pb
             ((fill_common idn (rq_request_id rq) message_id [] kKeyprovPayloadRequest trace_id
                 (rq_timestamp_ms rq))
              \<lparr>ve_message_kind := MESSAGE_KIND_REQUEST,
               ve_idempotency_key := Some (rq_idempotency_key rq),
               ve_expire_at_ms := (if rq_expire_at_ms rq > 0 then Some (rq_expire_at_ms rq) else None),
               ve_payload := payload\<rparr>)))"

section \<open>Ack\<close>

definition ack_item_guard :: "import_item \<Rightarrow> (codec_status \<times> string) option" where
  "ack_item_guard it =
     (if \<not> str_within (pi_key_id it) kKeyprovMaxStringBytes
         \<or> length (pi_import_proof it) > kKeyprovMaxImportProofBytes
      then Some (SizeExceeded, ''ack_item_too_large'')
      else if pi_envelope_format it = kKeyProvEnvelopeFormatEcdhEsP256V1 then
        (if pi_import_proof_algorithm it \<noteq> kKeyProvImportProofAlgorithmEcdsaP256P1363
            \<or> length (pi_import_proof it) \<noteq> kKeyprovImportProofP1363Bytes
            \<or> length (pi_recipient_certificate_digest it) \<noteq> kKeyprovRecipientCertDigestBytes
            \<or> length (pi_envelope_digest it) \<noteq> kKeyprovEnvelopeDigestBytes
            \<or> length (pi_key_check_value it) \<noteq> kKeyprovKeyCheckValueBytes
         then Some (FieldInvalid, ''ack_attestation_invalid'') else None)
      else if pi_envelope_format it = kKeyProvEnvelopeFormatUnspecified
      then Some (FieldInvalid, ''ack_envelope_format_unspecified'')
      else Some (FieldInvalid, ''ack_envelope_format_unknown''))"

text \<open>The item loop: the deprecated string field 6 is never set (it stays empty).\<close>

fun ack_items_message :: "import_item list \<Rightarrow> (codec_status \<times> string) + pb_import_item list" where
  "ack_items_message [] = Inr []"
| "ack_items_message (it # its) =
     (case ack_item_guard it of Some e \<Rightarrow> Inl e
      | None \<Rightarrow> (case ack_items_message its of Inl e \<Rightarrow> Inl e
                 | Inr out \<Rightarrow> Inr (it\<lparr>pi_proof_algorithm := []\<rparr> # out)))"

definition build_keyprov_ack_envelope ::
  "pb_codec \<Rightarrow> session_identity \<Rightarrow> string \<Rightarrow> import_item list \<Rightarrow> int \<Rightarrow> string \<Rightarrow> string \<Rightarrow> encode_outcome" where
  "build_keyprov_ack_envelope pb idn request_id items ts message_id correlation_id =
     (case keyprov_validate_identity idn of Inl r \<Rightarrow> Inl (FieldInvalid, r) | Inr _ \<Rightarrow>
      if request_id = [] then Inl (FieldInvalid, ''ack_request_id_missing'')
      else if length items > kKeyprovMaxItems then Inl (SizeExceeded, ''ack_items_too_many'')
      else (case ack_items_message items of Inl e \<Rightarrow> Inl e | Inr pitems \<Rightarrow>
      (case ser_ack pb \<lparr>pa_request_id = request_id, pa_items = pitems, pa_timestamp_ms = ts\<rparr> of
         None \<Rightarrow> Inl (CodecInternal, ''ack_serialize_failed'')
       | Some payload \<Rightarrow>
           serialize_envelope pb
             ((fill_common idn request_id message_id correlation_id kKeyprovPayloadAck [] ts)
              \<lparr>ve_message_kind := MESSAGE_KIND_REQUEST, ve_payload := payload\<rparr>))))"

section \<open>Status request\<close>

definition build_keyprov_status_request_envelope ::
  "pb_codec \<Rightarrow> session_identity \<Rightarrow> string \<Rightarrow> int \<Rightarrow> string \<Rightarrow> string \<Rightarrow> encode_outcome" where
  "build_keyprov_status_request_envelope pb idn request_id ts message_id trace_id =
     (case keyprov_validate_identity idn of Inl r \<Rightarrow> Inl (FieldInvalid, r) | Inr _ \<Rightarrow>
      if request_id = [] then Inl (FieldInvalid, ''status_request_id_missing'')
      else (case ser_status_request pb \<lparr>ps_request_id = request_id, ps_timestamp_ms = ts\<rparr> of
         None \<Rightarrow> Inl (CodecInternal, ''status_request_serialize_failed'')
       | Some payload \<Rightarrow>
           serialize_envelope pb
             ((fill_common idn request_id message_id [] kKeyprovPayloadStatusRequest trace_id ts)
              \<lparr>ve_message_kind := MESSAGE_KIND_REQUEST, ve_payload := payload\<rparr>)))"

section \<open>Decoder\<close>

definition fill_error :: "protocol_error option \<Rightarrow> protocol_error" where
  "fill_error e = (case e of None \<Rightarrow> no_error | Some x \<Rightarrow> x)"

definition wrapped_item_guard :: "pb_wrapped_item \<Rightarrow> (codec_status \<times> string) option" where
  "wrapped_item_guard it =
     (if length (pw_wrapped_key it) > kKeyprovMaxWrappedKeyBytes
         \<or> length (pw_parameters it) > kKeyprovMaxParametersBytes
      then Some (SizeExceeded, ''wrapped_item_too_large'')
      else if \<not> str_within (pw_key_id it) kKeyprovMaxStringBytes
         \<or> \<not> str_within (pw_key_algorithm it) kKeyprovMaxShortStringBytes
      then Some (FieldInvalid, ''wrapped_item_field_invalid'')
      else if pw_envelope_format it \<noteq> kKeyProvEnvelopeFormatEcdhEsP256V1
      then Some (FieldInvalid, ''wrapped_envelope_format_unsupported'')
      else if pw_wrapping_suite it \<noteq> keyprov_wrapping_suite_from_string kKeyprovSuiteEcdhEsP256
      then Some (FieldInvalid, ''wrapped_suite_unsupported'')
      else if length (pw_envelope_digest it) \<noteq> kKeyprovEnvelopeDigestBytes
         \<or> length (pw_key_check_value it) \<noteq> kKeyprovKeyCheckValueBytes
      then Some (FieldInvalid, ''wrapped_digest_or_kcv_invalid'')
      else None)"

definition wrapped_item_of :: "sec_consts \<Rightarrow> pb_wrapped_item \<Rightarrow> wrapped_item" where
  "wrapped_item_of sc it =
     \<lparr>wi_purpose = keyprov_purpose_to_string (pw_purpose it), wi_key_id = pw_key_id it,
      wi_business_key_version = pw_business_key_version it, wi_algorithm = pw_key_algorithm it,
      wi_valid_from_ms = pw_valid_from_ms it, wi_valid_to_ms = pw_valid_to_ms it,
      wi_wrapping_suite = sc_wrapping_suite_ecdh sc, wi_envelope_format = sc_format_ecdh_v1 sc,
      wi_envelope_digest = pw_envelope_digest it,
      wi_key_check_value = pw_key_check_value it, wi_key_check_value_present = True,
      wi_wrapped_key = pw_wrapped_key it, wi_parameters = pw_parameters it\<rparr>"

fun decode_wrapped_items ::
  "sec_consts \<Rightarrow> pb_wrapped_item list \<Rightarrow> (codec_status \<times> string) + wrapped_item list" where
  "decode_wrapped_items sc [] = Inr []"
| "decode_wrapped_items sc (it # its) =
     (case wrapped_item_guard it of Some e \<Rightarrow> Inl e
      | None \<Rightarrow> (case decode_wrapped_items sc its of Inl e \<Rightarrow> Inl e
                 | Inr out \<Rightarrow> Inr (wrapped_item_of sc it # out)))"

fun decode_status_items :: "pb_purpose_status list \<Rightarrow> (codec_status \<times> string) + status_item list" where
  "decode_status_items [] = Inr []"
| "decode_status_items (it # its) =
     (if \<not> str_within (pps_key_id it) kKeyprovMaxStringBytes
      then Inl (FieldInvalid, ''status_item_field_invalid'')
      else (case decode_status_items its of Inl e \<Rightarrow> Inl e
            | Inr out \<Rightarrow> Inr (\<lparr>st_purpose = pps_purpose it, st_key_id = pps_key_id it,
                              st_business_key_version = pps_business_key_version it,
                              st_import_result = pps_import_result it\<rparr> # out)))"

definition decode_response :: "pb_codec \<Rightarrow> sec_consts \<Rightarrow> bytes \<Rightarrow> (codec_status \<times> string) + decoded_body" where
  "decode_response pb sc payload =
     (case parse_response pb payload of
        None \<Rightarrow> Inl (FieldInvalid, ''response_parse_failed'')
      | Some msg \<Rightarrow>
          (if length (pr_items msg) > kKeyprovMaxItems
           then Inl (SizeExceeded, ''response_items_too_many'')
           else (case decode_wrapped_items sc (pr_items msg) of Inl e \<Rightarrow> Inl e
             | Inr items \<Rightarrow>
                 Inr (DecResponse \<lparr>rd_request_id = pr_request_id msg, rd_result = pr_result msg,
                        rd_expire_at_ms = pr_expire_at_ms msg,
                        rd_error = fill_error (pr_error msg), rd_items = items\<rparr>))))"

definition decode_ack_result :: "pb_codec \<Rightarrow> bytes \<Rightarrow> (codec_status \<times> string) + decoded_body" where
  "decode_ack_result pb payload =
     (case parse_ack_result pb payload of
        None \<Rightarrow> Inl (FieldInvalid, ''ack_result_parse_failed'')
      | Some msg \<Rightarrow>
          Inr (DecAckResult \<lparr>ad_request_id = par_request_id msg, ad_result = par_result msg,
                 ad_occurred_at_ms = par_occurred_at_ms msg,
                 ad_error = fill_error (par_error msg)\<rparr>))"

definition decode_status_response :: "pb_codec \<Rightarrow> bytes \<Rightarrow> (codec_status \<times> string) + decoded_body" where
  "decode_status_response pb payload =
     (case parse_status_response pb payload of
        None \<Rightarrow> Inl (FieldInvalid, ''status_response_parse_failed'')
      | Some msg \<Rightarrow>
          (if length (psr_items msg) > kKeyprovMaxItems
           then Inl (SizeExceeded, ''status_items_too_many'')
           else (case decode_status_items (psr_items msg) of Inl e \<Rightarrow> Inl e
             | Inr items \<Rightarrow>
                 Inr (DecStatusResponse \<lparr>sd_request_id = psr_request_id msg,
                        sd_status = psr_status msg, sd_occurred_at_ms = psr_occurred_at_ms msg,
                        sd_error = fill_error (psr_error msg), sd_items = items\<rparr>))))"

definition decode_keyprov_envelope :: "pb_codec \<Rightarrow> sec_consts \<Rightarrow> bytes \<Rightarrow> decode_outcome" where
  "decode_keyprov_envelope pb sc envelope_bytes =
     (if length envelope_bytes > kKeyprovMaxPayloadBytes
      then Inl (SizeExceeded, ''envelope_too_large'')
      else (case parse_envelope pb envelope_bytes of
              None \<Rightarrow> Inl (EnvelopeInvalid, ''envelope_parse_failed'')
            | Some env \<Rightarrow>
      if ve_protocol_version env \<noteq> kKeyprovProtocolVersion
      then Inl (ProtocolVersionMismatch, ''protocol_version_mismatch'')
      else if ve_service env \<noteq> kKeyprovService then Inl (ServiceMismatch, ''service_mismatch'')
      else if length (ve_payload env) > kKeyprovMaxPayloadBytes
      then Inl (SizeExceeded, ''payload_too_large'')
      else if ve_message_kind env \<noteq> MESSAGE_KIND_RESPONSE
      then Inl (FieldInvalid, ''not_response_kind'')
      else (case (if ve_payload_type env = kKeyprovPayloadResponse
                  then decode_response pb sc (ve_payload env)
                  else if ve_payload_type env = kKeyprovPayloadAckResult
                  then decode_ack_result pb (ve_payload env)
                  else if ve_payload_type env = kKeyprovPayloadStatusResponse
                  then decode_status_response pb (ve_payload env)
                  else Inl (UnsupportedPayloadType, ''unsupported_payload_type'')) of
              Inl e \<Rightarrow> Inl e
            | Inr body \<Rightarrow> Inr \<lparr>dc_message_id = ve_message_id env, dc_body = body\<rparr>)))"

section \<open>What an accepted message satisfies\<close>

lemmas codec_splits = if_splits sum.splits option.splits prod.splits

lemma validate_identity_iff:
  "keyprov_validate_identity idn = Inr () \<longleftrightarrow>
     keyprov_is_canonical_uid (si_ecu_uid idn) \<and> si_device_identity_digest idn \<noteq> []
     \<and> si_certificate_ref idn \<noteq> [] \<and> ms_daemon_epoch (si_session idn) \<noteq> []
     \<and> ms_connection_generation (si_session idn) \<noteq> 0
     \<and> ms_cert_session_generation (si_session idn) \<noteq> 0"
  by (auto simp: keyprov_validate_identity_def)

lemma serialize_envelope_ok:
  "serialize_envelope pb env = Inr b \<longleftrightarrow>
     ser_envelope pb env = Some b \<and> length b \<le> kKeyprovMaxPayloadBytes"
  by (auto simp: serialize_envelope_def split: codec_splits)

lemma check_formats_ok:
  "check_formats fs d = Inr d' \<longleftrightarrow>
     (\<forall>f\<in>set fs. f = kKeyProvEnvelopeFormatEcdhEsP256V1) \<and> d' = (d \<or> fs \<noteq> [])"
  by (induction fs arbitrary: d) auto

lemma ack_item_guard_ok:
  "ack_item_guard it = None \<longleftrightarrow>
     length (pi_key_id it) \<le> kKeyprovMaxStringBytes
     \<and> pi_envelope_format it = kKeyProvEnvelopeFormatEcdhEsP256V1
     \<and> pi_import_proof_algorithm it = kKeyProvImportProofAlgorithmEcdsaP256P1363
     \<and> length (pi_import_proof it) = kKeyprovImportProofP1363Bytes
     \<and> length (pi_recipient_certificate_digest it) = kKeyprovRecipientCertDigestBytes
     \<and> length (pi_envelope_digest it) = kKeyprovEnvelopeDigestBytes
     \<and> length (pi_key_check_value it) = kKeyprovKeyCheckValueBytes"
  by (auto simp: ack_item_guard_def str_within_def)

lemma ack_items_message_bad:
  "ack_items_message its = Inl e \<Longrightarrow> \<exists>it\<in>set its. ack_item_guard it = Some e"
  by (induction its) (auto split: codec_splits)

lemma ack_items_message_ok:
  "ack_items_message its = Inr out \<longleftrightarrow>
     (\<forall>it\<in>set its. ack_item_guard it = None)
     \<and> out = map (\<lambda>it. it\<lparr>pi_proof_algorithm := []\<rparr>) its"
  by (induction its arbitrary: out) (auto dest: ack_items_message_bad split: codec_splits)

lemma wrapped_item_guard_ok:
  "wrapped_item_guard it = None \<longleftrightarrow>
     length (pw_wrapped_key it) \<le> kKeyprovMaxWrappedKeyBytes
     \<and> length (pw_parameters it) \<le> kKeyprovMaxParametersBytes
     \<and> length (pw_key_id it) \<le> kKeyprovMaxStringBytes
     \<and> length (pw_key_algorithm it) \<le> kKeyprovMaxShortStringBytes
     \<and> pw_envelope_format it = kKeyProvEnvelopeFormatEcdhEsP256V1
     \<and> pw_wrapping_suite it = keyprov_wrapping_suite_from_string kKeyprovSuiteEcdhEsP256
     \<and> length (pw_envelope_digest it) = kKeyprovEnvelopeDigestBytes
     \<and> length (pw_key_check_value it) = kKeyprovKeyCheckValueBytes"
  by (auto simp: wrapped_item_guard_def str_within_def)

lemma decode_wrapped_items_bad:
  "decode_wrapped_items sc its = Inl e \<Longrightarrow> \<exists>it\<in>set its. wrapped_item_guard it = Some e"
  by (induction its) (auto split: codec_splits)

lemma decode_wrapped_items_ok:
  "decode_wrapped_items sc its = Inr out \<longleftrightarrow>
     (\<forall>it\<in>set its. wrapped_item_guard it = None) \<and> out = map (wrapped_item_of sc) its"
  by (induction its arbitrary: out) (auto dest: decode_wrapped_items_bad split: codec_splits)

lemma decode_status_items_ok:
  "decode_status_items its = Inr out \<Longrightarrow>
     length out = length its \<and> (\<forall>it\<in>set out. length (st_key_id it) \<le> kKeyprovMaxStringBytes)"
  by (induction its arbitrary: out) (auto simp: str_within_def split: codec_splits)

text \<open>A codec for the witnesses: fixed serialisations, one fixed response.\<close>

definition wrapped_ex :: pb_wrapped_item where
  "wrapped_ex = \<lparr>pw_purpose = 1, pw_key_id = ''k'', pw_business_key_version = 5,
     pw_wrapped_key = [1, 2], pw_key_algorithm = ''AES'', pw_wrapping_suite = 2,
     pw_valid_from_ms = 0, pw_valid_to_ms = 10, pw_parameters = [],
     pw_envelope_digest = replicate 32 0, pw_key_check_value = [1, 2, 3],
     pw_envelope_format = 1\<rparr>"

definition response_ex :: pb_response where
  "response_ex = \<lparr>pr_request_id = ''r1'', pr_result = 1, pr_items = [wrapped_ex],
     pr_expire_at_ms = 99, pr_error = None\<rparr>"

definition response_envelope_ex :: vehicle_envelope where
  "response_envelope_ex =
     (fill_common identity_ex ''r1'' ''m1'' [] kKeyprovPayloadResponse [] 7)
     \<lparr>ve_message_kind := MESSAGE_KIND_RESPONSE\<rparr>"

definition toy_pb :: pb_codec where
  "toy_pb = \<lparr>ser_envelope = (\<lambda>e. Some (str_bytes (ve_device_id e))),
     ser_request = (\<lambda>m. Some (str_bytes (pq_request_id m))),
     ser_ack = (\<lambda>m. Some (str_bytes (pa_request_id m))),
     ser_status_request = (\<lambda>m. Some (str_bytes (ps_request_id m))),
     parse_envelope = (\<lambda>b. Some response_envelope_ex),
     parse_response = (\<lambda>b. Some response_ex),
     parse_ack_result = (\<lambda>b. None), parse_status_response = (\<lambda>b. None)\<rparr>"

definition toy_sec :: sec_consts where
  "toy_sec = \<lparr>sc_wrapping_suite_ecdh = ''ECDH'', sc_format_ecdh_v1 = 1,
     sc_proof_alg_p1363 = ''P1363'', sc_capability_contract_version = 1\<rparr>"

definition request_ex :: request_data where
  "request_ex = \<lparr>rq_request_id = ''r1'', rq_idempotency_key = ''r1'',
     rq_business_domain = ''V2C_COMM'', rq_purposes = [1, 2], rq_certificate_profile = [],
     rq_key_encipherment_key_id = [], rq_supported_wrapping_suites = [2],
     rq_supported_envelope_formats = [1], rq_current_versions = [], rq_timestamp_ms = 1,
     rq_expire_at_ms = 2\<rparr>"

text \<open>
  A Request envelope the builder returns comes from a valid identity and is bound to it:
  the envelope names the identity's UID, the fixed service and protocol version, the attempt's
  request id and idempotency key; the business domain is V2C\_COMM, at least one envelope
  format is declared and all are ECDH-ES, every purpose is known, the item lists are bounded,
  and neither the field sizes nor the envelope pass their limits.
\<close>

theorem request_envelope_accepted:
  assumes "build_keyprov_request_envelope pb idn rq mid tid = Inr b"
  shows "\<exists>env payload idd cd.
     keyprov_validate_identity idn = Inr ()
     \<and> rq_business_domain rq = kKeyprovBusinessDomainV2c
     \<and> rq_request_id rq \<noteq> [] \<and> length (rq_request_id rq) \<le> kKeyprovMaxStringBytes
     \<and> rq_idempotency_key rq \<noteq> []
     \<and> rq_supported_envelope_formats rq \<noteq> []
     \<and> set (rq_supported_envelope_formats rq) = {kKeyProvEnvelopeFormatEcdhEsP256V1}
     \<and> 0 \<notin> set (rq_purposes rq) \<and> length (rq_purposes rq) \<le> kKeyprovMaxItems
     \<and> keyprov_normalize_digest (si_device_identity_digest idn) = Some idd \<and> idd \<noteq> []
     \<and> keyprov_normalize_digest (si_certificate_ref idn) = Some cd \<and> cd \<noteq> []
     \<and> ser_request pb (request_message rq idd cd) = Some payload
     \<and> ser_envelope pb env = Some b \<and> length b \<le> kKeyprovMaxPayloadBytes
     \<and> ve_device_id env = si_ecu_uid idn \<and> ve_request_id env = rq_request_id rq
     \<and> ve_idempotency_key env = Some (rq_idempotency_key rq)
     \<and> ve_service env = kKeyprovService \<and> ve_protocol_version env = kKeyprovProtocolVersion
     \<and> ve_payload_type env = kKeyprovPayloadRequest \<and> ve_message_kind env = MESSAGE_KIND_REQUEST
     \<and> ve_payload env = payload"
proof -
  from assms obtain idd cd payload env where
      g: "request_guards idn rq = Inr (idd, cd)"
    and p: "ser_request pb (request_message rq idd cd) = Some payload"
    and env: "env = (fill_common idn (rq_request_id rq) mid [] kKeyprovPayloadRequest tid
                 (rq_timestamp_ms rq))
              \<lparr>ve_message_kind := MESSAGE_KIND_REQUEST,
               ve_idempotency_key := Some (rq_idempotency_key rq),
               ve_expire_at_ms := (if rq_expire_at_ms rq > 0 then Some (rq_expire_at_ms rq) else None),
               ve_payload := payload\<rparr>"
    and s: "serialize_envelope pb env = Inr b"
    by (auto simp: build_keyprov_request_envelope_def split: codec_splits)
  from g have "keyprov_validate_identity idn = Inr ()"
    and "rq_business_domain rq = kKeyprovBusinessDomainV2c"
    and "rq_request_id rq \<noteq> []" "length (rq_request_id rq) \<le> kKeyprovMaxStringBytes"
    and "rq_idempotency_key rq \<noteq> []"
    and "rq_supported_envelope_formats rq \<noteq> []"
    and "\<forall>f\<in>set (rq_supported_envelope_formats rq). f = kKeyProvEnvelopeFormatEcdhEsP256V1"
    and "0 \<notin> set (rq_purposes rq)" "length (rq_purposes rq) \<le> kKeyprovMaxItems"
    and "keyprov_normalize_digest (si_device_identity_digest idn) = Some idd" "idd \<noteq> []"
    and "keyprov_normalize_digest (si_certificate_ref idn) = Some cd" "cd \<noteq> []"
    by (auto simp: request_guards_def str_within_def check_formats_ok split: codec_splits)
  moreover have "set (rq_supported_envelope_formats rq) = {kKeyProvEnvelopeFormatEcdhEsP256V1}"
    using calculation(6,7) by (cases "rq_supported_envelope_formats rq") auto
  moreover have "ser_envelope pb env = Some b" "length b \<le> kKeyprovMaxPayloadBytes"
    using s by (simp_all add: serialize_envelope_ok)
  moreover have "ve_device_id env = si_ecu_uid idn \<and> ve_request_id env = rq_request_id rq
     \<and> ve_idempotency_key env = Some (rq_idempotency_key rq)
     \<and> ve_service env = kKeyprovService \<and> ve_protocol_version env = kKeyprovProtocolVersion
     \<and> ve_payload_type env = kKeyprovPayloadRequest \<and> ve_message_kind env = MESSAGE_KIND_REQUEST
     \<and> ve_payload env = payload"
    by (simp add: env fill_common_def)
  ultimately show ?thesis using p by blast
qed

lemma request_ex_builds:
  "build_keyprov_request_envelope toy_pb identity_ex request_ex ''m'' [] = Inr (str_bytes ''TBOX-1'')"
  by (simp add: build_keyprov_request_envelope_def request_guards_def identity_ex_valid
      identity_ex_digests request_ex_def str_within_def toy_pb_def serialize_envelope_def
      fill_common_def kKeyprovBusinessDomainV2c_def str_bytes_def, simp add: identity_ex_def)

theorem request_envelope_accepted_witness:
  "0 \<notin> set (rq_purposes request_ex)"
  using request_envelope_accepted [OF request_ex_builds] by blast

definition good_item :: import_item where
  "good_item = \<lparr>pi_purpose = 1, pi_key_id = ''k'', pi_business_key_version = 1, pi_result = 1,
     pi_envelope_format = 1, pi_envelope_digest = replicate 32 0, pi_key_check_value = [1, 2, 3],
     pi_import_proof_algorithm = 1, pi_import_proof = replicate 64 0,
     pi_recipient_certificate_digest = replicate 32 0, pi_proof_algorithm = ''x''\<rparr>"

text \<open>
  An acknowledgement is built exactly from attestations of the mandated shape: the builder
  succeeds only for a valid identity, a request id, at most eight items, every one of them of
  the ECDH-ES format with a 64-byte P1363 proof, 32-byte envelope and certificate digests and
  a 3-byte check value; what it serialises are these items with the deprecated field cleared.
\<close>

theorem ack_envelope_accepted:
  "build_keyprov_ack_envelope pb idn rid items ts mid corr = Inr b \<longleftrightarrow>
     keyprov_validate_identity idn = Inr () \<and> rid \<noteq> [] \<and> length items \<le> kKeyprovMaxItems
     \<and> (\<forall>it\<in>set items. ack_item_guard it = None)
     \<and> (\<exists>payload. ser_ack pb \<lparr>pa_request_id = rid,
            pa_items = map (\<lambda>it. it\<lparr>pi_proof_algorithm := []\<rparr>) items, pa_timestamp_ms = ts\<rparr>
            = Some payload
          \<and> ser_envelope pb ((fill_common idn rid mid corr kKeyprovPayloadAck [] ts)
               \<lparr>ve_message_kind := MESSAGE_KIND_REQUEST, ve_payload := payload\<rparr>) = Some b
          \<and> length b \<le> kKeyprovMaxPayloadBytes)"
  by (auto simp: build_keyprov_ack_envelope_def serialize_envelope_ok ack_items_message_ok
      dest: ack_items_message_bad split: codec_splits)

theorem ack_envelope_accepted_witness:
  "build_keyprov_ack_envelope toy_pb identity_ex ''r1'' [good_item] 5 ''m'' [] = Inr (str_bytes ''TBOX-1'')"
proof -
  have "ack_item_guard good_item = None" by (simp add: good_item_def ack_item_guard_ok)
  then show ?thesis
    by (simp add: identity_ex_valid ack_envelope_accepted toy_pb_def fill_common_def,
        simp add: identity_ex_def)
qed

text \<open>
  The decoder delivers a key response exactly when the envelope parses, carries the
  protocol version, the service, the response kind and the response payload type, and the
  message has at most eight items that all pass the allowlist of format, suite, digest and
  check-value lengths; the delivered items are those items.
\<close>

theorem decode_response_accepted:
  "decode_keyprov_envelope pb sc raw = Inr \<lparr>dc_message_id = mid, dc_body = DecResponse r\<rparr> \<longleftrightarrow>
     length raw \<le> kKeyprovMaxPayloadBytes
     \<and> (\<exists>env msg. parse_envelope pb raw = Some env
          \<and> ve_protocol_version env = kKeyprovProtocolVersion \<and> ve_service env = kKeyprovService
          \<and> length (ve_payload env) \<le> kKeyprovMaxPayloadBytes
          \<and> ve_message_kind env = MESSAGE_KIND_RESPONSE
          \<and> ve_payload_type env = kKeyprovPayloadResponse \<and> ve_message_id env = mid
          \<and> parse_response pb (ve_payload env) = Some msg
          \<and> length (pr_items msg) \<le> kKeyprovMaxItems
          \<and> (\<forall>it\<in>set (pr_items msg). wrapped_item_guard it = None)
          \<and> r = \<lparr>rd_request_id = pr_request_id msg, rd_result = pr_result msg,
                 rd_expire_at_ms = pr_expire_at_ms msg, rd_error = fill_error (pr_error msg),
                 rd_items = map (wrapped_item_of sc) (pr_items msg)\<rparr>)"
  (is "?l \<longleftrightarrow> ?r")
proof
  assume ?l
  then show ?r
    by (auto simp: decode_keyprov_envelope_def decode_response_def decode_ack_result_def
        decode_status_response_def decode_wrapped_items_ok not_less split: codec_splits)
next
  assume ?r
  then show ?l
    by (auto simp: decode_keyprov_envelope_def decode_response_def not_less
        decode_wrapped_items_ok [THEN iffD2])
qed

theorem decode_response_accepted_witness:
  "decode_keyprov_envelope toy_pb toy_sec [] =
     Inr \<lparr>dc_message_id = ''m1'', dc_body = DecResponse \<lparr>rd_request_id = ''r1'', rd_result = 1,
        rd_expire_at_ms = 99, rd_error = no_error, rd_items = [wrapped_item_of toy_sec wrapped_ex]\<rparr>\<rparr>"
proof -
  have "wrapped_item_guard wrapped_ex = None"
    by (simp add: wrapped_ex_def wrapped_item_guard_ok keyprov_wrapping_suite_from_string_def
        kKeyprovSuiteEcdhEsP256_def kKeyprovSuiteHpkeBaseX25519_def)
  then show ?thesis
    by (simp add: decode_response_accepted toy_pb_def response_envelope_ex_def response_ex_def
        fill_common_def fill_error_def)
qed

end
