(* ===== verification/KeyprovAttempt.thy ===== *)
theory KeyprovAttempt
  imports KeyprovProtocol
begin

text \<open>
  The immutable attempt snapshot and its fingerprint (src/include/keyprov\_attempt.h,
  src/src/keyprov\_attempt.cpp): the canonical byte encoding, the set normalisation, the
  construction of a snapshot from the current inputs, the change dimension, and the two
  error classifiers. The lemmas show that the canonical encoding is injective up to the
  normalisation, that the normalisation yields strictly sorted lists with the greatest
  version per purpose, and that a built snapshot satisfies what the fingerprint requires.

  SHA-256 is the framework's (not under src/): \<open>hash_lib\<close> holds its raw and its
  lower-case hexadecimal form. The release-lock constants are generated by the build.
\<close>

record hash_lib =
  h_sha256 :: "bytes \<Rightarrow> bytes"
  h_sha256_hex :: "bytes \<Rightarrow> string"

text \<open>The documented contract of the two functions.\<close>

definition hash_spec :: "hash_lib \<Rightarrow> bool" where
  "hash_spec h \<longleftrightarrow> (\<forall>b. length (h_sha256 h b) = 32 \<and> h_sha256_hex h b = hex_encode (h_sha256 h b))"

record release_lock =
  rl_par_proto_release :: string
  rl_required_par_proto_release :: string
  rl_descriptor_set_hash :: string
  rl_package :: string
  rl_service :: string
  rl_protocol_version :: string
  rl_canonical_registry :: string
  rl_golden_vector_set_id :: string
  rl_golden_vector_set_hash :: string
  rl_cross_language_golden_ready :: bool

abbreviation (input) "kAttemptFingerprintVersionV1 \<equiv> (1::u32)"
abbreviation (input) "kAttemptFingerprintVersionCurrent \<equiv> kAttemptFingerprintVersionV1"

section \<open>Canonical encoding\<close>

definition be32 :: "u32 \<Rightarrow> bytes" where
  "be32 v = [ucast (drop_bit 24 v), ucast (drop_bit 16 v), ucast (drop_bit 8 v), ucast v]"

definition be64 :: "u64 \<Rightarrow> bytes" where
  "be64 v = map (\<lambda>i. ucast (drop_bit (8 * i) v)) (rev [0..<8])"

definition append_u32 :: "bytes \<Rightarrow> u32 \<Rightarrow> bytes" where
  "append_u32 b v = b @ be32 v"

definition append_u64 :: "bytes \<Rightarrow> u64 \<Rightarrow> bytes" where
  "append_u64 b v = b @ be64 v"

definition append_bytes :: "bytes \<Rightarrow> bytes \<Rightarrow> bytes" where
  "append_bytes b d = append_u64 b (word_of_nat (length d)) @ d"

definition append_str :: "bytes \<Rightarrow> string \<Rightarrow> bytes" where
  "append_str b s = append_bytes b (str_bytes s)"

text \<open>\<open>sort_dedup_int\<close>: \<open>std::sort\<close>, then \<open>std::unique\<close> (drop equal neighbours).\<close>

definition sort_dedup_int :: "int list \<Rightarrow> int list" where
  "sort_dedup_int v = remdups_adj (sort v)"

text \<open>
  The loop of \<open>sort_dedup_versions\<close> over the sorted pairs: a pair with the purpose of the
  last output entry overwrites its version, any other is appended.
\<close>

fun keep_last_version :: "(int \<times> u64) list \<Rightarrow> (int \<times> u64) list" where
  "keep_last_version [] = []"
| "keep_last_version [p] = [p]"
| "keep_last_version (p # q # ps) =
     (if fst p = fst q then keep_last_version (q # ps)
      else p # keep_last_version (q # ps))"

definition sort_dedup_versions :: "(int \<times> u64) list \<Rightarrow> (int \<times> u64) list" where
  "sort_dedup_versions v = keep_last_version (sort_key fst (sort_key snd v))"

definition append_field :: "bytes \<Rightarrow> string \<Rightarrow> bytes \<Rightarrow> bytes" where
  "append_field b name val = append_bytes (append_str b name) val"

definition kProtocolLockTagV1 :: string where
  "kProtocolLockTagV1 = ''TSP-KEYPROV-PROTOCOL-LOCK-V1''"

definition kFingerprintTagV1 :: string where
  "kFingerprintTagV1 = ''TSP-KEYPROV-ATTEMPT-V1''"

definition keyprov_protocol_lock_digest_v1 :: "hash_lib \<Rightarrow> release_lock \<Rightarrow> bytes" where
  "keyprov_protocol_lock_digest_v1 h rl =
     (let b0 = str_bytes kProtocolLockTagV1;
          d0 = hex_decode (rl_descriptor_set_hash rl);
          desc = (if length d0 \<noteq> 32 then replicate 32 0 else d0);
          b1 = append_field b0 ''release'' (str_bytes (rl_par_proto_release rl));
          b2 = append_field b1 ''descriptor'' desc;
          b3 = append_field b2 ''registry'' (str_bytes (rl_canonical_registry rl));
          b4 = append_field b3 ''golden'' (str_bytes (rl_golden_vector_set_id rl))
      in h_sha256 h b4)"

section \<open>Snapshot and fingerprint\<close>

record attempt_snapshot =
  as_business_domain :: string
  as_purposes :: "int list"
  as_current_versions :: "(int \<times> u64) list"
  as_device_identity_digest :: bytes
  as_recipient_certificate_digest :: bytes
  as_certificate_ref_digest :: bytes
  as_wrapping_suites :: "int list"
  as_envelope_formats :: "int list"
  as_protocol_lock_digest :: bytes

definition empty_snapshot :: attempt_snapshot where
  "empty_snapshot = \<lparr>as_business_domain = [], as_purposes = [], as_current_versions = [],
     as_device_identity_digest = [], as_recipient_certificate_digest = [],
     as_certificate_ref_digest = [], as_wrapping_suites = [], as_envelope_formats = [],
     as_protocol_lock_digest = []\<rparr>"

type_synonym fingerprint = bytes

text \<open>\<open>static_cast<uint32_t>(int)\<close> is \<open>word_of_int\<close>; the count is \<open>uint32_t(size)\<close>.\<close>

definition append_int_set :: "bytes \<Rightarrow> int list \<Rightarrow> bytes" where
  "append_int_set b v = foldl (\<lambda>b x. append_u32 b (word_of_int x)) (append_u32 b (word_of_nat (length v))) v"

definition append_versions :: "bytes \<Rightarrow> (int \<times> u64) list \<Rightarrow> bytes" where
  "append_versions b v =
     foldl (\<lambda>b kv. append_u64 (append_u32 b (word_of_int (fst kv))) (snd kv))
       (append_u32 b (word_of_nat (length v))) v"

definition fingerprint_guards :: "attempt_snapshot \<Rightarrow> string option" where
  "fingerprint_guards s =
     (if as_business_domain s = [] \<or> as_business_domain s \<noteq> kKeyprovBusinessDomainV2c
      then Some ''snapshot_domain_invalid''
      else if as_purposes s = [] \<or> length (as_purposes s) > kKeyprovMaxItems
      then Some ''snapshot_purposes_invalid''
      else if length (as_device_identity_digest s) \<noteq> 32
           \<or> length (as_recipient_certificate_digest s) \<noteq> 32
           \<or> length (as_protocol_lock_digest s) \<noteq> 32
      then Some ''snapshot_digest_invalid''
      else None)"

definition fingerprint_preimage :: "attempt_snapshot \<Rightarrow> bytes" where
  "fingerprint_preimage s =
     (let b0 = str_bytes kFingerprintTagV1;
          b1 = append_str b0 (as_business_domain s);
          b2 = append_int_set b1 (sort_dedup_int (as_purposes s));
          b3 = append_versions b2 (sort_dedup_versions (as_current_versions s));
          b4 = b3 @ as_device_identity_digest s;
          b5 = b4 @ as_recipient_certificate_digest s;
          b6 = append_int_set b5 (sort_dedup_int (as_wrapping_suites s));
          b7 = append_int_set b6 (sort_dedup_int (as_envelope_formats s))
      in b7 @ as_protocol_lock_digest s)"

definition keyprov_compute_attempt_fingerprint_v1 ::
  "hash_lib \<Rightarrow> attempt_snapshot \<Rightarrow> string + fingerprint" where
  "keyprov_compute_attempt_fingerprint_v1 h s =
     (case fingerprint_guards s of
        Some err \<Rightarrow> Inl err
      | None \<Rightarrow> Inr (h_sha256 h (fingerprint_preimage s)))"

text \<open>The code calls \<open>sha256_hex\<close> on the bytes of the digest.\<close>

definition keyprov_fingerprint_to_hex :: "hash_lib \<Rightarrow> fingerprint \<Rightarrow> string" where
  "keyprov_fingerprint_to_hex h fp = h_sha256_hex h fp"

definition keyprov_fingerprint_equal :: "fingerprint \<Rightarrow> fingerprint \<Rightarrow> bool" where
  "keyprov_fingerprint_equal a b \<longleftrightarrow> a = b"

text \<open>
  \<open>hex_to_fingerprint\<close> of the coordinator writes the 32 bytes one by one into \<open>out\<close> and
  stops at the first bad pair: \<open>(ok, out')\<close> keeps the bytes written before it.
\<close>

fun hex_fill :: "string \<Rightarrow> fingerprint \<Rightarrow> bool \<times> fingerprint" where
  "hex_fill (hi # lo # cs) (x # xs) =
     (case (nib hi, nib lo) of
        (Some h, Some l) \<Rightarrow>
          (let (ok, out) = hex_fill cs xs in (ok, word_of_nat (16 * h + l) # out))
      | _ \<Rightarrow> (False, x # xs))"
| "hex_fill _ out = (True, out)"

definition hex_to_fingerprint :: "string \<Rightarrow> fingerprint \<Rightarrow> bool \<times> fingerprint" where
  "hex_to_fingerprint hex out = (if length hex \<noteq> 64 then (False, out) else hex_fill hex out)"

definition digest_raw_32 :: "string \<Rightarrow> bytes option" where
  "digest_raw_32 inp =
     (case keyprov_normalize_digest inp of
        None \<Rightarrow> None
      | Some tmp \<Rightarrow> if length tmp \<noteq> 32 then None else Some tmp)"

text \<open>\<open>tbox::sec::BusinessKeyStatus\<close>, the fields the program reads.\<close>

datatype business_key_state = KeyActive | KeyOther nat

record business_key_status =
  bks_purpose :: string
  bks_state :: business_key_state
  bks_business_key_version :: u64

fun collect_purposes :: "string list \<Rightarrow> int list option" where
  "collect_purposes [] = Some []"
| "collect_purposes (p # ps) =
     (let v = keyprov_purpose_from_string p
      in if v = 0 then None
         else (case collect_purposes ps of None \<Rightarrow> None | Some vs \<Rightarrow> Some (v # vs)))"

definition collect_versions :: "int list \<Rightarrow> business_key_status list \<Rightarrow> (int \<times> u64) list" where
  "collect_versions purposes items =
     map (\<lambda>it. (keyprov_purpose_from_string (bks_purpose it), bks_business_key_version it))
       (filter (\<lambda>it. keyprov_purpose_from_string (bks_purpose it) \<noteq> 0
                   \<and> keyprov_purpose_from_string (bks_purpose it) \<in> set purposes) items)"

definition keyprov_build_attempt_snapshot ::
  "hash_lib \<Rightarrow> string \<Rightarrow> string list \<Rightarrow> session_identity \<Rightarrow> business_key_status list \<Rightarrow> fingerprint
   \<Rightarrow> string + attempt_snapshot" where
  "keyprov_build_attempt_snapshot h business_domain purposes idn sec_status lock_digest =
     (if business_domain \<noteq> kKeyprovBusinessDomainV2c then Inl ''snapshot_domain_invalid''
      else (case keyprov_validate_identity idn of Inl r \<Rightarrow> Inl r | Inr _ \<Rightarrow>
        (case collect_purposes purposes of
           None \<Rightarrow> Inl ''snapshot_purpose_unknown''
         | Some vs0 \<Rightarrow>
           (let vs = sort_dedup_int vs0 in
            if vs = [] \<or> length vs > kKeyprovMaxItems then Inl ''snapshot_purposes_invalid''
            else (let cvs = sort_dedup_versions (collect_versions vs sec_status) in
              (case digest_raw_32 (si_device_identity_digest idn) of
                 None \<Rightarrow> Inl ''snapshot_device_identity_digest_invalid''
               | Some did \<Rightarrow>
                 (case digest_raw_32 (si_certificate_ref idn) of
                    None \<Rightarrow> Inl ''snapshot_recipient_certificate_digest_invalid''
                  | Some rcd \<Rightarrow>
                    (let crd = h_sha256 h (str_bytes (si_certificate_ref idn));
                         suites = sort_dedup_int [keyprov_wrapping_suite_from_string kKeyprovSuiteEcdhEsP256];
                         formats = sort_dedup_int [kKeyProvEnvelopeFormatEcdhEsP256V1]
                     in if length suites \<noteq> 1 \<or> hd suites = 0 \<or> length formats \<noteq> 1
                           \<or> hd formats \<noteq> kKeyProvEnvelopeFormatEcdhEsP256V1
                        then Inl ''snapshot_suite_format_invalid''
                        else if length lock_digest \<noteq> 32
                        then Inl ''snapshot_protocol_lock_digest_invalid''
                        else Inr \<lparr>as_business_domain = business_domain, as_purposes = vs,
                               as_current_versions = cvs, as_device_identity_digest = did,
                               as_recipient_certificate_digest = rcd,
                               as_certificate_ref_digest = crd, as_wrapping_suites = suites,
                               as_envelope_formats = formats,
                               as_protocol_lock_digest = lock_digest\<rparr>))))))))"

section \<open>Change dimension\<close>

datatype change_dimension =
    DimNone | DimPurposes | DimCurrentVersions | DimDeviceIdentity | DimCertificate
  | DimSuiteFormat | DimProtocolLock | DimUnknown

definition keyprov_attempt_change_dimension_to_string :: "change_dimension \<Rightarrow> string" where
  "keyprov_attempt_change_dimension_to_string d =
     (case d of
        DimNone \<Rightarrow> ''NONE'' | DimPurposes \<Rightarrow> ''PURPOSES''
      | DimCurrentVersions \<Rightarrow> ''CURRENT_VERSIONS'' | DimDeviceIdentity \<Rightarrow> ''DEVICE_IDENTITY''
      | DimCertificate \<Rightarrow> ''CERTIFICATE'' | DimSuiteFormat \<Rightarrow> ''SUITE_FORMAT''
      | DimProtocolLock \<Rightarrow> ''PROTOCOL_LOCK'' | DimUnknown \<Rightarrow> ''UNKNOWN'')"

definition keyprov_attempt_change_dimension ::
  "attempt_snapshot \<Rightarrow> attempt_snapshot \<Rightarrow> change_dimension" where
  "keyprov_attempt_change_dimension f c =
     (if as_business_domain f \<noteq> as_business_domain c \<or> as_purposes f \<noteq> as_purposes c
      then DimPurposes
      else if as_current_versions f \<noteq> as_current_versions c then DimCurrentVersions
      else if as_device_identity_digest f \<noteq> as_device_identity_digest c then DimDeviceIdentity
      else if as_recipient_certificate_digest f \<noteq> as_recipient_certificate_digest c
              \<or> as_certificate_ref_digest f \<noteq> as_certificate_ref_digest c
      then DimCertificate
      else if as_wrapping_suites f \<noteq> as_wrapping_suites c
              \<or> as_envelope_formats f \<noteq> as_envelope_formats c
      then DimSuiteFormat
      else if as_protocol_lock_digest f \<noteq> as_protocol_lock_digest c then DimProtocolLock
      else DimNone)"

section \<open>Cloud error normalisation and the idempotency-conflict classifier\<close>

datatype protocol_error_action = ActUnspecified | ActDoNotRetry

abbreviation (input) "kKeyProvErrorCodeNotFound \<equiv> (806099::int)"

record cloud_protocol_error =
  ce_code :: int
  ce_retryable :: bool
  ce_action :: protocol_error_action
  ce_present :: bool

definition no_cloud_error :: cloud_protocol_error where
  "no_cloud_error = \<lparr>ce_code = 0, ce_retryable = False, ce_action = ActUnspecified,
     ce_present = False\<rparr>"

definition protocol_error_action_code :: "protocol_error_action \<Rightarrow> int" where
  "protocol_error_action_code a = (case a of ActUnspecified \<Rightarrow> 0 | ActDoNotRetry \<Rightarrow> 1)"

definition keyprov_normalize_protocol_error :: "protocol_error \<Rightarrow> cloud_protocol_error" where
  "keyprov_normalize_protocol_error wire =
     (if pe_code wire = [] then no_cloud_error
      else \<lparr>ce_code = (if pe_code wire = ''KEYPROV_PROVISIONING_NOT_FOUND''
                          \<or> pe_code wire = ''806099''
                       then kKeyProvErrorCodeNotFound else 0),
            ce_retryable = pe_retryable wire,
            ce_action = (if pe_action wire = ''DO_NOT_RETRY'' then ActDoNotRetry
                         else ActUnspecified),
            ce_present = True\<rparr>)"

definition keyprov_is_idempotency_conflict :: "protocol_error \<Rightarrow> bool" where
  "keyprov_is_idempotency_conflict e \<longleftrightarrow>
     (if pe_action e = ''KEYPROV_IDEMPOTENCY_CONFLICT'' then True
      else if pe_code e = ''KEYPROV_IDEMPOTENCY_CONFLICT'' then True
      else if pe_code e = ''806095'' then True
      else False)"

section \<open>Import-invocation resolution\<close>

datatype import_resolution = Unresolved | NoSideEffectProven | HardConflict

definition keyprov_import_invocation_resolution_to_string :: "import_resolution \<Rightarrow> string" where
  "keyprov_import_invocation_resolution_to_string r =
     (case r of Unresolved \<Rightarrow> ''UNRESOLVED'' | NoSideEffectProven \<Rightarrow> ''NO_SIDE_EFFECT_PROVEN''
      | HardConflict \<Rightarrow> ''HARD_CONFLICT'')"

text \<open>The loop over the three values in their order.\<close>

definition keyprov_import_invocation_resolution_from_string :: "string \<Rightarrow> import_resolution option" where
  "keyprov_import_invocation_resolution_from_string s =
     find (\<lambda>r. s = keyprov_import_invocation_resolution_to_string r)
       [Unresolved, NoSideEffectProven, HardConflict]"

text \<open>The persisted numeric value of the enum.\<close>

definition resolution_code :: "import_resolution \<Rightarrow> int" where
  "resolution_code r = (case r of Unresolved \<Rightarrow> 0 | NoSideEffectProven \<Rightarrow> 1 | HardConflict \<Rightarrow> 2)"

definition resolution_of_code :: "int \<Rightarrow> import_resolution option" where
  "resolution_of_code n =
     (if n = 0 then Some Unresolved else if n = 1 then Some NoSideEffectProven
      else if n = 2 then Some HardConflict else None)"

section \<open>The canonical encoding delimits itself\<close>

lemma length_be32 [simp]: "length (be32 v) = 4"
  by (simp add: be32_def)

lemma length_be64 [simp]: "length (be64 v) = 8"
  by (simp add: be64_def)

lemma be32_inject [simp]: "be32 v = be32 w \<longleftrightarrow> v = w"
proof
  assume eq: "be32 v = be32 w"
  show "v = w"
  proof (rule bit_word_eqI)
    fix n :: nat
    assume n: "n < LENGTH(32)"
    define k where "k = n div 8"
    have "\<forall>k\<in>set [0..<4]. (ucast (drop_bit (8 * k) v) :: u8) = ucast (drop_bit (8 * k) w)"
      using eq by (simp add: be32_def upt_rec numeral_nat)
    moreover have "k \<in> set [0..<4]" using n by (simp add: k_def)
    ultimately have "(ucast (drop_bit (8 * k) v) :: u8) = ucast (drop_bit (8 * k) w)" by blast
    then have "bit (ucast (drop_bit (8 * k) v) :: u8) (n mod 8) = bit (ucast (drop_bit (8 * k) w) :: u8) (n mod 8)"
      by simp
    then show "bit v n = bit w n"
      by (simp add: bit_simps k_def)
  qed
qed simp

lemma be64_inject [simp]: "be64 v = be64 w \<longleftrightarrow> v = w"
proof
  assume eq: "be64 v = be64 w"
  show "v = w"
  proof (rule bit_word_eqI)
    fix n :: nat
    assume n: "n < LENGTH(64)"
    have "\<forall>k\<in>set (rev [0..<8]). (ucast (drop_bit (8 * k) v) :: u8) = ucast (drop_bit (8 * k) w)"
      using eq by (simp add: be64_def)
    moreover have "n div 8 \<in> set (rev [0..<8])" using n by simp
    ultimately have "(ucast (drop_bit (8 * (n div 8)) v) :: u8) = ucast (drop_bit (8 * (n div 8)) w)" by blast
    then have "bit (ucast (drop_bit (8 * (n div 8)) v) :: u8) (n mod 8) = bit (ucast (drop_bit (8 * (n div 8)) w) :: u8) (n mod 8)"
      by simp
    then show "bit v n = bit w n"
      by (simp add: bit_simps)
  qed
qed simp

text \<open>Fixed-width integers, length-prefixed bytes, 32 raw bytes and a version pair.\<close>

definition framed :: "bytes \<Rightarrow> bytes" where
  "framed d = be64 (word_of_nat (length d)) @ d"

interpretation enc32: self_delimiting be32 "\<lambda>_. True"
  by unfold_locales (simp add: append_eq_append_conv)

interpretation enc64: self_delimiting be64 "\<lambda>_. True"
  by unfold_locales (simp add: append_eq_append_conv)

interpretation raw32: self_delimiting "\<lambda>d. d" "\<lambda>d. length d = 32"
  by unfold_locales simp

interpretation enc_bytes: self_delimiting framed "\<lambda>d. length d < 2 ^ 64"
proof unfold_locales
  fix x y r s :: bytes
  assume l: "length x < 2 ^ 64" "length y < 2 ^ 64" and "framed x @ r = framed y @ s"
  then have eq: "be64 (word_of_nat (length x)) @ (x @ r) = be64 (word_of_nat (length y)) @ (y @ s)"
    by (simp add: framed_def)
  from enc64.split_unique [OF _ _ eq] have w: "(word_of_nat (length x) :: u64) = word_of_nat (length y)"
    and rest: "x @ r = y @ s" by simp_all
  from w have "take_bit 64 (length x) = take_bit 64 (length y)"
    by (simp add: word_of_nat_eq_iff)
  with l have "length x = length y" by (simp add: take_bit_nat_eq_self)
  with rest show "x = y \<and> r = s" by simp
qed

text \<open>A list of self-delimiting values behind its 32-bit count.\<close>

definition counted :: "('a \<Rightarrow> bytes) \<Rightarrow> 'a list \<Rightarrow> bytes" where
  "counted enc xs = be32 (word_of_nat (length xs)) @ concat (map enc xs)"

locale byte_delimiting = self_delimiting enc ok
  for enc :: "'a \<Rightarrow> bytes" and ok :: "'a \<Rightarrow> bool"
begin

lemma counted_split:
  assumes "length xs < 2 ^ 32" "length ys < 2 ^ 32"
    and ok: "\<forall>x\<in>set xs. ok x" "\<forall>y\<in>set ys. ok y"
    and eq: "counted enc xs @ r = counted enc ys @ s"
  shows "xs = ys \<and> r = s"
proof -
  from eq have e: "be32 (word_of_nat (length xs)) @ (concat (map enc xs) @ r)
      = be32 (word_of_nat (length ys)) @ (concat (map enc ys) @ s)"
    by (simp add: counted_def)
  from enc32.split_unique [OF _ _ e] have "(word_of_nat (length xs) :: u32) = word_of_nat (length ys)"
    and rest: "concat (map enc xs) @ r = concat (map enc ys) @ s" by simp_all
  then have "take_bit 32 (length xs) = take_bit 32 (length ys)"
    by (simp add: word_of_nat_eq_iff)
  with assms have "length xs = length ys" by (simp add: take_bit_nat_eq_self)
  from split_list [OF this ok rest] show ?thesis .
qed

end

definition int32_range :: "int \<Rightarrow> bool" where
  "int32_range x \<longleftrightarrow> - (2 ^ 31) \<le> x \<and> x < 2 ^ 31"

lemma word_of_int32_inject:
  assumes "int32_range x" "int32_range y" "(word_of_int x :: u32) = word_of_int y"
  shows "x = y"
proof -
  have "sint (word_of_int x :: u32) = x" "sint (word_of_int y :: u32) = y"
    using assms(1,2) by (simp_all add: signed_of_int int32_range_def signed_take_bit_int_eq_self)
  with assms(3) show ?thesis by metis
qed

definition enc_int :: "int \<Rightarrow> bytes" where
  "enc_int x = be32 (word_of_int x)"

definition enc_version :: "int \<times> u64 \<Rightarrow> bytes" where
  "enc_version kv = be32 (word_of_int (fst kv)) @ be64 (snd kv)"

interpretation enc_int: byte_delimiting enc_int int32_range
  by unfold_locales (auto simp: enc_int_def word_of_int32_inject)

interpretation enc_version: byte_delimiting enc_version "\<lambda>kv. int32_range (fst kv)"
  by unfold_locales (auto simp: enc_version_def word_of_int32_inject prod_eq_iff)

lemma append_int_set_counted: "append_int_set b v = b @ counted enc_int v"
proof -
  have "foldl (\<lambda>b x. append_u32 b (word_of_int x)) c v = c @ concat (map enc_int v)" for c
    by (induction v arbitrary: c) (simp_all add: append_u32_def enc_int_def)
  then show ?thesis by (simp add: append_int_set_def counted_def append_u32_def)
qed

lemma append_versions_counted: "append_versions b v = b @ counted enc_version v"
proof -
  have "foldl (\<lambda>b kv. append_u64 (append_u32 b (word_of_int (fst kv))) (snd kv)) c v
          = c @ concat (map enc_version v)" for c
    by (induction v arbitrary: c) (simp_all add: append_u32_def append_u64_def enc_version_def)
  then show ?thesis by (simp add: append_versions_def counted_def append_u32_def)
qed

lemma fingerprint_preimage_frames:
  "fingerprint_preimage s =
     str_bytes kFingerprintTagV1 @ framed (str_bytes (as_business_domain s))
     @ counted enc_int (sort_dedup_int (as_purposes s))
     @ counted enc_version (sort_dedup_versions (as_current_versions s))
     @ as_device_identity_digest s @ as_recipient_certificate_digest s
     @ counted enc_int (sort_dedup_int (as_wrapping_suites s))
     @ counted enc_int (sort_dedup_int (as_envelope_formats s))
     @ as_protocol_lock_digest s"
  by (simp add: fingerprint_preimage_def Let_def append_int_set_counted append_versions_counted
      append_str_def append_bytes_def append_u64_def framed_def)

section \<open>Set normalisation\<close>

lemma remdups_adj_strict: "sorted xs \<Longrightarrow> sorted_wrt (<) (remdups_adj (xs :: int list))"
  by (induction xs rule: remdups_adj.induct) auto

lemma sort_dedup_int_set [simp]: "set (sort_dedup_int v) = set v"
  by (simp add: sort_dedup_int_def)

lemma sort_dedup_int_strict: "sorted_wrt (<) (sort_dedup_int v)"
  by (simp add: sort_dedup_int_def remdups_adj_strict)

lemma sort_dedup_int_eq_iff: "sort_dedup_int v = sort_dedup_int w \<longleftrightarrow> set v = set w"
  using strict_sorted_equal [OF sort_dedup_int_strict sort_dedup_int_strict, of w v]
  by (metis sort_dedup_int_set)

text \<open>What \<open>sort_dedup_versions\<close> is for: the greatest version of every purpose.\<close>

definition greatest_version :: "(int \<times> u64) list \<Rightarrow> int \<Rightarrow> u64 option" where
  "greatest_version l p =
     (let vs = map snd (filter (\<lambda>x. fst x = p) l) in if vs = [] then None else Some (Max (set vs)))"

lemma sorted_last_Max:
  fixes xs :: "'a::linorder list"
  shows "sorted xs \<Longrightarrow> xs \<noteq> [] \<Longrightarrow> last xs = Max (set xs)"
proof (induction xs)
  case (Cons x xs)
  then show ?case by (cases "xs = []") (auto simp: max_def intro: order_antisym)
qed simp

lemma set_keep_last_version: "set (keep_last_version v) \<subseteq> set v"
  by (induction v rule: keep_last_version.induct) auto

lemma keep_last_version_strict:
  "sorted (map fst v) \<Longrightarrow> sorted_wrt (<) (map fst (keep_last_version v))"
proof (induction v rule: keep_last_version.induct)
  case (3 p q ps)
  show ?case
  proof (cases "fst p = fst q")
    case True
    with 3 show ?thesis by simp
  next
    case False
    have "fst p < fst x" if "x \<in> set (keep_last_version (q # ps))" for x
      using that set_keep_last_version [of "q # ps"] 3(3) False by fastforce
    with 3 False show ?thesis by simp
  qed
qed simp_all

lemma map_of_keep_last_version:
  "sorted (map fst v) \<Longrightarrow>
   map_of (keep_last_version v) p =
     (let f = filter (\<lambda>x. fst x = p) v in if f = [] then None else Some (snd (last f)))"
proof (induction v rule: keep_last_version.induct)
  case (2 x)
  then show ?case by (cases x) simp
next
  case (3 x q ps)
  show ?case
  proof (cases "fst x = fst q")
    case True
    with 3 show ?thesis by (simp add: Let_def)
  next
    case False
    with 3 have IH: "map_of (keep_last_version (q # ps)) p =
        (let f = filter (\<lambda>x. fst x = p) (q # ps) in if f = [] then None else Some (snd (last f)))"
      by simp
    obtain r where r: "r = q # ps" by simp
    have "filter (\<lambda>y. fst y = p) r = []" if "fst x = p"
      using 3(3) False that by (fastforce simp: r filter_empty_conv)
    moreover have "keep_last_version (x # r) = x # keep_last_version r"
      using False by (simp add: r)
    ultimately show ?thesis
      using IH unfolding r [symmetric] by (cases x) (auto simp: Let_def)
  qed
qed simp

lemma sort_dedup_versions_greatest:
  "map_of (sort_dedup_versions v) = greatest_version v"
proof
  fix p
  let ?c = "filter (\<lambda>x. fst x = p) (sort_key snd v)"
  have same: "filter (\<lambda>x. fst x = p) (sort_key fst (sort_key snd v)) = ?c"
    by (rule sort_key_stable)
  have c: "?c = sort_key snd (filter (\<lambda>x. fst x = p) v)"
    by (rule filter_sort)
  have "snd (last ?c) = Max (set (map snd (filter (\<lambda>x. fst x = p) v)))" if "?c \<noteq> []"
    using sorted_last_Max [of "map snd ?c"] that by (simp add: c last_map)
  moreover have "?c = [] \<longleftrightarrow> filter (\<lambda>x. fst x = p) v = []"
    unfolding c by (simp only: set_empty [symmetric] set_sort)
  moreover have "map_of (sort_dedup_versions v) p = (if ?c = [] then None else Some (snd (last ?c)))"
    by (simp add: sort_dedup_versions_def map_of_keep_last_version same Let_def)
  ultimately show "map_of (sort_dedup_versions v) p = greatest_version v p"
    by (simp add: greatest_version_def Let_def)
qed

lemma sort_dedup_versions_strict: "sorted_wrt (<) (map fst (sort_dedup_versions v))"
  by (simp add: sort_dedup_versions_def keep_last_version_strict)

lemma sort_dedup_versions_eq_iff:
  "sort_dedup_versions v = sort_dedup_versions w \<longleftrightarrow> greatest_version v = greatest_version w"
proof
  assume g: "greatest_version v = greatest_version w"
  let ?a = "sort_dedup_versions v" and ?b = "sort_dedup_versions w"
  have st: "sorted (map fst ?a)" "distinct (map fst ?a)" "sorted (map fst ?b)" "distinct (map fst ?b)"
    using sort_dedup_versions_strict by (simp_all add: strict_sorted_iff)
  have m: "map_of ?a = map_of ?b" using g by (simp add: sort_dedup_versions_greatest)
  then have "set ?a = set ?b"
    using st map_of_eq_Some_iff [of ?a] map_of_eq_Some_iff [of ?b] by auto
  moreover have "inj_on fst (set ?a)" using st(2) by (simp add: distinct_map)
  ultimately show "?a = ?b"
    using st by (intro map_sorted_distinct_set_unique [of fst]) simp_all
qed (simp flip: sort_dedup_versions_greatest)

text \<open>
  The set normalisation of the attempt: purposes become the strictly increasing list of
  the same elements, and the version list becomes strictly increasing in the purpose with, for
  each purpose, exactly the greatest version that was listed.
\<close>

theorem normalisation_spec:
  "sorted_wrt (<) (sort_dedup_int v) \<and> set (sort_dedup_int v) = set v
   \<and> sorted_wrt (<) (map fst (sort_dedup_versions kvs))
   \<and> map_of (sort_dedup_versions kvs) = greatest_version kvs"
  by (simp add: sort_dedup_int_strict sort_dedup_versions_strict sort_dedup_versions_greatest)

section \<open>Two attempts have one fingerprint preimage exactly when they are the same attempt\<close>

definition same_attempt :: "attempt_snapshot \<Rightarrow> attempt_snapshot \<Rightarrow> bool" where
  "same_attempt s t \<longleftrightarrow>
     as_business_domain s = as_business_domain t
     \<and> set (as_purposes s) = set (as_purposes t)
     \<and> greatest_version (as_current_versions s) = greatest_version (as_current_versions t)
     \<and> as_device_identity_digest s = as_device_identity_digest t
     \<and> as_recipient_certificate_digest s = as_recipient_certificate_digest t
     \<and> set (as_wrapping_suites s) = set (as_wrapping_suites t)
     \<and> set (as_envelope_formats s) = set (as_envelope_formats t)
     \<and> as_protocol_lock_digest s = as_protocol_lock_digest t"

text \<open>The ranges of the C++ types: \<open>int\<close> elements, and sizes a vector can have.\<close>

definition snapshot_in_range :: "attempt_snapshot \<Rightarrow> bool" where
  "snapshot_in_range s \<longleftrightarrow>
     (\<forall>x\<in>set (as_purposes s) \<union> fst ` set (as_current_versions s) \<union> set (as_wrapping_suites s)
          \<union> set (as_envelope_formats s). int32_range x)
     \<and> length (as_purposes s) < 2 ^ 32 \<and> length (as_current_versions s) < 2 ^ 32
     \<and> length (as_wrapping_suites s) < 2 ^ 32 \<and> length (as_envelope_formats s) < 2 ^ 32"

lemma length_sort_dedup_int: "length (sort_dedup_int v) \<le> length v"
  using remdups_adj_length [of "sort v"] by (simp add: sort_dedup_int_def)

lemma length_keep_last_version: "length (keep_last_version v) \<le> length v"
  by (induction v rule: keep_last_version.induct) auto

lemma length_sort_dedup_versions: "length (sort_dedup_versions v) \<le> length v"
  using length_keep_last_version [of "sort_key fst (sort_key snd v)"]
  by (simp add: sort_dedup_versions_def)

lemma set_sort_dedup_versions: "set (sort_dedup_versions v) \<subseteq> set v"
  using set_keep_last_version [of "sort_key fst (sort_key snd v)"]
  by (simp add: sort_dedup_versions_def)

lemma guards_domain:
  "fingerprint_guards s = None \<Longrightarrow>
     as_business_domain s = kKeyprovBusinessDomainV2c
     \<and> length (as_device_identity_digest s) = 32 \<and> length (as_recipient_certificate_digest s) = 32
     \<and> length (as_protocol_lock_digest s) = 32"
  by (auto simp: fingerprint_guards_def split: if_splits)

lemma ints_split:
  assumes "\<forall>x\<in>set v. int32_range x" "\<forall>x\<in>set w. int32_range x"
    and "length v < 2 ^ 32" "length w < 2 ^ 32"
    and "counted enc_int (sort_dedup_int v) @ r = counted enc_int (sort_dedup_int w) @ q"
  shows "set v = set w \<and> r = q"
  using enc_int.counted_split [of "sort_dedup_int v" "sort_dedup_int w" r q] assms
    length_sort_dedup_int [of v] length_sort_dedup_int [of w]
  by (simp add: sort_dedup_int_eq_iff)

lemma versions_split:
  assumes "\<forall>x\<in>set v. int32_range (fst x)" "\<forall>x\<in>set w. int32_range (fst x)"
    and "length v < 2 ^ 32" "length w < 2 ^ 32"
    and "counted enc_version (sort_dedup_versions v) @ r = counted enc_version (sort_dedup_versions w) @ q"
  shows "greatest_version v = greatest_version w \<and> r = q"
proof -
  have "sort_dedup_versions v = sort_dedup_versions w \<and> r = q"
    using length_sort_dedup_versions [of v] length_sort_dedup_versions [of w]
      set_sort_dedup_versions [of v] set_sort_dedup_versions [of w] assms
    by (intro enc_version.counted_split) auto
  then show ?thesis by (simp add: sort_dedup_versions_eq_iff)
qed

lemma protocol_part_split:
  assumes "snapshot_in_range s" "snapshot_in_range t"
    and "counted enc_int (sort_dedup_int (as_wrapping_suites s))
       @ (counted enc_int (sort_dedup_int (as_envelope_formats s)) @ as_protocol_lock_digest s)
     = counted enc_int (sort_dedup_int (as_wrapping_suites t))
       @ (counted enc_int (sort_dedup_int (as_envelope_formats t)) @ as_protocol_lock_digest t)"
  shows "set (as_wrapping_suites s) = set (as_wrapping_suites t)
     \<and> set (as_envelope_formats s) = set (as_envelope_formats t)
     \<and> as_protocol_lock_digest s = as_protocol_lock_digest t"
proof -
  note r = assms(1,2)[unfolded snapshot_in_range_def]
  from ints_split [OF _ _ _ _ assms(3)] r have "set (as_wrapping_suites s) = set (as_wrapping_suites t)"
    and e: "counted enc_int (sort_dedup_int (as_envelope_formats s)) @ as_protocol_lock_digest s
     = counted enc_int (sort_dedup_int (as_envelope_formats t)) @ as_protocol_lock_digest t"
    by simp_all
  with ints_split [OF _ _ _ _ e] r show ?thesis by simp
qed

text \<open>
  C15. The canonical preimage of the fingerprint is injective on attempts and blind to order,
  duplicates and superseded versions: two snapshots that pass the guards have the same
  preimage exactly when they are the same attempt.
\<close>

theorem fingerprint_preimage_iff:
  assumes "fingerprint_guards s = None" and "fingerprint_guards t = None"
    and "snapshot_in_range s" and "snapshot_in_range t"
  shows "fingerprint_preimage s = fingerprint_preimage t \<longleftrightarrow> same_attempt s t"
proof
  let ?proto = "\<lambda>s. counted enc_int (sort_dedup_int (as_wrapping_suites s))
     @ (counted enc_int (sort_dedup_int (as_envelope_formats s)) @ as_protocol_lock_digest s)"
  let ?ids = "\<lambda>s. as_device_identity_digest s @ (as_recipient_certificate_digest s @ ?proto s)"
  let ?vers = "\<lambda>s. counted enc_version (sort_dedup_versions (as_current_versions s)) @ ?ids s"
  assume eq: "fingerprint_preimage s = fingerprint_preimage t"
  note g = guards_domain [OF assms(1)] guards_domain [OF assms(2)]
  note r = assms(3,4)[unfolded snapshot_in_range_def]
  from eq g have e1: "counted enc_int (sort_dedup_int (as_purposes s)) @ ?vers s
      = counted enc_int (sort_dedup_int (as_purposes t)) @ ?vers t"
    by (simp add: fingerprint_preimage_frames)
  from ints_split [OF _ _ _ _ e1] r have p1: "set (as_purposes s) = set (as_purposes t)"
    and e2: "?vers s = ?vers t" by simp_all
  from versions_split [OF _ _ _ _ e2] r
  have p2: "greatest_version (as_current_versions s) = greatest_version (as_current_versions t)"
    and e3: "?ids s = ?ids t" by simp_all
  from e3 g have p3: "as_device_identity_digest s = as_device_identity_digest t"
      "as_recipient_certificate_digest s = as_recipient_certificate_digest t"
    and e4: "?proto s = ?proto t" by simp_all
  from protocol_part_split [OF assms(3,4) e4] p1 p2 p3 g show "same_attempt s t"
    by (simp add: same_attempt_def)
next
  assume same: "same_attempt s t"
  then have "sort_dedup_int (as_purposes s) = sort_dedup_int (as_purposes t)"
      "sort_dedup_versions (as_current_versions s) = sort_dedup_versions (as_current_versions t)"
      "sort_dedup_int (as_wrapping_suites s) = sort_dedup_int (as_wrapping_suites t)"
      "sort_dedup_int (as_envelope_formats s) = sort_dedup_int (as_envelope_formats t)"
    by (simp_all add: same_attempt_def sort_dedup_int_eq_iff sort_dedup_versions_eq_iff)
  with same show "fingerprint_preimage s = fingerprint_preimage t"
    by (simp add: same_attempt_def fingerprint_preimage_def)
qed

definition snapshot_ex :: attempt_snapshot where
  "snapshot_ex = \<lparr>as_business_domain = ''V2C_COMM'', as_purposes = [2, 1, 2],
     as_current_versions = [(1, 4), (1, 7)], as_device_identity_digest = replicate 32 1,
     as_recipient_certificate_digest = replicate 32 2, as_certificate_ref_digest = replicate 32 3,
     as_wrapping_suites = [2], as_envelope_formats = [1],
     as_protocol_lock_digest = replicate 32 4\<rparr>"

lemma snapshot_ex_ok:
  "fingerprint_guards snapshot_ex = None" "snapshot_in_range snapshot_ex"
  "fingerprint_guards (snapshot_ex\<lparr>as_purposes := [1, 2], as_current_versions := [(1, 7)]\<rparr>) = None"
  "snapshot_in_range (snapshot_ex\<lparr>as_purposes := [1, 2], as_current_versions := [(1, 7)]\<rparr>)"
  by (simp_all add: snapshot_ex_def fingerprint_guards_def kKeyprovBusinessDomainV2c_def
      snapshot_in_range_def int32_range_def)

theorem fingerprint_preimage_iff_witness:
  "fingerprint_preimage snapshot_ex
     = fingerprint_preimage (snapshot_ex\<lparr>as_purposes := [1, 2], as_current_versions := [(1, 7)]\<rparr>)"
proof -
  have "same_attempt snapshot_ex (snapshot_ex\<lparr>as_purposes := [1, 2], as_current_versions := [(1, 7)]\<rparr>)"
    by (auto simp: same_attempt_def snapshot_ex_def greatest_version_def fun_eq_iff)
  then show ?thesis
    using fingerprint_preimage_iff [OF snapshot_ex_ok(1,3,2,4)] by simp
qed

section \<open>Built snapshots\<close>

lemma digest_raw_32_length: "digest_raw_32 s = Some d \<Longrightarrow> length d = 32"
  by (auto simp: digest_raw_32_def split: option.splits if_splits)

lemma purpose_from_string_cases:
  "keyprov_purpose_from_string s \<in> {0, 1, 2}"
  by (simp add: keyprov_purpose_from_string_def)

lemma collect_purposes_known:
  "collect_purposes ps = Some vs \<Longrightarrow> set vs \<subseteq> {1, 2}"
proof (induction ps arbitrary: vs)
  case (Cons p ps)
  then show ?case
    using purpose_from_string_cases [of p] by (auto simp: Let_def split: if_splits option.splits)
qed simp

lemma sort_dedup_int_single [simp]: "sort_dedup_int [x] = [x]"
  by (simp add: sort_dedup_int_def)

lemma sort_dedup_int_idem [simp]: "sort_dedup_int (sort_dedup_int v) = sort_dedup_int v"
  by (simp add: sort_dedup_int_eq_iff)

lemma sort_dedup_versions_idem [simp]:
  "sort_dedup_versions (sort_dedup_versions v) = sort_dedup_versions v"
proof -
  let ?a = "sort_dedup_versions v"
  have d: "distinct (map fst ?a)" using sort_dedup_versions_strict by (simp add: strict_sorted_iff)
  have "greatest_version ?a = map_of ?a"
  proof
    fix p
    show "greatest_version ?a p = map_of ?a p"
    proof (cases "map_of ?a p")
      case None
      then have "filter (\<lambda>x. fst x = p) ?a = []"
        by (auto simp: map_of_eq_None_iff filter_empty_conv)
      then show ?thesis using None by (simp add: greatest_version_def)
    next
      case (Some u)
      with d have "snd ` {x \<in> set ?a. fst x = p} = {u}"
        by (auto simp: map_of_eq_Some_iff image_iff dest: eq_key_imp_eq_value)
      then show ?thesis
        using Some by (auto simp: greatest_version_def Let_def filter_empty_conv dest: map_of_SomeD)
    qed
  qed
  then have "greatest_version ?a = greatest_version v" by (simp add: sort_dedup_versions_greatest)
  then show ?thesis by (simp add: sort_dedup_versions_eq_iff)
qed

lemmas build_splits = if_splits sum.splits option.splits

text \<open>
  A snapshot the builder returns is in canonical form and always has a fingerprint: its
  lists are already normalised, its purposes are known ones, each listed version belongs to a
  requested purpose, the three digests have 32 bytes and every guard of the fingerprint passes.
\<close>

theorem built_snapshot_canonical:
  assumes "keyprov_build_attempt_snapshot h domain ps idn items lock = Inr s"
  shows "fingerprint_guards s = None
     \<and> sort_dedup_int (as_purposes s) = as_purposes s
     \<and> sort_dedup_versions (as_current_versions s) = as_current_versions s
     \<and> set (as_purposes s) \<subseteq> {kKeyProvPurposeUplinkValue, kKeyProvPurposeDownlinkValue}
     \<and> fst ` set (as_current_versions s) \<subseteq> set (as_purposes s)
     \<and> as_wrapping_suites s = [keyprov_wrapping_suite_from_string kKeyprovSuiteEcdhEsP256]
     \<and> as_envelope_formats s = [kKeyProvEnvelopeFormatEcdhEsP256V1]
     \<and> keyprov_compute_attempt_fingerprint_v1 h s = Inr (h_sha256 h (fingerprint_preimage s))"
proof -
  from assms obtain vs0 did rcd where
      vs: "collect_purposes ps = Some vs0"
    and sz: "sort_dedup_int vs0 \<noteq> []" "\<not> length (sort_dedup_int vs0) > kKeyprovMaxItems"
    and d: "digest_raw_32 (si_device_identity_digest idn) = Some did"
      "digest_raw_32 (si_certificate_ref idn) = Some rcd" "length lock = 32"
    and s: "s = \<lparr>as_business_domain = domain, as_purposes = sort_dedup_int vs0,
       as_current_versions = sort_dedup_versions (collect_versions (sort_dedup_int vs0) items),
       as_device_identity_digest = did, as_recipient_certificate_digest = rcd,
       as_certificate_ref_digest = h_sha256 h (str_bytes (si_certificate_ref idn)),
       as_wrapping_suites = sort_dedup_int [keyprov_wrapping_suite_from_string kKeyprovSuiteEcdhEsP256],
       as_envelope_formats = sort_dedup_int [kKeyProvEnvelopeFormatEcdhEsP256V1],
       as_protocol_lock_digest = lock\<rparr>"
    and dom: "domain = kKeyprovBusinessDomainV2c"
    by (auto simp: keyprov_build_attempt_snapshot_def Let_def split: build_splits)
  have g: "fingerprint_guards s = None"
    using sz d digest_raw_32_length [OF d(1)] digest_raw_32_length [OF d(2)]
    by (simp add: s dom fingerprint_guards_def kKeyprovBusinessDomainV2c_def)
  have "fst ` set (collect_versions (sort_dedup_int vs0) items) \<subseteq> set vs0"
    by (auto simp: collect_versions_def)
  then have "fst ` set (as_current_versions s) \<subseteq> set (as_purposes s)"
    using set_sort_dedup_versions [of "collect_versions (sort_dedup_int vs0) items"]
    by (fastforce simp: s)
  with g collect_purposes_known [OF vs] show ?thesis
    by (simp add: keyprov_compute_attempt_fingerprint_v1_def, simp add: s)
qed

definition toy_hash :: hash_lib where
  "toy_hash = \<lparr>h_sha256 = (\<lambda>b. take 32 (b @ replicate 32 0)),
     h_sha256_hex = (\<lambda>b. hex_encode (take 32 (b @ replicate 32 0)))\<rparr>"

lemma toy_hash_spec: "hash_spec toy_hash"
  by (auto simp: hash_spec_def toy_hash_def min_def)

lemma built_ex:
  "case keyprov_build_attempt_snapshot toy_hash ''V2C_COMM'' [''UPLINK_AEAD'', ''DOWNLINK_AEAD'']
     identity_ex [\<lparr>bks_purpose = ''UPLINK_AEAD'', bks_state = KeyActive, bks_business_key_version = 4\<rparr>]
     (replicate 32 9) of Inl _ \<Rightarrow> False
   | Inr s \<Rightarrow> as_purposes s = [1, 2] \<and> as_current_versions s = [(1, 4)]"
  by code_simp

theorem built_snapshot_canonical_witness:
  "\<exists>s. fingerprint_guards s = None \<and> as_purposes s = [1, 2]"
proof -
  from built_ex obtain s where
      b: "keyprov_build_attempt_snapshot toy_hash ''V2C_COMM'' [''UPLINK_AEAD'', ''DOWNLINK_AEAD'']
        identity_ex [\<lparr>bks_purpose = ''UPLINK_AEAD'', bks_state = KeyActive,
          bks_business_key_version = 4\<rparr>] (replicate 32 9) = Inr s"
    and p: "as_purposes s = [1, 2]" by (auto split: sum.splits)
  from built_snapshot_canonical [OF b] p show ?thesis by blast
qed

text \<open>
  The change dimension of two canonical snapshots is NONE exactly when they are the same
  attempt with the same certificate reference digest.
\<close>

theorem change_dimension_none_iff:
  assumes "sort_dedup_int (as_purposes s) = as_purposes s" "sort_dedup_int (as_purposes t) = as_purposes t"
    and "sort_dedup_versions (as_current_versions s) = as_current_versions s"
    and "sort_dedup_versions (as_current_versions t) = as_current_versions t"
    and "sort_dedup_int (as_wrapping_suites s) = as_wrapping_suites s"
    and "sort_dedup_int (as_wrapping_suites t) = as_wrapping_suites t"
    and "sort_dedup_int (as_envelope_formats s) = as_envelope_formats s"
    and "sort_dedup_int (as_envelope_formats t) = as_envelope_formats t"
  shows "keyprov_attempt_change_dimension s t = DimNone \<longleftrightarrow>
     same_attempt s t \<and> as_certificate_ref_digest s = as_certificate_ref_digest t"
proof -
  have "as_purposes s = as_purposes t \<longleftrightarrow> set (as_purposes s) = set (as_purposes t)"
    and "as_wrapping_suites s = as_wrapping_suites t
           \<longleftrightarrow> set (as_wrapping_suites s) = set (as_wrapping_suites t)"
    and "as_envelope_formats s = as_envelope_formats t
           \<longleftrightarrow> set (as_envelope_formats s) = set (as_envelope_formats t)"
    and "as_current_versions s = as_current_versions t \<longleftrightarrow>
           greatest_version (as_current_versions s) = greatest_version (as_current_versions t)"
    using assms by (metis sort_dedup_int_eq_iff sort_dedup_versions_eq_iff)+
  then show ?thesis by (auto simp: keyprov_attempt_change_dimension_def same_attempt_def)
qed

theorem change_dimension_none_iff_witness:
  "keyprov_attempt_change_dimension (snapshot_ex\<lparr>as_purposes := [1, 2], as_current_versions := [(1, 7)]\<rparr>)
     (snapshot_ex\<lparr>as_purposes := [1, 2], as_current_versions := [(1, 8)]\<rparr>) \<noteq> DimNone"
proof -
  have n: "sort_dedup_int [1, 2] = [1, 2]" "sort_dedup_versions [(1, v)] = [(1, v)]" for v
    by (simp_all add: sort_dedup_int_def sort_dedup_versions_def)
  have "\<not> same_attempt (snapshot_ex\<lparr>as_purposes := [1, 2], as_current_versions := [(1, 7)]\<rparr>)
      (snapshot_ex\<lparr>as_purposes := [1, 2], as_current_versions := [(1, 8)]\<rparr>)"
    by (auto simp: same_attempt_def snapshot_ex_def greatest_version_def fun_eq_iff)
  then show ?thesis
    by (subst change_dimension_none_iff) (simp_all add: n, simp_all add: snapshot_ex_def)
qed

section \<open>The persisted form of the fingerprint\<close>

lemma hex_fill_encode:
  "length out = length fp \<Longrightarrow> hex_fill (hex_encode fp) out = (True, fp)"
proof (induction fp arbitrary: out)
  case Nil
  then show ?case by (simp add: hex_encode_def)
next
  case (Cons b bs)
  then obtain x xs where "out = x # xs" "length xs = length bs" by (cases out) auto
  with Cons.IH [of xs] show ?case
    by (simp add: hex_encode_def nib_hex_digit nibble_lt)
qed

lemma hex_to_fingerprint_encode:
  "length fp = 32 \<Longrightarrow> length out = 32 \<Longrightarrow> hex_to_fingerprint (hex_encode fp) out = (True, fp)"
  by (simp add: hex_to_fingerprint_def hex_fill_encode)

text \<open>
  Reading the persisted fingerprint back does not return the fingerprint that was written:
  the text form is the hexadecimal of the SHA-256 of the fingerprint, so the reader yields that
  second digest, and the comparison with the frozen value holds only for a fixed point of
  SHA-256.
\<close>

theorem fingerprint_reload:
  assumes "hash_spec h" and "length out = 32"
  shows "hex_to_fingerprint (keyprov_fingerprint_to_hex h fp) out = (True, h_sha256 h fp)
     \<and> (keyprov_fingerprint_equal (snd (hex_to_fingerprint (keyprov_fingerprint_to_hex h fp) out)) fp
        \<longleftrightarrow> h_sha256 h fp = fp)"
  using assms
  by (auto simp: keyprov_fingerprint_to_hex_def hash_spec_def hex_to_fingerprint_encode
      keyprov_fingerprint_equal_def)

definition shift_hash :: hash_lib where
  "shift_hash = \<lparr>h_sha256 = (\<lambda>b. take 32 (1 # b @ replicate 32 0)),
     h_sha256_hex = (\<lambda>b. hex_encode (take 32 (1 # b @ replicate 32 0)))\<rparr>"

theorem fingerprint_reload_witness:
  "\<not> keyprov_fingerprint_equal
      (snd (hex_to_fingerprint (keyprov_fingerprint_to_hex shift_hash (replicate 32 0))
              (replicate 32 0))) (replicate 32 0)"
proof -
  have "hash_spec shift_hash" by (auto simp: hash_spec_def shift_hash_def min_def)
  moreover have "h_sha256 shift_hash (replicate 32 0) \<noteq> replicate 32 0"
    by (simp add: shift_hash_def numeral_nat)
  ultimately show ?thesis
    by (metis fingerprint_reload length_replicate)
qed

lemma resolution_roundtrip [simp]:
  "keyprov_import_invocation_resolution_from_string
     (keyprov_import_invocation_resolution_to_string r) = Some r"
  by (cases r) (simp_all add: keyprov_import_invocation_resolution_from_string_def
      keyprov_import_invocation_resolution_to_string_def)

lemma resolution_code_roundtrip [simp]: "resolution_of_code (resolution_code r) = Some r"
  by (cases r) (simp_all add: resolution_of_code_def resolution_code_def)

text \<open>
  The releasable not-found of the cloud is recognised from the wire error exactly: the
  normalised error carries the NOT\_FOUND code, is not retryable and says DO\_NOT\_RETRY only for
  the two spellings of that code with those attributes.
\<close>

theorem normalize_not_found:
  "(ce_present (keyprov_normalize_protocol_error e)
      \<and> ce_code (keyprov_normalize_protocol_error e) = kKeyProvErrorCodeNotFound
      \<and> \<not> ce_retryable (keyprov_normalize_protocol_error e)
      \<and> ce_action (keyprov_normalize_protocol_error e) = ActDoNotRetry)
   \<longleftrightarrow> (pe_code e = ''KEYPROV_PROVISIONING_NOT_FOUND'' \<or> pe_code e = ''806099'')
        \<and> \<not> pe_retryable e \<and> pe_action e = ''DO_NOT_RETRY''"
  by (auto simp: keyprov_normalize_protocol_error_def no_cloud_error_def)

end
