(* ===== verification/KeyprovLifecycle.thy ===== *)
theory KeyprovLifecycle
  imports KeyprovAttempt
begin

text \<open>
  The KL1 lifecycle module (src/include/keyprov\_lifecycle.h, src/src/keyprov\_lifecycle.cpp):
  parameters, the clock-health gate, the lease arithmetic, the centralised decision table of
  priorities 0 to 9 and the persistent budget ledger with its guarded pre-consumption.
\<close>

section \<open>Parameters and clock\<close>

record kl1_params =
  kp_response_ttl_ms :: u32
  kp_batch_ms :: u32
  kp_ack_grace_ms :: u32
  kp_skew_ms :: u32
  kp_issue_min_ms :: u32
  kp_import_min_ms :: u32
  kp_request_limit :: u32
  kp_request_window_ms :: u32
  kp_readonly_limit :: u32
  kp_readonly_window_ms :: u32
  kp_ack_limit :: u32
  kp_chain_ids :: u32
  kp_chain_window_ms :: u32
  kp_sec_nf_observations :: u32
  kp_sec_nf_span_ms :: u32

definition kl1_default :: kl1_params where
  "kl1_default = \<lparr>kp_response_ttl_ms = 60000, kp_batch_ms = 300000, kp_ack_grace_ms = 30000,
     kp_skew_ms = 2000, kp_issue_min_ms = 20000, kp_import_min_ms = 15000,
     kp_request_limit = 8, kp_request_window_ms = 120000, kp_readonly_limit = 12,
     kp_readonly_window_ms = 300000, kp_ack_limit = 3, kp_chain_ids = 3,
     kp_chain_window_ms = 600000, kp_sec_nf_observations = 3, kp_sec_nf_span_ms = 12000\<rparr>"

record clock_source =
  cs_utc_now_ms :: int
  cs_uncertainty_ms :: u32
  cs_monotonic_ms :: int
  cs_sample_age_ms :: u32
  cs_skew_ms :: u32
  cs_rollback_detected :: bool
  cs_trusted :: bool

definition clock_default :: clock_source where
  "clock_default = \<lparr>cs_utc_now_ms = 0, cs_uncertainty_ms = 0, cs_monotonic_ms = 0,
     cs_sample_age_ms = 0, cs_skew_ms = 0, cs_rollback_detected = False, cs_trusted = False\<rparr>"

definition keyprov_clock_healthy :: "clock_source \<Rightarrow> bool" where
  "keyprov_clock_healthy c \<longleftrightarrow>
     (if cs_rollback_detected c then False
      else if cs_uncertainty_ms c > 1000 then False
      else if cs_sample_age_ms c > 300000 then False
      else if cs_skew_ms c > 2000 then False
      else True)"

text \<open>The trusted UTC upper bound U every lease test uses.\<close>

definition utc_upper :: "clock_source \<Rightarrow> int" where
  "utc_upper c = cs_utc_now_ms c + uint (cs_uncertainty_ms c)"

section \<open>Lease arithmetic\<close>

definition keyprov_ack_safe_deadline_ms :: "int \<Rightarrow> kl1_params \<Rightarrow> int" where
  "keyprov_ack_safe_deadline_ms lease p = lease + uint (kp_ack_grace_ms p) - uint (kp_skew_ms p)"

definition keyprov_lease_acceptable :: "int \<Rightarrow> int \<Rightarrow> kl1_params \<Rightarrow> bool" where
  "keyprov_lease_acceptable u e p \<longleftrightarrow> e - u \<ge> uint (kp_import_min_ms p)"

definition keyprov_lease_expired :: "int \<Rightarrow> int \<Rightarrow> bool" where
  "keyprov_lease_expired u e \<longleftrightarrow> u \<ge> e"

section \<open>The decision table\<close>

datatype keyprov_action =
    AWaitReady | ASendRequest | AImport | ASendOriginalAck | AQueryStatusOrSec | ASupersedeCas
  | AActive | ABlocked | ALateResponse | AConflict806095 | AFreshenSameId
  | ARestoreOriginalAck | ARestoreSuccessor | AResponseExpired | ALeaseTooShort | AReject
  | ATimeUntrusted | AContractUnknown | AReadonly | ABoundedRetry

definition keyprov_action_to_string :: "keyprov_action \<Rightarrow> string" where
  "keyprov_action_to_string a =
     (case a of
        AWaitReady \<Rightarrow> ''WAIT_READY'' | ASendRequest \<Rightarrow> ''SEND_REQUEST'' | AImport \<Rightarrow> ''IMPORT''
      | ASendOriginalAck \<Rightarrow> ''SEND_ORIGINAL_ACK'' | AQueryStatusOrSec \<Rightarrow> ''QUERY_STATUS_OR_SEC''
      | ASupersedeCas \<Rightarrow> ''SUPERSEDE_CAS'' | AActive \<Rightarrow> ''ACTIVE'' | ABlocked \<Rightarrow> ''BLOCKED''
      | ALateResponse \<Rightarrow> ''LATE_RESPONSE'' | AConflict806095 \<Rightarrow> ''CONFLICT_806095''
      | AFreshenSameId \<Rightarrow> ''FRESHEN_SAME_ID'' | ARestoreOriginalAck \<Rightarrow> ''RESTORE_ORIGINAL_ACK''
      | ARestoreSuccessor \<Rightarrow> ''RESTORE_SUCCESSOR'' | AResponseExpired \<Rightarrow> ''RESPONSE_EXPIRED''
      | ALeaseTooShort \<Rightarrow> ''LEASE_TOO_SHORT'' | AReject \<Rightarrow> ''REJECT''
      | ATimeUntrusted \<Rightarrow> ''TIME_UNTRUSTED'' | AContractUnknown \<Rightarrow> ''CONTRACT_UNKNOWN''
      | AReadonly \<Rightarrow> ''READONLY'' | ABoundedRetry \<Rightarrow> ''BOUNDED_RETRY'')"

record lifecycle_input =
  li_attempt_valid :: bool
  li_binding_match :: bool
  li_terminalized :: bool
  li_clock :: clock_source
  li_lease_expires_at_ms :: int
  li_ack_safe_deadline_ms :: int
  li_freshen_used :: bool
  li_deliverable :: bool
  li_import_already :: bool
  li_idempotency_conflict :: bool
  li_successor_preexisting :: bool
  li_transport_retryable_fault :: bool
  li_reconciliation_pending :: bool
  li_contract_ready :: bool
  li_sec_capability_epoch_known :: bool
  li_sec_committed :: bool
  li_sec_not_found_proven :: bool
  li_sec_unknown_or_error :: bool
  li_sec_contract_unknown :: bool
  li_no_side_effect_proven :: bool
  li_cloud_status :: int
  li_cloud_error :: cloud_protocol_error
  li_params :: "kl1_params option"
  li_request_budget_ok :: bool
  li_status_budget_ok :: bool
  li_sec_query_budget_ok :: bool
  li_ack_budget_ok :: bool
  li_chain_ok :: bool
  li_inflight :: bool
  li_response_binding_valid :: bool
  li_purposes_complete :: bool
  li_envelope_fresh :: bool
  li_payload_fresh :: bool
  li_payload_present :: bool

definition lifecycle_input_default :: lifecycle_input where
  "lifecycle_input_default = \<lparr>li_attempt_valid = False, li_binding_match = True,
     li_terminalized = False, li_clock = clock_default, li_lease_expires_at_ms = 0,
     li_ack_safe_deadline_ms = 0, li_freshen_used = False, li_deliverable = False,
     li_import_already = False, li_idempotency_conflict = False,
     li_successor_preexisting = False, li_transport_retryable_fault = False,
     li_reconciliation_pending = False, li_contract_ready = False,
     li_sec_capability_epoch_known = False, li_sec_committed = False,
     li_sec_not_found_proven = False, li_sec_unknown_or_error = False,
     li_sec_contract_unknown = False, li_no_side_effect_proven = False,
     li_cloud_status = -1, li_cloud_error = no_cloud_error, li_params = None,
     li_request_budget_ok = True, li_status_budget_ok = True, li_sec_query_budget_ok = True,
     li_ack_budget_ok = True, li_chain_ok = True, li_inflight = False,
     li_response_binding_valid = False, li_purposes_complete = False,
     li_envelope_fresh = True, li_payload_fresh = True, li_payload_present = False\<rparr>"

definition li_p :: "lifecycle_input \<Rightarrow> kl1_params" where
  "li_p i = (case li_params i of None \<Rightarrow> kl1_default | Some p \<Rightarrow> p)"

definition releasable_unspecified :: "int \<Rightarrow> cloud_protocol_error \<Rightarrow> bool" where
  "releasable_unspecified st e \<longleftrightarrow>
     st = kKeyProvStatusUnspecified \<and> ce_present e \<and> ce_code e = kKeyProvErrorCodeNotFound
     \<and> \<not> ce_retryable e \<and> ce_action e = ActDoNotRetry"

definition expired_or_too_short :: "lifecycle_input \<Rightarrow> bool" where
  "expired_or_too_short i \<longleftrightarrow>
     li_payload_present i
     \<and> (keyprov_lease_expired (utc_upper (li_clock i)) (li_lease_expires_at_ms i)
        \<or> \<not> keyprov_lease_acceptable (utc_upper (li_clock i)) (li_lease_expires_at_ms i) (li_p i)
        \<or> \<not> li_payload_fresh i)"

definition keyprov_lifecycle_decide :: "lifecycle_input \<Rightarrow> keyprov_action" where
  "keyprov_lifecycle_decide i =
    (let u = utc_upper (li_clock i);
         cloud_terminal = (li_cloud_status i = kKeyProvStatusFailed
                           \<or> releasable_unspecified (li_cloud_status i) (li_cloud_error i));
         eos = expired_or_too_short i
     in
      if \<not> li_attempt_valid i \<or> \<not> li_binding_match i \<or> li_terminalized i then ALateResponse
      else if li_idempotency_conflict i then AConflict806095
      else if \<not> keyprov_clock_healthy (li_clock i) \<or> \<not> cs_trusted (li_clock i) then ATimeUntrusted
      else if li_sec_contract_unknown i \<or> \<not> li_contract_ready i
        then (if li_cloud_status i \<ge> 0 then AReadonly else AContractUnknown)
      else if li_sec_unknown_or_error i
        then (if li_status_budget_ok i \<and> li_sec_query_budget_ok i then AQueryStatusOrSec
              else ABlocked)
      else if li_payload_present i \<and> (\<not> li_envelope_fresh i \<or> \<not> li_payload_fresh i) then AReject
      else if li_cloud_status i = kKeyProvStatusActive \<and> li_sec_committed i
              \<and> li_purposes_complete i then AActive
      else if li_sec_committed i \<and> li_cloud_status i = kKeyProvStatusFailed then ABlocked
      else if li_sec_not_found_proven i \<and> li_cloud_status i = kKeyProvStatusActive then ABlocked
      else if li_sec_committed i \<and> li_cloud_status i = kKeyProvStatusAckPending
        then (if li_ack_budget_ok i \<and> u < li_ack_safe_deadline_ms i then ARestoreOriginalAck
              else AReadonly)
      else if li_no_side_effect_proven i \<and> cloud_terminal
        then (if \<not> li_chain_ok i then ABlocked
              else if li_successor_preexisting i then ARestoreSuccessor
              else ASupersedeCas)
      else if li_no_side_effect_proven i \<and> li_cloud_status i = kKeyProvStatusUnspecified
        then AReadonly
      else if eos \<and> \<not> li_freshen_used i \<and> li_cloud_status i = kKeyProvStatusAckPending
              \<and> li_no_side_effect_proven i \<and> li_deliverable i \<and> li_request_budget_ok i
        then AFreshenSameId
      else if li_payload_present i \<and> eos
        then (if li_freshen_used i then AReadonly
              else if keyprov_lease_expired u (li_lease_expires_at_ms i) then AResponseExpired
              else ALeaseTooShort)
      else if li_payload_present i \<and> li_payload_fresh i \<and> li_envelope_fresh i
              \<and> li_response_binding_valid i \<and> li_contract_ready i
              \<and> li_sec_capability_epoch_known i \<and> \<not> li_import_already i \<and> \<not> li_inflight i
              \<and> keyprov_lease_acceptable u (li_lease_expires_at_ms i) (li_p i)
        then AImport
      else if li_transport_retryable_fault i \<and> li_request_budget_ok i then ABoundedRetry
      else if li_purposes_complete i then AActive
      else if li_inflight i then AWaitReady
      else if li_reconciliation_pending i
        then (if li_status_budget_ok i \<and> li_sec_query_budget_ok i then AQueryStatusOrSec
              else ABlocked)
      else if li_request_budget_ok i then ASendRequest
      else if li_status_budget_ok i \<or> li_sec_query_budget_ok i then AReadonly
      else ABlocked)"

section \<open>Budget ledger\<close>

record budget_ledger =
  bl_request_send_count :: u32
  bl_first_request_at_ms :: int
  bl_request_deadline_at_ms :: int
  bl_status_send_count :: u32
  bl_first_readonly_at_ms :: int
  bl_readonly_deadline_at_ms :: int
  bl_sec_query_count :: u32
  bl_ack_send_count :: u32
  bl_ack_safe_deadline_at_ms :: int
  bl_expiry_freshen_count :: u32
  bl_chain_id :: string
  bl_chain_started_at_ms :: int
  bl_chain_deadline_at_ms :: int
  bl_chain_request_id_count :: u32
  bl_migration_token :: string
  bl_migration_consumed :: bool
  bl_budget_exhausted_reason :: string

definition empty_ledger :: budget_ledger where
  "empty_ledger = \<lparr>bl_request_send_count = 0, bl_first_request_at_ms = 0,
     bl_request_deadline_at_ms = 0, bl_status_send_count = 0, bl_first_readonly_at_ms = 0,
     bl_readonly_deadline_at_ms = 0, bl_sec_query_count = 0, bl_ack_send_count = 0,
     bl_ack_safe_deadline_at_ms = 0, bl_expiry_freshen_count = 0, bl_chain_id = [],
     bl_chain_started_at_ms = 0, bl_chain_deadline_at_ms = 0, bl_chain_request_id_count = 0,
     bl_migration_token = [], bl_migration_consumed = False, bl_budget_exhausted_reason = []\<rparr>"

definition request_ok :: "kl1_params \<Rightarrow> int \<Rightarrow> budget_ledger \<Rightarrow> bool" where
  "request_ok p now b \<longleftrightarrow>
     (if bl_request_send_count b \<ge> kp_request_limit p then False
      else if bl_first_request_at_ms b > 0
              \<and> now - bl_first_request_at_ms b \<ge> uint (kp_request_window_ms p) then False
      else True)"

definition status_ok :: "kl1_params \<Rightarrow> int \<Rightarrow> budget_ledger \<Rightarrow> bool" where
  "status_ok p now b \<longleftrightarrow>
     (if bl_status_send_count b \<ge> kp_readonly_limit p then False
      else if bl_first_readonly_at_ms b > 0
              \<and> now - bl_first_readonly_at_ms b \<ge> uint (kp_readonly_window_ms p) then False
      else True)"

definition sec_query_ok :: "kl1_params \<Rightarrow> int \<Rightarrow> budget_ledger \<Rightarrow> bool" where
  "sec_query_ok p now b \<longleftrightarrow>
     (if bl_sec_query_count b \<ge> kp_readonly_limit p then False
      else if bl_first_readonly_at_ms b > 0
              \<and> now - bl_first_readonly_at_ms b \<ge> uint (kp_readonly_window_ms p) then False
      else True)"

definition ack_ok :: "kl1_params \<Rightarrow> int \<Rightarrow> budget_ledger \<Rightarrow> bool" where
  "ack_ok p now b \<longleftrightarrow>
     (if bl_ack_send_count b \<ge> kp_ack_limit p then False
      else if bl_ack_safe_deadline_at_ms b > 0 \<and> now \<ge> bl_ack_safe_deadline_at_ms b then False
      else True)"

definition freshen_ok :: "budget_ledger \<Rightarrow> bool" where
  "freshen_ok b \<longleftrightarrow> bl_expiry_freshen_count b < 1"

definition chain_ok :: "kl1_params \<Rightarrow> int \<Rightarrow> budget_ledger \<Rightarrow> bool" where
  "chain_ok p now b \<longleftrightarrow>
     (if bl_chain_request_id_count b \<ge> kp_chain_ids p then False
      else if bl_chain_started_at_ms b > 0
              \<and> now - bl_chain_started_at_ms b \<ge> uint (kp_chain_window_ms p) then False
      else True)"

definition preconsume_request :: "kl1_params \<Rightarrow> int \<Rightarrow> budget_ledger \<Rightarrow> budget_ledger" where
  "preconsume_request p now b =
     (let b1 = (if bl_request_send_count b = 0
                then b\<lparr>bl_first_request_at_ms := now,
                       bl_request_deadline_at_ms := now + uint (kp_request_window_ms p)\<rparr>
                else b)
      in b1\<lparr>bl_request_send_count := bl_request_send_count b1 + 1\<rparr>)"

definition preconsume_status :: "kl1_params \<Rightarrow> int \<Rightarrow> budget_ledger \<Rightarrow> budget_ledger" where
  "preconsume_status p now b =
     (let b1 = (if bl_status_send_count b = 0
                then b\<lparr>bl_first_readonly_at_ms := now,
                       bl_readonly_deadline_at_ms := now + uint (kp_readonly_window_ms p)\<rparr>
                else b)
      in b1\<lparr>bl_status_send_count := bl_status_send_count b1 + 1\<rparr>)"

definition preconsume_sec_query :: "kl1_params \<Rightarrow> int \<Rightarrow> budget_ledger \<Rightarrow> budget_ledger" where
  "preconsume_sec_query p now b =
     (let b1 = (if bl_sec_query_count b = 0
                then b\<lparr>bl_first_readonly_at_ms := now,
                       bl_readonly_deadline_at_ms := now + uint (kp_readonly_window_ms p)\<rparr>
                else b)
      in b1\<lparr>bl_sec_query_count := bl_sec_query_count b1 + 1\<rparr>)"

definition preconsume_ack :: "kl1_params \<Rightarrow> int \<Rightarrow> budget_ledger \<Rightarrow> budget_ledger" where
  "preconsume_ack p now b =
     (let b1 = (if bl_ack_safe_deadline_at_ms b = 0
                then b\<lparr>bl_ack_safe_deadline_at_ms := now\<rparr> else b)
      in b1\<lparr>bl_ack_send_count := bl_ack_send_count b1 + 1\<rparr>)"

definition preconsume_freshen :: "budget_ledger \<Rightarrow> budget_ledger" where
  "preconsume_freshen b = b\<lparr>bl_expiry_freshen_count := bl_expiry_freshen_count b + 1\<rparr>"

definition preconsume_chain_id :: "kl1_params \<Rightarrow> int \<Rightarrow> budget_ledger \<Rightarrow> budget_ledger" where
  "preconsume_chain_id p now b =
     (let b1 = (if bl_chain_id b = []
                then b\<lparr>bl_chain_started_at_ms := now,
                       bl_chain_deadline_at_ms := now + uint (kp_chain_window_ms p)\<rparr>
                else b)
      in b1\<lparr>bl_chain_request_id_count := bl_chain_request_id_count b1 + 1\<rparr>)"

definition reset_for_new_attempt :: "budget_ledger \<Rightarrow> budget_ledger" where
  "reset_for_new_attempt b =
     b\<lparr>bl_request_send_count := 0, bl_first_request_at_ms := 0, bl_request_deadline_at_ms := 0,
       bl_status_send_count := 0, bl_first_readonly_at_ms := 0, bl_readonly_deadline_at_ms := 0,
       bl_sec_query_count := 0, bl_ack_send_count := 0, bl_ack_safe_deadline_at_ms := 0,
       bl_expiry_freshen_count := 0, bl_budget_exhausted_reason := []\<rparr>"

section \<open>The contract of a bounded budget\<close>

text \<open>
  What the coordinator relies on when it pre-consumes a budget: \<open>ok\<close> refuses at the
  limit, \<open>consume\<close> counts one and never rewinds. A \<open>window_budget\<close> also opens its time
  window with the first consumption and refuses once the window has passed.
\<close>

fun guarded_run ::
  "(int \<Rightarrow> 'b \<Rightarrow> bool) \<Rightarrow> (int \<Rightarrow> 'b \<Rightarrow> 'b) \<Rightarrow> int list \<Rightarrow> 'b \<Rightarrow> int list \<times> 'b" where
  "guarded_run ok consume [] b = ([], b)"
| "guarded_run ok consume (t # ts) b =
     (if ok t b then (let (gs, b') = guarded_run ok consume ts (consume t b) in (t # gs, b'))
      else guarded_run ok consume ts b)"

locale counted_budget =
  fixes count :: "'b \<Rightarrow> u32"
    and limit :: u32
    and ok :: "int \<Rightarrow> 'b \<Rightarrow> bool"
    and consume :: "int \<Rightarrow> 'b \<Rightarrow> 'b"
  assumes ok_below: "ok now b \<Longrightarrow> count b < limit"
    and consume_counts: "count (consume now b) = count b + 1"
begin

lemma consume_unat: "ok now b \<Longrightarrow> unat (count (consume now b)) = unat (count b) + 1"
  using ok_below [of now b] by (simp add: consume_counts unat_inc_less)

lemma granted_total:
  "unat (count (snd (guarded_run ok consume ts b)))
     = unat (count b) + length (fst (guarded_run ok consume ts b))"
  by (induction ts arbitrary: b) (simp_all add: case_prod_beta consume_unat Let_def)

lemma run_within_limit:
  "unat (count b) \<le> unat limit \<Longrightarrow> unat (count (snd (guarded_run ok consume ts b))) \<le> unat limit"
proof (induction ts arbitrary: b)
  case Nil
  then show ?case by simp
next
  case (Cons t ts)
  then show ?case
    using ok_below [of t b] consume_unat [of t b]
    by (auto simp: case_prod_beta Let_def word_less_nat_alt)
qed

lemma granted_bounded:
  assumes "unat (count b) \<le> unat limit"
  shows "length (fst (guarded_run ok consume ts b)) \<le> unat limit - unat (count b)"
  using run_within_limit [OF assms, of ts] granted_total [of ts b] by linarith

lemma exhausted_refuses: "count b = limit \<Longrightarrow> \<not> ok now b"
  using ok_below [of now b] by auto

end

locale window_budget = counted_budget +
  fixes start :: "'b \<Rightarrow> int"
    and window :: int
  assumes first_opens: "count b = 0 \<Longrightarrow> start (consume now b) = now"
    and later_keeps: "count b \<noteq> 0 \<Longrightarrow> start (consume now b) = start b"
    and ok_within: "ok now b \<Longrightarrow> start b > 0 \<Longrightarrow> now - start b < window"
begin

lemma granted_in_window:
  assumes "start b > 0" and "count b \<noteq> 0"
  shows "\<forall>t\<in>set (fst (guarded_run ok consume ts b)). t - start b < window"
  using assms
proof (induction ts arbitrary: b)
  case Nil
  then show ?case by simp
next
  case (Cons t ts)
  show ?case
  proof (cases "ok t b")
    case True
    have "count (consume t b) \<noteq> 0"
      using consume_unat [OF True] by (metis Suc_eq_plus1 nat.distinct(1) unat_0)
    then show ?thesis
      using True Cons.IH [of "consume t b"] Cons.prems later_keeps [of b t] ok_within [OF True]
      by (auto simp: case_prod_beta Let_def)
  next
    case False
    then show ?thesis using Cons by simp
  qed
qed

lemma granted_after_first:
  assumes "ok t b" and "t > 0" and "count b = 0"
  shows "\<forall>s\<in>set (fst (guarded_run ok consume ts (consume t b))). s - t < window"
proof -
  have "count (consume t b) \<noteq> 0"
    using consume_unat [OF assms(1)] by (metis Suc_eq_plus1 nat.distinct(1) unat_0)
  then show ?thesis
    using granted_in_window [of "consume t b" ts] first_opens [OF assms(3), of t] assms(2) by simp
qed

lemma granted_near_first:
  assumes "count b = 0" and "\<forall>t\<in>set ts. 0 < t" and "0 < window"
  shows "\<forall>s\<in>set (fst (guarded_run ok consume ts b)).
           s - hd (fst (guarded_run ok consume ts b)) < window"
  using assms
proof (induction ts)
  case Nil
  then show ?case by simp
next
  case (Cons t ts)
  then show ?case
    using granted_after_first [of t b ts] by (cases "ok t b") (auto simp: case_prod_beta Let_def)
qed

end

lemmas budget_defs =
  request_ok_def status_ok_def sec_query_ok_def ack_ok_def freshen_ok_def chain_ok_def
  preconsume_request_def preconsume_status_def preconsume_sec_query_def preconsume_ack_def
  preconsume_freshen_def preconsume_chain_id_def reset_for_new_attempt_def Let_def

interpretation request_budget: window_budget bl_request_send_count "kp_request_limit p"
    "request_ok p" "preconsume_request p" bl_first_request_at_ms "uint (kp_request_window_ms p)"
  for p
  by unfold_locales (auto simp: budget_defs split: if_splits)

interpretation status_budget: window_budget bl_status_send_count "kp_readonly_limit p"
    "status_ok p" "preconsume_status p" bl_first_readonly_at_ms "uint (kp_readonly_window_ms p)"
  for p
  by unfold_locales (auto simp: budget_defs split: if_splits)

interpretation sec_query_budget: window_budget bl_sec_query_count "kp_readonly_limit p"
    "sec_query_ok p" "preconsume_sec_query p" bl_first_readonly_at_ms "uint (kp_readonly_window_ms p)"
  for p
  by unfold_locales (auto simp: budget_defs split: if_splits)

interpretation ack_budget: counted_budget bl_ack_send_count "kp_ack_limit p" "ack_ok p" "preconsume_ack p"
  for p
  by unfold_locales (auto simp: budget_defs split: if_splits)

interpretation chain_budget: counted_budget bl_chain_request_id_count "kp_chain_ids p"
    "chain_ok p" "preconsume_chain_id p"
  for p
  by unfold_locales (auto simp: budget_defs split: if_splits)

interpretation freshen_budget: counted_budget bl_expiry_freshen_count 1
    "\<lambda>_. freshen_ok" "\<lambda>_. preconsume_freshen"
  by unfold_locales (auto simp: budget_defs split: if_splits)

text \<open>
  However often and whenever the guarded Request budget of a fresh attempt is tried, at
  most \<open>request_limit\<close> Requests are granted, and every grant falls inside
  \<open>request_window_ms\<close> counted from the first one.
\<close>

theorem request_budget_bounds:
  assumes "bl_request_send_count b = 0" and "\<forall>t\<in>set ts. 0 < t" and "0 < kp_request_window_ms p"
    and "granted = fst (guarded_run (request_ok p) (preconsume_request p) ts b)"
  shows "length granted \<le> unat (kp_request_limit p)
     \<and> (\<forall>s\<in>set granted. s - hd granted < uint (kp_request_window_ms p))"
  using request_budget.granted_bounded [of b p ts] request_budget.granted_near_first [of b ts p] assms
  by (simp add: unat_eq_0 word_less_def)

theorem request_budget_bounds_witness:
  "length (fst (guarded_run (request_ok kl1_default) (preconsume_request kl1_default)
       [1000, 2000, 130000] empty_ledger)) \<le> 8"
  using request_budget_bounds [of empty_ledger "[1000, 2000, 130000]" kl1_default, OF _ _ _ refl]
  by (simp add: empty_ledger_def kl1_default_def)

text \<open>
  The acknowledgement, freshen, chain, status and SEC-query budgets are counted the same
  way: guarded consumption from a fresh ledger never passes the configured limits.
\<close>

theorem other_budgets_bounded:
  "length (fst (guarded_run (ack_ok p) (preconsume_ack p) ts empty_ledger)) \<le> unat (kp_ack_limit p)
   \<and> length (fst (guarded_run (\<lambda>_. freshen_ok) (\<lambda>_. preconsume_freshen) ts empty_ledger)) \<le> 1
   \<and> length (fst (guarded_run (chain_ok p) (preconsume_chain_id p) ts empty_ledger))
       \<le> unat (kp_chain_ids p)
   \<and> length (fst (guarded_run (status_ok p) (preconsume_status p) ts empty_ledger))
       \<le> unat (kp_readonly_limit p)
   \<and> length (fst (guarded_run (sec_query_ok p) (preconsume_sec_query p) ts empty_ledger))
       \<le> unat (kp_readonly_limit p)"
  using ack_budget.granted_bounded [of empty_ledger p ts]
    freshen_budget.granted_bounded [of empty_ledger ts]
    chain_budget.granted_bounded [of empty_ledger p ts]
    status_budget.granted_bounded [of empty_ledger p ts]
    sec_query_budget.granted_bounded [of empty_ledger p ts]
  by (simp add: empty_ledger_def)

text \<open>
  A ledger whose lease deadline is unset (a legacy attempt with lease 0) takes the time of
  its first acknowledgement as the deadline, so a second acknowledgement is refused at any
  later time, whatever the acknowledgement limit is.
\<close>

theorem ack_without_lease_is_single:
  assumes "bl_ack_safe_deadline_at_ms b = 0" and "0 < now" and "now \<le> t"
  shows "\<not> ack_ok p t (preconsume_ack p now b)"
  using assms by (simp add: budget_defs)

theorem ack_without_lease_is_single_witness:
  "ack_ok kl1_default 5000 empty_ledger
   \<and> \<not> ack_ok kl1_default 5000 (preconsume_ack kl1_default 5000 empty_ledger)"
  using ack_without_lease_is_single [of empty_ledger 5000 5000 kl1_default]
  by (simp add: empty_ledger_def kl1_default_def ack_ok_def)

text \<open>
  The read-only window is shared: the first SEC query reopens it for status requests, even
  when their own window had already passed.
\<close>

theorem sec_query_reopens_status_window:
  assumes "bl_sec_query_count b = 0" and "bl_status_send_count b < kp_readonly_limit p"
    and "t - now < uint (kp_readonly_window_ms p)"
  shows "status_ok p t (preconsume_sec_query p now b)"
  using assms by (auto simp: budget_defs)

theorem sec_query_reopens_status_window_witness:
  "\<not> status_ok kl1_default 400000 (preconsume_status kl1_default 1000 empty_ledger)
   \<and> status_ok kl1_default 400000
        (preconsume_sec_query kl1_default 390000 (preconsume_status kl1_default 1000 empty_ledger))"
proof
  show "\<not> status_ok kl1_default 400000 (preconsume_status kl1_default 1000 empty_ledger)"
    by (simp add: budget_defs kl1_default_def empty_ledger_def)
  show "status_ok kl1_default 400000
      (preconsume_sec_query kl1_default 390000 (preconsume_status kl1_default 1000 empty_ledger))"
    by (rule sec_query_reopens_status_window)
      (simp_all add: budget_defs kl1_default_def empty_ledger_def)
qed

section \<open>The decision table is safe\<close>

lemma decide_cases [consumes 1]:
  assumes "keyprov_lifecycle_decide i = a"
  shows "a \<noteq> ALateResponse \<Longrightarrow> li_attempt_valid i \<and> li_binding_match i \<and> \<not> li_terminalized i"
    and "a \<notin> {ALateResponse, AConflict806095} \<Longrightarrow> \<not> li_idempotency_conflict i"
    and "a \<notin> {ALateResponse, AConflict806095, ATimeUntrusted} \<Longrightarrow>
           keyprov_clock_healthy (li_clock i) \<and> cs_trusted (li_clock i)"
    and "a \<notin> {ALateResponse, AConflict806095, ATimeUntrusted, AReadonly, AContractUnknown} \<Longrightarrow>
           \<not> li_sec_contract_unknown i \<and> li_contract_ready i"
  using assms by (auto simp: keyprov_lifecycle_decide_def Let_def split: if_splits)

lemma decide_needs_budget:
  assumes "keyprov_lifecycle_decide i = a"
  shows "a \<in> {ASendRequest, AFreshenSameId, ABoundedRetry} \<Longrightarrow> li_request_budget_ok i"
    and "a = AQueryStatusOrSec \<Longrightarrow> li_status_budget_ok i \<and> li_sec_query_budget_ok i"
    and "a \<in> {ASupersedeCas, ARestoreSuccessor} \<Longrightarrow> li_chain_ok i"
    and "a = ARestoreOriginalAck \<Longrightarrow>
           li_sec_committed i \<and> li_cloud_status i = kKeyProvStatusAckPending \<and> li_ack_budget_ok i
           \<and> utc_upper (li_clock i) < li_ack_safe_deadline_ms i"
    and "a = ASendRequest \<Longrightarrow> \<not> li_inflight i \<and> \<not> li_reconciliation_pending i"
    and "a \<noteq> ASendOriginalAck"
  using assms by (auto simp: keyprov_lifecycle_decide_def Let_def split: if_splits)

text \<open>
  C19. The table answers IMPORT only for a live, bound, non-terminalised attempt without an
  idempotency conflict, on a healthy and trusted clock, with a ready contract and a known SEC
  state, and for a present, fresh and binding-checked payload that was not imported before,
  is not in flight, and whose lease still has \<open>import_min_ms\<close> from the upper bound of UTC.
\<close>

theorem decide_import_safe:
  assumes "keyprov_lifecycle_decide i = AImport"
  shows "li_attempt_valid i \<and> li_binding_match i \<and> \<not> li_terminalized i
     \<and> \<not> li_idempotency_conflict i
     \<and> keyprov_clock_healthy (li_clock i) \<and> cs_trusted (li_clock i)
     \<and> li_contract_ready i \<and> \<not> li_sec_contract_unknown i \<and> \<not> li_sec_unknown_or_error i
     \<and> li_payload_present i \<and> li_payload_fresh i \<and> li_envelope_fresh i
     \<and> li_response_binding_valid i \<and> li_sec_capability_epoch_known i
     \<and> \<not> li_import_already i \<and> \<not> li_inflight i
     \<and> utc_upper (li_clock i) + uint (kp_import_min_ms (li_p i)) \<le> li_lease_expires_at_ms i"
  using assms decide_cases [OF assms]
  by (auto simp: keyprov_lifecycle_decide_def Let_def keyprov_lease_acceptable_def split: if_splits)


definition importable_input :: lifecycle_input where
  "importable_input =
     lifecycle_input_default\<lparr>li_attempt_valid := True,
       li_clock := clock_default\<lparr>cs_utc_now_ms := 1000000, cs_trusted := True\<rparr>,
       li_contract_ready := True, li_payload_present := True, li_response_binding_valid := True,
       li_sec_capability_epoch_known := True, li_lease_expires_at_ms := 1015000\<rparr>"

lemmas importable_simps =
  importable_input_def lifecycle_input_default_def clock_default_def li_p_def kl1_default_def
  utc_upper_def keyprov_clock_healthy_def keyprov_lease_acceptable_def keyprov_lease_expired_def
  expired_or_too_short_def releasable_unspecified_def no_cloud_error_def

lemma decide_importable: "keyprov_lifecycle_decide importable_input = AImport"
  by (simp add: keyprov_lifecycle_decide_def importable_simps)

theorem decide_import_safe_witness:
  "li_response_binding_valid importable_input
   \<and> utc_upper (li_clock importable_input) + uint (kp_import_min_ms (li_p importable_input))
       \<le> li_lease_expires_at_ms importable_input"
  using decide_import_safe [OF decide_importable] by blast

text \<open>
  A successor identifier is asked for (created or restored) only when no side effect of
  the old import is proven, the cloud released the old identifier (FAILED, or UNSPECIFIED with
  a non-retryable NOT\_FOUND) and the chain budget allows one more; a preexisting successor is
  restored, never replaced.
\<close>

theorem decide_successor_safe:
  assumes "keyprov_lifecycle_decide i = a" and "a = ASupersedeCas \<or> a = ARestoreSuccessor"
  shows "li_no_side_effect_proven i \<and> li_chain_ok i
     \<and> (li_cloud_status i = kKeyProvStatusFailed
        \<or> releasable_unspecified (li_cloud_status i) (li_cloud_error i))
     \<and> \<not> li_sec_unknown_or_error i
     \<and> \<not> (li_sec_committed i \<and> li_cloud_status i = kKeyProvStatusFailed)
     \<and> (a = ARestoreSuccessor \<longleftrightarrow> li_successor_preexisting i)"
  using assms by (auto simp: keyprov_lifecycle_decide_def Let_def split: if_splits)

definition releasable_input :: lifecycle_input where
  "releasable_input =
     importable_input\<lparr>li_payload_present := False, li_no_side_effect_proven := True,
       li_cloud_status := kKeyProvStatusFailed, li_successor_preexisting := True\<rparr>"

lemma decide_releasable: "keyprov_lifecycle_decide releasable_input = ARestoreSuccessor"
  by (simp add: keyprov_lifecycle_decide_def releasable_input_def importable_simps)

theorem decide_successor_safe_witness:
  "li_no_side_effect_proven releasable_input \<and> li_chain_ok releasable_input"
  using decide_successor_safe [OF decide_releasable] by simp

text \<open>
  With every budget spent the table never answers an action that puts another message or
  query on the wire: no Request, freshen, bounded retry, status or SEC query, no original ACK
  and no new identifier.
\<close>

theorem decide_exhausted_is_quiet:
  assumes "\<not> li_request_budget_ok i" and "\<not> li_status_budget_ok i"
    and "\<not> li_sec_query_budget_ok i" and "\<not> li_ack_budget_ok i" and "\<not> li_chain_ok i"
  shows "keyprov_lifecycle_decide i \<notin>
     {ASendRequest, AFreshenSameId, ABoundedRetry, AQueryStatusOrSec, ASendOriginalAck,
      ARestoreOriginalAck, ASupersedeCas, ARestoreSuccessor}"
  using assms decide_needs_budget [OF refl, of i] by auto

theorem decide_exhausted_is_quiet_witness:
  "keyprov_lifecycle_decide (releasable_input\<lparr>li_request_budget_ok := False,
     li_status_budget_ok := False, li_sec_query_budget_ok := False, li_ack_budget_ok := False,
     li_chain_ok := False\<rparr>) \<noteq> ARestoreSuccessor"
  using decide_exhausted_is_quiet
      [of "releasable_input\<lparr>li_request_budget_ok := False, li_status_budget_ok := False,
         li_sec_query_budget_ok := False, li_ack_budget_ok := False, li_chain_ok := False\<rparr>"]
  by simp

text \<open>
  An original acknowledgement is restored only for a committed import whose provisioning
  the cloud holds in ACK\_PENDING, with ACK budget left and strictly before the lease deadline;
  a Request goes out only with Request budget, nothing in flight and nothing to reconcile.
\<close>

theorem decide_sends_within_budget:
  "(keyprov_lifecycle_decide i = ARestoreOriginalAck \<longrightarrow>
      li_sec_committed i \<and> li_cloud_status i = kKeyProvStatusAckPending \<and> li_ack_budget_ok i
      \<and> utc_upper (li_clock i) < li_ack_safe_deadline_ms i)
   \<and> (keyprov_lifecycle_decide i \<in> {ASendRequest, AFreshenSameId, ABoundedRetry} \<longrightarrow>
      li_request_budget_ok i)
   \<and> (keyprov_lifecycle_decide i = ASendRequest \<longrightarrow>
      \<not> li_inflight i \<and> \<not> li_reconciliation_pending i)"
  using decide_needs_budget [OF refl, of i] by auto

theorem decide_sends_within_budget_witness:
  "li_request_budget_ok (importable_input\<lparr>li_payload_present := False\<rparr>)"
proof -
  have "keyprov_lifecycle_decide (importable_input\<lparr>li_payload_present := False\<rparr>) = ASendRequest"
    by (simp add: keyprov_lifecycle_decide_def importable_simps)
  then show ?thesis
    using decide_sends_within_budget [of "importable_input\<lparr>li_payload_present := False\<rparr>"] by simp
qed

end
