(* ===== verification/SecEvidence.thy ===== *)
theory SecEvidence
  imports KeyprovAttempt
begin

text \<open>
  The narrow interface to the security daemon: its result types as the program reads them
  (src/include/sec\_business\_key\_facade.h), the classification of an import query into
  evidence (src/src/sec\_business\_key\_adapter.cpp) and the fail-closed provisioning
  readiness (src/src/keyprov\_readiness.cpp). The daemon itself is a parameter of the
  coordinator's model; its error codes are the ones the program tells apart and a rest.
\<close>

section \<open>Types of the security interface\<close>

datatype error_code =
    EcSuccess | EcNotInitialized | EcNotImplemented | EcAclDenied | EcBusinessKeyNotReady
  | EcBusinessKeyUnsupported | EcBusinessKeyImportUnknown | EcWrappedKeyInvalid
  | EcBusinessKeyConflict | EcBusinessKeyPartialRollback | EcOther nat

datatype import_state =
    ImpRequested | ImpStaged | ImpCommitted | ImpFailed | ImpUnknown | ImpNotFound
  | ImpUndeclared nat

text \<open>\<open>tbox::sec::ImportItemResult\<close> and \<open>tbox::sec::ImportResult\<close>.\<close>

record sec_import_item =
  ii_purpose :: string
  ii_key_id :: string
  ii_business_key_version :: u64
  ii_state :: business_key_state
  ii_envelope_format :: int
  ii_envelope_digest :: bytes
  ii_key_check_value :: bytes
  ii_key_check_value_present :: bool
  ii_proof_algorithm :: string
  ii_import_proof :: bytes
  ii_recipient_certificate_digest :: bytes

record import_result =
  ir_request_id :: string
  ir_business_domain :: string
  ir_state :: import_state
  ir_items :: "sec_import_item list"

definition no_import_result :: import_result where
  "no_import_result = \<lparr>ir_request_id = [], ir_business_domain = [], ir_state = ImpUnknown,
     ir_items = []\<rparr>"

record sec_capability =
  cap_capability_contract_version :: u32
  cap_envelope_v1_import_ready :: bool
  cap_atomic_dual_purpose_commit_ready :: bool
  cap_import_proof_sign_ready :: bool
  cap_secure_journal_replay_ready :: bool
  cap_import_result_not_found_v1 :: bool

text \<open>\<open>tbox::sec::KeyprovContractSnapshot\<close>, the fields the program reads.\<close>

record contract_snapshot =
  ks_supports_lease_admission :: bool
  ks_result_contract_version :: u32
  ks_query_semantics_version :: u32
  ks_kl1_profile_version :: u32
  ks_capability_epoch :: u64

section \<open>Evidence\<close>

datatype evidence_kind =
    EvCommitted | EvFailed | EvNotFound | EvOutcomeUnknown | EvQueryError | EvContractUnknown

text \<open>The persisted number of the enum, and its bounds-checked inverse.\<close>

definition evidence_code :: "evidence_kind \<Rightarrow> int" where
  "evidence_code k =
     (case k of EvCommitted \<Rightarrow> 0 | EvFailed \<Rightarrow> 1 | EvNotFound \<Rightarrow> 2 | EvOutcomeUnknown \<Rightarrow> 3
      | EvQueryError \<Rightarrow> 4 | EvContractUnknown \<Rightarrow> 5)"

definition evidence_of_code :: "int \<Rightarrow> evidence_kind" where
  "evidence_of_code n =
     (if n = 0 then EvCommitted else if n = 1 then EvFailed else if n = 2 then EvNotFound
      else if n = 3 then EvOutcomeUnknown else if n = 4 then EvQueryError
      else EvContractUnknown)"

lemma evidence_code_roundtrip [simp]: "evidence_of_code (evidence_code k) = k"
  by (cases k) (simp_all add: evidence_code_def evidence_of_code_def)

abbreviation (input) "kSecCr021NotFoundContractVersion \<equiv> (2::u32)"

record sec_evidence =
  ev_kind :: evidence_kind
  ev_contract_version :: u32
  ev_raw_import_state :: int
  ev_no_residue_proven :: bool

definition raw_state_code :: "import_result \<Rightarrow> int" where
  "raw_state_code r =
     (case ir_state r of
        ImpRequested \<Rightarrow> 0 | ImpStaged \<Rightarrow> 1 | ImpCommitted \<Rightarrow> 2 | ImpFailed \<Rightarrow> 3
      | ImpUnknown \<Rightarrow> 4 | ImpNotFound \<Rightarrow> 5 | ImpUndeclared _ \<Rightarrow> - 1)"

definition sec_classify_import_result :: "error_code \<Rightarrow> import_result \<Rightarrow> u32 \<Rightarrow> sec_evidence" where
  "sec_classify_import_result ec result version =
     (let ev = \<lparr>ev_kind = EvContractUnknown, ev_contract_version = 0,
                ev_raw_import_state = raw_state_code result, ev_no_residue_proven = False\<rparr>
      in if ec \<noteq> EcSuccess then ev\<lparr>ev_kind := EvQueryError, ev_contract_version := 0\<rparr>
         else (let ev1 = ev\<lparr>ev_contract_version := version\<rparr>
               in case ir_state result of
                    ImpCommitted \<Rightarrow> ev1\<lparr>ev_kind := EvCommitted\<rparr>
                  | ImpFailed \<Rightarrow> ev1\<lparr>ev_kind := EvFailed\<rparr>
                  | ImpNotFound \<Rightarrow>
                      ev1\<lparr>ev_kind := EvNotFound,
                          ev_no_residue_proven := (version \<ge> kSecCr021NotFoundContractVersion)\<rparr>
                  | ImpRequested \<Rightarrow> ev1\<lparr>ev_kind := EvOutcomeUnknown\<rparr>
                  | ImpStaged \<Rightarrow> ev1\<lparr>ev_kind := EvOutcomeUnknown\<rparr>
                  | ImpUnknown \<Rightarrow> ev1\<lparr>ev_kind := EvOutcomeUnknown\<rparr>
                  | ImpUndeclared _ \<Rightarrow> ev1\<lparr>ev_kind := EvContractUnknown\<rparr>))"

definition sec_import_evidence_kind_to_string :: "evidence_kind \<Rightarrow> string" where
  "sec_import_evidence_kind_to_string k =
     (case k of EvCommitted \<Rightarrow> ''COMMITTED'' | EvFailed \<Rightarrow> ''FAILED'' | EvNotFound \<Rightarrow> ''NOT_FOUND''
      | EvOutcomeUnknown \<Rightarrow> ''OUTCOME_UNKNOWN'' | EvQueryError \<Rightarrow> ''QUERY_ERROR''
      | EvContractUnknown \<Rightarrow> ''CONTRACT_UNKNOWN'')"

text \<open>
  The classification is fail-closed: NOT\_FOUND needs a successful query that answers the
  typed NOT\_FOUND, the absence of residue additionally the CR-021 contract version, and every
  failed query, unknown, staged or undeclared state yields evidence that never releases.
\<close>

theorem classify_fail_closed:
  "(ev_kind (sec_classify_import_result ec r v) = EvNotFound \<longleftrightarrow>
      ec = EcSuccess \<and> ir_state r = ImpNotFound)
   \<and> (ev_kind (sec_classify_import_result ec r v) = EvCommitted \<longleftrightarrow>
      ec = EcSuccess \<and> ir_state r = ImpCommitted)
   \<and> (ev_no_residue_proven (sec_classify_import_result ec r v) \<longleftrightarrow>
      ec = EcSuccess \<and> ir_state r = ImpNotFound \<and> v \<ge> kSecCr021NotFoundContractVersion)
   \<and> (ev_contract_version (sec_classify_import_result ec r v) = (if ec = EcSuccess then v else 0))"
  by (cases "ir_state r") (simp_all add: sec_classify_import_result_def Let_def)

section \<open>Provisioning readiness\<close>

record keyprov_readiness =
  kr_release_matched :: bool
  kr_descriptor_set_hash_matched :: bool
  kr_registry_matched :: bool
  kr_proto_runtime_ready :: bool
  kr_cross_language_golden_ready :: bool
  kr_envelope_import_ready :: bool
  kr_atomic_commit_ready :: bool
  kr_proof_sign_ready :: bool
  kr_journal_replay_ready :: bool

definition readiness_all :: "keyprov_readiness \<Rightarrow> bool" where
  "readiness_all r \<longleftrightarrow>
     kr_release_matched r \<and> kr_descriptor_set_hash_matched r \<and> kr_registry_matched r
     \<and> kr_proto_runtime_ready r \<and> kr_cross_language_golden_ready r
     \<and> kr_envelope_import_ready r \<and> kr_atomic_commit_ready r \<and> kr_proof_sign_ready r
     \<and> kr_journal_replay_ready r"

definition first_missing_reason :: "keyprov_readiness \<Rightarrow> string" where
  "first_missing_reason r =
     (if \<not> kr_release_matched r then ''par_proto_release_mismatch''
      else if \<not> kr_descriptor_set_hash_matched r then ''descriptor_set_hash_missing''
      else if \<not> kr_registry_matched r then ''registry_tuple_mismatch''
      else if \<not> kr_proto_runtime_ready r then ''deterministic_proto_runtime_not_ready''
      else if \<not> kr_cross_language_golden_ready r then ''cross_language_golden_not_ready''
      else if \<not> kr_envelope_import_ready r then ''sec_envelope_v1_import_not_ready''
      else if \<not> kr_atomic_commit_ready r then ''sec_atomic_dual_commit_not_ready''
      else if \<not> kr_proof_sign_ready r then ''sec_import_proof_sign_not_ready''
      else if \<not> kr_journal_replay_ready r then ''sec_journal_replay_not_ready''
      else [])"

definition is_sha256_hex :: "string \<Rightarrow> bool" where
  "is_sha256_hex s \<longleftrightarrow> length s = 64 \<and> list_all isxdigit s"

text \<open>The release lock is generated; the protobuf self test is a parameter.\<close>

definition keyprov_build_lock_readiness :: "release_lock \<Rightarrow> bool \<Rightarrow> keyprov_readiness" where
  "keyprov_build_lock_readiness rl runtime_check =
     \<lparr>kr_release_matched = (rl_par_proto_release rl = rl_required_par_proto_release rl),
      kr_descriptor_set_hash_matched = is_sha256_hex (rl_descriptor_set_hash rl),
      kr_registry_matched =
        (rl_package rl = kKeyprovPackage \<and> rl_service rl = kKeyprovService
         \<and> rl_protocol_version rl = kKeyprovProtocolVersion \<and> rl_canonical_registry rl \<noteq> []),
      kr_proto_runtime_ready = runtime_check,
      kr_cross_language_golden_ready =
        (rl_cross_language_golden_ready rl \<and> is_sha256_hex (rl_golden_vector_set_hash rl)),
      kr_envelope_import_ready = False, kr_atomic_commit_ready = False,
      kr_proof_sign_ready = False, kr_journal_replay_ready = False\<rparr>"

definition keyprov_apply_sec_capability ::
  "sec_consts \<Rightarrow> sec_capability \<Rightarrow> keyprov_readiness \<Rightarrow> keyprov_readiness" where
  "keyprov_apply_sec_capability sc cap io =
     (if cap_capability_contract_version cap \<noteq> sc_capability_contract_version sc
      then io\<lparr>kr_envelope_import_ready := False, kr_atomic_commit_ready := False,
              kr_proof_sign_ready := False, kr_journal_replay_ready := False\<rparr>
      else io\<lparr>kr_envelope_import_ready := cap_envelope_v1_import_ready cap,
              kr_atomic_commit_ready := cap_atomic_dual_purpose_commit_ready cap,
              kr_proof_sign_ready := cap_import_proof_sign_ready cap,
              kr_journal_replay_ready := cap_secure_journal_replay_ready cap\<rparr>)"

text \<open>
  Provisioning is ready exactly when no reason is missing, and after applying a capability
  readiness needs the exact contract version, all four SEC facts and an intact release lock:
  a build lock alone is never ready.
\<close>

theorem readiness_fail_closed:
  "(readiness_all r \<longleftrightarrow> first_missing_reason r = [])
   \<and> \<not> readiness_all (keyprov_build_lock_readiness rl chk)
   \<and> (readiness_all (keyprov_apply_sec_capability sc cap (keyprov_build_lock_readiness rl chk)) \<longleftrightarrow>
        cap_capability_contract_version cap = sc_capability_contract_version sc
        \<and> cap_envelope_v1_import_ready cap \<and> cap_atomic_dual_purpose_commit_ready cap
        \<and> cap_import_proof_sign_ready cap \<and> cap_secure_journal_replay_ready cap
        \<and> rl_par_proto_release rl = rl_required_par_proto_release rl
        \<and> is_sha256_hex (rl_descriptor_set_hash rl)
        \<and> rl_package rl = kKeyprovPackage \<and> rl_service rl = kKeyprovService
        \<and> rl_protocol_version rl = kKeyprovProtocolVersion \<and> rl_canonical_registry rl \<noteq> []
        \<and> chk \<and> rl_cross_language_golden_ready rl \<and> is_sha256_hex (rl_golden_vector_set_hash rl))"
proof (intro conjI)
  show "readiness_all r \<longleftrightarrow> first_missing_reason r = []"
    by (simp add: readiness_all_def first_missing_reason_def)
  show "\<not> readiness_all (keyprov_build_lock_readiness rl chk)"
    by (simp add: readiness_all_def keyprov_build_lock_readiness_def)
qed (simp add: readiness_all_def keyprov_build_lock_readiness_def
      keyprov_apply_sec_capability_def conj_ac)

end
