(* ===== verification/KeyprovStore.thy ===== *)
theory KeyprovStore
  imports KeyprovLifecycle SecEvidence "HOL-Library.Monad_Syntax"
begin

text \<open>
  Persistence of the attempt (src/include/v2c\_key\_provisioning\_store.h,
  src/src/v2c\_key\_provisioning\_store.cpp): the aggregate record, its JSON form, the loading
  with the migrations v3 to v4 and v4 to v5, the older multi-key format, saving and clearing.

  The key-value store and the JSON library are not under src/: their operations are the
  fields of \<open>kv_ops\<close> and \<open>json_lib\<close>, with what the code relies on in \<open>kv_spec\<close> and
  \<open>json_spec\<close>. A JSON object is the association list of a \<open>std::map\<close>, sorted by key;
  a floating-point number is its bit pattern.
  An exception of the JSON library or of \<open>std::stoull\<close> is \<open>None\<close>.
\<close>

section \<open>JSON values\<close>

datatype json =
    JNull | JBool bool | JNum int | JFloat u64 | JStr string | JArr "json list"
  | JObj "(string \<times> json) list"

record json_lib =
  js_parse :: "string \<Rightarrow> json option"
  js_dump :: "json \<Rightarrow> string"
  js_u32 :: "json \<Rightarrow> u32 option"
  js_u64 :: "json \<Rightarrow> u64 option"
  js_int :: "json \<Rightarrow> int option"
  js_i64 :: "json \<Rightarrow> int option"
  js_bool :: "json \<Rightarrow> bool option"
  js_str :: "json \<Rightarrow> string option"

definition int64_range :: "int \<Rightarrow> bool" where
  "int64_range x \<longleftrightarrow> - (2 ^ 63) \<le> x \<and> x < 2 ^ 63"

text \<open>\<open>get<T>\<close> reads back a value that fits the type.\<close>

definition json_spec :: "json_lib \<Rightarrow> bool" where
  "json_spec jl \<longleftrightarrow>
     (\<forall>w. js_u32 jl (JNum (uint w)) = Some w) \<and> (\<forall>w. js_u64 jl (JNum (uint w)) = Some w)
     \<and> (\<forall>i. int32_range i \<longrightarrow> js_int jl (JNum i) = Some i)
     \<and> (\<forall>i. int64_range i \<longrightarrow> js_i64 jl (JNum i) = Some i)
     \<and> (\<forall>b. js_bool jl (JBool b) = Some b) \<and> (\<forall>s. js_str jl (JStr s) = Some s)"

text \<open>\<open>j[key] = v\<close>, \<open>contains\<close> and \<open>value(key, default)\<close> (which throws on a non-object).\<close>

fun jset :: "string \<Rightarrow> json \<Rightarrow> (string \<times> json) list \<Rightarrow> (string \<times> json) list" where
  "jset k v [] = [(k, v)]"
| "jset k v ((k', v') # kvs) =
     (if k = k' then (k, v) # kvs
      else if k < k' then (k, v) # (k', v') # kvs
      else (k', v') # jset k v kvs)"

definition jobj :: "(string \<times> json) list \<Rightarrow> json" where
  "jobj kvs = JObj (foldl (\<lambda>acc kv. jset (fst kv) (snd kv) acc) [] kvs)"

definition jget :: "json \<Rightarrow> string \<Rightarrow> json option" where
  "jget j k = (case j of JObj kvs \<Rightarrow> map_of kvs k | _ \<Rightarrow> None)"

definition jvalue :: "json \<Rightarrow> string \<Rightarrow> (json \<Rightarrow> 'a option) \<Rightarrow> 'a \<Rightarrow> 'a option" where
  "jvalue j k conv dflt =
     (case j of
        JObj kvs \<Rightarrow> (case map_of kvs k of None \<Rightarrow> Some dflt | Some v \<Rightarrow> conv v)
      | _ \<Rightarrow> None)"

text \<open>\<open>size()\<close> of a value: 0 for null, the element count of a container, else 1.\<close>

definition jsize :: "json \<Rightarrow> nat" where
  "jsize j = (case j of JNull \<Rightarrow> 0 | JArr xs \<Rightarrow> length xs | JObj kvs \<Rightarrow> length kvs | _ \<Rightarrow> 1)"

fun sequence_opt :: "('a \<Rightarrow> 'b option) \<Rightarrow> 'a list \<Rightarrow> 'b list option" where
  "sequence_opt f [] = Some []"
| "sequence_opt f (x # xs) =
     (case f x of None \<Rightarrow> None
      | Some y \<Rightarrow> (case sequence_opt f xs of None \<Rightarrow> None | Some ys \<Rightarrow> Some (y # ys)))"

section \<open>The key-value store\<close>

record 's kv_ops =
  kv_ready :: "'s \<Rightarrow> bool"
  kv_has :: "'s \<Rightarrow> string \<Rightarrow> bool"
  kv_load_or :: "'s \<Rightarrow> string \<Rightarrow> string \<Rightarrow> string"
  kv_save :: "'s \<Rightarrow> string \<Rightarrow> string \<Rightarrow> 's"
  kv_flush :: "'s \<Rightarrow> 's"
  kv_remove :: "'s \<Rightarrow> string \<Rightarrow> 's"

definition kv_spec :: "'s kv_ops \<Rightarrow> bool" where
  "kv_spec kv \<longleftrightarrow>
     (\<forall>s k v d. kv_ready kv s \<longrightarrow>
        kv_ready kv (kv_save kv s k v) \<and> kv_ready kv (kv_flush kv s) \<and> kv_ready kv (kv_remove kv s k)
        \<and> kv_has kv (kv_save kv s k v) k \<and> kv_load_or kv (kv_save kv s k v) k d = v
        \<and> \<not> kv_has kv (kv_remove kv s k) k
        \<and> (\<forall>k'. kv_has kv (kv_flush kv s) k' = kv_has kv s k'
              \<and> kv_load_or kv (kv_flush kv s) k' d = kv_load_or kv s k' d
              \<and> (k' \<noteq> k \<longrightarrow> kv_has kv (kv_remove kv s k) k' = kv_has kv s k'
                   \<and> kv_has kv (kv_save kv s k v) k' = kv_has kv s k')))"

section \<open>The aggregate record\<close>

abbreviation (input) "kV2cStoreSchemaVersion \<equiv> (5::u32)"

record keyprov_record =
  r_valid :: bool
  r_schema_version :: u32
  r_fingerprint_version :: u32
  r_attempt_fingerprint :: string
  r_request_id :: string
  r_idempotency_digest :: string
  r_state :: string
  r_submission :: string
  r_snapshot :: attempt_snapshot
  r_attempt_count :: u32
  r_deadline_ms :: int
  r_last_error :: string
  r_updated_at_ms :: int
  r_cloud_session_generation :: u64
  r_supersedes_request_id :: string
  r_superseded_by_request_id :: string
  r_blocked_reason :: string
  r_store_generation :: u64
  r_terminalized_request_ids :: "string list"
  r_sec_import_result_contract_version :: u32
  r_sec_import_evidence_kind :: int
  r_sec_evidence_observed_store_generation :: u64
  r_sec_evidence_observed_at_ms :: int
  r_import_invocation :: bool
  r_import_invocation_resolution :: int
  r_sec_not_found_count :: u32
  r_sec_not_found_first_observed_ms :: int
  r_sec_not_found_last_observed_ms :: int
  r_sec_capability_epoch :: u64
  r_sec_contract_version :: u32
  r_recovery_phase :: string
  r_successor_request_id :: string
  r_successor_request_id_digest :: string
  r_lifecycle_profile :: string
  r_budget :: budget_ledger
  r_lease_expires_at_ms :: int
  r_sec_result_contract_version :: u32
  r_sec_query_semantics_version :: u32
  r_sec_supports_lease_admission :: bool
  r_sec_kl1_profile_version :: u32
  r_legacy_snapshot_unknown :: bool
  r_purposes :: "string list"
  r_business_key_versions :: "(string \<times> u64) list"

definition empty_record :: keyprov_record where
  "empty_record = \<lparr>r_valid = False, r_schema_version = 0, r_fingerprint_version = 0,
     r_attempt_fingerprint = [], r_request_id = [], r_idempotency_digest = [], r_state = [],
     r_submission = [], r_snapshot = empty_snapshot, r_attempt_count = 0, r_deadline_ms = 0,
     r_last_error = [], r_updated_at_ms = 0, r_cloud_session_generation = 0,
     r_supersedes_request_id = [], r_superseded_by_request_id = [], r_blocked_reason = [],
     r_store_generation = 0, r_terminalized_request_ids = [],
     r_sec_import_result_contract_version = 0, r_sec_import_evidence_kind = 5,
     r_sec_evidence_observed_store_generation = 0, r_sec_evidence_observed_at_ms = 0,
     r_import_invocation = False, r_import_invocation_resolution = 0, r_sec_not_found_count = 0,
     r_sec_not_found_first_observed_ms = - 1, r_sec_not_found_last_observed_ms = - 1,
     r_sec_capability_epoch = 0, r_sec_contract_version = 0, r_recovery_phase = [],
     r_successor_request_id = [], r_successor_request_id_digest = [],
     r_lifecycle_profile = [], r_budget = empty_ledger, r_lease_expires_at_ms = 0,
     r_sec_result_contract_version = 0, r_sec_query_semantics_version = 0,
     r_sec_supports_lease_admission = False, r_sec_kl1_profile_version = 0,
     r_legacy_snapshot_unknown = False, r_purposes = [], r_business_key_versions = []\<rparr>"

section \<open>Writing\<close>

definition snapshot_to_json :: "attempt_snapshot \<Rightarrow> json" where
  "snapshot_to_json s = jobj
     [(''business_domain'', JStr (as_business_domain s)),
      (''purposes'', JArr (map JNum (as_purposes s))),
      (''current_versions'',
         JArr (map (\<lambda>kv. JArr [JNum (fst kv), JNum (uint (snd kv))]) (as_current_versions s))),
      (''device_identity_digest'', JStr (hex_encode (as_device_identity_digest s))),
      (''recipient_certificate_digest'', JStr (hex_encode (as_recipient_certificate_digest s))),
      (''certificate_ref_digest'', JStr (hex_encode (as_certificate_ref_digest s))),
      (''wrapping_suites'', JArr (map JNum (as_wrapping_suites s))),
      (''envelope_formats'', JArr (map JNum (as_envelope_formats s))),
      (''protocol_lock_digest'', JStr (hex_encode (as_protocol_lock_digest s)))]"

abbreviation (input) "ju32 (w::u32) \<equiv> JNum (uint w)"
abbreviation (input) "ju64 (w::u64) \<equiv> JNum (uint w)"

definition json_v2_fields :: "keyprov_record \<Rightarrow> (string \<times> json) list" where
  "json_v2_fields r =
     [(''schema_version'', ju32 (r_schema_version r)),
      (''fingerprint_version'', ju32 (r_fingerprint_version r)),
      (''attempt_fingerprint'', JStr (r_attempt_fingerprint r)),
      (''request_id'', JStr (r_request_id r)),
      (''idempotency_digest'', JStr (r_idempotency_digest r)),
      (''state'', JStr (r_state r)),
      (''submission'', JStr (r_submission r)),
      (''snapshot'', snapshot_to_json (r_snapshot r)),
      (''attempt_count'', ju32 (r_attempt_count r)),
      (''deadline_ms'', JNum (r_deadline_ms r)),
      (''last_error'', JStr (r_last_error r)),
      (''updated_at_ms'', JNum (r_updated_at_ms r)),
      (''cloud_session_generation'', ju64 (r_cloud_session_generation r)),
      (''supersedes_request_id'', JStr (r_supersedes_request_id r)),
      (''superseded_by_request_id'', JStr (r_superseded_by_request_id r)),
      (''blocked_reason'', JStr (r_blocked_reason r)),
      (''store_generation'', ju64 (r_store_generation r)),
      (''terminalized_request_ids'', JArr (map JStr (r_terminalized_request_ids r)))]"

definition json_v34_fields :: "keyprov_record \<Rightarrow> (string \<times> json) list" where
  "json_v34_fields r =
     [(''sec_import_result_contract_version'', ju32 (r_sec_import_result_contract_version r)),
      (''sec_import_evidence_kind'', JNum (r_sec_import_evidence_kind r)),
      (''sec_evidence_observed_store_generation'', ju64 (r_sec_evidence_observed_store_generation r)),
      (''sec_evidence_observed_at_ms'', JNum (r_sec_evidence_observed_at_ms r)),
      (''import_invocation'', JBool (r_import_invocation r)),
      (''import_invocation_resolution'', JNum (r_import_invocation_resolution r)),
      (''sec_not_found_count'', ju32 (r_sec_not_found_count r)),
      (''sec_not_found_first_observed_ms'', JNum (r_sec_not_found_first_observed_ms r)),
      (''sec_not_found_last_observed_ms'', JNum (r_sec_not_found_last_observed_ms r)),
      (''sec_capability_epoch'', ju64 (r_sec_capability_epoch r)),
      (''sec_contract_version'', ju32 (r_sec_contract_version r)),
      (''recovery_phase'', JStr (r_recovery_phase r)),
      (''successor_request_id'', JStr (r_successor_request_id r)),
      (''successor_request_id_digest'', JStr (r_successor_request_id_digest r))]"

definition json_v5_fields :: "keyprov_record \<Rightarrow> (string \<times> json) list" where
  "json_v5_fields r =
     (let b = r_budget r in
     [(''lifecycle_profile'', JStr (r_lifecycle_profile r)),
      (''request_send_count'', ju32 (bl_request_send_count b)),
      (''first_request_at_ms'', JNum (bl_first_request_at_ms b)),
      (''request_deadline_at_ms'', JNum (bl_request_deadline_at_ms b)),
      (''status_send_count'', ju32 (bl_status_send_count b)),
      (''first_readonly_at_ms'', JNum (bl_first_readonly_at_ms b)),
      (''readonly_deadline_at_ms'', JNum (bl_readonly_deadline_at_ms b)),
      (''sec_query_count'', ju32 (bl_sec_query_count b)),
      (''ack_send_count'', ju32 (bl_ack_send_count b)),
      (''ack_safe_deadline_at_ms'', JNum (bl_ack_safe_deadline_at_ms b)),
      (''lease_expires_at_ms'', JNum (r_lease_expires_at_ms r)),
      (''expiry_freshen_count'', ju32 (bl_expiry_freshen_count b)),
      (''budget_exhausted_reason'', JStr (bl_budget_exhausted_reason b)),
      (''chain_id'', JStr (bl_chain_id b)),
      (''chain_started_at_ms'', JNum (bl_chain_started_at_ms b)),
      (''chain_deadline_at_ms'', JNum (bl_chain_deadline_at_ms b)),
      (''chain_request_id_count'', ju32 (bl_chain_request_id_count b)),
      (''migration_token'', JStr (bl_migration_token b)),
      (''migration_consumed'', JBool (bl_migration_consumed b)),
      (''sec_result_contract_version'', ju32 (r_sec_result_contract_version r)),
      (''sec_query_semantics_version'', ju32 (r_sec_query_semantics_version r)),
      (''sec_supports_lease_admission'', JBool (r_sec_supports_lease_admission r)),
      (''sec_kl1_profile_version'', ju32 (r_sec_kl1_profile_version r))])"

definition record_to_json :: "keyprov_record \<Rightarrow> json" where
  "record_to_json r = jobj (json_v2_fields r @ json_v34_fields r @ json_v5_fields r)"

section \<open>Reading\<close>

text \<open>
  A range-for over a JSON value: the elements of an array, the values of an object, nothing
  for null, and the value itself for a scalar.
\<close>

definition jelems :: "json \<Rightarrow> json list" where
  "jelems j = (case j of JNull \<Rightarrow> [] | JArr xs \<Rightarrow> xs | JObj kvs \<Rightarrow> map snd kvs | _ \<Rightarrow> [j])"

definition jlist :: "json \<Rightarrow> string \<Rightarrow> json list option" where
  "jlist j k = map_option jelems (jvalue j k Some (JArr []))"

definition jints :: "json_lib \<Rightarrow> json \<Rightarrow> string \<Rightarrow> int list option" where
  "jints jl j k = jlist j k \<bind> sequence_opt (js_int jl)"

text \<open>An element of \<open>current_versions\<close>: skipped unless its size is 2; indexing a non-array throws.\<close>

definition version_of_json :: "json_lib \<Rightarrow> json \<Rightarrow> (int \<times> u64) list option" where
  "version_of_json jl a =
     (if jsize a = 2 then
        (case a of
           JArr xs \<Rightarrow> do { p \<leftarrow> js_int jl (xs ! 0); v \<leftarrow> js_u64 jl (xs ! 1); Some [(p, v)] }
         | _ \<Rightarrow> None)
      else Some [])"

definition snapshot_from_json :: "json_lib \<Rightarrow> json \<Rightarrow> attempt_snapshot option" where
  "snapshot_from_json jl j = do {
     bd \<leftarrow> jvalue j ''business_domain'' (js_str jl) [];
     ps \<leftarrow> jints jl j ''purposes'';
     va \<leftarrow> jlist j ''current_versions'';
     vs \<leftarrow> sequence_opt (version_of_json jl) va;
     did \<leftarrow> jvalue j ''device_identity_digest'' (js_str jl) [];
     rcd \<leftarrow> jvalue j ''recipient_certificate_digest'' (js_str jl) [];
     crd \<leftarrow> jvalue j ''certificate_ref_digest'' (js_str jl) [];
     ws \<leftarrow> jints jl j ''wrapping_suites'';
     ef \<leftarrow> jints jl j ''envelope_formats'';
     pld \<leftarrow> jvalue j ''protocol_lock_digest'' (js_str jl) [];
     Some \<lparr>as_business_domain = bd, as_purposes = ps, as_current_versions = concat vs,
           as_device_identity_digest = hex_decode did,
           as_recipient_certificate_digest = hex_decode rcd,
           as_certificate_ref_digest = hex_decode crd, as_wrapping_suites = ws,
           as_envelope_formats = ef, as_protocol_lock_digest = hex_decode pld\<rparr> }"

text \<open>\<open>load()\<close>, one group of fields at a time, each filling the record \<open>r\<close>.\<close>

definition load_v2_fields :: "json_lib \<Rightarrow> json \<Rightarrow> keyprov_record \<Rightarrow> keyprov_record option" where
  "load_v2_fields jl j r = do {
     sv \<leftarrow> jvalue j ''schema_version'' (js_u32 jl) 0;
     fv \<leftarrow> jvalue j ''fingerprint_version'' (js_u32 jl) 0;
     af \<leftarrow> jvalue j ''attempt_fingerprint'' (js_str jl) [];
     rid \<leftarrow> jvalue j ''request_id'' (js_str jl) [];
     idem \<leftarrow> jvalue j ''idempotency_digest'' (js_str jl) [];
     st \<leftarrow> jvalue j ''state'' (js_str jl) [];
     sub \<leftarrow> jvalue j ''submission'' (js_str jl) [];
     snap \<leftarrow> (case jget j ''snapshot'' of
               Some (JObj kvs) \<Rightarrow> snapshot_from_json jl (JObj kvs)
             | _ \<Rightarrow> Some (r_snapshot r));
     ac \<leftarrow> jvalue j ''attempt_count'' (js_u32 jl) 0;
     dl \<leftarrow> jvalue j ''deadline_ms'' (js_i64 jl) 0;
     le \<leftarrow> jvalue j ''last_error'' (js_str jl) [];
     ua \<leftarrow> jvalue j ''updated_at_ms'' (js_i64 jl) 0;
     cg \<leftarrow> jvalue j ''cloud_session_generation'' (js_u64 jl) 0;
     sup \<leftarrow> jvalue j ''supersedes_request_id'' (js_str jl) [];
     sby \<leftarrow> jvalue j ''superseded_by_request_id'' (js_str jl) [];
     br \<leftarrow> jvalue j ''blocked_reason'' (js_str jl) [];
     sg \<leftarrow> jvalue j ''store_generation'' (js_u64 jl) 0;
     ta \<leftarrow> jlist j ''terminalized_request_ids'';
     ts \<leftarrow> sequence_opt (js_str jl) ta;
     Some (r\<lparr>r_valid := True, r_schema_version := sv, r_fingerprint_version := fv,
        r_attempt_fingerprint := af, r_request_id := rid, r_idempotency_digest := idem,
        r_state := st, r_submission := sub, r_snapshot := snap, r_attempt_count := ac,
        r_deadline_ms := dl, r_last_error := le, r_updated_at_ms := ua,
        r_cloud_session_generation := cg, r_supersedes_request_id := sup,
        r_superseded_by_request_id := sby, r_blocked_reason := br, r_store_generation := sg,
        r_terminalized_request_ids := ts\<rparr>) }"

text \<open>An absent \<open>import_invocation\<close> means the import may have been called.\<close>

definition load_v3_fields :: "json_lib \<Rightarrow> json \<Rightarrow> keyprov_record \<Rightarrow> keyprov_record option" where
  "load_v3_fields jl j r = do {
     cv \<leftarrow> jvalue j ''sec_import_result_contract_version'' (js_u32 jl) 0;
     ek \<leftarrow> jvalue j ''sec_import_evidence_kind'' (js_int jl) (evidence_code EvContractUnknown);
     og \<leftarrow> jvalue j ''sec_evidence_observed_store_generation'' (js_u64 jl) 0;
     oa \<leftarrow> jvalue j ''sec_evidence_observed_at_ms'' (js_i64 jl) 0;
     inv \<leftarrow> (if jget j ''import_invocation'' \<noteq> None
            then jvalue j ''import_invocation'' (js_bool jl) False else Some True);
     Some (r\<lparr>r_sec_import_result_contract_version := cv,
        r_sec_import_evidence_kind :=
          (if ek \<ge> 0 \<and> ek \<le> 5 then ek else evidence_code EvContractUnknown),
        r_sec_evidence_observed_store_generation := og, r_sec_evidence_observed_at_ms := oa,
        r_import_invocation := inv\<rparr>) }"

definition migrated_resolution :: "int \<Rightarrow> bool \<Rightarrow> bool \<Rightarrow> int" where
  "migrated_resolution stored field_present invoked =
     (if stored \<ge> 0 \<and> stored \<le> 2 then stored
      else if field_present \<and> \<not> invoked then resolution_code NoSideEffectProven
      else resolution_code Unresolved)"

definition load_v4_fields :: "json_lib \<Rightarrow> json \<Rightarrow> keyprov_record \<Rightarrow> keyprov_record option" where
  "load_v4_fields jl j r = do {
     res \<leftarrow> jvalue j ''import_invocation_resolution'' (js_int jl) (- 1);
     nc \<leftarrow> jvalue j ''sec_not_found_count'' (js_u32 jl) 0;
     nf \<leftarrow> jvalue j ''sec_not_found_first_observed_ms'' (js_i64 jl) (- 1);
     nl \<leftarrow> jvalue j ''sec_not_found_last_observed_ms'' (js_i64 jl) (- 1);
     ce \<leftarrow> jvalue j ''sec_capability_epoch'' (js_u64 jl) 0;
     cv \<leftarrow> jvalue j ''sec_contract_version'' (js_u32 jl) 0;
     rp \<leftarrow> jvalue j ''recovery_phase'' (js_str jl) [];
     srid \<leftarrow> jvalue j ''successor_request_id'' (js_str jl) [];
     sdig \<leftarrow> jvalue j ''successor_request_id_digest'' (js_str jl) [];
     Some (r\<lparr>r_import_invocation_resolution :=
          migrated_resolution res (jget j ''import_invocation'' \<noteq> None) (r_import_invocation r),
        r_sec_not_found_count := nc, r_sec_not_found_first_observed_ms := nf,
        r_sec_not_found_last_observed_ms := nl, r_sec_capability_epoch := ce,
        r_sec_contract_version := cv, r_recovery_phase := rp,
        r_successor_request_id := srid, r_successor_request_id_digest := sdig\<rparr>) }"

definition reset_stabilisation_below_v4 :: "keyprov_record \<Rightarrow> keyprov_record" where
  "reset_stabilisation_below_v4 r =
     (if r_schema_version r < 4
      then r\<lparr>r_sec_not_found_count := 0, r_sec_not_found_first_observed_ms := - 1,
             r_sec_not_found_last_observed_ms := - 1, r_sec_capability_epoch := 0,
             r_sec_contract_version := 0, r_recovery_phase := ''RECONCILE_EVIDENCE'',
             r_successor_request_id := [], r_successor_request_id_digest := []\<rparr>
      else r)"

definition load_v5_budget :: "json_lib \<Rightarrow> json \<Rightarrow> keyprov_record \<Rightarrow> keyprov_record option" where
  "load_v5_budget jl j r = do {
     rsc \<leftarrow> jvalue j ''request_send_count'' (js_u32 jl) 0;
     fra \<leftarrow> jvalue j ''first_request_at_ms'' (js_i64 jl) 0;
     rda \<leftarrow> jvalue j ''request_deadline_at_ms'' (js_i64 jl) 0;
     ssc \<leftarrow> jvalue j ''status_send_count'' (js_u32 jl) 0;
     fro \<leftarrow> jvalue j ''first_readonly_at_ms'' (js_i64 jl) 0;
     rod \<leftarrow> jvalue j ''readonly_deadline_at_ms'' (js_i64 jl) 0;
     sqc \<leftarrow> jvalue j ''sec_query_count'' (js_u32 jl) 0;
     asc \<leftarrow> jvalue j ''ack_send_count'' (js_u32 jl) 0;
     asd \<leftarrow> jvalue j ''ack_safe_deadline_at_ms'' (js_i64 jl) 0;
     le \<leftarrow> jvalue j ''lease_expires_at_ms'' (js_i64 jl) 0;
     efc \<leftarrow> jvalue j ''expiry_freshen_count'' (js_u32 jl) 0;
     ber \<leftarrow> jvalue j ''budget_exhausted_reason'' (js_str jl) [];
     cid \<leftarrow> jvalue j ''chain_id'' (js_str jl) [];
     csa \<leftarrow> jvalue j ''chain_started_at_ms'' (js_i64 jl) 0;
     cda \<leftarrow> jvalue j ''chain_deadline_at_ms'' (js_i64 jl) 0;
     crc \<leftarrow> jvalue j ''chain_request_id_count'' (js_u32 jl) 0;
     mt \<leftarrow> jvalue j ''migration_token'' (js_str jl) [];
     mc \<leftarrow> jvalue j ''migration_consumed'' (js_bool jl) False;
     Some (r\<lparr>r_lease_expires_at_ms := le,
        r_budget := \<lparr>bl_request_send_count = rsc, bl_first_request_at_ms = fra,
          bl_request_deadline_at_ms = rda, bl_status_send_count = ssc,
          bl_first_readonly_at_ms = fro, bl_readonly_deadline_at_ms = rod,
          bl_sec_query_count = sqc, bl_ack_send_count = asc, bl_ack_safe_deadline_at_ms = asd,
          bl_expiry_freshen_count = efc, bl_chain_id = cid, bl_chain_started_at_ms = csa,
          bl_chain_deadline_at_ms = cda, bl_chain_request_id_count = crc,
          bl_migration_token = mt, bl_migration_consumed = mc,
          bl_budget_exhausted_reason = ber\<rparr>\<rparr>) }"

definition load_v5_fields :: "json_lib \<Rightarrow> json \<Rightarrow> keyprov_record \<Rightarrow> keyprov_record option" where
  "load_v5_fields jl j r = do {
     lp \<leftarrow> jvalue j ''lifecycle_profile'' (js_str jl) [];
     r1 \<leftarrow> load_v5_budget jl j r;
     rcv \<leftarrow> jvalue j ''sec_result_contract_version'' (js_u32 jl) 0;
     qsv \<leftarrow> jvalue j ''sec_query_semantics_version'' (js_u32 jl) 0;
     sla \<leftarrow> jvalue j ''sec_supports_lease_admission'' (js_bool jl) False;
     kpv \<leftarrow> jvalue j ''sec_kl1_profile_version'' (js_u32 jl) 0;
     Some (r1\<lparr>r_lifecycle_profile := lp, r_sec_result_contract_version := rcv,
        r_sec_query_semantics_version := qsv, r_sec_supports_lease_admission := sla,
        r_sec_kl1_profile_version := kpv\<rparr>) }"

definition migrate_below_v5 :: "keyprov_record \<Rightarrow> keyprov_record" where
  "migrate_below_v5 r =
     (if r_schema_version r < 5 \<and> r_valid r then
        (let b0 = r_budget r;
             b1 = (if bl_request_send_count b0 = 0 then b0\<lparr>bl_request_send_count := 8\<rparr> else b0);
             b2 = b1\<lparr>bl_first_request_at_ms := 0, bl_request_deadline_at_ms := 0\<rparr>;
             b3 = (if bl_first_readonly_at_ms b2 = 0
                   then b2\<lparr>bl_first_readonly_at_ms := r_updated_at_ms r,
                           bl_readonly_deadline_at_ms := r_updated_at_ms r + 300000\<rparr>
                   else b2);
             b4 = (if bl_migration_token b3 = []
                   then b3\<lparr>bl_migration_token := ''mig-'' @ r_request_id r\<rparr> else b3);
             b5 = b4\<lparr>bl_migration_consumed := False\<rparr>
         in r\<lparr>r_schema_version := kV2cStoreSchemaVersion,
              r_lifecycle_profile := ''keyprov-lifecycle-kl1-v1'', r_budget := b5\<rparr>)
      else r)"

definition guard_versions :: "keyprov_record \<Rightarrow> keyprov_record" where
  "guard_versions r =
     (let r1 = (if r_schema_version r > kV2cStoreSchemaVersion
                   \<or> r_fingerprint_version r > kAttemptFingerprintVersionCurrent
                then r\<lparr>r_legacy_snapshot_unknown := True\<rparr> else r)
      in if r_fingerprint_version r1 = 0 \<or> r_attempt_fingerprint r1 = []
         then r1\<lparr>r_legacy_snapshot_unknown := True\<rparr> else r1)"

definition mirror_snapshot :: "keyprov_record \<Rightarrow> keyprov_record" where
  "mirror_snapshot r =
     r\<lparr>r_purposes := map keyprov_purpose_to_string (as_purposes (r_snapshot r)),
       r_business_key_versions :=
         map (\<lambda>kv. (keyprov_purpose_to_string (fst kv), snd kv)) (as_current_versions (r_snapshot r)),
       r_valid := (r_valid r \<and> r_request_id r \<noteq> [])\<rparr>"

definition record_of_json :: "json_lib \<Rightarrow> json \<Rightarrow> keyprov_record option" where
  "record_of_json jl j = do {
     r2 \<leftarrow> load_v2_fields jl j empty_record;
     r3 \<leftarrow> load_v3_fields jl j r2;
     r4 \<leftarrow> load_v4_fields jl j r3;
     r5 \<leftarrow> load_v5_fields jl j (reset_stabilisation_below_v4 r4);
     Some (mirror_snapshot (guard_versions (migrate_below_v5 r5))) }"

section \<open>The older multi-key format\<close>

definition kStateKey :: string where "kStateKey = ''keyprov.v2c.attempt.v2''"
definition kLegacyPresent :: string where "kLegacyPresent = ''keyprov.v2c.present''"
definition kLegacyRequestId :: string where "kLegacyRequestId = ''keyprov.v2c.request_id''"
definition kLegacyIdemDigest :: string where
  "kLegacyIdemDigest = ''keyprov.v2c.idempotency_digest''"
definition kLegacyState :: string where "kLegacyState = ''keyprov.v2c.state''"
definition kLegacyPurposes :: string where "kLegacyPurposes = ''keyprov.v2c.purposes''"
definition kLegacyVersions :: string where
  "kLegacyVersions = ''keyprov.v2c.business_key_versions''"
definition kLegacyAttempt :: string where "kLegacyAttempt = ''keyprov.v2c.attempt_count''"
definition kLegacyDeadline :: string where "kLegacyDeadline = ''keyprov.v2c.deadline_ms''"
definition kLegacyLastError :: string where "kLegacyLastError = ''keyprov.v2c.last_error''"
definition kLegacyUpdatedAt :: string where "kLegacyUpdatedAt = ''keyprov.v2c.updated_at_ms''"
definition kLegacyCloudGen :: string where
  "kLegacyCloudGen = ''keyprov.v2c.cloud_session_generation''"

text \<open>\<open>split\<close>: nothing for the empty string, else the pieces between separators.\<close>

fun split_rest :: "char \<Rightarrow> string \<Rightarrow> string \<Rightarrow> string list" where
  "split_rest sep [] cur = [cur]"
| "split_rest sep (c # cs) cur =
     (if c = sep then cur # split_rest sep cs [] else split_rest sep cs (cur @ [c]))"

definition split_str :: "string \<Rightarrow> char \<Rightarrow> string list" where
  "split_str s sep = (if s = [] then [] else split_rest sep s [])"

text \<open>
  \<open>std::stoull\<close> and relatives in base 10: leading white space, an optional sign, at least
  one digit; what follows is ignored, a value out of range throws, and a minus sign negates
  modulo $2^{64}$ in the unsigned ones.
\<close>

definition c_space :: "char \<Rightarrow> bool" where
  "c_space c \<longleftrightarrow> c = CHR '' '' \<or> (9 \<le> (of_char c :: nat) \<and> (of_char c :: nat) \<le> 13)"

definition c_digit :: "char \<Rightarrow> bool" where
  "c_digit c \<longleftrightarrow> CHR ''0'' \<le> c \<and> c \<le> CHR ''9''"

definition strto_parts :: "string \<Rightarrow> (bool \<times> int) option" where
  "strto_parts s =
     (let t = dropWhile c_space s;
          neg = (t \<noteq> [] \<and> hd t = CHR ''-'');
          u = (if t \<noteq> [] \<and> (hd t = CHR ''-'' \<or> hd t = CHR ''+'') then tl t else t);
          ds = takeWhile c_digit u
      in if ds = [] then None
         else Some (neg, foldl (\<lambda>a c. 10 * a + (of_char c - 48)) 0 ds))"

definition stoull :: "string \<Rightarrow> u64 option" where
  "stoull s =
     (case strto_parts s of None \<Rightarrow> None
      | Some (neg, v) \<Rightarrow> if v \<ge> 2 ^ 64 then None
                        else Some (if neg then - word_of_int v else word_of_int v))"

definition stoll :: "string \<Rightarrow> int option" where
  "stoll s =
     (case strto_parts s of None \<Rightarrow> None
      | Some (neg, v) \<Rightarrow> (let x = (if neg then - v else v) in
                         if int64_range x then Some x else None))"

definition legacy_version :: "string \<Rightarrow> (string \<times> u64) list" where
  "legacy_version part =
     (if CHR ''='' \<in> set part
      then [(takeWhile (\<lambda>c. c \<noteq> CHR ''='') part,
             (case stoull (tl (dropWhile (\<lambda>c. c \<noteq> CHR ''='') part)) of None \<Rightarrow> 0 | Some v \<Rightarrow> v))]
      else [])"

definition load_legacy :: "'s kv_ops \<Rightarrow> 's \<Rightarrow> keyprov_record option" where
  "load_legacy kv s = do {
     ac \<leftarrow> stoull (kv_load_or kv s kLegacyAttempt ''0'');
     dl \<leftarrow> stoll (kv_load_or kv s kLegacyDeadline ''0'');
     ua \<leftarrow> stoll (kv_load_or kv s kLegacyUpdatedAt ''0'');
     cg \<leftarrow> stoull (kv_load_or kv s kLegacyCloudGen ''0'');
     (let rid = kv_load_or kv s kLegacyRequestId [];
          valid = (kv_load_or kv s kLegacyPresent ''0'' = ''1'' \<and> rid \<noteq> [])
      in Some (empty_record\<lparr>r_valid := valid, r_request_id := rid,
           r_idempotency_digest := kv_load_or kv s kLegacyIdemDigest [],
           r_state := kv_load_or kv s kLegacyState [],
           r_purposes := split_str (kv_load_or kv s kLegacyPurposes []) CHR '','',
           r_business_key_versions :=
             concat (map legacy_version (split_str (kv_load_or kv s kLegacyVersions []) CHR '','')),
           r_attempt_count := ucast ac, r_deadline_ms := dl,
           r_last_error := kv_load_or kv s kLegacyLastError [], r_updated_at_ms := ua,
           r_cloud_session_generation := cg, r_legacy_snapshot_unknown := valid\<rparr>)) }"

section \<open>The store operations\<close>

definition store_load :: "json_lib \<Rightarrow> 's kv_ops \<Rightarrow> 's \<Rightarrow> keyprov_record" where
  "store_load jl kv s =
     (if \<not> kv_ready kv s then empty_record
      else if kv_has kv s kStateKey then
        (let raw = kv_load_or kv s kStateKey [] in
         if raw = [] then empty_record
         else (case js_parse jl raw \<bind> record_of_json jl of
                 None \<Rightarrow> empty_record | Some r \<Rightarrow> r))
      else if kv_has kv s kLegacyPresent
        then (case load_legacy kv s of None \<Rightarrow> empty_record | Some r \<Rightarrow> r)
      else empty_record)"

definition store_save :: "json_lib \<Rightarrow> 's kv_ops \<Rightarrow> keyprov_record \<Rightarrow> 's \<Rightarrow> 's" where
  "store_save jl kv r s =
     (if \<not> kv_ready kv s then s
      else kv_flush kv (kv_save kv s kStateKey (js_dump jl (record_to_json r))))"

definition legacy_keys :: "string list" where
  "legacy_keys = [kLegacyPresent, kLegacyRequestId, kLegacyIdemDigest, kLegacyState,
     kLegacyPurposes, kLegacyVersions, kLegacyAttempt, kLegacyDeadline, kLegacyLastError,
     kLegacyUpdatedAt, kLegacyCloudGen]"

definition store_clear :: "'s kv_ops \<Rightarrow> 's \<Rightarrow> 's" where
  "store_clear kv s =
     (if \<not> kv_ready kv s then s
      else kv_flush kv (foldl (kv_remove kv) (kv_remove kv s kStateKey) legacy_keys))"

section \<open>Saving and loading\<close>

lemma map_of_jset [simp]: "map_of (jset k v kvs) = (map_of kvs)(k \<mapsto> v)"
  by (induction k v kvs rule: jset.induct) auto

lemma map_of_jobj:
  "map_of (foldl (\<lambda>acc kv. jset (fst kv) (snd kv) acc) acc kvs) = map_of acc ++ map_of (rev kvs)"
  by (induction kvs arbitrary: acc) (auto simp: map_add_def fun_eq_iff split: option.splits)

lemma jget_jobj: "jget (jobj kvs) k = map_of (rev kvs) k"
  using map_of_jobj [of "[]" kvs] by (simp add: jget_def jobj_def)

lemma jget_jobj_distinct: "distinct (map fst kvs) \<Longrightarrow> jget (jobj kvs) k = map_of kvs k"
proof -
  assume d: "distinct (map fst kvs)"
  then have "distinct (map fst (rev kvs))" by (simp flip: rev_map)
  with d have "map_of (rev kvs) = map_of kvs" by (simp add: map_of_inject_set)
  then show ?thesis by (simp add: jget_jobj)
qed

lemma jvalue_jobj:
  "jvalue (jobj kvs) k conv d = (case jget (jobj kvs) k of None \<Rightarrow> Some d | Some v \<Rightarrow> conv v)"
  by (simp add: jvalue_def jget_def jobj_def)

lemma jlist_jobj:
  "jlist (jobj kvs) k = Some (case jget (jobj kvs) k of None \<Rightarrow> [] | Some v \<Rightarrow> jelems v)"
  by (simp add: jlist_def jvalue_jobj jelems_def split: option.split)

lemma sequence_opt_map: "\<forall>x\<in>set xs. f (g x) = Some (h x) \<Longrightarrow> sequence_opt f (map g xs) = Some (map h xs)"
  by (induction xs) auto

lemmas json_record_fields = json_v2_fields_def json_v34_fields_def json_v5_fields_def Let_def

lemma record_keys_distinct:
  "distinct (map fst (json_v2_fields r @ json_v34_fields r @ json_v5_fields r))"
  by (simp add: json_record_fields)

lemma record_get:
  "jget (record_to_json r) k = map_of (json_v2_fields r @ json_v34_fields r @ json_v5_fields r) k"
  unfolding record_to_json_def by (rule jget_jobj_distinct [OF record_keys_distinct])

lemma record_value:
  "jvalue (record_to_json r) k conv d =
     (case map_of (json_v2_fields r @ json_v34_fields r @ json_v5_fields r) k of
        None \<Rightarrow> Some d | Some v \<Rightarrow> conv v)"
  unfolding record_get [symmetric] by (simp add: record_to_json_def jvalue_jobj)

lemma record_list:
  "jlist (record_to_json r) k =
     Some (case map_of (json_v2_fields r @ json_v34_fields r @ json_v5_fields r) k of
             None \<Rightarrow> [] | Some v \<Rightarrow> jelems v)"
  unfolding record_get [symmetric] by (simp add: record_to_json_def jlist_jobj)

lemma snapshot_keys_distinct:
  "distinct (map fst [(''business_domain'', a), (''purposes'', b), (''current_versions'', c),
     (''device_identity_digest'', d), (''recipient_certificate_digest'', e),
     (''certificate_ref_digest'', f), (''wrapping_suites'', g), (''envelope_formats'', h),
     (''protocol_lock_digest'', i)])"
  by simp

definition snapshot_ints_ok :: "attempt_snapshot \<Rightarrow> bool" where
  "snapshot_ints_ok s \<longleftrightarrow>
     (\<forall>x\<in>set (as_purposes s) \<union> fst ` set (as_current_versions s) \<union> set (as_wrapping_suites s)
          \<union> set (as_envelope_formats s). int32_range x)"

lemma concat_singletons: "concat (map (\<lambda>x. [x]) xs) = xs"
  by (induction xs) auto

lemma version_roundtrip:
  assumes "json_spec jl" "\<forall>kv\<in>set kvs. int32_range (fst kv)"
  shows "sequence_opt (version_of_json jl) (map (\<lambda>kv. JArr [JNum (fst kv), JNum (uint (snd kv))]) kvs)
     = Some (map (\<lambda>kv. [kv]) kvs)"
  using assms
  by (intro sequence_opt_map [where h = "\<lambda>kv. [kv]"])
     (auto simp: version_of_json_def jsize_def json_spec_def)

lemma ints_roundtrip:
  assumes "json_spec jl" "\<forall>x\<in>set xs. int32_range x"
  shows "sequence_opt (js_int jl) (map JNum xs) = Some xs"
  using sequence_opt_map [of xs "js_int jl" JNum "\<lambda>x. x"] assms by (simp add: json_spec_def)

lemma snapshot_roundtrip:
  assumes "json_spec jl" "snapshot_ints_ok s"
  shows "snapshot_from_json jl (snapshot_to_json s) = Some s"
proof -
  note g = jget_jobj_distinct [OF snapshot_keys_distinct]
  have str: "js_str jl (JStr x) = Some x" for x using assms(1) by (simp add: json_spec_def)
  have i: "\<forall>x\<in>set (as_purposes s). int32_range x" "\<forall>kv\<in>set (as_current_versions s). int32_range (fst kv)"
    "\<forall>x\<in>set (as_wrapping_suites s). int32_range x" "\<forall>x\<in>set (as_envelope_formats s). int32_range x"
    using assms(2) by (auto simp: snapshot_ints_ok_def)
  show ?thesis
    unfolding snapshot_from_json_def snapshot_to_json_def
    by (simp add: jvalue_jobj jlist_jobj g jints_def jelems_def str
        ints_roundtrip [OF assms(1)] version_roundtrip [OF assms(1)] i concat_singletons)
qed

definition record_in_range :: "keyprov_record \<Rightarrow> bool" where
  "record_in_range r \<longleftrightarrow>
     snapshot_ints_ok (r_snapshot r)
     \<and> 0 \<le> r_sec_import_evidence_kind r \<and> r_sec_import_evidence_kind r \<le> 5
     \<and> 0 \<le> r_import_invocation_resolution r \<and> r_import_invocation_resolution r \<le> 2
     \<and> int64_range (r_deadline_ms r) \<and> int64_range (r_updated_at_ms r)
     \<and> int64_range (r_sec_evidence_observed_at_ms r)
     \<and> int64_range (r_sec_not_found_first_observed_ms r)
     \<and> int64_range (r_sec_not_found_last_observed_ms r) \<and> int64_range (r_lease_expires_at_ms r)
     \<and> int64_range (bl_first_request_at_ms (r_budget r))
     \<and> int64_range (bl_request_deadline_at_ms (r_budget r))
     \<and> int64_range (bl_first_readonly_at_ms (r_budget r))
     \<and> int64_range (bl_readonly_deadline_at_ms (r_budget r))
     \<and> int64_range (bl_ack_safe_deadline_at_ms (r_budget r))
     \<and> int64_range (bl_chain_started_at_ms (r_budget r))
     \<and> int64_range (bl_chain_deadline_at_ms (r_budget r))"

lemma json_conv:
  assumes "json_spec jl"
  shows "js_u32 jl (JNum (uint w)) = Some w" "js_u64 jl (JNum (uint v)) = Some v"
    and "js_bool jl (JBool b) = Some b" "js_str jl (JStr s) = Some s"
    and "int32_range i \<Longrightarrow> js_int jl (JNum i) = Some i"
    and "int64_range i \<Longrightarrow> js_i64 jl (JNum i) = Some i"
  using assms by (simp_all add: json_spec_def)

lemma small_int32: "0 \<le> i \<Longrightarrow> i \<le> 5 \<Longrightarrow> int32_range i"
  by (simp add: int32_range_def)

text \<open>What the four groups of fields put back into a record.\<close>

definition with_v2 :: "keyprov_record \<Rightarrow> keyprov_record \<Rightarrow> keyprov_record" where
  "with_v2 r q = q\<lparr>r_valid := True, r_schema_version := r_schema_version r,
     r_fingerprint_version := r_fingerprint_version r,
     r_attempt_fingerprint := r_attempt_fingerprint r, r_request_id := r_request_id r,
     r_idempotency_digest := r_idempotency_digest r, r_state := r_state r,
     r_submission := r_submission r, r_snapshot := r_snapshot r,
     r_attempt_count := r_attempt_count r, r_deadline_ms := r_deadline_ms r,
     r_last_error := r_last_error r, r_updated_at_ms := r_updated_at_ms r,
     r_cloud_session_generation := r_cloud_session_generation r,
     r_supersedes_request_id := r_supersedes_request_id r,
     r_superseded_by_request_id := r_superseded_by_request_id r,
     r_blocked_reason := r_blocked_reason r, r_store_generation := r_store_generation r,
     r_terminalized_request_ids := r_terminalized_request_ids r\<rparr>"

definition with_v3 :: "keyprov_record \<Rightarrow> keyprov_record \<Rightarrow> keyprov_record" where
  "with_v3 r q = q\<lparr>r_sec_import_result_contract_version := r_sec_import_result_contract_version r,
     r_sec_import_evidence_kind := r_sec_import_evidence_kind r,
     r_sec_evidence_observed_store_generation := r_sec_evidence_observed_store_generation r,
     r_sec_evidence_observed_at_ms := r_sec_evidence_observed_at_ms r,
     r_import_invocation := r_import_invocation r\<rparr>"

definition with_v4 :: "keyprov_record \<Rightarrow> keyprov_record \<Rightarrow> keyprov_record" where
  "with_v4 r q = q\<lparr>r_import_invocation_resolution := r_import_invocation_resolution r,
     r_sec_not_found_count := r_sec_not_found_count r,
     r_sec_not_found_first_observed_ms := r_sec_not_found_first_observed_ms r,
     r_sec_not_found_last_observed_ms := r_sec_not_found_last_observed_ms r,
     r_sec_capability_epoch := r_sec_capability_epoch r,
     r_sec_contract_version := r_sec_contract_version r, r_recovery_phase := r_recovery_phase r,
     r_successor_request_id := r_successor_request_id r,
     r_successor_request_id_digest := r_successor_request_id_digest r\<rparr>"

definition with_v5 :: "keyprov_record \<Rightarrow> keyprov_record \<Rightarrow> keyprov_record" where
  "with_v5 r q = q\<lparr>r_lease_expires_at_ms := r_lease_expires_at_ms r, r_budget := r_budget r,
     r_lifecycle_profile := r_lifecycle_profile r,
     r_sec_result_contract_version := r_sec_result_contract_version r,
     r_sec_query_semantics_version := r_sec_query_semantics_version r,
     r_sec_supports_lease_admission := r_sec_supports_lease_admission r,
     r_sec_kl1_profile_version := r_sec_kl1_profile_version r\<rparr>"

lemma load_v2_back:
  assumes "json_spec jl" "record_in_range r"
  shows "load_v2_fields jl (record_to_json r) q = Some (with_v2 r q)"
proof -
  have snap: "snapshot_from_json jl (snapshot_to_json (r_snapshot r)) = Some (r_snapshot r)"
    using assms by (simp add: snapshot_roundtrip record_in_range_def)
  obtain kvs where obj: "snapshot_to_json (r_snapshot r) = JObj kvs"
    by (simp add: snapshot_to_json_def jobj_def)
  have ts: "sequence_opt (js_str jl) (map JStr xs) = Some xs" for xs
    using sequence_opt_map [of xs "js_str jl" JStr "\<lambda>x. x"] assms(1) by (simp add: json_spec_def)
  show ?thesis
    using assms(2) snap obj
    by (simp add: load_v2_fields_def record_value record_get record_list json_v2_fields_def
        json_conv [OF assms(1)] ts jelems_def with_v2_def record_in_range_def)
qed

lemma load_v3_back:
  assumes "json_spec jl" "record_in_range r"
  shows "load_v3_fields jl (record_to_json r) q = Some (with_v3 r q)"
  using assms(2)
  by (simp add: load_v3_fields_def record_value record_get json_record_fields
      json_conv [OF assms(1)] small_int32 with_v3_def record_in_range_def)

lemma load_v4_back:
  assumes "json_spec jl" "record_in_range r"
  shows "load_v4_fields jl (record_to_json r) q = Some (with_v4 r q)"
  using assms(2)
  by (simp add: load_v4_fields_def record_value record_get json_record_fields
      json_conv [OF assms(1)] small_int32 with_v4_def record_in_range_def migrated_resolution_def)

lemma budget_gets:
  "jget (record_to_json r) ''request_send_count'' = Some (JNum (uint (bl_request_send_count (r_budget r))))"
  "jget (record_to_json r) ''first_request_at_ms'' = Some (JNum (bl_first_request_at_ms (r_budget r)))"
  "jget (record_to_json r) ''request_deadline_at_ms'' = Some (JNum (bl_request_deadline_at_ms (r_budget r)))"
  "jget (record_to_json r) ''status_send_count'' = Some (JNum (uint (bl_status_send_count (r_budget r))))"
  "jget (record_to_json r) ''first_readonly_at_ms'' = Some (JNum (bl_first_readonly_at_ms (r_budget r)))"
  "jget (record_to_json r) ''readonly_deadline_at_ms'' = Some (JNum (bl_readonly_deadline_at_ms (r_budget r)))"
  "jget (record_to_json r) ''sec_query_count'' = Some (JNum (uint (bl_sec_query_count (r_budget r))))"
  "jget (record_to_json r) ''ack_send_count'' = Some (JNum (uint (bl_ack_send_count (r_budget r))))"
  "jget (record_to_json r) ''ack_safe_deadline_at_ms'' = Some (JNum (bl_ack_safe_deadline_at_ms (r_budget r)))"
  "jget (record_to_json r) ''expiry_freshen_count'' = Some (JNum (uint (bl_expiry_freshen_count (r_budget r))))"
  "jget (record_to_json r) ''budget_exhausted_reason'' = Some (JStr (bl_budget_exhausted_reason (r_budget r)))"
  "jget (record_to_json r) ''chain_id'' = Some (JStr (bl_chain_id (r_budget r)))"
  "jget (record_to_json r) ''chain_started_at_ms'' = Some (JNum (bl_chain_started_at_ms (r_budget r)))"
  "jget (record_to_json r) ''chain_deadline_at_ms'' = Some (JNum (bl_chain_deadline_at_ms (r_budget r)))"
  "jget (record_to_json r) ''chain_request_id_count'' = Some (JNum (uint (bl_chain_request_id_count (r_budget r))))"
  "jget (record_to_json r) ''migration_token'' = Some (JStr (bl_migration_token (r_budget r)))"
  "jget (record_to_json r) ''migration_consumed'' = Some (JBool (bl_migration_consumed (r_budget r)))"
  "jget (record_to_json r) ''lease_expires_at_ms'' = Some (JNum (r_lease_expires_at_ms r))"
  by (simp_all add: record_get json_record_fields)

lemma jvalue_record:
  "jvalue (record_to_json r) k conv d =
     (case jget (record_to_json r) k of None \<Rightarrow> Some d | Some v \<Rightarrow> conv v)"
  by (simp add: record_to_json_def jvalue_jobj)

lemma load_v5_budget_back:
  assumes "json_spec jl" "record_in_range r"
  shows "load_v5_budget jl (record_to_json r) q
     = Some (q\<lparr>r_lease_expires_at_ms := r_lease_expires_at_ms r, r_budget := r_budget r\<rparr>)"
  using assms(2)
  by (simp add: load_v5_budget_def jvalue_record budget_gets json_conv [OF assms(1)]
      record_in_range_def)

lemma load_v5_back:
  assumes "json_spec jl" "record_in_range r"
  shows "load_v5_fields jl (record_to_json r) q = Some (with_v5 r q)"
  by (simp add: load_v5_fields_def load_v5_budget_back [OF assms] record_value record_get
      json_record_fields json_conv [OF assms(1)] with_v5_def)

text \<open>A record as the coordinator writes it: current schema, a fingerprint and a request id.\<close>

definition persistable :: "keyprov_record \<Rightarrow> bool" where
  "persistable r \<longleftrightarrow>
     record_in_range r \<and> r_valid r \<and> r_schema_version r = kV2cStoreSchemaVersion
     \<and> r_fingerprint_version r = kAttemptFingerprintVersionCurrent
     \<and> r_attempt_fingerprint r \<noteq> [] \<and> r_request_id r \<noteq> []
     \<and> \<not> r_legacy_snapshot_unknown r \<and> mirror_snapshot r = r"

lemma record_json_roundtrip:
  assumes "json_spec jl" "persistable r"
  shows "record_of_json jl (record_to_json r) = Some r"
proof -
  let ?q = "with_v5 r (with_v4 r (with_v3 r (with_v2 r empty_record)))"
  have range: "record_in_range r" using assms(2) by (simp add: persistable_def)
  have q: "?q = r\<lparr>r_valid := True, r_legacy_snapshot_unknown := False, r_purposes := [],
       r_business_key_versions := []\<rparr>"
    by (cases r) (simp add: with_v2_def with_v3_def with_v4_def with_v5_def empty_record_def)
  have "reset_stabilisation_below_v4 (with_v4 r (with_v3 r (with_v2 r empty_record)))
      = with_v4 r (with_v3 r (with_v2 r empty_record))"
    using assms(2)
    by (simp add: reset_stabilisation_below_v4_def with_v2_def with_v3_def with_v4_def persistable_def)
  then have "record_of_json jl (record_to_json r)
      = Some (mirror_snapshot (guard_versions (migrate_below_v5 ?q)))"
    by (simp add: record_of_json_def load_v2_back [OF assms(1) range] load_v3_back [OF assms(1) range]
        load_v4_back [OF assms(1) range] load_v5_back [OF assms(1) range])
  also have "guard_versions (migrate_below_v5 ?q) = ?q"
    unfolding q using assms(2) by (simp add: guard_versions_def migrate_below_v5_def persistable_def)
  also have "mirror_snapshot ?q = mirror_snapshot r"
    unfolding q mirror_snapshot_def using assms(2) by (cases r) (simp add: persistable_def)
  finally show ?thesis using assms(2) by (simp add: persistable_def)
qed


definition map_kv :: "(string \<rightharpoonup> string) kv_ops" where
  "map_kv = \<lparr>kv_ready = (\<lambda>s. True), kv_has = (\<lambda>s k. s k \<noteq> None),
     kv_load_or = (\<lambda>s k d. case s k of None \<Rightarrow> d | Some v \<Rightarrow> v),
     kv_save = (\<lambda>s k v. s(k \<mapsto> v)), kv_flush = (\<lambda>s. s), kv_remove = (\<lambda>s k. s(k := None))\<rparr>"

lemma map_kv_spec: "kv_spec map_kv"
  by (simp add: kv_spec_def map_kv_def)

definition record_ex :: keyprov_record where
  "record_ex = empty_record\<lparr>r_valid := True, r_schema_version := 5, r_fingerprint_version := 1,
     r_attempt_fingerprint := ''ab'', r_request_id := ''r1'', r_state := ''REQUESTED'',
     r_snapshot := empty_snapshot\<lparr>as_purposes := [1, 2], as_current_versions := [(1, 7)]\<rparr>,
     r_purposes := [''UPLINK_AEAD'', ''DOWNLINK_AEAD''],
     r_business_key_versions := [(''UPLINK_AEAD'', 7)]\<rparr>"

definition toy_json :: "json \<Rightarrow> json_lib" where
  "toy_json j = \<lparr>js_parse = (\<lambda>s. Some j), js_dump = (\<lambda>j. ''x''),
     js_u32 = (\<lambda>v. case v of JNum i \<Rightarrow> Some (word_of_int i) | _ \<Rightarrow> None),
     js_u64 = (\<lambda>v. case v of JNum i \<Rightarrow> Some (word_of_int i) | _ \<Rightarrow> None),
     js_int = (\<lambda>v. case v of JNum i \<Rightarrow> Some i | _ \<Rightarrow> None),
     js_i64 = (\<lambda>v. case v of JNum i \<Rightarrow> Some i | _ \<Rightarrow> None),
     js_bool = (\<lambda>v. case v of JBool b \<Rightarrow> Some b | _ \<Rightarrow> None),
     js_str = (\<lambda>v. case v of JStr s \<Rightarrow> Some s | _ \<Rightarrow> None)\<rparr>"

lemma toy_json_spec: "json_spec (toy_json j)"
  by (simp add: json_spec_def toy_json_def)

lemma record_ex_persistable: "persistable record_ex"
  by (simp add: persistable_def record_in_range_def snapshot_ints_ok_def int32_range_def
      int64_range_def record_ex_def empty_record_def empty_snapshot_def empty_ledger_def
      mirror_snapshot_def keyprov_purpose_to_string_def kKeyprovPurposeUplink_def
      kKeyprovPurposeDownlink_def)


lemma remove_all_gone:
  assumes "kv_spec kv"
  shows "kv_ready kv s \<Longrightarrow> kv_ready kv (foldl (kv_remove kv) s ks)
     \<and> (k \<in> set ks \<or> \<not> kv_has kv s k \<longrightarrow> \<not> kv_has kv (foldl (kv_remove kv) s ks) k)"
proof (induction ks arbitrary: s)
  case (Cons a ks)
  have "kv_ready kv (kv_remove kv s a)" "\<not> kv_has kv (kv_remove kv s a) a"
    "a \<noteq> k \<Longrightarrow> kv_has kv (kv_remove kv s a) k = kv_has kv s k"
    using assms Cons.prems unfolding kv_spec_def by metis+
  with Cons.IH [of "kv_remove kv s a"] show ?case by auto
qed simp

lemma flush_keeps:
  assumes "kv_spec kv" "kv_ready kv s"
  shows "kv_ready kv (kv_flush kv s)" "kv_has kv (kv_flush kv s) k = kv_has kv s k"
  using assms unfolding kv_spec_def by metis+

text \<open>
  Clearing removes the aggregate record and the older keys: afterwards nothing is loaded.
\<close>

theorem store_clear_empties:
  assumes "kv_spec kv"
  shows "store_load jl kv (store_clear kv s) = empty_record"
proof (cases "kv_ready kv s")
  case True
  let ?ks = "kStateKey # legacy_keys"
  let ?t = "foldl (kv_remove kv) s ?ks"
  have t: "kv_ready kv ?t" "\<not> kv_has kv ?t kStateKey" "\<not> kv_has kv ?t kLegacyPresent"
    using remove_all_gone [OF assms True, of ?ks kStateKey]
      remove_all_gone [OF assms True, of ?ks kLegacyPresent] by (auto simp: legacy_keys_def)
  have "store_clear kv s = kv_flush kv ?t" using True by (simp add: store_clear_def)
  with t flush_keeps [OF assms t(1)] show ?thesis by (simp add: store_load_def)
next
  case False
  then show ?thesis by (simp add: store_clear_def store_load_def)
qed

theorem store_clear_empties_witness:
  "store_load (toy_json JNull) map_kv (store_clear map_kv [kStateKey \<mapsto> ''x'']) = empty_record"
  by (rule store_clear_empties [OF map_kv_spec])

section \<open>Migration\<close>

lemma jvalue_absent: "jget j k = None \<Longrightarrow> jvalue j k conv d = Some x \<Longrightarrow> x = d"
  by (auto simp: jget_def jvalue_def split: json.splits option.splits)

lemma record_of_json_chain:
  assumes "record_of_json jl j = Some r"
  obtains r2 r3 r4 r5 where "load_v2_fields jl j empty_record = Some r2"
    "load_v3_fields jl j r2 = Some r3" "load_v4_fields jl j r3 = Some r4"
    "load_v5_fields jl j (reset_stabilisation_below_v4 r4) = Some r5"
    "r = mirror_snapshot (guard_versions (migrate_below_v5 r5))"
  using assms by (auto simp: record_of_json_def bind_eq_Some_conv)

text \<open>Which fields the later groups leave alone.\<close>

lemma load_v3_frame [frame_simps]:
  "load_v3_fields jl j r = Some q \<Longrightarrow> r_schema_version q = r_schema_version r \<and> r_valid q = r_valid r
     \<and> r_request_id q = r_request_id r"
  by (auto simp: load_v3_fields_def bind_eq_Some_conv)

lemma load_v4_frame [frame_simps]:
  "load_v4_fields jl j r = Some q \<Longrightarrow> r_schema_version q = r_schema_version r \<and> r_valid q = r_valid r
     \<and> r_import_invocation q = r_import_invocation r \<and> r_request_id q = r_request_id r"
  by (auto simp: load_v4_fields_def bind_eq_Some_conv)

lemma load_v5_frame [frame_simps]:
  "load_v5_fields jl j r = Some q \<Longrightarrow> r_schema_version q = r_schema_version r \<and> r_valid q = r_valid r
     \<and> r_import_invocation q = r_import_invocation r
     \<and> r_import_invocation_resolution q = r_import_invocation_resolution r
     \<and> r_request_id q = r_request_id r"
  by (auto simp: load_v5_fields_def load_v5_budget_def bind_eq_Some_conv)

lemma reset_frame [simp]:
  "r_schema_version (reset_stabilisation_below_v4 r) = r_schema_version r"
  "r_valid (reset_stabilisation_below_v4 r) = r_valid r"
  "r_import_invocation (reset_stabilisation_below_v4 r) = r_import_invocation r"
  "r_import_invocation_resolution (reset_stabilisation_below_v4 r) = r_import_invocation_resolution r"
  "r_request_id (reset_stabilisation_below_v4 r) = r_request_id r"
  by (simp_all add: reset_stabilisation_below_v4_def)

lemma finish_frame [simp]:
  "r_import_invocation (mirror_snapshot (guard_versions (migrate_below_v5 r))) = r_import_invocation r"
  "r_import_invocation_resolution (mirror_snapshot (guard_versions (migrate_below_v5 r)))
     = r_import_invocation_resolution r"
  "r_budget (mirror_snapshot (guard_versions r)) = r_budget r"
  "r_schema_version (mirror_snapshot (guard_versions r)) = r_schema_version r"
  by (simp_all add: mirror_snapshot_def guard_versions_def migrate_below_v5_def Let_def)

lemma loaded_schema:
  assumes "load_v2_fields jl j empty_record = Some r2" "load_v3_fields jl j r2 = Some r3"
    "load_v4_fields jl j r3 = Some r4" "load_v5_fields jl j (reset_stabilisation_below_v4 r4) = Some r5"
  shows "r_schema_version r5 = r_schema_version r2" "r_valid r5"
proof -
  have "r_valid r2" using assms(1) by (auto simp: load_v2_fields_def bind_eq_Some_conv)
  then show "r_schema_version r5 = r_schema_version r2" "r_valid r5"
    using load_v3_frame [OF assms(2)] load_v4_frame [OF assms(3)] load_v5_frame [OF assms(4)]
    by simp_all
qed

text \<open>
  Migration never releases by default: a record without a stored resolution counts as free
  of side effects exactly when the invocation flag is stored and false; without that flag the
  import counts as invoked, and the loaded resolution is always one of the three values.
\<close>

theorem migration_never_releases:
  assumes "record_of_json jl j = Some r"
  shows "(jget j ''import_invocation'' = None \<longrightarrow> r_import_invocation r)
     \<and> (jget j ''import_invocation_resolution'' = None \<longrightarrow>
          (r_import_invocation_resolution r = resolution_code NoSideEffectProven \<longleftrightarrow>
             jget j ''import_invocation'' \<noteq> None \<and> \<not> r_import_invocation r))
     \<and> r_import_invocation_resolution r \<in> {0, 1, 2}"
proof -
  from record_of_json_chain [OF assms] obtain r2 r3 r4 r5 where
      l: "load_v2_fields jl j empty_record = Some r2" "load_v3_fields jl j r2 = Some r3"
      "load_v4_fields jl j r3 = Some r4"
      "load_v5_fields jl j (reset_stabilisation_below_v4 r4) = Some r5"
    and r: "r = mirror_snapshot (guard_versions (migrate_below_v5 r5))" .
  have eq: "r_import_invocation r = r_import_invocation r3"
    "r_import_invocation_resolution r = r_import_invocation_resolution r4"
    using load_v4_frame [OF l(3)] load_v5_frame [OF l(4)] by (simp_all add: r)
  have "jget j ''import_invocation'' = None \<longrightarrow> r_import_invocation r3"
    using l(2) by (auto simp: load_v3_fields_def bind_eq_Some_conv)
  moreover obtain res where res: "jvalue j ''import_invocation_resolution'' (js_int jl) (- 1) = Some res"
    "r_import_invocation_resolution r4 =
       migrated_resolution res (jget j ''import_invocation'' \<noteq> None) (r_import_invocation r3)"
    using l(3) by (auto simp: load_v4_fields_def bind_eq_Some_conv)
  moreover have "jget j ''import_invocation_resolution'' = None \<longrightarrow> res = - 1"
    using jvalue_absent [OF _ res(1)] by auto
  ultimately show ?thesis
    unfolding eq by (auto simp: migrated_resolution_def resolution_code_def)
qed

definition v3_ex :: json where
  "v3_ex = JObj [(''import_invocation'', JBool False), (''request_id'', JStr ''old'')]"

lemma v3_ex_loads: "record_of_json (toy_json JNull) v3_ex \<noteq> None"
  by code_simp

theorem migration_never_releases_witness:
  "\<exists>r. record_of_json (toy_json JNull) v3_ex = Some r
     \<and> (r_import_invocation_resolution r = 1 \<longleftrightarrow> \<not> r_import_invocation r)"
proof -
  from v3_ex_loads obtain r where r: "record_of_json (toy_json JNull) v3_ex = Some r" by blast
  with migration_never_releases [OF r] show ?thesis
    by (auto simp: v3_ex_def jget_def resolution_code_def)
qed

text \<open>
  An attempt migrated from a schema below 5 never sends another Request: its Request budget
  is exhausted at every time, its fabricated window is empty, and the read-only window is dated
  from the last update.
\<close>

theorem migrated_attempt_cannot_request:
  assumes "record_of_json jl j = Some r"
    and "jget j ''schema_version'' = None \<or>
         (\<exists>v. jvalue j ''schema_version'' (js_u32 jl) 0 = Some v \<and> v < 5)"
    and "jget j ''request_send_count'' = None" and "jget j ''first_readonly_at_ms'' = None"
  shows "\<not> request_ok kl1_default now (r_budget r)
     \<and> bl_first_request_at_ms (r_budget r) = 0
     \<and> bl_first_readonly_at_ms (r_budget r) = r_updated_at_ms r
     \<and> bl_readonly_deadline_at_ms (r_budget r) = r_updated_at_ms r + 300000
     \<and> r_schema_version r = kV2cStoreSchemaVersion"
proof -
  from record_of_json_chain [OF assms(1)] obtain r2 r3 r4 r5 where
      l: "load_v2_fields jl j empty_record = Some r2" "load_v3_fields jl j r2 = Some r3"
      "load_v4_fields jl j r3 = Some r4"
      "load_v5_fields jl j (reset_stabilisation_below_v4 r4) = Some r5"
    and r: "r = mirror_snapshot (guard_versions (migrate_below_v5 r5))" .
  obtain v where v: "jvalue j ''schema_version'' (js_u32 jl) 0 = Some v" "r_schema_version r2 = v"
    using l(1) by (auto simp: load_v2_fields_def bind_eq_Some_conv)
  have "v < 5" using assms(2) v jvalue_absent [OF _ v(1)] by auto
  then have m: "r_schema_version r5 < 5" "r_valid r5"
    using loaded_schema [OF l] v(2) by simp_all
  obtain q where q: "load_v5_budget jl j (reset_stabilisation_below_v4 r4) = Some q"
      "r_budget r5 = r_budget q"
    using l(4) by (auto simp: load_v5_fields_def bind_eq_Some_conv)
  obtain c fro where
      c: "jvalue j ''request_send_count'' (js_u32 jl) 0 = Some c" "bl_request_send_count (r_budget q) = c"
    and fro: "jvalue j ''first_readonly_at_ms'' (js_i64 jl) 0 = Some fro"
      "bl_first_readonly_at_ms (r_budget q) = fro"
    using q(1) by (auto simp: load_v5_budget_def bind_eq_Some_conv)
  have b: "bl_request_send_count (r_budget r5) = 0" "bl_first_readonly_at_ms (r_budget r5) = 0"
    using jvalue_absent [OF assms(3) c(1)] jvalue_absent [OF assms(4) fro(1)] c(2) fro(2) q(2)
    by simp_all
  have "r_updated_at_ms r = r_updated_at_ms r5"
    by (simp add: r mirror_snapshot_def guard_versions_def migrate_below_v5_def Let_def)
  with m b show ?thesis
    by (simp add: r migrate_below_v5_def Let_def request_ok_def kl1_default_def)
qed

definition v4_ex :: json where
  "v4_ex = JObj [(''request_id'', JStr ''old''), (''schema_version'', JNum 4)]"

lemma v4_ex_loads: "record_of_json (toy_json JNull) v4_ex \<noteq> None"
  by code_simp

theorem migrated_attempt_cannot_request_witness:
  "\<exists>r. record_of_json (toy_json JNull) v4_ex = Some r \<and> \<not> request_ok kl1_default 77 (r_budget r)"
proof -
  from v4_ex_loads obtain r where r: "record_of_json (toy_json JNull) v4_ex = Some r" by blast
  have "\<not> request_ok kl1_default 77 (r_budget r)"
    using migrated_attempt_cannot_request [OF r, of 77]
    by (simp add: v4_ex_def jget_def jvalue_def toy_json_def)
  with r show ?thesis by blast
qed

end
