(* ===== verification/CoordState.thy ===== *)
theory CoordState
  imports Complex_Main KeyprovCodec KeyprovStore
begin

text \<open>
  The state of the V2C key provisioning coordinator
  (src/include/v2c\_key\_provisioning\_coordinator.h and the first part of
  src/src/v2c\_key\_provisioning\_coordinator.cpp): configuration, states, every member the
  operations read or write (member \<open>x_\<close> is the field \<open>c_x\<close>), the metric counters, and the
  environment.

  The operations run under one mutex, so each entry point is one atomic step. What the code
  calls outside (clocks, random numbers, the security daemon, the MQTT facade) answers from
  the record \<open>env\<close>: the answer to a call is a function of how many calls were made before,
  so every sequence of answers is some \<open>env\<close>. Effects that matter outside are logged in
  \<open>c_trace\<close>, newest first. Logging and thread wake-ups are left out.
\<close>

section \<open>Configuration and states\<close>

record coord_config =
  cfg_enabled :: bool
  cfg_business_domain :: string
  cfg_purposes :: "string list"
  cfg_route_up :: string
  cfg_route_down :: string
  cfg_certificate_profile :: string
  cfg_request_timeout_ms :: u32
  cfg_ack_timeout_ms :: u32
  cfg_max_attempts_before_alert :: u32
  cfg_retry_initial_ms :: u32
  cfg_retry_max_ms :: u32
  cfg_retry_multiplier :: rat
  cfg_retry_jitter :: bool
  cfg_not_found_stabilization_count :: u32
  cfg_sec_import_timeout_ms :: u32
  cfg_sec_callback_grace_ms :: u32
  cfg_not_found_stabilization_window_ms :: u32
  cfg_status_request_initial_interval_ms :: u32
  cfg_status_request_max_interval_ms :: u32
  cfg_kl1_ack_grace_ms :: u32
  cfg_kl1_skew_ms :: u32
  cfg_kl1_import_min_ms :: u32
  cfg_kl1_request_limit :: u32
  cfg_kl1_request_window_ms :: u32
  cfg_kl1_readonly_limit :: u32
  cfg_kl1_readonly_window_ms :: u32
  cfg_kl1_ack_limit :: u32
  cfg_kl1_chain_ids :: u32
  cfg_kl1_chain_window_ms :: u32

definition default_config :: coord_config where
  "default_config = \<lparr>cfg_enabled = False, cfg_business_domain = ''V2C_COMM'',
     cfg_purposes = [''UPLINK_AEAD'', ''DOWNLINK_AEAD''], cfg_route_up = ''keyprov.uplink'',
     cfg_route_down = ''keyprov.downlink'', cfg_certificate_profile = ''mqtt'',
     cfg_request_timeout_ms = 10000, cfg_ack_timeout_ms = 10000,
     cfg_max_attempts_before_alert = 8, cfg_retry_initial_ms = 500, cfg_retry_max_ms = 30000,
     cfg_retry_multiplier = 2, cfg_retry_jitter = True, cfg_not_found_stabilization_count = 3,
     cfg_sec_import_timeout_ms = 5000, cfg_sec_callback_grace_ms = 1000,
     cfg_not_found_stabilization_window_ms = 0, cfg_status_request_initial_interval_ms = 1000,
     cfg_status_request_max_interval_ms = 30000, cfg_kl1_ack_grace_ms = 30000,
     cfg_kl1_skew_ms = 2000, cfg_kl1_import_min_ms = 15000, cfg_kl1_request_limit = 8,
     cfg_kl1_request_window_ms = 120000, cfg_kl1_readonly_limit = 12,
     cfg_kl1_readonly_window_ms = 300000, cfg_kl1_ack_limit = 3, cfg_kl1_chain_ids = 3,
     cfg_kl1_chain_window_ms = 600000\<rparr>"

datatype coord_state =
    DISABLED | WAIT_CLOUD | CHECKING | REQUESTING | WAIT_RESPONSE | IMPORTING | ACK_PENDING
  | ACTIVE | RETRY_WAIT | BLOCKED | RECONCILE_OLD_ATTEMPT | SUPERSEDED_LOCAL
  | SUPERSEDED_REMOTE | BLOCKED_AWAIT_CLOUD_TERMINATION | LEGACY_SNAPSHOT_UNKNOWN
  | RECONCILE_EVIDENCE | STABILIZING_NOT_FOUND | RECONCILE_REMOTE | AWAIT_REMOTE_REPAIR
  | HARD_BLOCKED

definition v2c_key_prov_state_to_string :: "coord_state \<Rightarrow> string" where
  "v2c_key_prov_state_to_string s =
     (case s of
        DISABLED \<Rightarrow> ''DISABLED'' | WAIT_CLOUD \<Rightarrow> ''WAIT_CLOUD'' | CHECKING \<Rightarrow> ''CHECKING''
      | REQUESTING \<Rightarrow> ''REQUESTING'' | WAIT_RESPONSE \<Rightarrow> ''WAIT_RESPONSE''
      | IMPORTING \<Rightarrow> ''IMPORTING'' | ACK_PENDING \<Rightarrow> ''ACK_PENDING'' | ACTIVE \<Rightarrow> ''ACTIVE''
      | RETRY_WAIT \<Rightarrow> ''RETRY_WAIT'' | BLOCKED \<Rightarrow> ''BLOCKED''
      | RECONCILE_OLD_ATTEMPT \<Rightarrow> ''RECONCILE_OLD_ATTEMPT''
      | SUPERSEDED_LOCAL \<Rightarrow> ''SUPERSEDED_LOCAL'' | SUPERSEDED_REMOTE \<Rightarrow> ''SUPERSEDED_REMOTE''
      | BLOCKED_AWAIT_CLOUD_TERMINATION \<Rightarrow> ''BLOCKED_AWAIT_CLOUD_TERMINATION''
      | LEGACY_SNAPSHOT_UNKNOWN \<Rightarrow> ''LEGACY_SNAPSHOT_UNKNOWN''
      | RECONCILE_EVIDENCE \<Rightarrow> ''RECONCILE_EVIDENCE''
      | STABILIZING_NOT_FOUND \<Rightarrow> ''STABILIZING_NOT_FOUND''
      | RECONCILE_REMOTE \<Rightarrow> ''RECONCILE_REMOTE''
      | AWAIT_REMOTE_REPAIR \<Rightarrow> ''AWAIT_REMOTE_REPAIR'' | HARD_BLOCKED \<Rightarrow> ''HARD_BLOCKED'')"

definition all_states :: "coord_state list" where
  "all_states = [DISABLED, WAIT_CLOUD, CHECKING, REQUESTING, WAIT_RESPONSE, IMPORTING,
     ACK_PENDING, ACTIVE, RETRY_WAIT, BLOCKED, RECONCILE_OLD_ATTEMPT, SUPERSEDED_LOCAL,
     SUPERSEDED_REMOTE, BLOCKED_AWAIT_CLOUD_TERMINATION, LEGACY_SNAPSHOT_UNKNOWN,
     RECONCILE_EVIDENCE, STABILIZING_NOT_FOUND, RECONCILE_REMOTE, AWAIT_REMOTE_REPAIR,
     HARD_BLOCKED]"

definition v2c_key_prov_state_from_string :: "string \<Rightarrow> coord_state option" where
  "v2c_key_prov_state_from_string s = find (\<lambda>q. s = v2c_key_prov_state_to_string q) all_states"

definition recovery_phase_for_state :: "coord_state \<Rightarrow> string" where
  "recovery_phase_for_state s =
     (case s of
        RECONCILE_EVIDENCE \<Rightarrow> ''RECONCILE_EVIDENCE''
      | STABILIZING_NOT_FOUND \<Rightarrow> ''STABILIZING_SEC_NOT_FOUND''
      | RECONCILE_REMOTE \<Rightarrow> ''RECONCILE_REMOTE''
      | BLOCKED_AWAIT_CLOUD_TERMINATION \<Rightarrow> ''AWAIT_CLOUD_TERMINATION''
      | AWAIT_REMOTE_REPAIR \<Rightarrow> ''AWAIT_REMOTE_REPAIR''
      | HARD_BLOCKED \<Rightarrow> ''HARD_EVIDENCE_CONFLICT''
      | _ \<Rightarrow> [])"

text \<open>Blocked reasons and submission states (src/include/keyprov\_attempt.h).\<close>

definition kLegacySnapshotUnknown :: string where "kLegacySnapshotUnknown = ''LEGACY_SNAPSHOT_UNKNOWN''"
definition kIdempotencyConflict :: string where "kIdempotencyConflict = ''IDEMPOTENCY_CONFLICT''"
definition kAwaitCloudTermination :: string where "kAwaitCloudTermination = ''AWAIT_CLOUD_TERMINATION''"
definition kSecOutcomeUnknown :: string where "kSecOutcomeUnknown = ''SEC_OUTCOME_UNKNOWN''"
definition kVmdOutcomeUnknown :: string where "kVmdOutcomeUnknown = ''VMD_OUTCOME_UNKNOWN''"
definition kBlockedUnknown :: string where "kBlockedUnknown = ''UNKNOWN''"
definition kSecImportNotFound :: string where "kSecImportNotFound = ''SEC_IMPORT_NOT_FOUND''"
definition kSecImportInProgress :: string where "kSecImportInProgress = ''SEC_IMPORT_IN_PROGRESS''"
definition kEvidenceConflict :: string where "kEvidenceConflict = ''EVIDENCE_CONFLICT''"
definition kStabilizingSecNotFound :: string where
  "kStabilizingSecNotFound = ''STABILIZING_SEC_NOT_FOUND''"
definition kAwaitRemoteRepair :: string where "kAwaitRemoteRepair = ''AWAIT_REMOTE_REPAIR''"
definition kHardEvidenceConflict :: string where "kHardEvidenceConflict = ''HARD_EVIDENCE_CONFLICT''"
definition kSubmissionNone :: string where "kSubmissionNone = ''NONE''"
definition kSubmissionSubmitted :: string where "kSubmissionSubmitted = ''SUBMITTED''"
definition kSubmissionConfirmed :: string where "kSubmissionConfirmed = ''CONFIRMED''"

section \<open>The environment\<close>

record cloud_readiness =
  cl_cloud_ready :: bool
  cl_connection_generation :: u64
  cl_cert_session_generation :: u64
  cl_device_identity_digest :: string
  cl_certificate_ref :: string
  cl_reason_code :: string
  cl_contract_version :: u32
  cl_contract_supported :: bool
  cl_ecu_uid :: string
  cl_session :: mqtt_session
  cl_publish_contract_version :: u32
  cl_event_sequence :: u64

definition no_cloud :: cloud_readiness where
  "no_cloud = \<lparr>cl_cloud_ready = False, cl_connection_generation = 0,
     cl_cert_session_generation = 0, cl_device_identity_digest = [], cl_certificate_ref = [],
     cl_reason_code = [], cl_contract_version = 0, cl_contract_supported = True,
     cl_ecu_uid = [], cl_session = empty_session, cl_publish_contract_version = 0,
     cl_event_sequence = 0\<rparr>"

record capability_readiness =
  cy_capability :: string
  cy_ready :: bool
  cy_connection_generation :: u64
  cy_cert_session_generation :: u64
  cy_reason_code :: string

definition no_capability :: capability_readiness where
  "no_capability = \<lparr>cy_capability = [], cy_ready = False, cy_connection_generation = 0,
     cy_cert_session_generation = 0, cy_reason_code = []\<rparr>"

datatype delivery_outcome = DeliveryAccepted | DeliveryUnknown

record publish_result =
  pu_accepted :: bool
  pu_outcome :: delivery_outcome
  pu_reason_code :: string
  pu_retryable :: bool

record env =
  e_utc :: "nat \<Rightarrow> int"
  e_mono :: "nat \<Rightarrow> int"
  e_health :: "(nat \<Rightarrow> clock_source) option"
  e_clock_sync :: "nat \<Rightarrow> bool"
  e_rand :: "nat \<Rightarrow> u64"
  e_jitter :: "nat \<Rightarrow> u32 \<Rightarrow> u32"
  e_sec_status :: "nat \<Rightarrow> error_code \<times> business_key_status list"
  e_sec_import :: "nat \<Rightarrow> error_code \<times> import_result"
  e_sec_query :: "nat \<Rightarrow> error_code \<times> import_result"
  e_sec_capability :: "nat \<Rightarrow> error_code \<times> sec_capability"
  e_sec_contract :: "nat \<Rightarrow> error_code \<times> contract_snapshot"
  e_publish :: "nat \<Rightarrow> publish_result"
  e_cloud :: "nat \<Rightarrow> cloud_readiness"
  e_capability :: "nat \<Rightarrow> capability_readiness"
  e_hash :: hash_lib
  e_pb :: pb_codec
  e_sc :: sec_consts
  e_lock :: release_lock
  e_runtime_check :: bool

text \<open>A uniform draw from 0 to n stays in that range.\<close>

definition env_spec :: "env \<Rightarrow> bool" where
  "env_spec E \<longleftrightarrow> hash_spec (e_hash E) \<and> (\<forall>i n. e_jitter E i n \<le> n)"

section \<open>Effects\<close>

text \<open>
  \<open>EvtPublish\<close> is a call of \<open>publishRoute\<close> with the message kind (ghost), the request id,
  the expected session and whether it counts as sent; \<open>EvtImport\<close> (with its items) and \<open>EvtQuery\<close> are the
  import API calls with their answers; \<open>EvtLoad\<close> and \<open>EvtPersist\<close> carry the record;
  \<open>EvtNewAttempt\<close> (ghost) marks the creation of an attempt under a request id.
\<close>

datatype message_kind = MkRequest | MkAck "import_item list" | MkStatus

datatype effect =
    EvtPublish message_kind string mqtt_session bool
  | EvtImport string "wrapped_item list" bool error_code import_result
  | EvtQuery string error_code import_result
  | EvtLoad keyprov_record
  | EvtPersist keyprov_record
  | EvtNewAttempt string

section \<open>Members\<close>

record stabilization =
  sn_consecutive_count :: u32
  sn_first_observed_monotonic_ms :: int
  sn_last_observed_monotonic_ms :: int
  sn_sec_capability_epoch :: u64
  sn_sec_contract_version :: u32
  sn_request_id_digest :: bytes
  sn_attempt_generation :: u64

definition no_stabilization :: stabilization where
  "no_stabilization = \<lparr>sn_consecutive_count = 0, sn_first_observed_monotonic_ms = - 1,
     sn_last_observed_monotonic_ms = - 1, sn_sec_capability_epoch = 0,
     sn_sec_contract_version = 0, sn_request_id_digest = [], sn_attempt_generation = 0\<rparr>"

record ack_binding =
  ab_purpose :: string
  ab_key_id :: string
  ab_business_key_version :: u64
  ab_envelope_format :: int
  ab_envelope_digest :: bytes
  ab_key_check_value :: bytes
  ab_key_check_value_present :: bool

record coord_counters =
  cn_cloud_ready_events :: u64
  cn_requests_published :: u64
  cn_responses_received :: u64
  cn_responses_rejected :: u64
  cn_imports_committed :: u64
  cn_imports_failed :: u64
  cn_imports_unknown :: u64
  cn_acks_sent :: u64
  cn_ack_results_received :: u64
  cn_active_transitions :: u64
  cn_status_requests_sent :: u64
  cn_attempts_created :: u64
  cn_superseded_local :: u64
  cn_superseded_remote :: u64
  cn_idempotency_conflicts_total :: u64
  cn_blocked_attempts_total :: u64
  cn_legacy_store_records :: u64
  cn_fingerprint_changes_total :: counter_map
  cn_blocked_reasons_total :: counter_map
  cn_attempt_transitions_total :: counter_map
  cn_sec_not_found_stabilization_total :: counter_map
  cn_hard_conflicts_total :: counter_map
  cn_kl1_freshen_total :: u64
  cn_successor_request_id_digest :: string
  cn_sec_api_available :: bool

definition no_counters :: coord_counters where
  "no_counters = \<lparr>cn_cloud_ready_events = 0, cn_requests_published = 0,
     cn_responses_received = 0, cn_responses_rejected = 0, cn_imports_committed = 0,
     cn_imports_failed = 0, cn_imports_unknown = 0, cn_acks_sent = 0,
     cn_ack_results_received = 0, cn_active_transitions = 0, cn_status_requests_sent = 0,
     cn_attempts_created = 0, cn_superseded_local = 0, cn_superseded_remote = 0,
     cn_idempotency_conflicts_total = 0, cn_blocked_attempts_total = 0,
     cn_legacy_store_records = 0, cn_fingerprint_changes_total = (\<lambda>_. 0),
     cn_blocked_reasons_total = (\<lambda>_. 0), cn_attempt_transitions_total = (\<lambda>_. 0),
     cn_sec_not_found_stabilization_total = (\<lambda>_. 0), cn_hard_conflicts_total = (\<lambda>_. 0),
     cn_kl1_freshen_total = 0, cn_successor_request_id_digest = [],
     cn_sec_api_available = False\<rparr>"

end
