(* ===== verification/CoordCore.thy ===== *)
theory CoordCore
  imports CoordState
begin

text \<open>
  The coordinator's members and its leaf operations: clock reads, identifiers, back-off,
  persistence, transitions and counters, the readiness caches, the session identity, and the
  session-bound publication (src/src/v2c\_key\_provisioning\_coordinator.cpp).
\<close>

record coord =
  c_config :: coord_config
  c_state :: coord_state
  c_record :: keyprov_record
  c_cloud :: cloud_readiness
  c_capability :: capability_readiness
  c_identity :: session_identity
  c_identity_valid :: bool
  c_publish_session_supported :: bool
  c_last_cloud_sequence :: u64
  c_capability_ready :: bool
  c_clock_synced :: bool
  c_gate_reason :: string
  c_frozen_snapshot :: attempt_snapshot
  c_frozen_fingerprint :: fingerprint
  c_fingerprint_version :: u32
  c_submission :: string
  c_supersedes_request_id :: string
  c_superseded_by_request_id :: string
  c_blocked_reason :: string
  c_store_generation :: u64
  c_legacy_snapshot_unknown :: bool
  c_sec_outcome_unknown :: bool
  c_resolution :: import_resolution
  c_import_invocation_recorded :: bool
  c_pending_callback :: bool
  c_last_sec_evidence_kind :: evidence_kind
  c_sec_import_result_contract_version :: u32
  c_stab :: stabilization
  c_recovery_phase :: string
  c_cached_vmd_status :: int
  c_cached_vmd_error :: cloud_protocol_error
  c_kl1_params :: kl1_params
  c_budget :: budget_ledger
  c_lease_expires_at_ms :: int
  c_ack_safe_deadline_ms :: int
  c_sec_lease_admission_supported :: bool
  c_kl1_snapshot_available :: bool
  c_sec_result_contract_version :: u32
  c_sec_query_semantics_version :: u32
  c_sec_kl1_profile_version :: u32
  c_successor_request_id :: string
  c_successor_request_id_digest :: string
  c_current_sec_capability_epoch :: u64
  c_sec_capability_unavailable :: bool
  c_last_sec_capability_contract :: u32
  c_last_capability_not_found_flag :: bool
  c_status_backoff_ms :: u32
  c_nf_first_wall_ms :: int
  c_nf_last_wall_ms :: int
  c_last_obs_valid :: bool
  c_last_obs_vmd_status :: int
  c_last_obs_kind :: evidence_kind
  c_last_obs_error_code :: int
  c_last_obs_error_action :: int
  c_last_obs_generation :: u64
  c_sec_unknown_rounds :: u32
  c_sec_unknown_alerted :: bool
  c_reconcile_status_sent :: bool
  c_conflict_vmd_code :: string
  c_awaiting_active :: bool
  c_awaiting_request_id :: string
  c_awaiting_generation :: u64
  c_awaiting_fingerprint :: fingerprint
  c_pending_items :: "wrapped_item list"
  c_response_binding :: "ack_binding list"
  c_readiness :: keyprov_readiness
  c_import_attempted :: bool
  c_ack_items :: "import_item list"
  c_ack_sent :: bool
  c_status_sent :: bool
  c_recovering_ack :: bool
  c_last_response_message_id :: string
  c_deadline_ms :: int
  c_next_retry_ms :: int
  c_backoff_ms :: u32
  c_capability_event_seen :: bool
  c_running :: bool
  c_stopping :: bool
  c_counters :: coord_counters
  c_calls :: nat
  c_trace :: "effect list"

section \<open>Calls of the environment\<close>

definition called :: "coord \<Rightarrow> coord" where
  "called s = s\<lparr>c_calls := Suc (c_calls s)\<rparr>"

definition emit :: "effect \<Rightarrow> coord \<Rightarrow> coord" where
  "emit e s = s\<lparr>c_trace := e # c_trace s\<rparr>"

definition count_in :: "(coord_counters \<Rightarrow> coord_counters) \<Rightarrow> coord \<Rightarrow> coord" where
  "count_in f s = s\<lparr>c_counters := f (c_counters s)\<rparr>"

definition now_ms :: "env \<Rightarrow> coord \<Rightarrow> int \<times> coord" where
  "now_ms E s = (e_utc E (c_calls s), called s)"

definition now_monotonic_ms :: "env \<Rightarrow> coord \<Rightarrow> int \<times> coord" where
  "now_monotonic_ms E s = (e_mono E (c_calls s), called s)"

definition clock_check_ok :: "env \<Rightarrow> coord \<Rightarrow> bool \<times> coord" where
  "clock_check_ok E s = (e_clock_sync E (c_calls s), called s)"

definition clock_source_of :: "env \<Rightarrow> coord \<Rightarrow> clock_source \<times> coord" where
  "clock_source_of E s =
     (case e_health E of
        Some h \<Rightarrow> (h (c_calls s), called s)
      | None \<Rightarrow>
          (let (utc, s1) = now_ms E s; (mono, s2) = now_monotonic_ms E s1;
               (ok, s3) = clock_check_ok E s2
           in (clock_default\<lparr>cs_utc_now_ms := utc, cs_monotonic_ms := mono, cs_trusted := ok\<rparr>, s3)))"

text \<open>\<open>snprintf("%s-%016llx%016llx", prefix, a, b)\<close> with two draws.\<close>

definition generate_id :: "env \<Rightarrow> string \<Rightarrow> coord \<Rightarrow> string \<times> coord" where
  "generate_id E prefix s =
     (let a = e_rand E (c_calls s); s1 = called s; b = e_rand E (c_calls s1); s2 = called s1
      in (prefix @ ''-'' @ hex_encode (be64 a) @ hex_encode (be64 b), s2))"

section \<open>Back-off\<close>

definition current_backoff_ms :: "coord \<Rightarrow> u32" where
  "current_backoff_ms s =
     (if c_backoff_ms s = 0 then cfg_retry_initial_ms (c_config s) else c_backoff_ms s)"

text \<open>The jitter draw, \<open>uniform_int_distribution(0, backoff / 4 + 1)\<close>.\<close>

definition with_jitter :: "env \<Rightarrow> u32 \<Rightarrow> coord \<Rightarrow> u32 \<times> coord" where
  "with_jitter E backoff s =
     (if cfg_retry_jitter (c_config s) \<and> backoff > 0
      then (backoff + e_jitter E (c_calls s) (backoff div 4 + 1), called s)
      else (backoff, s))"

definition multiplier_u64 :: "coord_config \<Rightarrow> u64" where
  "multiplier_u64 cfg =
     (if cfg_retry_multiplier cfg \<le> 0 then 2 else word_of_int \<lfloor>cfg_retry_multiplier cfg\<rfloor>)"

definition schedule_retry :: "env \<Rightarrow> coord \<Rightarrow> coord" where
  "schedule_retry E s =
     (let (backoff, s1) = with_jitter E (current_backoff_ms s) s;
          (now, s2) = now_ms E s1;
          s3 = s2\<lparr>c_next_retry_ms := now + uint backoff\<rparr>;
          next0 = (ucast (current_backoff_ms s3) :: u64) * multiplier_u64 (c_config s3);
          next = (if next0 > ucast (cfg_retry_max_ms (c_config s3))
                  then ucast (cfg_retry_max_ms (c_config s3)) else next0)
      in s3\<lparr>c_backoff_ms := ucast next\<rparr>)"

definition schedule_status_retry :: "env \<Rightarrow> coord \<Rightarrow> coord" where
  "schedule_status_retry E s =
     (let b0 = (if c_status_backoff_ms s = 0
                then cfg_status_request_initial_interval_ms (c_config s)
                else c_status_backoff_ms s);
          (backoff, s1) = with_jitter E b0 s;
          (now, s2) = now_ms E s1;
          s3 = s2\<lparr>c_next_retry_ms := now + uint backoff\<rparr>;
          next0 = (ucast backoff :: u64) * multiplier_u64 (c_config s3);
          next = (if next0 > ucast (cfg_status_request_max_interval_ms (c_config s3))
                  then ucast (cfg_status_request_max_interval_ms (c_config s3)) else next0)
      in s3\<lparr>c_status_backoff_ms := ucast next\<rparr>)"

section \<open>Persistence\<close>

definition record_of_members :: "env \<Rightarrow> int \<Rightarrow> int \<Rightarrow> coord \<Rightarrow> keyprov_record" where
  "record_of_members E now1 now2 s =
     (let r = c_record s in
      r\<lparr>r_state := v2c_key_prov_state_to_string (c_state s), r_updated_at_ms := now1,
        r_deadline_ms := c_deadline_ms s,
        r_cloud_session_generation := cl_cert_session_generation (c_cloud s),
        r_schema_version := kV2cStoreSchemaVersion,
        r_fingerprint_version := c_fingerprint_version s,
        r_attempt_fingerprint :=
          (if c_fingerprint_version s > 0
           then keyprov_fingerprint_to_hex (e_hash E) (c_frozen_fingerprint s) else []),
        r_snapshot := c_frozen_snapshot s, r_submission := c_submission s,
        r_supersedes_request_id := c_supersedes_request_id s,
        r_superseded_by_request_id := c_superseded_by_request_id s,
        r_blocked_reason := c_blocked_reason s, r_store_generation := c_store_generation s,
        r_sec_import_result_contract_version := c_sec_import_result_contract_version s,
        r_sec_import_evidence_kind := evidence_code (c_last_sec_evidence_kind s),
        r_sec_evidence_observed_store_generation := c_store_generation s,
        r_sec_evidence_observed_at_ms := now2,
        r_import_invocation := c_import_invocation_recorded s,
        r_import_invocation_resolution := resolution_code (c_resolution s),
        r_sec_not_found_count := sn_consecutive_count (c_stab s),
        r_sec_not_found_first_observed_ms := c_nf_first_wall_ms s,
        r_sec_not_found_last_observed_ms := c_nf_last_wall_ms s,
        r_sec_capability_epoch := sn_sec_capability_epoch (c_stab s),
        r_sec_contract_version := sn_sec_contract_version (c_stab s),
        r_recovery_phase := c_recovery_phase s,
        r_successor_request_id := c_successor_request_id s,
        r_successor_request_id_digest := c_successor_request_id_digest s,
        r_lifecycle_profile := ''keyprov-lifecycle-kl1-v1'',
        r_budget := (c_budget s)\<lparr>bl_ack_safe_deadline_at_ms := c_ack_safe_deadline_ms s\<rparr>,
        r_lease_expires_at_ms := c_lease_expires_at_ms s,
        r_sec_result_contract_version := c_sec_result_contract_version s,
        r_sec_query_semantics_version := c_sec_query_semantics_version s,
        r_sec_supports_lease_admission := c_sec_lease_admission_supported s,
        r_sec_kl1_profile_version := c_sec_kl1_profile_version s,
        r_purposes :=
          (if as_purposes (c_frozen_snapshot s) \<noteq> []
           then map keyprov_purpose_to_string (as_purposes (c_frozen_snapshot s))
           else r_purposes r),
        r_business_key_versions :=
          (if as_purposes (c_frozen_snapshot s) \<noteq> []
           then map (\<lambda>kv. (keyprov_purpose_to_string (fst kv), snd kv))
                  (as_current_versions (c_frozen_snapshot s))
           else r_business_key_versions r)\<rparr>)"

definition persist :: "env \<Rightarrow> coord \<Rightarrow> coord" where
  "persist E s =
     (let (now1, s1) = now_ms E s; (now2, s2) = now_ms E s1;
          r = record_of_members E now1 now2 s2
      in emit (EvtPersist r) (s2\<lparr>c_record := r\<rparr>))"

definition set_last_error :: "string \<Rightarrow> coord \<Rightarrow> coord" where
  "set_last_error e s = s\<lparr>c_record := (c_record s)\<lparr>r_last_error := e\<rparr>\<rparr>"

section \<open>Transitions and reasons\<close>

definition transition_to :: "coord_state \<Rightarrow> coord \<Rightarrow> coord" where
  "transition_to next s =
     (if c_state s = next then s
      else (let key = v2c_key_prov_state_to_string (c_state s) @ ''->''
                      @ v2c_key_prov_state_to_string next;
                s1 = count_in (\<lambda>n. n\<lparr>cn_attempt_transitions_total :=
                        bump key (cn_attempt_transitions_total n)\<rparr>) s
            in s1\<lparr>c_state := next, c_recovery_phase := recovery_phase_for_state next\<rparr>))"

definition known_reasons :: "string list" where
  "known_reasons = [kLegacySnapshotUnknown, kIdempotencyConflict, kAwaitCloudTermination,
     kSecOutcomeUnknown, kVmdOutcomeUnknown, kSecImportNotFound, kSecImportInProgress,
     kEvidenceConflict, kStabilizingSecNotFound, kAwaitRemoteRepair, kHardEvidenceConflict]"

definition reason_key :: "string \<Rightarrow> string" where
  "reason_key reason = (if reason \<in> set known_reasons then reason else kBlockedUnknown)"

definition count_blocked_reason :: "string \<Rightarrow> coord \<Rightarrow> coord" where
  "count_blocked_reason reason s =
     count_in (\<lambda>n. n\<lparr>cn_blocked_reasons_total :=
        bump (reason_key reason) (cn_blocked_reasons_total n)\<rparr>) s"

definition reconcile_obs_suppressed ::
  "int \<Rightarrow> evidence_kind \<Rightarrow> int \<Rightarrow> int \<Rightarrow> coord \<Rightarrow> bool \<times> coord" where
  "reconcile_obs_suppressed vmd_status kind error_code error_action s =
     (if c_last_obs_valid s \<and> c_last_obs_vmd_status s = vmd_status \<and> c_last_obs_kind s = kind
         \<and> c_last_obs_error_code s = error_code \<and> c_last_obs_error_action s = error_action
         \<and> c_last_obs_generation s = c_store_generation s
      then (True, s)
      else (False, s\<lparr>c_last_obs_valid := True, c_last_obs_vmd_status := vmd_status,
              c_last_obs_kind := kind, c_last_obs_error_code := error_code,
              c_last_obs_error_action := error_action,
              c_last_obs_generation := c_store_generation s\<rparr>))"

definition record_conflict_facts :: "string \<Rightarrow> coord \<Rightarrow> coord" where
  "record_conflict_facts vmd_code s =
     (let s1 = (if vmd_code \<noteq> [] then s\<lparr>c_conflict_vmd_code := vmd_code\<rparr> else s);
          s2 = count_in (\<lambda>n. n\<lparr>cn_blocked_attempts_total := cn_blocked_attempts_total n + 1\<rparr>) s1
      in count_blocked_reason kIdempotencyConflict s2)"

definition submission_evidence :: "coord \<Rightarrow> bool" where
  "submission_evidence s \<longleftrightarrow>
     c_submission s \<noteq> kSubmissionNone \<or> r_attempt_count (c_record s) > 0
     \<or> c_import_attempted s \<or> c_ack_sent s \<or> c_status_sent s"

text \<open>\<open>vmd_code\<close> is the empty string for \<open>nullptr\<close>.\<close>

definition enter_reconcile_old_attempt :: "env \<Rightarrow> string \<Rightarrow> string \<Rightarrow> coord \<Rightarrow> coord" where
  "enter_reconcile_old_attempt E reason vmd_code s =
     (let s1 = s\<lparr>c_deadline_ms := 0, c_reconcile_status_sent := False,
                 c_awaiting_active := False\<rparr>;
          s2 = (if vmd_code \<noteq> [] then s1\<lparr>c_conflict_vmd_code := vmd_code\<rparr> else s1);
          s3 = (if reason \<noteq> [] then set_last_error reason s2 else s2)
      in persist E (transition_to RECONCILE_OLD_ATTEMPT s3))"

definition enter_reconcile_evidence :: "env \<Rightarrow> string \<Rightarrow> coord \<Rightarrow> coord" where
  "enter_reconcile_evidence E reason s =
     (let s1 = (if reason \<noteq> [] then set_last_error reason s else s);
          s2 = s1\<lparr>c_blocked_reason := kStabilizingSecNotFound\<rparr>
      in persist E (schedule_status_retry E (transition_to RECONCILE_EVIDENCE s2)))"

definition enter_hard_blocked :: "env \<Rightarrow> string \<Rightarrow> coord \<Rightarrow> coord" where
  "enter_hard_blocked E reason s =
     (let s1 = set_last_error ''hard_evidence_conflict''
                 (s\<lparr>c_resolution := HardConflict,
                    c_blocked_reason := (if reason \<noteq> [] then reason else kHardEvidenceConflict)\<rparr>);
          s2 = count_blocked_reason (c_blocked_reason s1) s1;
          s3 = count_in (\<lambda>n. n\<lparr>cn_hard_conflicts_total :=
                  bump (c_blocked_reason s2) (cn_hard_conflicts_total n)\<rparr>) s2
      in persist E (schedule_retry E (transition_to HARD_BLOCKED s3)))"

end
