(* ===== verification/CoordSession.thy ===== *)
theory CoordSession
  imports CoordCore
begin

text \<open>
  Readiness caches, session identity, the capability gate and the session-bound publication of
  the coordinator (\<open>apply_cloud_readiness_locked\<close> to \<open>capability_gate_locked\<close> and
  \<open>publish_keyprov_locked\<close>).
\<close>

definition kCapabilityKeyprov :: string where "kCapabilityKeyprov = ''security.keyprov''"

abbreviation (input) "kMqttCloudReadinessContractVersionV3 \<equiv> (3::u32)"
abbreviation (input) "kMqttPublishSessionContractVersion \<equiv> (1::u32)"

section \<open>Identity and readiness events\<close>

definition invalidate_identity :: "coord \<Rightarrow> coord" where
  "invalidate_identity s =
     s\<lparr>c_identity_valid := False, c_identity := empty_identity, c_pending_items := [],
       c_response_binding := [], c_last_response_message_id := [], c_deadline_ms := 0\<rparr>"

definition apply_cloud_readiness :: "cloud_readiness \<Rightarrow> coord \<Rightarrow> coord" where
  "apply_cloud_readiness r s =
     (let epoch_changed = (ms_daemon_epoch (cl_session r) \<noteq> ms_daemon_epoch (cl_session (c_cloud s)));
          s1 = (if epoch_changed then s\<lparr>c_last_cloud_sequence := 0\<rparr> else s)
      in if \<not> epoch_changed \<and> cl_event_sequence r \<noteq> 0 \<and> c_last_cloud_sequence s1 \<noteq> 0
            \<and> cl_event_sequence r \<le> c_last_cloud_sequence s1
         then s1
         else
           (let sequence_gap = (\<not> epoch_changed \<and> c_last_cloud_sequence s1 \<noteq> 0
                                \<and> cl_event_sequence r > c_last_cloud_sequence s1 + 1);
                s2 = (if cl_event_sequence r \<noteq> 0
                      then s1\<lparr>c_last_cloud_sequence := cl_event_sequence r\<rparr> else s1);
                connection_changed = (ms_connection_generation (cl_session r)
                                      \<noteq> ms_connection_generation (cl_session (c_cloud s2)));
                cert_changed = (ms_cert_session_generation (cl_session r)
                                \<noteq> ms_cert_session_generation (cl_session (c_cloud s2)));
                s3 = s2\<lparr>c_cloud := r\<rparr>;
                s4 = (if cl_cloud_ready r
                      then count_in (\<lambda>n. n\<lparr>cn_cloud_ready_events := cn_cloud_ready_events n + 1\<rparr>) s3
                      else s3);
                s5 = s4\<lparr>c_capability_event_seen := True\<rparr>
            in if epoch_changed \<or> connection_changed \<or> cert_changed \<or> sequence_gap
                  \<or> \<not> cl_cloud_ready r
               then invalidate_identity s5 else s5))"

definition apply_capability_readiness :: "capability_readiness \<Rightarrow> coord \<Rightarrow> coord" where
  "apply_capability_readiness r s =
     (if cy_capability r \<noteq> kCapabilityKeyprov then s
      else (let s1 = s\<lparr>c_capability := r, c_capability_event_seen := True\<rparr>
            in if \<not> cy_ready r then invalidate_identity s1 else s1))"

definition refresh_readiness :: "env \<Rightarrow> coord \<Rightarrow> coord" where
  "refresh_readiness E s =
     (let r = e_cloud E (c_calls s);
          s1 = apply_cloud_readiness r (called s);
          c = e_capability E (c_calls s1)
      in apply_capability_readiness c (called s1))"

section \<open>SEC capability\<close>

definition update_sec_capability_epoch :: "error_code \<Rightarrow> sec_capability \<Rightarrow> coord \<Rightarrow> coord" where
  "update_sec_capability_epoch ec cap s =
     (if ec \<noteq> EcSuccess then s\<lparr>c_sec_capability_unavailable := True\<rparr>
      else
        (let s1 = (if c_sec_capability_unavailable s
                      \<or> cap_capability_contract_version cap \<noteq> c_last_sec_capability_contract s
                      \<or> cap_import_result_not_found_v1 cap \<noteq> c_last_capability_not_found_flag s
                   then s\<lparr>c_current_sec_capability_epoch := c_current_sec_capability_epoch s + 1\<rparr>
                   else s);
             s2 = (if c_current_sec_capability_epoch s1 = 0
                   then s1\<lparr>c_current_sec_capability_epoch := 1\<rparr> else s1)
         in s2\<lparr>c_sec_capability_unavailable := False,
               c_last_sec_capability_contract := cap_capability_contract_version cap,
               c_last_capability_not_found_flag := cap_import_result_not_found_v1 cap\<rparr>))"

definition refresh_sec_readiness :: "env \<Rightarrow> coord \<Rightarrow> coord" where
  "refresh_sec_readiness E s =
     (let r0 = keyprov_build_lock_readiness (e_lock E) (e_runtime_check E);
          (ec, cap) = e_sec_capability E (c_calls s);
          s1 = update_sec_capability_epoch ec cap (called s);
          (r1, ver) = (if ec = EcSuccess
                       then (keyprov_apply_sec_capability (e_sc E) cap r0,
                             cap_capability_contract_version cap)
                       else (r0, 0));
          s2 = s1\<lparr>c_sec_import_result_contract_version := ver\<rparr>;
          (kc, snap) = e_sec_contract E (c_calls s2);
          s3 = called s2;
          s4 = (if kc = EcSuccess then
                  (let s5 = s3\<lparr>c_kl1_snapshot_available := True,
                        c_sec_lease_admission_supported := ks_supports_lease_admission snap,
                        c_sec_result_contract_version := ks_result_contract_version snap,
                        c_sec_query_semantics_version := ks_query_semantics_version snap,
                        c_sec_kl1_profile_version := ks_kl1_profile_version snap\<rparr>;
                       s6 = (if ks_capability_epoch snap \<noteq> 0
                             then s5\<lparr>c_current_sec_capability_epoch := ks_capability_epoch snap\<rparr>
                             else s5)
                   in s6\<lparr>c_record := (c_record s6)
                        \<lparr>r_sec_result_contract_version := ks_result_contract_version snap,
                         r_sec_query_semantics_version := ks_query_semantics_version snap,
                         r_sec_supports_lease_admission := ks_supports_lease_admission snap,
                         r_sec_kl1_profile_version := ks_kl1_profile_version snap\<rparr>\<rparr>)
                else s3\<lparr>c_kl1_snapshot_available := False,
                        c_sec_lease_admission_supported := False\<rparr>)
      in s4\<lparr>c_readiness := r1\<rparr>)"

section \<open>The capability gate\<close>

text \<open>\<open>Inl reason\<close> is the result false with that reason.\<close>

definition cloud_gate :: "coord \<Rightarrow> string option" where
  "cloud_gate s =
     (let cl = c_cloud s; cy = c_capability s in
      if \<not> cl_contract_supported cl
         \<or> cl_contract_version cl < kMqttCloudReadinessContractVersionV3
      then Some ''readiness_v3_unsupported''
      else if \<not> c_publish_session_supported s then Some ''session_bound_publish_unsupported''
      else if \<not> cy_ready cy
      then Some (if cy_reason_code cy = [] then ''capability_not_ready'' else cy_reason_code cy)
      else if \<not> cl_cloud_ready cl then Some ''cloud_not_ready''
      else if cy_connection_generation cy \<noteq> ms_connection_generation (cl_session cl)
              \<or> cy_cert_session_generation cy \<noteq> ms_cert_session_generation (cl_session cl)
      then Some ''generation_mismatch''
      else if \<not> keyprov_is_canonical_uid (cl_ecu_uid cl) then Some ''uid_invalid''
      else None)"

definition cloud_identity :: "cloud_readiness \<Rightarrow> session_identity" where
  "cloud_identity cl =
     \<lparr>si_ecu_uid = cl_ecu_uid cl, si_device_identity_digest = cl_device_identity_digest cl,
      si_certificate_ref = cl_certificate_ref cl, si_session = cl_session cl\<rparr>"

definition capability_gate :: "env \<Rightarrow> coord \<Rightarrow> (string + unit) \<times> coord" where
  "capability_gate E s =
     (if \<not> cfg_enabled (c_config s) then (Inl ''disabled'', s)
      else if c_stopping s then (Inl ''stopping'', s)
      else
        (let s1 = refresh_sec_readiness E s in
         if \<not> readiness_all (c_readiness s1)
         then (Inl (first_missing_reason (c_readiness s1)), s1)
         else
           (let s2 = s1\<lparr>c_publish_session_supported :=
                   (cl_publish_contract_version (c_cloud s1) \<ge> kMqttPublishSessionContractVersion)\<rparr>
            in case cloud_gate s2 of
                 Some reason \<Rightarrow> (Inl reason, s2)
               | None \<Rightarrow>
                   (let idn = cloud_identity (c_cloud s2) in
                    case keyprov_validate_identity idn of
                      Inl reason \<Rightarrow> (Inl reason, s2\<lparr>c_identity := empty_identity\<rparr>)
                    | Inr _ \<Rightarrow>
                        (Inr (), s2\<lparr>c_identity := idn, c_identity_valid := True\<rparr>)))))"

section \<open>Session-bound publication\<close>

definition kPublishContextStale :: string where "kPublishContextStale = ''PUBLISH_SESSION_CONTEXT_STALE''"
definition kPublishContextRequired :: string where
  "kPublishContextRequired = ''PUBLISH_SESSION_CONTEXT_REQUIRED''"
definition kPublishContextUnsupported :: string where
  "kPublishContextUnsupported = ''PUBLISH_SESSION_CONTEXT_UNSUPPORTED''"
definition kSessionIdentityMissing :: string where "kSessionIdentityMissing = ''SESSION_IDENTITY_MISSING''"
definition kSessionIdentityInvalid :: string where "kSessionIdentityInvalid = ''SESSION_IDENTITY_INVALID''"
definition kSessionIdentityConflict :: string where
  "kSessionIdentityConflict = ''SESSION_IDENTITY_CONFLICT''"

definition publish_rejected :: "env \<Rightarrow> publish_result \<Rightarrow> coord \<Rightarrow> coord" where
  "publish_rejected E pr s =
     (let reason = pu_reason_code pr in
      if reason = kPublishContextStale
      then refresh_readiness E
             (set_last_error ''publish_session_stale''
               ((invalidate_identity s)\<lparr>c_state := WAIT_CLOUD\<rparr>))
      else if reason = kPublishContextRequired
      then set_last_error ''publish_session_required'' (s\<lparr>c_state := BLOCKED\<rparr>)
      else if reason = kPublishContextUnsupported
      then set_last_error ''publish_session_unsupported''
             (s\<lparr>c_publish_session_supported := False, c_state := WAIT_CLOUD\<rparr>)
      else if reason = kSessionIdentityInvalid \<or> reason = kSessionIdentityConflict
              \<or> reason = kSessionIdentityMissing
      then set_last_error ''session_identity_invalid''
             ((invalidate_identity s)\<lparr>c_state := BLOCKED\<rparr>)
      else schedule_retry E
             (set_last_error (if pu_retryable pr then ''route_publish_rejected''
                              else ''route_publish_rejected_fatal'')
               (s\<lparr>c_state := RETRY_WAIT\<rparr>)))"

text \<open>
  \<open>kind\<close> is ghost: it names what the bytes are, for the trace. The bytes and the message id go
  to the facade, which answers from the environment.
\<close>

definition publish_keyprov ::
  "env \<Rightarrow> message_kind \<Rightarrow> string \<Rightarrow> bytes \<Rightarrow> string \<Rightarrow> coord \<Rightarrow> bool \<times> coord" where
  "publish_keyprov E kind message_id envelope_bytes request_id s =
     (if \<not> c_identity_valid s
      then (False, set_last_error ''identity_unavailable'' (s\<lparr>c_state := WAIT_CLOUD\<rparr>))
      else
        (let pr = e_publish E (c_calls s);
             taken = (pu_accepted pr \<or> pu_outcome pr = DeliveryUnknown);
             s1 = emit (EvtPublish kind request_id (si_session (c_identity s)) taken) (called s)
         in if taken then (True, s1) else (False, publish_rejected E pr s1)))"

end
