(* ===== verification/CoordAttempt.thy ===== *)
theory CoordAttempt
  imports CoordSession
begin

text \<open>
  The attempt of the coordinator: candidate snapshot, creation of an attempt, the Request with
  its budget, freshening, the supersession under one successor id, and the SEC status check
  (\<open>build_candidate_locked\<close>, \<open>create_new_attempt_locked\<close>, \<open>do_request_locked\<close>,
  \<open>maybe_freshen_locked\<close>, \<open>supersede_remote_once_locked\<close>).
\<close>

definition generate_digest :: "env \<Rightarrow> string \<Rightarrow> string" where
  "generate_digest E s = h_sha256_hex (e_hash E) (str_bytes s)"

definition query_sec_status :: "env \<Rightarrow> coord \<Rightarrow> (error_code \<times> business_key_status list) \<times> coord" where
  "query_sec_status E s = (e_sec_status E (c_calls s), called s)"

definition build_candidate ::
  "env \<Rightarrow> coord \<Rightarrow> (string + attempt_snapshot \<times> fingerprint) \<times> coord" where
  "build_candidate E s =
     (let ((ec, items), s1) = query_sec_status E s in
      if ec \<noteq> EcSuccess then (Inl ''sec_status_unavailable'', s1)
      else if \<not> c_identity_valid s1 then (Inl ''identity_unavailable'', s1)
      else (case keyprov_validate_identity (c_identity s1) of
              Inl err \<Rightarrow> (Inl err, s1)
            | Inr _ \<Rightarrow>
                (case keyprov_build_attempt_snapshot (e_hash E)
                        (cfg_business_domain (c_config s1)) (cfg_purposes (c_config s1))
                        (c_identity s1) items (keyprov_protocol_lock_digest_v1 (e_hash E) (e_lock E)) of
                   Inl err \<Rightarrow> (Inl err, s1)
                 | Inr cand \<Rightarrow>
                     (case keyprov_compute_attempt_fingerprint_v1 (e_hash E) cand of
                        Inl err \<Rightarrow> (Inl err, s1)
                      | Inr fp \<Rightarrow> (Inr (cand, fp), s1)))))"

definition candidate_failed :: "env \<Rightarrow> string \<Rightarrow> coord \<Rightarrow> coord" where
  "candidate_failed E err s =
     persist E (schedule_retry E
       (set_last_error (if err = [] then ''attempt_snapshot_failed'' else err)
          (s\<lparr>c_state := RETRY_WAIT\<rparr>)))"

definition count_fingerprint_change :: "attempt_snapshot \<Rightarrow> coord \<Rightarrow> coord" where
  "count_fingerprint_change cand s =
     count_in (\<lambda>n. n\<lparr>cn_fingerprint_changes_total :=
        bump (keyprov_attempt_change_dimension_to_string
               (keyprov_attempt_change_dimension (c_frozen_snapshot s) cand))
          (cn_fingerprint_changes_total n)\<rparr>) s"

section \<open>The Request\<close>

definition request_of_attempt :: "int \<Rightarrow> coord \<Rightarrow> request_data" where
  "request_of_attempt now s =
     (let r = c_record s; f = c_frozen_snapshot s; cfg = c_config s in
      \<lparr>rq_request_id = r_request_id r,
       rq_idempotency_key =
         (if r_idempotency_digest r = [] then r_request_id r else r_idempotency_digest r),
       rq_business_domain =
         (if as_business_domain f = [] then cfg_business_domain cfg else as_business_domain f),
       rq_purposes = as_purposes f, rq_certificate_profile = cfg_certificate_profile cfg,
       rq_key_encipherment_key_id = [], rq_supported_wrapping_suites = as_wrapping_suites f,
       rq_supported_envelope_formats = as_envelope_formats f,
       rq_current_versions = as_current_versions f, rq_timestamp_ms = now,
       rq_expire_at_ms = now + uint (cfg_request_timeout_ms cfg) + 1000\<rparr>)"

definition mark_awaiting :: "coord \<Rightarrow> coord" where
  "mark_awaiting s =
     s\<lparr>c_awaiting_active := True, c_awaiting_request_id := r_request_id (c_record s),
       c_awaiting_generation := c_store_generation s,
       c_awaiting_fingerprint := c_frozen_fingerprint s\<rparr>"

text \<open>From \<open>int64_t now = now_ms()\<close> to the end of \<open>do_request_locked\<close>.\<close>

definition send_request :: "env \<Rightarrow> coord \<Rightarrow> coord" where
  "send_request E s =
     (let (now, s1) = now_ms E s;
          (mid, s2) = generate_id E ''msg'' s1
      in case build_keyprov_request_envelope (e_pb E) (c_identity s2) (request_of_attempt now s2) mid [] of
           Inl _ \<Rightarrow>
             persist E (schedule_retry E
               (set_last_error ''request_encode_failed'' (s2\<lparr>c_state := RETRY_WAIT\<rparr>)))
         | Inr envelope \<Rightarrow>
             (let (ok, s3) = publish_keyprov E MkRequest mid envelope (r_request_id (c_record s2)) s2
              in if ok then
                   (let s4 = s3\<lparr>c_budget := preconsume_request (c_kl1_params s3) now (c_budget s3),
                              c_state := WAIT_RESPONSE,
                              c_deadline_ms := now + uint (cfg_request_timeout_ms (c_config s3)),
                              c_record := (c_record s3)
                                \<lparr>r_attempt_count := r_attempt_count (c_record s3) + 1\<rparr>\<rparr>;
                        s5 = count_in (\<lambda>n. n\<lparr>cn_requests_published := cn_requests_published n + 1\<rparr>) s4
                    in persist E (mark_awaiting (s5\<lparr>c_submission := kSubmissionSubmitted\<rparr>)))
                 else persist E s3))"

definition do_request :: "env \<Rightarrow> coord \<Rightarrow> coord" where
  "do_request E s =
     (let (cand_res, s1) = build_candidate E s in
      case cand_res of
        Inl err \<Rightarrow> candidate_failed E err s1
      | Inr (cand, fp) \<Rightarrow>
          (let (now0, s2) = now_ms E s1 in
           if \<not> request_ok (c_kl1_params s2) now0 (c_budget s2)
           then persist E (schedule_status_retry E
                  (enter_reconcile_old_attempt E ''request_budget_exhausted'' [] s2))
           else if c_fingerprint_version s2 > 0
                   \<and> \<not> keyprov_fingerprint_equal (c_frozen_fingerprint s2) fp
           then enter_reconcile_old_attempt E ''fingerprint_changed_before_send'' []
                  (count_fingerprint_change cand s2)
           else send_request E s2))"

section \<open>A new attempt\<close>

text \<open>The old identifier goes to the bounded audit list (the last 16).\<close>

definition terminalize_old :: "coord \<Rightarrow> coord" where
  "terminalize_old s =
     (let rid = r_request_id (c_record s) in
      if rid = [] then s
      else
        (let s1 = (if c_supersedes_request_id s = [] then s\<lparr>c_supersedes_request_id := rid\<rparr> else s);
             ids = r_terminalized_request_ids (c_record s1);
             ids1 = (if ids = [] \<or> last ids \<noteq> rid then ids @ [rid] else ids);
             ids2 = (if length ids1 > 16 then drop (length ids1 - 16) ids1 else ids1)
         in s1\<lparr>c_record := (c_record s1)\<lparr>r_terminalized_request_ids := ids2\<rparr>\<rparr>))"

definition choose_request_id :: "env \<Rightarrow> coord \<Rightarrow> coord" where
  "choose_request_id E s =
     (if c_successor_request_id s = []
      then (let (rid, s1) = generate_id E ''kp'' s
            in s1\<lparr>c_record := (c_record s1)\<lparr>r_request_id := rid\<rparr>\<rparr>)
      else s\<lparr>c_record := (c_record s)\<lparr>r_request_id := c_successor_request_id s\<rparr>,
             c_successor_request_id := []\<rparr>)"

definition freeze_attempt :: "env \<Rightarrow> attempt_snapshot \<Rightarrow> fingerprint \<Rightarrow> coord \<Rightarrow> coord" where
  "freeze_attempt E cand fp s =
     s\<lparr>c_frozen_snapshot := cand, c_frozen_fingerprint := fp,
       c_fingerprint_version := kAttemptFingerprintVersionV1,
       c_record := (c_record s)
         \<lparr>r_idempotency_digest :=
            generate_digest E (r_request_id (c_record s) @ ''|'' @ cfg_business_domain (c_config s)),
          r_purposes := cfg_purposes (c_config s), r_snapshot := cand,
          r_attempt_fingerprint := keyprov_fingerprint_to_hex (e_hash E) fp,
          r_fingerprint_version := kAttemptFingerprintVersionV1\<rparr>\<rparr>"

definition reset_attempt_members :: "coord \<Rightarrow> coord" where
  "reset_attempt_members s =
     s\<lparr>c_import_attempted := False, c_ack_sent := False, c_status_sent := False,
       c_recovering_ack := False, c_pending_items := [], c_response_binding := [],
       c_ack_items := [],
       c_record := (c_record s)\<lparr>r_attempt_count := 0, r_last_error := []\<rparr>,
       c_blocked_reason := [], c_conflict_vmd_code := [], c_submission := kSubmissionNone,
       c_legacy_snapshot_unknown := False, c_sec_outcome_unknown := False,
       c_sec_unknown_rounds := 0, c_sec_unknown_alerted := False,
       c_budget := (reset_for_new_attempt (c_budget s))\<lparr>bl_ack_safe_deadline_at_ms := 0\<rparr>,
       c_lease_expires_at_ms := 0, c_ack_safe_deadline_ms := 0,
       c_import_invocation_recorded := False, c_pending_callback := False,
       c_resolution := NoSideEffectProven, c_stab := no_stabilization, c_recovery_phase := [],
       c_cached_vmd_status := - 1, c_cached_vmd_error := no_cloud_error,
       c_nf_first_wall_ms := - 1, c_nf_last_wall_ms := - 1,
       c_last_sec_evidence_kind := EvContractUnknown, c_last_obs_valid := False,
       c_counters := (c_counters s)\<lparr>cn_attempts_created := cn_attempts_created (c_counters s) + 1\<rparr>,
       c_store_generation := c_store_generation s + 1, c_awaiting_active := False,
       c_state := REQUESTING\<rparr>"

definition create_new_attempt :: "env \<Rightarrow> coord \<Rightarrow> coord" where
  "create_new_attempt E s =
     (if c_sec_outcome_unknown s
      then persist E (schedule_retry E
             ((count_blocked_reason kSecOutcomeUnknown
                 (s\<lparr>c_blocked_reason := kSecOutcomeUnknown\<rparr>))\<lparr>c_state := RECONCILE_OLD_ATTEMPT\<rparr>))
      else
        (let (cand_res, s1) = build_candidate E s in
         case cand_res of
           Inl err \<Rightarrow> candidate_failed E err s1
         | Inr (cand, fp) \<Rightarrow>
             (let s2 = choose_request_id E (terminalize_old s1);
                  s3 = reset_attempt_members (freeze_attempt E cand fp s2);
                  s4 = emit (EvtNewAttempt (r_request_id (c_record s3))) s3
              in do_request E (persist E s4))))"

definition freeze_current_input :: "env \<Rightarrow> coord \<Rightarrow> coord" where
  "freeze_current_input E s =
     (let (cand_res, s1) = build_candidate E s in
      case cand_res of
        Inl _ \<Rightarrow> s1
      | Inr (cand, fp) \<Rightarrow>
          s1\<lparr>c_frozen_snapshot := cand, c_frozen_fingerprint := fp,
             c_fingerprint_version := kAttemptFingerprintVersionV1\<rparr>)"

section \<open>Supersession under one successor id\<close>

definition supersede_remote_once :: "env \<Rightarrow> coord \<Rightarrow> coord" where
  "supersede_remote_once E s =
     (let s1 = set_last_error ''vmd_batch_terminated''
                 (count_in (\<lambda>n. n\<lparr>cn_superseded_remote := cn_superseded_remote n + 1\<rparr>) s);
          (now, s2) = now_ms E s1
      in if \<not> chain_ok (c_kl1_params s2) now (c_budget s2)
         then persist E (schedule_status_retry E
                (transition_to BLOCKED_AWAIT_CLOUD_TERMINATION
                  (count_blocked_reason kAwaitCloudTermination
                    (set_last_error ''chain_budget_exhausted''
                      (s2\<lparr>c_blocked_reason := kAwaitCloudTermination\<rparr>)))))
         else
           (let s3 = (if c_successor_request_id s2 = [] then
                        (let (rid, s2a) = generate_id E ''kp'' s2;
                             s2b = s2a\<lparr>c_successor_request_id := rid,
                                       c_successor_request_id_digest := generate_digest E rid\<rparr>;
                             (now2, s2c) = now_ms E s2b
                         in s2c\<lparr>c_budget := (preconsume_chain_id (c_kl1_params s2c) now2 (c_budget s2c))
                                  \<lparr>bl_chain_id := rid\<rparr>\<rparr>)
                      else s2);
                s4 = s3\<lparr>c_cached_vmd_status := - 1, c_cached_vmd_error := no_cloud_error,
                        c_state := SUPERSEDED_REMOTE\<rparr>
            in create_new_attempt E (persist E s4)))"

section \<open>Freshening and time-outs\<close>

definition maybe_freshen :: "env \<Rightarrow> coord \<Rightarrow> bool \<times> coord" where
  "maybe_freshen E s =
     (if c_resolution s \<noteq> NoSideEffectProven \<or> c_sec_outcome_unknown s then (False, s)
      else if c_cached_vmd_status s \<noteq> kKeyProvStatusAckPending then (False, s)
      else if c_lease_expires_at_ms s \<le> 0 then (False, s)
      else
        (let (c, s1) = clock_source_of E s; u = utc_upper c in
         if \<not> keyprov_lease_expired u (c_lease_expires_at_ms s1) then (False, s1)
         else if \<not> freshen_ok (c_budget s1) \<or> \<not> request_ok (c_kl1_params s1) u (c_budget s1)
         then (False, s1)
         else
           (let s2 = s1\<lparr>c_budget := preconsume_request (c_kl1_params s1) u
                                      (preconsume_freshen (c_budget s1))\<rparr>;
                s3 = set_last_error ''lease_freshen''
                       (count_in (\<lambda>n. n\<lparr>cn_kl1_freshen_total := cn_kl1_freshen_total n + 1\<rparr>) s2)
            in (True, do_request E ((persist E s3)\<lparr>c_state := REQUESTING\<rparr>)))))"

definition handle_expired_response :: "env \<Rightarrow> coord \<Rightarrow> coord" where
  "handle_expired_response E s =
     persist E (schedule_status_retry E
       (enter_reconcile_old_attempt E ''response_expired'' []
         (set_last_error ''response_expired''
           (count_in (\<lambda>n. n\<lparr>cn_responses_rejected := cn_responses_rejected n + 1\<rparr>) s))))"

definition on_response_timeout :: "env \<Rightarrow> coord \<Rightarrow> coord" where
  "on_response_timeout E s =
     (let (now, s1) = now_ms E s in
      if request_ok (c_kl1_params s1) now (c_budget s1)
      then persist E (schedule_retry E
             (set_last_error ''response_timeout'' (s1\<lparr>c_state := RETRY_WAIT\<rparr>)))
      else persist E (schedule_status_retry E
             (enter_reconcile_old_attempt E ''request_budget_exhausted'' [] s1)))"

end
