(* ===== verification/CoordImport.thy ===== *)
theory CoordImport
  imports CoordAttempt
begin

text \<open>
  Import and acknowledgement of the coordinator: the checks on a Response and on an import
  result, the mechanical mapping of SEC items to acknowledgement items, the status request, the
  acknowledgement with its deadline and budget, and the import with its write-ahead record.
\<close>

section \<open>Checks\<close>

fun find_item :: "string \<Rightarrow> wrapped_item list \<Rightarrow> wrapped_item option" where
  "find_item p [] = None"
| "find_item p (it # its) = (if wi_purpose it = p then Some it else find_item p its)"

definition response_item_bad :: "sec_consts \<Rightarrow> wrapped_item \<Rightarrow> bool" where
  "response_item_bad sc it \<longleftrightarrow>
     wi_business_key_version it = 0 \<or> wi_key_id it = [] \<or> wi_wrapped_key it = []
     \<or> length (wi_wrapped_key it) > kKeyprovMaxWrappedKeyBytes
     \<or> length (wi_parameters it) > kKeyprovMaxParametersBytes
     \<or> wi_envelope_format it \<noteq> sc_format_ecdh_v1 sc
     \<or> length (wi_envelope_digest it) \<noteq> kKeyprovEnvelopeDigestBytes
     \<or> \<not> wi_key_check_value_present it"

fun response_purposes_ok :: "sec_consts \<Rightarrow> string list \<Rightarrow> wrapped_item list \<Rightarrow> string option" where
  "response_purposes_ok sc [] its = None"
| "response_purposes_ok sc (p # ps) its =
     (case find_item p its of
        None \<Rightarrow> Some ''response_purpose_missing''
      | Some it \<Rightarrow> if response_item_bad sc it then Some ''response_item_invalid''
                   else response_purposes_ok sc ps its)"

text \<open>\<open>None\<close> is the result true, \<open>Some err\<close> false with that error.\<close>

definition keyprov_response_valid :: "sec_consts \<Rightarrow> coord_config \<Rightarrow> response_data \<Rightarrow> string option" where
  "keyprov_response_valid sc cfg resp =
     (if length (rd_items resp) \<noteq> length (cfg_purposes cfg)
      then Some ''response_purpose_count_mismatch''
      else response_purposes_ok sc (cfg_purposes cfg) (rd_items resp))"

definition purposes_complete :: "coord_config \<Rightarrow> business_key_status list \<Rightarrow> bool" where
  "purposes_complete cfg items \<longleftrightarrow>
     length items = length (cfg_purposes cfg)
     \<and> list_all (\<lambda>p. list_ex (\<lambda>it. bks_purpose it = p \<and> bks_state it = KeyActive
                                   \<and> bks_business_key_version it > 0) items) (cfg_purposes cfg)"

definition import_item_bad :: "sec_consts \<Rightarrow> sec_import_item \<Rightarrow> bool" where
  "import_item_bad sc it \<longleftrightarrow>
     ii_state it \<noteq> KeyActive \<or> ii_business_key_version it = 0 \<or> ii_key_id it = []
     \<or> ii_envelope_format it \<noteq> sc_format_ecdh_v1 sc
     \<or> length (ii_envelope_digest it) \<noteq> kKeyprovEnvelopeDigestBytes
     \<or> \<not> ii_key_check_value_present it
     \<or> length (ii_import_proof it) \<noteq> kKeyprovImportProofP1363Bytes
     \<or> length (ii_recipient_certificate_digest it) \<noteq> kKeyprovRecipientCertDigestBytes
     \<or> ii_proof_algorithm it \<noteq> sc_proof_alg_p1363 sc"

text \<open>Only the first binding of the purpose is compared.\<close>

fun binding_conflict :: "ack_binding list \<Rightarrow> sec_import_item \<Rightarrow> bool" where
  "binding_conflict [] it = False"
| "binding_conflict (b # bs) it =
     (if ab_purpose b \<noteq> ii_purpose it then binding_conflict bs it
      else ab_key_id b \<noteq> ii_key_id it \<or> ab_business_key_version b \<noteq> ii_business_key_version it
           \<or> ab_envelope_format b \<noteq> ii_envelope_format it
           \<or> ab_envelope_digest b \<noteq> ii_envelope_digest it
           \<or> ab_key_check_value b \<noteq> ii_key_check_value it)"

text \<open>
  The inner loop stops at the first item of the purpose, so its duplicate branch is dead: a
  second item of the purpose is never looked at.
\<close>

fun import_purposes_ok ::
  "sec_consts \<Rightarrow> ack_binding list \<Rightarrow> string list \<Rightarrow> sec_import_item list \<Rightarrow> string option" where
  "import_purposes_ok sc bs [] its = None"
| "import_purposes_ok sc bs (p # ps) its =
     (case find (\<lambda>it. ii_purpose it = p) its of
        None \<Rightarrow> Some ''import_purpose_missing''
      | Some it \<Rightarrow>
          if import_item_bad sc it then Some ''import_attestation_invalid''
          else if binding_conflict bs it then Some ''import_response_binding_conflict''
          else import_purposes_ok sc bs ps its)"

definition import_result_bindable :: "sec_consts \<Rightarrow> coord \<Rightarrow> import_result \<Rightarrow> string option" where
  "import_result_bindable sc s result =
     (if length (ir_items result) \<noteq> length (cfg_purposes (c_config s))
      then Some ''import_purpose_count_mismatch''
      else import_purposes_ok sc (c_response_binding s) (cfg_purposes (c_config s)) (ir_items result))"

definition ack_item_of :: "sec_consts \<Rightarrow> sec_import_item \<Rightarrow> import_item" where
  "ack_item_of sc it =
     \<lparr>pi_purpose = keyprov_purpose_from_string (ii_purpose it), pi_key_id = ii_key_id it,
      pi_business_key_version = ii_business_key_version it, pi_result = kKeyProvImportImported,
      pi_envelope_format = ii_envelope_format it, pi_envelope_digest = ii_envelope_digest it,
      pi_key_check_value = (if ii_key_check_value_present it then ii_key_check_value it else []),
      pi_import_proof_algorithm =
        (if ii_proof_algorithm it = sc_proof_alg_p1363 sc
         then kKeyProvImportProofAlgorithmEcdsaP256P1363
         else kKeyProvImportProofAlgorithmUnspecified),
      pi_import_proof = ii_import_proof it,
      pi_recipient_certificate_digest = ii_recipient_certificate_digest it,
      pi_proof_algorithm = []\<rparr>"

definition build_ack_items :: "sec_consts \<Rightarrow> import_result \<Rightarrow> import_item list" where
  "build_ack_items sc result = map (ack_item_of sc) (ir_items result)"

definition binding_of :: "wrapped_item \<Rightarrow> ack_binding" where
  "binding_of it =
     \<lparr>ab_purpose = wi_purpose it, ab_key_id = wi_key_id it,
      ab_business_key_version = wi_business_key_version it,
      ab_envelope_format = wi_envelope_format it, ab_envelope_digest = wi_envelope_digest it,
      ab_key_check_value = wi_key_check_value it,
      ab_key_check_value_present = wi_key_check_value_present it\<rparr>"

section \<open>Status request\<close>

definition count_status_request :: "coord \<Rightarrow> coord" where
  "count_status_request s =
     count_in (\<lambda>n. n\<lparr>cn_status_requests_sent := cn_status_requests_sent n + 1\<rparr>) s"

definition send_status_request :: "env \<Rightarrow> coord \<Rightarrow> coord" where
  "send_status_request E s =
     (if \<not> c_identity_valid s then persist E (schedule_retry E s)
      else
        (let (mid, s1) = generate_id E ''msg'' s;
             (now, s2) = now_ms E s1;
             rid = r_request_id (c_record s2)
         in case build_keyprov_status_request_envelope (e_pb E) (c_identity s2) rid now mid [] of
              Inl _ \<Rightarrow> persist E (schedule_retry E s2)
            | Inr envelope \<Rightarrow>
                (let (ok, s3) = publish_keyprov E MkStatus mid envelope rid s2
                 in if ok then
                      (let s4 = count_status_request (s3\<lparr>c_reconcile_status_sent := True\<rparr>);
                           (now2, s5) = now_ms E s4
                       in persist E (mark_awaiting
                            (s5\<lparr>c_deadline_ms := now2 + uint (cfg_ack_timeout_ms (c_config s5))\<rparr>)))
                    else persist E s3)))"

section \<open>Acknowledgement\<close>

definition query_import_result :: "env \<Rightarrow> coord \<Rightarrow> (error_code \<times> import_result) \<times> coord" where
  "query_import_result E s =
     (let (ec, res) = e_sec_query E (c_calls s)
      in ((ec, res), emit (EvtQuery (r_request_id (c_record s)) ec res) (called s)))"

definition send_ack :: "env \<Rightarrow> int \<Rightarrow> coord \<Rightarrow> coord" where
  "send_ack E now s =
     (let (mid, s1) = generate_id E ''msg'' s;
          rid = r_request_id (c_record s1)
      in case build_keyprov_ack_envelope (e_pb E) (c_identity s1) rid (c_ack_items s1) now mid
                (c_last_response_message_id s1) of
           Inl _ \<Rightarrow>
             persist E (schedule_retry E
               (set_last_error ''ack_encode_failed'' (s1\<lparr>c_state := RETRY_WAIT\<rparr>)))
         | Inr envelope \<Rightarrow>
             (let (ok, s2) = publish_keyprov E (MkAck (c_ack_items s1)) mid envelope rid s1
              in if ok then
                   (let s3 = s2\<lparr>c_ack_sent := True,
                              c_record := (c_record s2)
                                \<lparr>r_attempt_count := r_attempt_count (c_record s2) + 1\<rparr>,
                              c_deadline_ms := now + uint (cfg_ack_timeout_ms (c_config s2)),
                              c_budget := preconsume_ack (c_kl1_params s2) now (c_budget s2)\<rparr>
                    in persist E (count_in (\<lambda>n. n\<lparr>cn_acks_sent := cn_acks_sent n + 1\<rparr>) s3))
                 else persist E s2))"

text \<open>The status request of the acknowledgement retry, once per attempt.\<close>

definition ack_retry_status :: "env \<Rightarrow> int \<Rightarrow> coord \<Rightarrow> coord" where
  "ack_retry_status E now s =
     (let (mid, s1) = generate_id E ''msg'' s;
          rid = r_request_id (c_record s1)
      in case build_keyprov_status_request_envelope (e_pb E) (c_identity s1) rid now mid [] of
           Inl _ \<Rightarrow> s1
         | Inr envelope \<Rightarrow>
             (let (ok, s2) = publish_keyprov E MkStatus mid envelope rid s1
              in persist E
                   (if ok then (count_status_request s2)
                      \<lparr>c_status_sent := True,
                       c_deadline_ms := now + uint (cfg_ack_timeout_ms (c_config s2))\<rparr>
                    else s2)))"

text \<open>\<open>do_ack_locked\<close> after the items are there.\<close>

definition ack_with_items :: "env \<Rightarrow> coord \<Rightarrow> coord" where
  "ack_with_items E s =
     (let (now, s1) = now_ms E s in
      if c_ack_sent s1 \<and> c_deadline_ms s1 > 0 \<and> now < c_deadline_ms s1 then s1
      else if c_ack_safe_deadline_ms s1 > 0 \<and> now \<ge> c_ack_safe_deadline_ms s1
      then persist E (if \<not> c_status_sent s1 then send_status_request E s1 else s1)
      else if \<not> ack_ok (c_kl1_params s1) now (c_budget s1)
      then persist E (set_last_error ''ack_budget_exhausted''
             (if \<not> c_status_sent s1 then send_status_request E s1 else s1))
      else if c_ack_sent s1 \<and> now \<ge> c_deadline_ms s1
              \<and> r_attempt_count (c_record s1) \<ge> cfg_max_attempts_before_alert (c_config s1)
              \<and> \<not> c_status_sent s1
      then ack_retry_status E now s1
      else send_ack E now s1)"

definition do_ack :: "env \<Rightarrow> coord \<Rightarrow> coord" where
  "do_ack E s =
     (if c_ack_items s = [] then
        (let ((ec, res), s1) = query_import_result E s in
         if ec = EcSuccess \<and> ir_state res = ImpCommitted
         then ack_with_items E (s1\<lparr>c_ack_items := build_ack_items (e_sc E) res\<rparr>)
         else persist E (schedule_retry E
                (set_last_error ''ack_proof_unavailable'' (s1\<lparr>c_state := RETRY_WAIT\<rparr>))))
      else ack_with_items E s)"

section \<open>Import\<close>

definition retry_after :: "env \<Rightarrow> string \<Rightarrow> coord \<Rightarrow> coord" where
  "retry_after E err s =
     persist E (schedule_retry E (set_last_error err (s\<lparr>c_state := RETRY_WAIT\<rparr>)))"

definition blocked_with :: "env \<Rightarrow> string \<Rightarrow> coord \<Rightarrow> coord" where
  "blocked_with E err s = persist E (set_last_error err (s\<lparr>c_state := BLOCKED\<rparr>))"

definition count_import_failed :: "coord \<Rightarrow> coord" where
  "count_import_failed s = count_in (\<lambda>n. n\<lparr>cn_imports_failed := cn_imports_failed n + 1\<rparr>) s"

definition import_committed :: "env \<Rightarrow> import_result \<Rightarrow> coord \<Rightarrow> coord" where
  "import_committed E result s =
     (let s1 = s\<lparr>c_pending_callback := False\<rparr> in
      case import_result_bindable (e_sc E) s1 result of
        Some err \<Rightarrow> blocked_with E err (count_import_failed s1)
      | None \<Rightarrow>
          (let s2 = s1\<lparr>c_ack_items := build_ack_items (e_sc E) result\<rparr> in
           if length (c_ack_items s2) \<noteq> length (cfg_purposes (c_config s2))
           then retry_after E ''import_incomplete'' s2
           else do_ack E (persist E
                  ((count_in (\<lambda>n. n\<lparr>cn_imports_committed := cn_imports_committed n + 1\<rparr>) s2)
                   \<lparr>c_state := ACK_PENDING, c_ack_sent := False, c_status_sent := False\<rparr>))))"

definition handle_import_result :: "env \<Rightarrow> error_code \<Rightarrow> import_result \<Rightarrow> coord \<Rightarrow> coord" where
  "handle_import_result E ec result s =
     (let s1 = s\<lparr>c_pending_items := []\<rparr>; st = ir_state result in
      if ec = EcSuccess \<and> st = ImpCommitted then import_committed E result s1
      else if ec = EcSuccess \<and> st = ImpNotFound
      then enter_reconcile_evidence E ''import_result_not_found'' (s1\<lparr>c_pending_callback := False\<rparr>)
      else if ec = EcBusinessKeyImportUnknown \<or> st = ImpUnknown
      then retry_after E ''import_unknown''
             ((count_in (\<lambda>n. n\<lparr>cn_imports_unknown := cn_imports_unknown n + 1\<rparr>) s1)
              \<lparr>c_pending_callback := True\<rparr>)
      else if ec = EcSuccess \<and> (st = ImpRequested \<or> st = ImpStaged)
      then retry_after E ''import_pending'' (s1\<lparr>c_pending_callback := True\<rparr>)
      else if ec = EcBusinessKeyNotReady \<or> ec = EcBusinessKeyUnsupported
      then blocked_with E ''sec_not_ready'' (s1\<lparr>c_pending_callback := False\<rparr>)
      else if st = ImpFailed \<or> ec = EcWrappedKeyInvalid \<or> ec = EcBusinessKeyConflict
              \<or> ec = EcBusinessKeyPartialRollback
      then retry_after E ''import_failed''
             ((count_import_failed s1)\<lparr>c_import_attempted := False, c_pending_callback := False\<rparr>)
      else retry_after E ''import_error'' (s1\<lparr>c_pending_callback := False\<rparr>))"

text \<open>The import API call: the KL1 entry point when the daemon admits leases.\<close>

definition call_import :: "env \<Rightarrow> coord \<Rightarrow> coord" where
  "call_import E s =
     (if \<not> c_sec_lease_admission_supported s \<and> c_kl1_snapshot_available s
      then blocked_with E ''sec_lease_admission_unsupported''
             (count_import_failed (s\<lparr>c_pending_callback := False\<rparr>))
      else
        (let (ec, res) = e_sec_import E (c_calls s);
             s1 = emit (EvtImport (r_request_id (c_record s)) (c_pending_items s)
                         (c_sec_lease_admission_supported s) ec res)
                    (called s)
         in handle_import_result E ec res (s1\<lparr>c_import_attempted := True\<rparr>)))"

definition do_import :: "env \<Rightarrow> coord \<Rightarrow> coord" where
  "do_import E s =
     (if c_import_attempted s then
        (let ((ec, res), s1) = query_import_result E s in handle_import_result E ec res s1)
      else
        (let s1 = (if \<not> c_import_invocation_recorded s
                   then persist E (s\<lparr>c_import_invocation_recorded := True,
                                     c_resolution := Unresolved\<rparr>)
                   else s)
         in if c_lease_expires_at_ms s1 > 0 then
              (let (c, s2) = clock_source_of E s1 in
               if \<not> keyprov_lease_acceptable (utc_upper c) (c_lease_expires_at_ms s2) (c_kl1_params s2)
               then persist E (schedule_status_retry E
                      (enter_reconcile_old_attempt E ''lease_too_short'' [] s2))
               else call_import E s2)
            else call_import E s1))"

section \<open>The SEC status check\<close>

definition activate :: "coord \<Rightarrow> coord" where
  "activate s =
     (count_in (\<lambda>n. n\<lparr>cn_active_transitions := cn_active_transitions n + 1\<rparr>) s)
     \<lparr>c_state := ACTIVE, c_submission := kSubmissionConfirmed\<rparr>"

definition check_incomplete :: "env \<Rightarrow> coord \<Rightarrow> coord" where
  "check_incomplete E s =
     (let (cand_res, s1) = build_candidate E s in
      case cand_res of
        Inl err \<Rightarrow> candidate_failed E err s1
      | Inr (cand, fp) \<Rightarrow>
          if c_fingerprint_version s1 = 0 \<or> r_request_id (c_record s1) = []
          then create_new_attempt E s1
          else if \<not> keyprov_fingerprint_equal (c_frozen_fingerprint s1) fp
          then enter_reconcile_old_attempt E ''fingerprint_changed'' []
                 (count_fingerprint_change cand s1)
          else do_request E (persist E (s1\<lparr>c_state := REQUESTING\<rparr>)))"

definition do_check :: "env \<Rightarrow> coord \<Rightarrow> coord" where
  "do_check E s =
     (let ((ec, items), s1) = query_sec_status E s in
      if ec = EcSuccess then
        (if purposes_complete (c_config s1) items then
           (if c_recovering_ack s1 \<or> c_import_attempted s1
            then do_ack E (persist E (s1\<lparr>c_recovering_ack := False, c_state := ACK_PENDING,
                                         c_ack_sent := False\<rparr>))
            else persist E (activate (set_last_error [] s1)))
         else check_incomplete E s1)
      else if ec = EcBusinessKeyNotReady then blocked_with E ''sec_not_ready'' s1
      else if ec = EcBusinessKeyUnsupported \<or> ec = EcNotImplemented \<or> ec = EcAclDenied
      then blocked_with E ''sec_unsupported'' s1
      else retry_after E ''sec_unavailable'' s1)"

end
