(* ===== verification/CoordReconcile.thy ===== *)
theory CoordReconcile
  imports CoordImport
begin

text \<open>
  Reconciliation of an old attempt: the SEC journal query and its evidence, the stabilisation
  of NOT\_FOUND over count and monotonic time, the cloud decision matrix, and the status answer
  (\<open>reconcile_sec_journal_locked\<close> to \<open>apply_cloud_matrix_locked\<close>).
\<close>

datatype reconcile_action = TerminalHandled | WaitSec | AllowReadonlyRemote

section \<open>Stabilisation\<close>

text \<open>Evidence of one query, bound to the request id digest and the generation.\<close>

record bound_evidence =
  be_evidence :: sec_evidence
  be_request_id_digest :: bytes
  be_observed_store_generation :: u64

definition same_attempt_evidence :: "env \<Rightarrow> coord \<Rightarrow> bound_evidence \<Rightarrow> bool" where
  "same_attempt_evidence E s ev \<longleftrightarrow>
     (if r_request_id (c_record s) = [] \<or> length (be_request_id_digest ev) \<noteq> 32 then False
      else h_sha256 (e_hash E) (str_bytes (r_request_id (c_record s))) = be_request_id_digest ev)"

definition cas_generation_matches :: "coord \<Rightarrow> bound_evidence \<Rightarrow> bool" where
  "cas_generation_matches s ev \<longleftrightarrow> be_observed_store_generation ev = c_store_generation s"

definition contrary_local_evidence :: "coord \<Rightarrow> bool" where
  "contrary_local_evidence s \<longleftrightarrow> c_pending_items s \<noteq> [] \<or> c_ack_items s \<noteq> []"

definition no_side_effects_proven :: "coord \<Rightarrow> bool" where
  "no_side_effects_proven s \<longleftrightarrow>
     (if c_resolution s \<noteq> NoSideEffectProven then False else \<not> contrary_local_evidence s)"

definition stabilization_window_ms :: "coord_config \<Rightarrow> u32" where
  "stabilization_window_ms cfg =
     (if cfg_not_found_stabilization_window_ms cfg > 0
      then cfg_not_found_stabilization_window_ms cfg
      else cfg_sec_import_timeout_ms cfg + cfg_sec_callback_grace_ms cfg)"

definition count_stabilization :: "string \<Rightarrow> coord \<Rightarrow> coord" where
  "count_stabilization key s =
     count_in (\<lambda>n. n\<lparr>cn_sec_not_found_stabilization_total :=
        bump key (cn_sec_not_found_stabilization_total n)\<rparr>) s"

definition reset_not_found_stabilization :: "string \<Rightarrow> coord \<Rightarrow> coord" where
  "reset_not_found_stabilization result s =
     (let s1 = count_stabilization (if result \<noteq> [] then result else ''RESET'') s in
      if sn_consecutive_count (c_stab s1) > 0
      then s1\<lparr>c_stab := (c_stab s1)\<lparr>sn_consecutive_count := 0,
                 sn_first_observed_monotonic_ms := - 1, sn_last_observed_monotonic_ms := - 1\<rparr>,
              c_nf_first_wall_ms := - 1, c_nf_last_wall_ms := - 1\<rparr>
      else s1)"

definition restart_not_found_stabilization_for :: "bound_evidence \<Rightarrow> coord \<Rightarrow> coord" where
  "restart_not_found_stabilization_for ev s =
     (let s1 = reset_not_found_stabilization ''RESET_EPOCH_CHANGED'' s
      in s1\<lparr>c_stab := (c_stab s1)
              \<lparr>sn_sec_capability_epoch := c_current_sec_capability_epoch s1,
               sn_sec_contract_version := ev_contract_version (be_evidence ev),
               sn_request_id_digest := be_request_id_digest ev,
               sn_attempt_generation := be_observed_store_generation ev\<rparr>\<rparr>)"

definition observe_not_found :: "env \<Rightarrow> bound_evidence \<Rightarrow> coord \<Rightarrow> coord" where
  "observe_not_found E ev s =
     (if \<not> same_attempt_evidence E s ev \<or> \<not> cas_generation_matches s ev then s
      else
        (let (mono_now, s1) = now_monotonic_ms E s;
             s2 = (if sn_sec_capability_epoch (c_stab s1) = 0
                      \<or> sn_sec_capability_epoch (c_stab s1) \<noteq> c_current_sec_capability_epoch s1
                   then restart_not_found_stabilization_for ev s1 else s1);
             s3 = (if sn_request_id_digest (c_stab s2) \<noteq> be_request_id_digest ev
                      \<or> sn_attempt_generation (c_stab s2) \<noteq> be_observed_store_generation ev
                   then reset_not_found_stabilization ''RESET_ATTEMPT_CHANGED'' s2 else s2);
             s4 = (if sn_consecutive_count (c_stab s3) = 0
                   then s3\<lparr>c_stab := (c_stab s3)\<lparr>sn_first_observed_monotonic_ms := mono_now\<rparr>\<rparr>
                   else s3);
             s5 = s4\<lparr>c_stab := (c_stab s4)
                    \<lparr>sn_request_id_digest := be_request_id_digest ev,
                     sn_attempt_generation := be_observed_store_generation ev,
                     sn_sec_contract_version := ev_contract_version (be_evidence ev),
                     sn_consecutive_count := sn_consecutive_count (c_stab s4) + 1,
                     sn_last_observed_monotonic_ms := mono_now\<rparr>\<rparr>;
             (wall, s6) = now_ms E s5;
             s7 = (if c_nf_first_wall_ms s6 < 0 then s6\<lparr>c_nf_first_wall_ms := wall\<rparr> else s6)
         in s7\<lparr>c_nf_last_wall_ms := wall\<rparr>))"

definition prove_no_side_effects :: "env \<Rightarrow> coord \<Rightarrow> coord" where
  "prove_no_side_effects E s =
     (if c_resolution s = NoSideEffectProven then s
      else persist E (transition_to RECONCILE_REMOTE
             ((count_stabilization ''REACHED'' (s\<lparr>c_resolution := NoSideEffectProven\<rparr>))
              \<lparr>c_sec_outcome_unknown := False, c_blocked_reason := []\<rparr>)))"

section \<open>The SEC journal\<close>

definition journal_committed :: "env \<Rightarrow> import_result \<Rightarrow> coord \<Rightarrow> coord" where
  "journal_committed E res s =
     (let s1 = s\<lparr>c_ack_items := build_ack_items (e_sc E) res\<rparr> in
      if length (c_ack_items s1) = length (cfg_purposes (c_config s1)) then
        do_ack E (persist E
          ((reset_not_found_stabilization ''RESET_COMMITTED''
              (s1\<lparr>c_sec_outcome_unknown := False, c_resolution := Unresolved,
                  c_pending_callback := False, c_sec_unknown_rounds := 0,
                  c_sec_unknown_alerted := False, c_blocked_reason := []\<rparr>))
           \<lparr>c_state := ACK_PENDING, c_ack_sent := False, c_status_sent := False,
            c_recovering_ack := False\<rparr>))
      else
        persist E (schedule_retry E
          ((count_blocked_reason kSecOutcomeUnknown
              (s1\<lparr>c_sec_outcome_unknown := True, c_blocked_reason := kSecOutcomeUnknown\<rparr>))
           \<lparr>c_state := RECONCILE_OLD_ATTEMPT\<rparr>)))"

definition journal_weak_not_found :: "env \<Rightarrow> coord \<Rightarrow> coord" where
  "journal_weak_not_found E s =
     (let s1 = (reset_not_found_stabilization ''RESET_WEAK_NOT_FOUND'' s)
                 \<lparr>c_sec_outcome_unknown := True, c_blocked_reason := kSecImportNotFound\<rparr>;
          s2 = (if c_state s1 \<noteq> HARD_BLOCKED then transition_to RECONCILE_EVIDENCE s1 else s1)
      in persist E (schedule_retry E s2))"

definition keeps_state_when_proven :: "coord_state \<Rightarrow> bool" where
  "keeps_state_when_proven st \<longleftrightarrow>
     st \<in> {RECONCILE_REMOTE, RECONCILE_OLD_ATTEMPT, LEGACY_SNAPSHOT_UNKNOWN,
           BLOCKED_AWAIT_CLOUD_TERMINATION, AWAIT_REMOTE_REPAIR}"

definition stabilised :: "int \<Rightarrow> coord \<Rightarrow> bool" where
  "stabilised mono_now s \<longleftrightarrow>
     mono_now - sn_first_observed_monotonic_ms (c_stab s) \<ge> uint (stabilization_window_ms (c_config s))"

definition stabilise :: "env \<Rightarrow> bound_evidence \<Rightarrow> coord \<Rightarrow> coord" where
  "stabilise E ev s =
     (let s1 = observe_not_found E ev s
      in if c_state s1 \<noteq> STABILIZING_NOT_FOUND \<and> c_state s1 \<noteq> LEGACY_SNAPSHOT_UNKNOWN
         then transition_to STABILIZING_NOT_FOUND s1 else s1)"

definition stabilisation_reached :: "env \<Rightarrow> coord \<Rightarrow> bool \<times> coord" where
  "stabilisation_reached E s =
     (if sn_consecutive_count (c_stab s) \<ge> cfg_not_found_stabilization_count (c_config s)
         \<and> sn_first_observed_monotonic_ms (c_stab s) \<ge> 0
      then (let (mono_now, s1) = now_monotonic_ms E s
            in (stabilised mono_now s1 \<and> \<not> contrary_local_evidence s1, s1))
      else (False, s))"

definition journal_strong_not_found ::
  "env \<Rightarrow> bound_evidence \<Rightarrow> coord \<Rightarrow> reconcile_action \<times> coord" where
  "journal_strong_not_found E ev s =
     (let s1 = s\<lparr>c_pending_callback := False, c_sec_outcome_unknown := False\<rparr> in
      if c_resolution s1 = NoSideEffectProven then
        (AllowReadonlyRemote,
         persist E (if \<not> keeps_state_when_proven (c_state s1)
                    then transition_to RECONCILE_REMOTE s1 else s1))
      else if c_resolution s1 = HardConflict then (WaitSec, persist E (schedule_retry E s1))
      else
        (let (reached, s2) = stabilisation_reached E (stabilise E ev s1)
         in (AllowReadonlyRemote,
             if reached then prove_no_side_effects E s2
             else persist E (schedule_status_retry E
                    (s2\<lparr>c_blocked_reason := kStabilizingSecNotFound\<rparr>)))))"

definition note_contrary_round :: "coord \<Rightarrow> coord" where
  "note_contrary_round s =
     (let s1 = (reset_not_found_stabilization ''RESET_CONTRARY'' s)\<lparr>c_sec_outcome_unknown := True\<rparr>;
          s2 = s1\<lparr>c_sec_unknown_rounds := c_sec_unknown_rounds s1 + 1\<rparr>
      in if c_sec_unknown_rounds s2 \<ge> cfg_max_attempts_before_alert (c_config s2)
            \<and> \<not> c_sec_unknown_alerted s2
         then s2\<lparr>c_sec_unknown_alerted := True\<rparr> else s2)"

definition contrary_reason :: "bound_evidence \<Rightarrow> string" where
  "contrary_reason ev =
     (if ev_raw_import_state (be_evidence ev) = 0 \<or> ev_raw_import_state (be_evidence ev) = 1
      then kSecImportInProgress else kSecOutcomeUnknown)"

definition journal_contrary ::
  "env \<Rightarrow> bound_evidence \<Rightarrow> coord \<Rightarrow> reconcile_action \<times> coord" where
  "journal_contrary E ev s =
     (if c_state s = RECONCILE_REMOTE
      then (TerminalHandled, enter_hard_blocked E kHardEvidenceConflict s)
      else if c_resolution s = HardConflict then (WaitSec, persist E (schedule_retry E s))
      else
        (let (suppressed, s1) = reconcile_obs_suppressed (- 1) (ev_kind (be_evidence ev)) 0 (- 1)
                                  (note_contrary_round s);
             s2 = s1\<lparr>c_blocked_reason := contrary_reason ev\<rparr>;
             s3 = schedule_retry E (if c_state s2 \<noteq> LEGACY_SNAPSHOT_UNKNOWN
                                    then s2\<lparr>c_state := RECONCILE_OLD_ATTEMPT\<rparr> else s2)
         in (AllowReadonlyRemote,
             if \<not> suppressed then persist E (count_blocked_reason (contrary_reason ev) s3) else s3)))"

definition bind_evidence :: "env \<Rightarrow> coord \<Rightarrow> sec_evidence \<Rightarrow> bound_evidence" where
  "bind_evidence E s ev =
     \<lparr>be_evidence = ev,
      be_request_id_digest = h_sha256 (e_hash E) (str_bytes (r_request_id (c_record s))),
      be_observed_store_generation = c_store_generation s\<rparr>"

definition reconcile_sec_journal :: "env \<Rightarrow> coord \<Rightarrow> reconcile_action \<times> coord" where
  "reconcile_sec_journal E s =
     (if r_request_id (c_record s) = [] then (TerminalHandled, s)
      else
        (let ((ec, res), s1) = query_import_result E s;
             ev = bind_evidence E s1
                    (sec_classify_import_result ec res (c_sec_import_result_contract_version s1));
             s2 = s1\<lparr>c_last_sec_evidence_kind := ev_kind (be_evidence ev)\<rparr>
         in if \<not> same_attempt_evidence E s2 ev \<or> \<not> cas_generation_matches s2 ev
            then (WaitSec, schedule_status_retry E s2)
            else (case ev_kind (be_evidence ev) of
                    EvCommitted \<Rightarrow> (TerminalHandled, journal_committed E res s2)
                  | EvNotFound \<Rightarrow>
                      (if \<not> ev_no_residue_proven (be_evidence ev)
                          \<or> ev_contract_version (be_evidence ev) < kSecCr021NotFoundContractVersion
                       then (WaitSec, journal_weak_not_found E s2)
                       else journal_strong_not_found E ev s2)
                  | _ \<Rightarrow> journal_contrary E ev s2)))"

section \<open>The cloud decision matrix\<close>

text \<open>\<open>CloudStatusDecisionInput\<close> is the pair of its fields.\<close>

definition is_releasable_unspecified :: "int \<Rightarrow> cloud_protocol_error \<Rightarrow> coord \<Rightarrow> bool" where
  "is_releasable_unspecified status err s \<longleftrightarrow>
     c_resolution s = NoSideEffectProven \<and> \<not> c_sec_outcome_unknown s
     \<and> status = kKeyProvStatusUnspecified \<and> ce_present err
     \<and> ce_code err = kKeyProvErrorCodeNotFound \<and> \<not> ce_retryable err
     \<and> ce_action err = ActDoNotRetry"

text \<open>The common tail of three branches: reason, transition, back-off, counted unless suppressed.\<close>

definition matrix_wait ::
  "env \<Rightarrow> int \<Rightarrow> cloud_protocol_error \<Rightarrow> string \<Rightarrow> coord_state \<Rightarrow> coord \<Rightarrow> coord" where
  "matrix_wait E status err reason next s =
     (let s1 = schedule_status_retry E (transition_to next (s\<lparr>c_blocked_reason := reason\<rparr>));
          (suppressed, s2) = reconcile_obs_suppressed status (c_last_sec_evidence_kind s1)
                               (ce_code err) (protocol_error_action_code (ce_action err)) s1
      in if \<not> suppressed then persist E (count_blocked_reason reason s2) else s2)"

definition await_remote_repair :: "env \<Rightarrow> coord \<Rightarrow> coord" where
  "await_remote_repair E s =
     persist E (schedule_status_retry E (transition_to AWAIT_REMOTE_REPAIR
       (count_blocked_reason kAwaitRemoteRepair
         (set_last_error ''vmd_active_sec_not_found''
           (s\<lparr>c_blocked_reason := kAwaitRemoteRepair\<rparr>)))))"

definition apply_cloud_matrix :: "env \<Rightarrow> int \<Rightarrow> cloud_protocol_error \<Rightarrow> coord \<Rightarrow> coord" where
  "apply_cloud_matrix E status err s =
     (if c_resolution s \<noteq> NoSideEffectProven \<or> c_sec_outcome_unknown s then s
      else if status = kKeyProvStatusFailed then supersede_remote_once E s
      else if status = kKeyProvStatusUnspecified then
        (if is_releasable_unspecified status err s then supersede_remote_once E s
         else matrix_wait E status err kSecImportNotFound BLOCKED_AWAIT_CLOUD_TERMINATION s)
      else if status = kKeyProvStatusActive then await_remote_repair E s
      else if status = kKeyProvStatusRequested \<or> status = kKeyProvStatusIssued
              \<or> status = kKeyProvStatusAckPending
      then matrix_wait E status err kSecImportNotFound BLOCKED_AWAIT_CLOUD_TERMINATION s
      else matrix_wait E status err kVmdOutcomeUnknown RECONCILE_REMOTE s)"

section \<open>One reconciliation round\<close>

definition status_deadline_passed :: "env \<Rightarrow> coord \<Rightarrow> bool \<times> coord" where
  "status_deadline_passed E s =
     (if c_deadline_ms s > 0
      then (let (now, s1) = now_ms E s in (now \<ge> c_deadline_ms s1, s1)) else (False, s))"

definition do_reconcile :: "env \<Rightarrow> coord \<Rightarrow> coord" where
  "do_reconcile E s =
     (let (action, s1) = reconcile_sec_journal E s in
      case action of
        TerminalHandled \<Rightarrow> s1
      | WaitSec \<Rightarrow> persist E (schedule_retry E s1)
      | AllowReadonlyRemote \<Rightarrow>
          if c_resolution s1 = NoSideEffectProven \<and> c_cached_vmd_status s1 \<ge> 0 then
            (let (fresh, s2) = maybe_freshen E s1 in
             if fresh then s2
             else apply_cloud_matrix E (c_cached_vmd_status s2) (c_cached_vmd_error s2) s2)
          else if \<not> c_reconcile_status_sent s1 then send_status_request E s1
          else (let (passed, s2) = status_deadline_passed E s1 in
                if passed
                then persist E (schedule_status_retry E (s2\<lparr>c_reconcile_status_sent := False\<rparr>))
                else s2))"

definition status_idempotency_conflict :: "env \<Rightarrow> string \<Rightarrow> coord \<Rightarrow> coord" where
  "status_idempotency_conflict E code s =
     persist E (schedule_status_retry E
       ((count_blocked_reason kAwaitCloudTermination
           ((record_conflict_facts code
              (count_in (\<lambda>n. n\<lparr>cn_idempotency_conflicts_total :=
                 cn_idempotency_conflicts_total n + 1\<rparr>) s))
            \<lparr>c_blocked_reason := kAwaitCloudTermination\<rparr>))
        \<lparr>c_state := BLOCKED_AWAIT_CLOUD_TERMINATION\<rparr>))"

definition handle_reconcile_status :: "env \<Rightarrow> status_response_data \<Rightarrow> coord \<Rightarrow> coord" where
  "handle_reconcile_status E status s =
     (if keyprov_is_idempotency_conflict (sd_error status)
      then status_idempotency_conflict E (pe_code (sd_error status)) s
      else
        (let (action, s1) = reconcile_sec_journal E s in
         if action \<noteq> AllowReadonlyRemote then
           (let (now, s2) = now_ms E s1 in
            if c_next_retry_ms s2 \<le> now then persist E (schedule_status_retry E s2) else s2)
         else
           (let err = keyprov_normalize_protocol_error (sd_error status);
                s2 = s1\<lparr>c_cached_vmd_status := sd_status status, c_cached_vmd_error := err\<rparr>
            in if sd_status status = kKeyProvStatusActive then await_remote_repair E s2
               else if c_resolution s2 \<noteq> NoSideEffectProven \<or> c_sec_outcome_unknown s2 then
                 (if c_state s2 = AWAIT_REMOTE_REPAIR \<and> sd_status status = kKeyProvStatusFailed
                  then enter_reconcile_evidence E ''vmd_terminated_resume_stabilization'' s2
                  else (let (suppressed, s3) = reconcile_obs_suppressed (sd_status status)
                              (c_last_sec_evidence_kind s2) (ce_code err)
                              (protocol_error_action_code (ce_action err)) s2
                        in if \<not> suppressed then persist E s3 else s3))
               else apply_cloud_matrix E (sd_status status) err s2)))"

end
