(* ===== verification/CoordEvents.thy ===== *)
theory CoordEvents
  imports CoordReconcile
begin

text \<open>
  The entry points of the coordinator: initialisation from the stored record, start, readiness
  events, the tick, the routed downlink with its three message kinds, shutdown, the snapshot,
  and the step relation over all of them.
\<close>

section \<open>Initialisation\<close>

definition coord0 :: coord where
  "coord0 = \<lparr>c_config = default_config, c_state = DISABLED, c_record = empty_record,
     c_cloud = no_cloud, c_capability = no_capability, c_identity = empty_identity,
     c_identity_valid = False, c_publish_session_supported = False, c_last_cloud_sequence = 0,
     c_capability_ready = False, c_clock_synced = False, c_gate_reason = [],
     c_frozen_snapshot = empty_snapshot, c_frozen_fingerprint = replicate 32 0,
     c_fingerprint_version = 0, c_submission = kSubmissionNone, c_supersedes_request_id = [],
     c_superseded_by_request_id = [], c_blocked_reason = [], c_store_generation = 0,
     c_legacy_snapshot_unknown = False, c_sec_outcome_unknown = False, c_resolution = Unresolved,
     c_import_invocation_recorded = False, c_pending_callback = False,
     c_last_sec_evidence_kind = EvContractUnknown, c_sec_import_result_contract_version = 0,
     c_stab = no_stabilization, c_recovery_phase = [], c_cached_vmd_status = - 1,
     c_cached_vmd_error = no_cloud_error, c_kl1_params = kl1_default, c_budget = empty_ledger,
     c_lease_expires_at_ms = 0, c_ack_safe_deadline_ms = 0,
     c_sec_lease_admission_supported = False, c_kl1_snapshot_available = False,
     c_sec_result_contract_version = 0, c_sec_query_semantics_version = 0,
     c_sec_kl1_profile_version = 0, c_successor_request_id = [],
     c_successor_request_id_digest = [], c_current_sec_capability_epoch = 0,
     c_sec_capability_unavailable = False, c_last_sec_capability_contract = 0,
     c_last_capability_not_found_flag = False, c_status_backoff_ms = 0, c_nf_first_wall_ms = - 1,
     c_nf_last_wall_ms = - 1, c_last_obs_valid = False, c_last_obs_vmd_status = - 1,
     c_last_obs_kind = EvContractUnknown, c_last_obs_error_code = 0,
     c_last_obs_error_action = - 1, c_last_obs_generation = 0, c_sec_unknown_rounds = 0,
     c_sec_unknown_alerted = False, c_reconcile_status_sent = False, c_conflict_vmd_code = [],
     c_awaiting_active = False, c_awaiting_request_id = [], c_awaiting_generation = 0,
     c_awaiting_fingerprint = replicate 32 0, c_pending_items = [], c_response_binding = [],
     c_readiness = \<lparr>kr_release_matched = False, kr_descriptor_set_hash_matched = False,
       kr_registry_matched = False, kr_proto_runtime_ready = False,
       kr_cross_language_golden_ready = False, kr_envelope_import_ready = False,
       kr_atomic_commit_ready = False, kr_proof_sign_ready = False,
       kr_journal_replay_ready = False\<rparr>,
     c_import_attempted = False, c_ack_items = [], c_ack_sent = False, c_status_sent = False,
     c_recovering_ack = False, c_last_response_message_id = [], c_deadline_ms = 0,
     c_next_retry_ms = 0, c_backoff_ms = 0, c_capability_event_seen = False, c_running = False,
     c_stopping = False, c_counters = no_counters, c_calls = 0, c_trace = []\<rparr>"

definition params_of_config :: "coord_config \<Rightarrow> kl1_params \<Rightarrow> kl1_params" where
  "params_of_config cfg p =
     p\<lparr>kp_ack_grace_ms := cfg_kl1_ack_grace_ms cfg, kp_skew_ms := cfg_kl1_skew_ms cfg,
       kp_import_min_ms := cfg_kl1_import_min_ms cfg,
       kp_request_limit := cfg_kl1_request_limit cfg,
       kp_request_window_ms := cfg_kl1_request_window_ms cfg,
       kp_readonly_limit := cfg_kl1_readonly_limit cfg,
       kp_readonly_window_ms := cfg_kl1_readonly_window_ms cfg,
       kp_ack_limit := cfg_kl1_ack_limit cfg, kp_chain_ids := cfg_kl1_chain_ids cfg,
       kp_chain_window_ms := cfg_kl1_chain_window_ms cfg\<rparr>"

definition restore_attempt :: "env \<Rightarrow> keyprov_record \<Rightarrow> coord \<Rightarrow> coord" where
  "restore_attempt E r s =
     (if \<not> r_valid r then s
      else
        (let fp = (if r_attempt_fingerprint r \<noteq> []
                   then snd (hex_to_fingerprint (r_attempt_fingerprint r) (c_frozen_fingerprint s))
                   else c_frozen_fingerprint s);
             res = (case resolution_of_code (r_import_invocation_resolution r) of
                      Some x \<Rightarrow> x | None \<Rightarrow> Unresolved)
         in s\<lparr>c_frozen_snapshot := r_snapshot r, c_fingerprint_version := r_fingerprint_version r,
              c_frozen_fingerprint := fp,
              c_submission := (if r_submission r = [] then kSubmissionNone else r_submission r),
              c_supersedes_request_id := r_supersedes_request_id r,
              c_superseded_by_request_id := r_superseded_by_request_id r,
              c_blocked_reason := r_blocked_reason r, c_store_generation := r_store_generation r,
              c_sec_import_result_contract_version := r_sec_import_result_contract_version r,
              c_last_sec_evidence_kind := evidence_of_code (r_sec_import_evidence_kind r),
              c_import_invocation_recorded := r_import_invocation r,
              c_pending_callback := r_import_invocation r, c_resolution := res,
              c_stab := (c_stab s)\<lparr>sn_consecutive_count := r_sec_not_found_count r,
                sn_sec_capability_epoch := r_sec_capability_epoch r,
                sn_sec_contract_version := r_sec_contract_version r,
                sn_attempt_generation := r_store_generation r,
                sn_request_id_digest :=
                  (if r_request_id r \<noteq> [] then h_sha256 (e_hash E) (str_bytes (r_request_id r))
                   else sn_request_id_digest (c_stab s)),
                sn_first_observed_monotonic_ms := - 1, sn_last_observed_monotonic_ms := - 1\<rparr>,
              c_recovery_phase := r_recovery_phase r,
              c_successor_request_id := r_successor_request_id r,
              c_successor_request_id_digest := r_successor_request_id_digest r,
              c_counters := (c_counters s)\<lparr>cn_successor_request_id_digest :=
                (if r_successor_request_id_digest r \<noteq> [] then r_successor_request_id_digest r
                 else cn_successor_request_id_digest (c_counters s))\<rparr>\<rparr>))"

definition restore_state :: "keyprov_record \<Rightarrow> coord \<Rightarrow> coord" where
  "restore_state r s =
     (let restored = (if r_valid r \<and> r_state r \<noteq> []
                      then (case v2c_key_prov_state_from_string (r_state r) of
                              Some q \<Rightarrow> q | None \<Rightarrow> WAIT_CLOUD)
                      else WAIT_CLOUD)
      in if restored = ACTIVE then s\<lparr>c_state := WAIT_CLOUD\<rparr>
         else if restored = ACK_PENDING then s\<lparr>c_state := WAIT_CLOUD, c_recovering_ack := True\<rparr>
         else if restored = BLOCKED \<and> c_blocked_reason s = kEvidenceConflict
         then s\<lparr>c_state := RECONCILE_EVIDENCE, c_recovery_phase := ''RECONCILE_EVIDENCE''\<rparr>
         else if restored = BLOCKED \<and> c_resolution s = HardConflict
         then s\<lparr>c_state := HARD_BLOCKED, c_recovery_phase := ''HARD_EVIDENCE_CONFLICT''\<rparr>
         else if (restored = BLOCKED \<or> restored = RECONCILE_OLD_ATTEMPT)
                 \<and> c_resolution s = NoSideEffectProven
         then s\<lparr>c_state := RECONCILE_REMOTE, c_recovery_phase := ''RECONCILE_REMOTE''\<rparr>
         else if restored = WAIT_CLOUD \<or> restored = CHECKING \<or> restored = RETRY_WAIT
         then s\<lparr>c_state := WAIT_CLOUD\<rparr>
         else s\<lparr>c_state := restored,
                c_recovery_phase := (if c_recovery_phase s = [] then recovery_phase_for_state restored
                                     else c_recovery_phase s)\<rparr>)"

text \<open>\<open>r\<close> is the record \<open>store_->load()\<close> returns.\<close>

definition initialize :: "env \<Rightarrow> coord_config \<Rightarrow> keyprov_record \<Rightarrow> coord \<Rightarrow> coord" where
  "initialize E cfg r s =
     (let s1 = emit (EvtLoad r)
            (s\<lparr>c_config := cfg, c_kl1_params := params_of_config cfg (c_kl1_params s),
               c_counters := (c_counters s)\<lparr>cn_sec_api_available := True\<rparr>,
               c_record := r, c_budget := r_budget r,
               c_lease_expires_at_ms := r_lease_expires_at_ms r,
               c_ack_safe_deadline_ms := bl_ack_safe_deadline_at_ms (r_budget r),
               c_sec_result_contract_version := r_sec_result_contract_version r,
               c_sec_query_semantics_version := r_sec_query_semantics_version r,
               c_sec_lease_admission_supported := r_sec_supports_lease_admission r,
               c_sec_kl1_profile_version := r_sec_kl1_profile_version r\<rparr>)
      in if \<not> cfg_enabled cfg then s1\<lparr>c_state := DISABLED\<rparr>
         else
           (let s2 = restore_attempt E r s1 in
            if r_legacy_snapshot_unknown r
            then (count_blocked_reason kLegacySnapshotUnknown
                    (count_in (\<lambda>n. n\<lparr>cn_legacy_store_records := cn_legacy_store_records n + 1\<rparr>)
                       (s2\<lparr>c_legacy_snapshot_unknown := True,
                           c_blocked_reason := kLegacySnapshotUnknown\<rparr>)))
                 \<lparr>c_state := LEGACY_SNAPSHOT_UNKNOWN\<rparr>
            else restore_state r s2))"

definition start :: "env \<Rightarrow> coord \<Rightarrow> coord" where
  "start E s = refresh_readiness E (s\<lparr>c_running := True, c_stopping := False\<rparr>)"

definition begin_shutdown :: "coord \<Rightarrow> coord" where
  "begin_shutdown s = s\<lparr>c_stopping := True\<rparr>"

definition stop :: "coord \<Rightarrow> coord" where
  "stop s = s\<lparr>c_stopping := True, c_running := False, c_pending_items := [], c_ack_items := []\<rparr>"

section \<open>The tick\<close>

definition gate_closed :: "env \<Rightarrow> string \<Rightarrow> coord \<Rightarrow> coord" where
  "gate_closed E reason s =
     (let s1 = s\<lparr>c_gate_reason := reason\<rparr>;
          s2 = (if c_identity_valid s1 then invalidate_identity s1 else s1)
      in if c_state s2 \<in> {REQUESTING, WAIT_RESPONSE, IMPORTING, ACK_PENDING}
         then persist E (s2\<lparr>c_deadline_ms := 0, c_state := WAIT_CLOUD\<rparr>)
         else if c_state s2 \<in> {CHECKING, RETRY_WAIT} then s2\<lparr>c_state := WAIT_CLOUD\<rparr>
         else s2)"

text \<open>The status polling of two waiting states.\<close>

definition poll_status :: "env \<Rightarrow> int \<Rightarrow> coord \<Rightarrow> coord" where
  "poll_status E now s =
     (if \<not> c_reconcile_status_sent s then send_status_request E s
      else if c_deadline_ms s > 0 \<and> now \<ge> c_deadline_ms s
      then persist E (schedule_status_retry E (s\<lparr>c_reconcile_status_sent := False\<rparr>))
      else s)"

definition run_state :: "env \<Rightarrow> int \<Rightarrow> coord \<Rightarrow> coord" where
  "run_state E now s =
     (case c_state s of
        DISABLED \<Rightarrow> s\<lparr>c_state := WAIT_CLOUD\<rparr>
      | WAIT_CLOUD \<Rightarrow>
          if c_next_retry_ms s > now then s else do_check E (s\<lparr>c_state := CHECKING\<rparr>)
      | CHECKING \<Rightarrow> do_check E s
      | REQUESTING \<Rightarrow> do_request E s
      | WAIT_RESPONSE \<Rightarrow>
          if c_deadline_ms s = 0 then do_check E (s\<lparr>c_state := CHECKING\<rparr>)
          else if now \<ge> c_deadline_ms s then on_response_timeout E s else s
      | IMPORTING \<Rightarrow> do_import E s
      | ACK_PENDING \<Rightarrow> do_ack E s
      | RETRY_WAIT \<Rightarrow>
          if c_next_retry_ms s > now then s else do_check E (s\<lparr>c_state := CHECKING\<rparr>)
      | BLOCKED \<Rightarrow>
          if c_blocked_reason s = kEvidenceConflict
          then (if c_next_retry_ms s > now then s else do_reconcile E s)
          else if c_capability_event_seen s
          then do_check E (s\<lparr>c_capability_event_seen := False, c_state := CHECKING\<rparr>) else s
      | RECONCILE_OLD_ATTEMPT \<Rightarrow> if c_next_retry_ms s > now then s else do_reconcile E s
      | LEGACY_SNAPSHOT_UNKNOWN \<Rightarrow> if c_next_retry_ms s > now then s else do_reconcile E s
      | SUPERSEDED_LOCAL \<Rightarrow> create_new_attempt E s
      | SUPERSEDED_REMOTE \<Rightarrow> create_new_attempt E s
      | BLOCKED_AWAIT_CLOUD_TERMINATION \<Rightarrow>
          if c_next_retry_ms s > now then s
          else (let (fresh, s1) = maybe_freshen E s in if fresh then s1 else poll_status E now s1)
      | RECONCILE_EVIDENCE \<Rightarrow> if c_next_retry_ms s > now then s else do_reconcile E s
      | STABILIZING_NOT_FOUND \<Rightarrow> if c_next_retry_ms s > now then s else do_reconcile E s
      | RECONCILE_REMOTE \<Rightarrow> if c_next_retry_ms s > now then s else do_reconcile E s
      | AWAIT_REMOTE_REPAIR \<Rightarrow> if c_next_retry_ms s > now then s else poll_status E now s
      | HARD_BLOCKED \<Rightarrow> if c_next_retry_ms s > now then s else do_reconcile E s
      | ACTIVE \<Rightarrow> s)"

definition tick :: "env \<Rightarrow> coord \<Rightarrow> coord" where
  "tick E s =
     (if \<not> cfg_enabled (c_config s) then s\<lparr>c_state := DISABLED\<rparr>
      else
        (let (gate, s1) = capability_gate E s;
             s2 = s1\<lparr>c_capability_ready := (case gate of Inl _ \<Rightarrow> False | Inr _ \<Rightarrow> True)\<rparr>;
             (synced, s3) = clock_check_ok E s2;
             s4 = s3\<lparr>c_clock_synced := synced\<rparr>
         in case gate of
              Inl reason \<Rightarrow> gate_closed E reason s4
            | Inr _ \<Rightarrow>
                if \<not> synced
                then (let s5 = s4\<lparr>c_gate_reason := ''clock_not_synced''\<rparr>
                      in if c_state s5 = REQUESTING then s5\<lparr>c_state := WAIT_CLOUD\<rparr> else s5)
                else (let s5 = s4\<lparr>c_gate_reason := []\<rparr>; (now, s6) = now_ms E s5
                      in run_state E now s6)))"

section \<open>The routed downlink\<close>

record routed_downlink =
  rde_owner :: string
  rde_route_id :: string
  rde_target :: string
  rde_payload :: bytes

definition count_rejected :: "coord \<Rightarrow> coord" where
  "count_rejected s = count_in (\<lambda>n. n\<lparr>cn_responses_rejected := cn_responses_rejected n + 1\<rparr>) s"

definition count_conflict :: "coord \<Rightarrow> coord" where
  "count_conflict s =
     count_in (\<lambda>n. n\<lparr>cn_idempotency_conflicts_total := cn_idempotency_conflicts_total n + 1\<rparr>) s"

text \<open>Retry within the Request budget, else reconcile.\<close>

definition retry_or_reconcile :: "env \<Rightarrow> coord \<Rightarrow> coord" where
  "retry_or_reconcile E s =
     (let (now, s1) = now_ms E s in
      if request_ok (c_kl1_params s1) now (c_budget s1)
      then schedule_retry E (s1\<lparr>c_state := RETRY_WAIT\<rparr>)
      else enter_reconcile_old_attempt E ''request_budget_exhausted'' [] s1)"

definition response_failed :: "env \<Rightarrow> response_data \<Rightarrow> coord \<Rightarrow> coord" where
  "response_failed E resp s =
     (let s1 = set_last_error ''response_not_succeeded'' (count_rejected s) in
      if keyprov_is_idempotency_conflict (rd_error resp)
      then enter_reconcile_old_attempt E ''idempotency_conflict'' (pe_code (rd_error resp))
             (record_conflict_facts (pe_code (rd_error resp)) (count_conflict s1))
      else persist E (if pe_retryable (rd_error resp) then retry_or_reconcile E s1
                      else s1\<lparr>c_state := BLOCKED\<rparr>))"

definition accept_response :: "env \<Rightarrow> string \<Rightarrow> response_data \<Rightarrow> coord \<Rightarrow> coord" where
  "accept_response E mid resp s =
     (let s1 = (if rd_expire_at_ms resp > 0
                then (let d = keyprov_ack_safe_deadline_ms (rd_expire_at_ms resp) (c_kl1_params s)
                      in s\<lparr>c_lease_expires_at_ms := rd_expire_at_ms resp,
                           c_ack_safe_deadline_ms := d,
                           c_budget := (c_budget s)\<lparr>bl_ack_safe_deadline_at_ms := d\<rparr>\<rparr>)
                else s)
      in persist E (s1\<lparr>c_response_binding := map binding_of (rd_items resp),
                       c_pending_items := rd_items resp, c_last_response_message_id := mid,
                       c_import_attempted := False, c_state := IMPORTING\<rparr>))"

definition handle_response :: "env \<Rightarrow> string \<Rightarrow> response_data \<Rightarrow> coord \<Rightarrow> coord" where
  "handle_response E mid resp s =
     (if c_state s \<noteq> WAIT_RESPONSE then count_rejected s
      else if rd_result resp \<noteq> kKeyProvResultSucceeded then response_failed E resp s
      else
        (let (c, s1) = clock_source_of E s; u = utc_upper c in
         if rd_expire_at_ms resp > 0 \<and> keyprov_lease_expired u (rd_expire_at_ms resp)
         then handle_expired_response E s1
         else if rd_expire_at_ms resp > 0
                 \<and> \<not> keyprov_lease_acceptable u (rd_expire_at_ms resp) (c_kl1_params s1)
         then enter_reconcile_old_attempt E ''lease_too_short'' []
                (set_last_error ''lease_too_short'' (count_rejected s1))
         else (case keyprov_response_valid (e_sc E) (c_config s1) resp of
                 Some err \<Rightarrow>
                   persist E (retry_or_reconcile E (set_last_error err (count_rejected s1)))
               | None \<Rightarrow> accept_response E mid resp s1)))"

definition handle_ack_result :: "env \<Rightarrow> ack_result_data \<Rightarrow> coord \<Rightarrow> coord" where
  "handle_ack_result E a s =
     (let s1 = count_in (\<lambda>n. n\<lparr>cn_ack_results_received := cn_ack_results_received n + 1\<rparr>) s in
      if keyprov_is_idempotency_conflict (ad_error a)
      then enter_reconcile_old_attempt E ''ack_result_idempotency_conflict'' (pe_code (ad_error a))
             (record_conflict_facts (pe_code (ad_error a)) (count_conflict s1))
      else if c_state s1 = ACK_PENDING then
        (if ad_result a = kKeyProvResultSucceeded
         then persist E (activate (set_last_error []
                (s1\<lparr>c_import_attempted := False, c_recovering_ack := False\<rparr>)))
         else retry_after E ''ack_result_rejected'' s1)
      else s1)"

definition reconcile_states :: "coord_state list" where
  "reconcile_states = [RECONCILE_OLD_ATTEMPT, LEGACY_SNAPSHOT_UNKNOWN,
     BLOCKED_AWAIT_CLOUD_TERMINATION, RECONCILE_EVIDENCE, STABILIZING_NOT_FOUND,
     RECONCILE_REMOTE, AWAIT_REMOTE_REPAIR, HARD_BLOCKED]"

definition handle_status_response :: "env \<Rightarrow> status_response_data \<Rightarrow> coord \<Rightarrow> coord" where
  "handle_status_response E st s =
     (if c_state s \<in> set reconcile_states
      then handle_reconcile_status E st (s\<lparr>c_reconcile_status_sent := False\<rparr>)
      else if c_state s \<noteq> ACK_PENDING \<and> c_state s \<noteq> WAIT_RESPONSE \<and> c_state s \<noteq> CHECKING
      then s
      else if keyprov_is_idempotency_conflict (sd_error st)
      then enter_reconcile_old_attempt E ''status_idempotency_conflict'' (pe_code (sd_error st))
             (record_conflict_facts (pe_code (sd_error st)) (count_conflict s))
      else if sd_status st = kKeyProvStatusActive
      then persist E (if c_ack_items s \<noteq> [] \<or> c_import_attempted s
                      then s\<lparr>c_state := ACK_PENDING, c_ack_sent := False\<rparr>
                      else activate s)
      else persist E (schedule_retry E (s\<lparr>c_state := RETRY_WAIT\<rparr>)))"

definition handle_routed_downlink :: "env \<Rightarrow> routed_downlink \<Rightarrow> coord \<Rightarrow> coord" where
  "handle_routed_downlink E ev s =
     (if rde_owner ev \<noteq> ''tsp'' \<or> rde_route_id ev \<noteq> cfg_route_down (c_config s)
         \<or> rde_target ev \<noteq> ''tsp.keyprov''
      then s
      else (case decode_keyprov_envelope (e_pb E) (e_sc E) (rde_payload ev) of
              Inl _ \<Rightarrow> count_rejected s
            | Inr d \<Rightarrow>
                if dc_request_id (dc_body d) \<noteq> r_request_id (c_record s)
                   \<or> r_request_id (c_record s) = []
                then count_rejected s
                else if c_awaiting_active s
                        \<and> (r_store_generation (c_record s) \<noteq> c_awaiting_generation s
                           \<or> \<not> keyprov_fingerprint_equal (c_frozen_fingerprint s)
                                (c_awaiting_fingerprint s))
                then count_rejected s
                else
                  (let s1 = count_in (\<lambda>n. n\<lparr>cn_responses_received := cn_responses_received n + 1\<rparr>) s
                   in case dc_body d of
                        DecResponse r \<Rightarrow> handle_response E (dc_message_id d) r s1
                      | DecAckResult a \<Rightarrow> handle_ack_result E a s1
                      | DecStatusResponse st \<Rightarrow> handle_status_response E st s1)))"

section \<open>Steps\<close>

datatype coord_event =
    CloudEvent cloud_readiness
  | CapabilityEvent capability_readiness
  | TickEvent
  | DownlinkEvent routed_downlink
  | ShutdownEvent
  | StopEvent

fun coord_step :: "env \<Rightarrow> coord_event \<Rightarrow> coord \<Rightarrow> coord" where
  "coord_step E (CloudEvent r) s = apply_cloud_readiness r s"
| "coord_step E (CapabilityEvent r) s = apply_capability_readiness r s"
| "coord_step E TickEvent s = tick E s"
| "coord_step E (DownlinkEvent ev) s = handle_routed_downlink E ev s"
| "coord_step E ShutdownEvent s = begin_shutdown s"
| "coord_step E StopEvent s = stop s"

text \<open>States reached from a start on a stored record.\<close>

inductive coord_reachable :: "env \<Rightarrow> coord_config \<Rightarrow> keyprov_record \<Rightarrow> coord \<Rightarrow> bool"
  for E cfg r where
  boot: "coord_reachable E cfg r (start E (initialize E cfg r coord0))"
| step: "coord_reachable E cfg r s \<Longrightarrow> coord_reachable E cfg r (coord_step E ev s)"

definition coord_run :: "env \<Rightarrow> coord_config \<Rightarrow> keyprov_record \<Rightarrow> coord_event list \<Rightarrow> coord" where
  "coord_run E cfg r evs =
     foldl (\<lambda>s ev. coord_step E ev s) (start E (initialize E cfg r coord0)) evs"

lemma coord_run_reachable: "coord_reachable E cfg r (coord_run E cfg r evs)"
proof (induction evs rule: rev_induct)
  case Nil
  then show ?case by (simp add: coord_run_def boot)
next
  case (snoc ev evs)
  then show ?case by (simp add: coord_run_def step)
qed

section \<open>The snapshot\<close>

definition kl1_remaining :: "bool \<Rightarrow> u32 \<Rightarrow> u32 \<Rightarrow> u32" where
  "kl1_remaining ok limit sent = (if ok then limit - sent else 0)"

definition blocked_state :: "coord_state \<Rightarrow> bool" where
  "blocked_state st \<longleftrightarrow> st = BLOCKED \<or> st \<in> set reconcile_states"

record coord_snapshot =
  sp_counters :: coord_counters
  sp_state :: coord_state
  sp_request_id :: string
  sp_capability_ready :: bool
  sp_identity_valid :: bool
  sp_publish_session_supported :: bool
  sp_reason_code :: string
  sp_attempt_count :: u32
  sp_last_error :: string
  sp_cloud_session_generation :: u64
  sp_clock_synced :: bool
  sp_readiness :: keyprov_readiness
  sp_blocked_reason :: string
  sp_fingerprint_version :: u32
  sp_legacy_snapshot_unknown :: bool
  sp_blocked_attempts_current :: u64
  sp_conflict_vmd_code :: string
  sp_sec_evidence_kind :: string
  sp_import_invocation_recorded :: bool
  sp_import_invocation_resolution :: string
  sp_recovery_phase :: string
  sp_sec_not_found_count :: u32
  sp_sec_capability_epoch :: u64
  sp_sec_epoch_unknown :: bool
  sp_successor_request_id_digest :: string
  sp_kl1_request_remaining :: u32
  sp_kl1_status_remaining :: u32
  sp_kl1_sec_query_remaining :: u32
  sp_kl1_ack_remaining :: u32
  sp_kl1_chain_remaining :: u32
  sp_kl1_budget_exhausted_reason :: string

definition snapshot :: "env \<Rightarrow> coord \<Rightarrow> coord_snapshot \<times> coord" where
  "snapshot E s =
     (let (now, s1) = now_ms E s; b = c_budget s1; p = c_kl1_params s1 in
      (\<lparr>sp_counters = c_counters s1, sp_state = c_state s1,
        sp_request_id = r_request_id (c_record s1), sp_capability_ready = c_capability_ready s1,
        sp_identity_valid = c_identity_valid s1,
        sp_publish_session_supported = c_publish_session_supported s1,
        sp_reason_code = c_gate_reason s1, sp_attempt_count = r_attempt_count (c_record s1),
        sp_last_error = r_last_error (c_record s1),
        sp_cloud_session_generation = r_cloud_session_generation (c_record s1),
        sp_clock_synced = c_clock_synced s1, sp_readiness = c_readiness s1,
        sp_blocked_reason = c_blocked_reason s1,
        sp_fingerprint_version = c_fingerprint_version s1,
        sp_legacy_snapshot_unknown = c_legacy_snapshot_unknown s1,
        sp_blocked_attempts_current = (if blocked_state (c_state s1) then 1 else 0),
        sp_conflict_vmd_code = c_conflict_vmd_code s1,
        sp_sec_evidence_kind = sec_import_evidence_kind_to_string (c_last_sec_evidence_kind s1),
        sp_import_invocation_recorded = c_import_invocation_recorded s1,
        sp_import_invocation_resolution =
          keyprov_import_invocation_resolution_to_string (c_resolution s1),
        sp_recovery_phase = c_recovery_phase s1,
        sp_sec_not_found_count = sn_consecutive_count (c_stab s1),
        sp_sec_capability_epoch = c_current_sec_capability_epoch s1,
        sp_sec_epoch_unknown = c_sec_capability_unavailable s1,
        sp_successor_request_id_digest = c_successor_request_id_digest s1,
        sp_kl1_request_remaining =
          kl1_remaining (request_ok p now b) (kp_request_limit p) (bl_request_send_count b),
        sp_kl1_status_remaining =
          kl1_remaining (status_ok p now b) (kp_readonly_limit p) (bl_status_send_count b),
        sp_kl1_sec_query_remaining =
          kl1_remaining (sec_query_ok p now b) (kp_readonly_limit p) (bl_sec_query_count b),
        sp_kl1_ack_remaining =
          kl1_remaining (ack_ok p now b) (kp_ack_limit p) (bl_ack_send_count b),
        sp_kl1_chain_remaining =
          kl1_remaining (chain_ok p now b) (kp_chain_ids p) (bl_chain_request_id_count b),
        sp_kl1_budget_exhausted_reason = bl_budget_exhausted_reason b\<rparr>, s1))"

end
