(* ===== verification/AttemptProtocol.thy ===== *)
theory AttemptProtocol
  imports CoordImport
begin

text \<open>
  What the coordinator promises about one provisioning attempt, as an abstract step relation
  over the few facts that matter outside: the request id, the session identity, the consumed
  Request and ACK budgets, whether the import intent is on record, its resolution, the items to
  acknowledge, the prepared successor id and the effects so far. The detailed operations
  are shown to run only such steps (theory CoordRefine), and every invariant here is proved
  once over the steps.
\<close>

record attempt_view =
  av_request_limit :: u32
  av_ack_limit :: u32
  av_rid :: string
  av_identity :: session_identity
  av_valid :: bool
  av_requests :: u32
  av_acks :: u32
  av_recorded :: bool
  av_resolution :: import_resolution
  av_unknown :: bool
  av_items :: "import_item list"
  av_successor :: string
  av_trace :: "effect list"

section \<open>Evidence in the trace\<close>

text \<open>The daemon reported a committed import of \<open>rid\<close>, with these items to acknowledge.\<close>

fun commit_of :: "sec_consts \<Rightarrow> string \<Rightarrow> import_item list \<Rightarrow> effect \<Rightarrow> bool" where
  "commit_of sc rid its (EvtImport r its0 l ec res) \<longleftrightarrow>
     r = rid \<and> ec = EcSuccess \<and> ir_state res = ImpCommitted \<and> its = build_ack_items sc res"
| "commit_of sc rid its (EvtQuery r ec res) \<longleftrightarrow>
     r = rid \<and> ec = EcSuccess \<and> ir_state res = ImpCommitted \<and> its = build_ack_items sc res"
| "commit_of sc rid its _ \<longleftrightarrow> False"

text \<open>A stored record of \<open>rid\<close> with the import intent.\<close>

fun intent_of :: "string \<Rightarrow> effect \<Rightarrow> bool" where
  "intent_of rid (EvtPersist r) \<longleftrightarrow> r_request_id r = rid \<and> r_import_invocation r"
| "intent_of rid (EvtLoad r) \<longleftrightarrow> r_request_id r = rid \<and> r_import_invocation r"
| "intent_of rid _ \<longleftrightarrow> False"

text \<open>The latest effect is an answered journal query for \<open>rid\<close> in one of the states.\<close>

fun just_answered :: "string \<Rightarrow> import_state list \<Rightarrow> effect list \<Rightarrow> bool" where
  "just_answered rid sts (EvtQuery r ec res # es) \<longleftrightarrow>
     r = rid \<and> ec = EcSuccess \<and> ir_state res \<in> set sts"
| "just_answered rid sts _ \<longleftrightarrow> False"

section \<open>Steps\<close>

definition record_matches :: "attempt_view \<Rightarrow> keyprov_record \<Rightarrow> bool" where
  "record_matches v r \<longleftrightarrow>
     r_request_id r = av_rid v \<and> r_import_invocation r = av_recorded v
     \<and> r_import_invocation_resolution r = resolution_code (av_resolution v)
     \<and> r_successor_request_id r = av_successor v
     \<and> bl_request_send_count (r_budget r) = av_requests v
     \<and> bl_ack_send_count (r_budget r) = av_acks v"

definition log_effect :: "effect \<Rightarrow> attempt_view \<Rightarrow> attempt_view" where
  "log_effect e v = v\<lparr>av_trace := e # av_trace v\<rparr>"

definition fresh_attempt :: "string \<Rightarrow> attempt_view \<Rightarrow> attempt_view" where
  "fresh_attempt rid v =
     v\<lparr>av_rid := rid, av_requests := 0, av_acks := 0, av_recorded := False,
       av_resolution := NoSideEffectProven, av_unknown := False, av_items := [],
       av_successor := [], av_trace := EvtNewAttempt rid # av_trace v\<rparr>"

inductive protocol_step :: "sec_consts \<Rightarrow> attempt_view \<Rightarrow> attempt_view \<Rightarrow> bool" for sc where
  p_invalidate: "protocol_step sc v (v\<lparr>av_valid := False, av_identity := empty_identity\<rparr>)"
| p_validate: "keyprov_validate_identity idn = Inr ()
     \<Longrightarrow> protocol_step sc v (v\<lparr>av_valid := True, av_identity := idn\<rparr>)"
| p_persist: "record_matches v r \<Longrightarrow> protocol_step sc v (log_effect (EvtPersist r) v)"
| p_intent: "record_matches (v\<lparr>av_recorded := True, av_resolution := Unresolved\<rparr>) r
     \<Longrightarrow> protocol_step sc v
           (log_effect (EvtPersist r) (v\<lparr>av_recorded := True, av_resolution := Unresolved\<rparr>))"
| p_import: "av_recorded v \<Longrightarrow> protocol_step sc v (log_effect (EvtImport (av_rid v) its l ec res) v)"
| p_query: "protocol_step sc v (log_effect (EvtQuery (av_rid v) ec res) v)"
| p_take: "list_ex (commit_of sc (av_rid v) its) (av_trace v)
     \<Longrightarrow> protocol_step sc v (v\<lparr>av_items := its\<rparr>)"
| p_drop: "protocol_step sc v (v\<lparr>av_items := []\<rparr>)"
| p_refused: "av_valid v
     \<Longrightarrow> protocol_step sc v (log_effect (EvtPublish MkRequest (av_rid v) (si_session (av_identity v)) False) v)"
| p_request: "av_valid v \<Longrightarrow> av_requests v < av_request_limit v
     \<Longrightarrow> protocol_step sc v
           (log_effect (EvtPublish MkRequest (av_rid v) (si_session (av_identity v)) True)
             (v\<lparr>av_requests := av_requests v + 1\<rparr>))"
| p_freshen: "av_requests v < av_request_limit v
     \<Longrightarrow> protocol_step sc v (v\<lparr>av_requests := av_requests v + 1\<rparr>)"
| p_ack_refused: "av_valid v \<Longrightarrow> av_items v \<noteq> [] \<or> list_ex (commit_of sc (av_rid v) []) (av_trace v)
     \<Longrightarrow> protocol_step sc v
           (log_effect (EvtPublish (MkAck (av_items v)) (av_rid v) (si_session (av_identity v)) False) v)"
| p_ack: "av_valid v \<Longrightarrow> av_items v \<noteq> [] \<or> list_ex (commit_of sc (av_rid v) []) (av_trace v)
     \<Longrightarrow> av_acks v < av_ack_limit v
     \<Longrightarrow> protocol_step sc v
           (log_effect (EvtPublish (MkAck (av_items v)) (av_rid v) (si_session (av_identity v)) True)
             (v\<lparr>av_acks := av_acks v + 1\<rparr>))"
| p_status: "av_valid v
     \<Longrightarrow> protocol_step sc v (log_effect (EvtPublish MkStatus (av_rid v) (si_session (av_identity v)) ok) v)"
| p_unknown: "protocol_step sc v (v\<lparr>av_unknown := True\<rparr>)"
| p_known: "just_answered (av_rid v) [ImpCommitted, ImpNotFound] (av_trace v)
     \<Longrightarrow> protocol_step sc v (v\<lparr>av_unknown := False\<rparr>)"
| p_commit: "just_answered (av_rid v) [ImpCommitted] (av_trace v)
     \<Longrightarrow> protocol_step sc v (v\<lparr>av_resolution := Unresolved\<rparr>)"
| p_prove: "just_answered (av_rid v) [ImpNotFound] (av_trace v) \<Longrightarrow> av_resolution v = Unresolved
     \<Longrightarrow> av_items v = [] \<Longrightarrow> protocol_step sc v (v\<lparr>av_resolution := NoSideEffectProven\<rparr>)"
| p_conflict: "protocol_step sc v (v\<lparr>av_resolution := HardConflict\<rparr>)"
| p_successor: "av_successor v = [] \<Longrightarrow> av_resolution v = NoSideEffectProven \<Longrightarrow> \<not> av_unknown v
     \<Longrightarrow> protocol_step sc v (v\<lparr>av_successor := rid\<rparr>)"
| p_new_attempt: "\<not> av_unknown v \<Longrightarrow> av_successor v \<noteq> [] \<longrightarrow> rid = av_successor v
     \<Longrightarrow> protocol_step sc v (fresh_attempt rid v)"

section \<open>Invariants of the steps\<close>

text \<open>What every protocol step keeps, every run keeps.\<close>

locale protocol_invariant = step_invariant "protocol_step sc" I
  for sc :: sec_consts and I :: "attempt_view \<Rightarrow> bool"

subsection \<open>Publication under a validated session\<close>

definition session_complete :: "mqtt_session \<Rightarrow> bool" where
  "session_complete m \<longleftrightarrow>
     ms_daemon_epoch m \<noteq> [] \<and> ms_connection_generation m \<noteq> 0 \<and> ms_cert_session_generation m \<noteq> 0"

fun published_complete :: "effect \<Rightarrow> bool" where
  "published_complete (EvtPublish kind rid sess ok) \<longleftrightarrow> session_complete sess"
| "published_complete _ \<longleftrightarrow> True"

definition identity_inv :: "attempt_view \<Rightarrow> bool" where
  "identity_inv v \<longleftrightarrow>
     (av_valid v \<longrightarrow> keyprov_validate_identity (av_identity v) = Inr ())
     \<and> list_all published_complete (av_trace v)"

lemma validated_session_complete:
  "keyprov_validate_identity idn = Inr () \<Longrightarrow> session_complete (si_session idn)"
  by (simp add: keyprov_validate_identity_def session_complete_def split: if_splits)

lemma identity_inv_kept: "protocol_step sc v w \<Longrightarrow> identity_inv v \<Longrightarrow> identity_inv w"
  by (induction rule: protocol_step.induct)
    (auto simp: identity_inv_def log_effect_def fresh_attempt_def validated_session_complete)

interpretation pid: protocol_invariant sc identity_inv for sc
  by unfold_locales (rule identity_inv_kept)

subsection \<open>Budgets of one attempt\<close>

text \<open>Accepted messages of a kind since the attempt began (or since the record was loaded).\<close>

fun sent_since :: "(message_kind \<Rightarrow> bool) \<Rightarrow> effect list \<Rightarrow> nat" where
  "sent_since P [] = 0"
| "sent_since P (EvtPublish kind rid sess ok # es) = (if P kind \<and> ok then 1 else 0) + sent_since P es"
| "sent_since P (EvtNewAttempt rid # es) = 0"
| "sent_since P (EvtLoad r # es) = 0"
| "sent_since P (_ # es) = sent_since P es"

definition is_request :: "message_kind \<Rightarrow> bool" where
  "is_request k \<longleftrightarrow> k = MkRequest"

definition is_ack :: "message_kind \<Rightarrow> bool" where
  "is_ack k \<longleftrightarrow> (\<exists>its. k = MkAck its)"

lemma kind_simps [simp]:
  "is_request MkRequest" "\<not> is_request (MkAck its)" "\<not> is_request MkStatus"
  "is_ack (MkAck its)" "\<not> is_ack MkRequest" "\<not> is_ack MkStatus"
  by (simp_all add: is_request_def is_ack_def)

definition budget_inv :: "attempt_view \<Rightarrow> bool" where
  "budget_inv v \<longleftrightarrow>
     sent_since is_request (av_trace v) \<le> unat (av_requests v)
     \<and> (sent_since is_request (av_trace v) = 0 \<or> av_requests v \<le> av_request_limit v)
     \<and> sent_since is_ack (av_trace v) \<le> unat (av_acks v)
     \<and> (sent_since is_ack (av_trace v) = 0 \<or> av_acks v \<le> av_ack_limit v)"

lemma count_up:
  fixes a l :: u32
  assumes "a < l"
  shows "unat (a + 1) = Suc (unat a)" "a + 1 \<le> l"
proof -
  have "a \<noteq> - 1" using assms by (metis word_order.extremum_strict)
  then show "unat (a + 1) = Suc (unat a)" by (simp add: unatSuc add.commute unat_eq_0 add_eq_0_iff)
  then show "a + 1 \<le> l" using assms by (simp add: word_le_nat_alt word_less_nat_alt)
qed

lemma budget_inv_kept: "protocol_step sc v w \<Longrightarrow> budget_inv v \<Longrightarrow> budget_inv w"
  by (induction rule: protocol_step.induct)
    (auto simp: budget_inv_def log_effect_def fresh_attempt_def count_up)

interpretation pbudget: protocol_invariant sc budget_inv for sc
  by unfold_locales (rule budget_inv_kept)

subsection \<open>Import after intent, acknowledgement after commit\<close>

fun effects_grounded :: "sec_consts \<Rightarrow> effect list \<Rightarrow> bool" where
  "effects_grounded sc [] \<longleftrightarrow> True"
| "effects_grounded sc (EvtImport rid its l ec res # es) \<longleftrightarrow>
     list_ex (intent_of rid) es \<and> effects_grounded sc es"
| "effects_grounded sc (EvtPublish (MkAck its) rid sess ok # es) \<longleftrightarrow>
     list_ex (commit_of sc rid its) es \<and> effects_grounded sc es"
| "effects_grounded sc (_ # es) \<longleftrightarrow> effects_grounded sc es"

definition grounded_inv :: "sec_consts \<Rightarrow> attempt_view \<Rightarrow> bool" where
  "grounded_inv sc v \<longleftrightarrow>
     (av_recorded v \<longrightarrow> list_ex (intent_of (av_rid v)) (av_trace v))
     \<and> (av_items v \<noteq> [] \<longrightarrow> list_ex (commit_of sc (av_rid v) (av_items v)) (av_trace v))
     \<and> effects_grounded sc (av_trace v)"

lemma grounded_inv_kept: "protocol_step sc v w \<Longrightarrow> grounded_inv sc v \<Longrightarrow> grounded_inv sc w"
  by (induction rule: protocol_step.induct)
    (auto simp: grounded_inv_def log_effect_def fresh_attempt_def record_matches_def)

interpretation pground: protocol_invariant sc "grounded_inv sc" for sc
  by unfold_locales (rule grounded_inv_kept)

subsection \<open>A proof of no side effect has evidence\<close>

text \<open>
  The daemon answered NOT\_FOUND for \<open>rid\<close>, or a record of it already carried the proof, or the
  attempt began here.
\<close>

fun proof_of :: "string \<Rightarrow> effect \<Rightarrow> bool" where
  "proof_of rid (EvtQuery r ec res) \<longleftrightarrow> r = rid \<and> ec = EcSuccess \<and> ir_state res = ImpNotFound"
| "proof_of rid (EvtLoad r) \<longleftrightarrow>
     r_request_id r = rid \<and> r_import_invocation_resolution r = resolution_code NoSideEffectProven"
| "proof_of rid (EvtNewAttempt r) \<longleftrightarrow> r = rid"
| "proof_of rid _ \<longleftrightarrow> False"

definition proof_inv :: "attempt_view \<Rightarrow> bool" where
  "proof_inv v \<longleftrightarrow>
     (av_resolution v = NoSideEffectProven \<longrightarrow> list_ex (proof_of (av_rid v)) (av_trace v))"

lemma just_answered_proof: "just_answered rid [ImpNotFound] es \<Longrightarrow> list_ex (proof_of rid) es"
  by (induction rid "[ImpNotFound]" es rule: just_answered.induct) auto

lemma proof_inv_kept: "protocol_step sc v w \<Longrightarrow> proof_inv v \<Longrightarrow> proof_inv w"
  by (induction rule: protocol_step.induct)
    (auto simp: proof_inv_def log_effect_def fresh_attempt_def just_answered_proof)

interpretation pproof: protocol_invariant sc proof_inv for sc
  by unfold_locales (rule proof_inv_kept)

end
