(* ===== verification/CoordRefine.thy ===== *)
theory CoordRefine
  imports CoordEvents AttemptProtocol
begin

text \<open>
  The detailed operations of the coordinator run only steps of the attempt protocol. \<open>view\<close>
  reads the abstract facts off the members, \<open>evolves\<close> relates two coordinator states whose
  views are joined by protocol steps, and there is one lemma per operation (collected in
  \<open>evolve\<close>), applied in the order the operation calls its parts.
\<close>

definition view :: "coord \<Rightarrow> attempt_view" where
  "view s =
     \<lparr>av_request_limit = kp_request_limit (c_kl1_params s),
      av_ack_limit = kp_ack_limit (c_kl1_params s), av_rid = r_request_id (c_record s),
      av_identity = c_identity s, av_valid = c_identity_valid s,
      av_requests = bl_request_send_count (c_budget s), av_acks = bl_ack_send_count (c_budget s),
      av_recorded = c_import_invocation_recorded s, av_resolution = c_resolution s,
      av_unknown = c_sec_outcome_unknown s, av_items = c_ack_items s,
      av_successor = c_successor_request_id s, av_trace = c_trace s\<rparr>"

definition evolves :: "env \<Rightarrow> coord \<Rightarrow> coord \<Rightarrow> bool" where
  "evolves E s t \<longleftrightarrow> (protocol_step (e_sc E))\<^sup>*\<^sup>* (view s) (view t)"

named_theorems evolve \<open>operations run protocol steps\<close>

section \<open>Members the view does not read\<close>

lemma view_frame [simp]:
  "view (c_config_update f1 s) = view s"
  "view (c_state_update f2 s) = view s"
  "view (c_cloud_update f3 s) = view s"
  "view (c_capability_update f4 s) = view s"
  "view (c_publish_session_supported_update f5 s) = view s"
  "view (c_last_cloud_sequence_update f6 s) = view s"
  "view (c_capability_ready_update f7 s) = view s"
  "view (c_clock_synced_update f8 s) = view s"
  "view (c_gate_reason_update f9 s) = view s"
  "view (c_frozen_snapshot_update f10 s) = view s"
  "view (c_frozen_fingerprint_update f11 s) = view s"
  "view (c_fingerprint_version_update f12 s) = view s"
  "view (c_submission_update f13 s) = view s"
  "view (c_supersedes_request_id_update f14 s) = view s"
  "view (c_superseded_by_request_id_update f15 s) = view s"
  "view (c_blocked_reason_update f16 s) = view s"
  "view (c_store_generation_update f17 s) = view s"
  "view (c_legacy_snapshot_unknown_update f18 s) = view s"
  "view (c_pending_callback_update f19 s) = view s"
  "view (c_last_sec_evidence_kind_update f20 s) = view s"
  "view (c_sec_import_result_contract_version_update f21 s) = view s"
  "view (c_stab_update f22 s) = view s"
  "view (c_recovery_phase_update f23 s) = view s"
  "view (c_cached_vmd_status_update f24 s) = view s"
  "view (c_cached_vmd_error_update f25 s) = view s"
  "view (c_lease_expires_at_ms_update f26 s) = view s"
  "view (c_ack_safe_deadline_ms_update f27 s) = view s"
  "view (c_sec_lease_admission_supported_update f28 s) = view s"
  "view (c_kl1_snapshot_available_update f29 s) = view s"
  "view (c_sec_result_contract_version_update f30 s) = view s"
  "view (c_sec_query_semantics_version_update f31 s) = view s"
  "view (c_sec_kl1_profile_version_update f32 s) = view s"
  "view (c_successor_request_id_digest_update f33 s) = view s"
  "view (c_current_sec_capability_epoch_update f34 s) = view s"
  "view (c_sec_capability_unavailable_update f35 s) = view s"
  "view (c_last_sec_capability_contract_update f36 s) = view s"
  "view (c_last_capability_not_found_flag_update f37 s) = view s"
  "view (c_status_backoff_ms_update f38 s) = view s"
  "view (c_nf_first_wall_ms_update f39 s) = view s"
  "view (c_nf_last_wall_ms_update f40 s) = view s"
  "view (c_last_obs_valid_update f41 s) = view s"
  "view (c_last_obs_vmd_status_update f42 s) = view s"
  "view (c_last_obs_kind_update f43 s) = view s"
  "view (c_last_obs_error_code_update f44 s) = view s"
  "view (c_last_obs_error_action_update f45 s) = view s"
  "view (c_last_obs_generation_update f46 s) = view s"
  "view (c_sec_unknown_rounds_update f47 s) = view s"
  "view (c_sec_unknown_alerted_update f48 s) = view s"
  "view (c_reconcile_status_sent_update f49 s) = view s"
  "view (c_conflict_vmd_code_update f50 s) = view s"
  "view (c_awaiting_active_update f51 s) = view s"
  "view (c_awaiting_request_id_update f52 s) = view s"
  "view (c_awaiting_generation_update f53 s) = view s"
  "view (c_awaiting_fingerprint_update f54 s) = view s"
  "view (c_pending_items_update f55 s) = view s"
  "view (c_response_binding_update f56 s) = view s"
  "view (c_readiness_update f57 s) = view s"
  "view (c_import_attempted_update f58 s) = view s"
  "view (c_ack_sent_update f59 s) = view s"
  "view (c_status_sent_update f60 s) = view s"
  "view (c_recovering_ack_update f61 s) = view s"
  "view (c_last_response_message_id_update f62 s) = view s"
  "view (c_deadline_ms_update f63 s) = view s"
  "view (c_next_retry_ms_update f64 s) = view s"
  "view (c_backoff_ms_update f65 s) = view s"
  "view (c_capability_event_seen_update f66 s) = view s"
  "view (c_running_update f67 s) = view s"
  "view (c_stopping_update f68 s) = view s"
  "view (c_counters_update f69 s) = view s"
  "view (c_calls_update f70 s) = view s"
  by (simp_all add: view_def)

lemma view_record_frame [simp]:
  "r_request_id r = r_request_id (c_record s) \<Longrightarrow> view (s\<lparr>c_record := r\<rparr>) = view s"
  by (simp add: view_def)

lemma view_budget_frame [simp]:
  "bl_request_send_count b = bl_request_send_count (c_budget s)
   \<Longrightarrow> bl_ack_send_count b = bl_ack_send_count (c_budget s)
   \<Longrightarrow> view (s\<lparr>c_budget := b\<rparr>) = view s"
  by (simp add: view_def)

lemma view_leaves [simp]:
  "view (called s) = view s" "view (count_in f s) = view s" "view (set_last_error e s) = view s"
  "view (emit ef s) = log_effect ef (view s)"
  by (simp_all add: called_def count_in_def set_last_error_def emit_def log_effect_def view_def)

lemma view_select [simp]:
  "av_request_limit (view s) = kp_request_limit (c_kl1_params s)"
  "av_ack_limit (view s) = kp_ack_limit (c_kl1_params s)"
  "av_rid (view s) = r_request_id (c_record s)" "av_identity (view s) = c_identity s"
  "av_valid (view s) = c_identity_valid s"
  "av_requests (view s) = bl_request_send_count (c_budget s)"
  "av_acks (view s) = bl_ack_send_count (c_budget s)"
  "av_recorded (view s) = c_import_invocation_recorded s"
  "av_resolution (view s) = c_resolution s" "av_unknown (view s) = c_sec_outcome_unknown s"
  "av_items (view s) = c_ack_items s" "av_successor (view s) = c_successor_request_id s"
  "av_trace (view s) = c_trace s"
  by (simp_all add: view_def)

text \<open>The members it reads.\<close>

lemma view_update [simp]:
  "view (c_identity_update g1 s) = (view s)\<lparr>av_identity := g1 (c_identity s)\<rparr>"
  "view (c_identity_valid_update g2 s) = (view s)\<lparr>av_valid := g2 (c_identity_valid s)\<rparr>"
  "view (c_import_invocation_recorded_update g2 s)
     = (view s)\<lparr>av_recorded := g2 (c_import_invocation_recorded s)\<rparr>"
  "view (c_resolution_update g3 s) = (view s)\<lparr>av_resolution := g3 (c_resolution s)\<rparr>"
  "view (c_sec_outcome_unknown_update g2 s) = (view s)\<lparr>av_unknown := g2 (c_sec_outcome_unknown s)\<rparr>"
  "view (c_ack_items_update g4 s) = (view s)\<lparr>av_items := g4 (c_ack_items s)\<rparr>"
  "view (c_successor_request_id_update g5 s)
     = (view s)\<lparr>av_successor := g5 (c_successor_request_id s)\<rparr>"
  by (simp_all add: view_def)

lemma view_eqD:
  assumes "view t = view s"
  shows "r_request_id (c_record t) = r_request_id (c_record s)"
    "c_identity t = c_identity s" "c_identity_valid t = c_identity_valid s"
    "bl_request_send_count (c_budget t) = bl_request_send_count (c_budget s)"
    "c_resolution t = c_resolution s" "c_sec_outcome_unknown t = c_sec_outcome_unknown s"
    "c_ack_items t = c_ack_items s" "c_successor_request_id t = c_successor_request_id s"
    "c_trace t = c_trace s"
  using assms by (auto simp flip: view_select)

section \<open>The relation\<close>

lemma evolves_refl [simp]: "evolves E s s"
  by (simp add: evolves_def)

lemma evolves_trans: "evolves E s t \<Longrightarrow> evolves E t u \<Longrightarrow> evolves E s u"
  by (simp add: evolves_def)

lemma evolves_same: "evolves E s t \<Longrightarrow> view u = view t \<Longrightarrow> evolves E s u"
  by (simp add: evolves_def)

lemma evolves_frame [simp]:
  "evolves E a (c_config_update f1 s) = evolves E a s"
  "evolves E a (c_state_update f2 s) = evolves E a s"
  "evolves E a (c_cloud_update f3 s) = evolves E a s"
  "evolves E a (c_capability_update f4 s) = evolves E a s"
  "evolves E a (c_publish_session_supported_update f5 s) = evolves E a s"
  "evolves E a (c_last_cloud_sequence_update f6 s) = evolves E a s"
  "evolves E a (c_capability_ready_update f7 s) = evolves E a s"
  "evolves E a (c_clock_synced_update f8 s) = evolves E a s"
  "evolves E a (c_gate_reason_update f9 s) = evolves E a s"
  "evolves E a (c_frozen_snapshot_update f10 s) = evolves E a s"
  "evolves E a (c_frozen_fingerprint_update f11 s) = evolves E a s"
  "evolves E a (c_fingerprint_version_update f12 s) = evolves E a s"
  "evolves E a (c_submission_update f13 s) = evolves E a s"
  "evolves E a (c_supersedes_request_id_update f14 s) = evolves E a s"
  "evolves E a (c_superseded_by_request_id_update f15 s) = evolves E a s"
  "evolves E a (c_blocked_reason_update f16 s) = evolves E a s"
  "evolves E a (c_store_generation_update f17 s) = evolves E a s"
  "evolves E a (c_legacy_snapshot_unknown_update f18 s) = evolves E a s"
  "evolves E a (c_pending_callback_update f19 s) = evolves E a s"
  "evolves E a (c_last_sec_evidence_kind_update f20 s) = evolves E a s"
  "evolves E a (c_sec_import_result_contract_version_update f21 s) = evolves E a s"
  "evolves E a (c_stab_update f22 s) = evolves E a s"
  "evolves E a (c_recovery_phase_update f23 s) = evolves E a s"
  "evolves E a (c_cached_vmd_status_update f24 s) = evolves E a s"
  "evolves E a (c_cached_vmd_error_update f25 s) = evolves E a s"
  "evolves E a (c_lease_expires_at_ms_update f26 s) = evolves E a s"
  "evolves E a (c_ack_safe_deadline_ms_update f27 s) = evolves E a s"
  "evolves E a (c_sec_lease_admission_supported_update f28 s) = evolves E a s"
  "evolves E a (c_kl1_snapshot_available_update f29 s) = evolves E a s"
  "evolves E a (c_sec_result_contract_version_update f30 s) = evolves E a s"
  "evolves E a (c_sec_query_semantics_version_update f31 s) = evolves E a s"
  "evolves E a (c_sec_kl1_profile_version_update f32 s) = evolves E a s"
  "evolves E a (c_successor_request_id_digest_update f33 s) = evolves E a s"
  "evolves E a (c_current_sec_capability_epoch_update f34 s) = evolves E a s"
  "evolves E a (c_sec_capability_unavailable_update f35 s) = evolves E a s"
  "evolves E a (c_last_sec_capability_contract_update f36 s) = evolves E a s"
  "evolves E a (c_last_capability_not_found_flag_update f37 s) = evolves E a s"
  "evolves E a (c_status_backoff_ms_update f38 s) = evolves E a s"
  "evolves E a (c_nf_first_wall_ms_update f39 s) = evolves E a s"
  "evolves E a (c_nf_last_wall_ms_update f40 s) = evolves E a s"
  "evolves E a (c_last_obs_valid_update f41 s) = evolves E a s"
  "evolves E a (c_last_obs_vmd_status_update f42 s) = evolves E a s"
  "evolves E a (c_last_obs_kind_update f43 s) = evolves E a s"
  "evolves E a (c_last_obs_error_code_update f44 s) = evolves E a s"
  "evolves E a (c_last_obs_error_action_update f45 s) = evolves E a s"
  "evolves E a (c_last_obs_generation_update f46 s) = evolves E a s"
  "evolves E a (c_sec_unknown_rounds_update f47 s) = evolves E a s"
  "evolves E a (c_sec_unknown_alerted_update f48 s) = evolves E a s"
  "evolves E a (c_reconcile_status_sent_update f49 s) = evolves E a s"
  "evolves E a (c_conflict_vmd_code_update f50 s) = evolves E a s"
  "evolves E a (c_awaiting_active_update f51 s) = evolves E a s"
  "evolves E a (c_awaiting_request_id_update f52 s) = evolves E a s"
  "evolves E a (c_awaiting_generation_update f53 s) = evolves E a s"
  "evolves E a (c_awaiting_fingerprint_update f54 s) = evolves E a s"
  "evolves E a (c_pending_items_update f55 s) = evolves E a s"
  "evolves E a (c_response_binding_update f56 s) = evolves E a s"
  "evolves E a (c_readiness_update f57 s) = evolves E a s"
  "evolves E a (c_import_attempted_update f58 s) = evolves E a s"
  "evolves E a (c_ack_sent_update f59 s) = evolves E a s"
  "evolves E a (c_status_sent_update f60 s) = evolves E a s"
  "evolves E a (c_recovering_ack_update f61 s) = evolves E a s"
  "evolves E a (c_last_response_message_id_update f62 s) = evolves E a s"
  "evolves E a (c_deadline_ms_update f63 s) = evolves E a s"
  "evolves E a (c_next_retry_ms_update f64 s) = evolves E a s"
  "evolves E a (c_backoff_ms_update f65 s) = evolves E a s"
  "evolves E a (c_capability_event_seen_update f66 s) = evolves E a s"
  "evolves E a (c_running_update f67 s) = evolves E a s"
  "evolves E a (c_stopping_update f68 s) = evolves E a s"
  "evolves E a (c_counters_update f69 s) = evolves E a s"
  "evolves E a (c_calls_update f70 s) = evolves E a s"
    by (simp_all add: evolves_def)

lemma evolves_record_frame [simp]:
  "r_request_id r = r_request_id (c_record s) \<Longrightarrow> evolves E a (s\<lparr>c_record := r\<rparr>) = evolves E a s"
  by (simp add: evolves_def)

lemma evolves_budget_frame [simp]:
  "bl_request_send_count b = bl_request_send_count (c_budget s)
   \<Longrightarrow> bl_ack_send_count b = bl_ack_send_count (c_budget s)
   \<Longrightarrow> evolves E a (s\<lparr>c_budget := b\<rparr>) = evolves E a s"
  by (simp add: evolves_def)

lemma evolves_leaves [simp]:
  "evolves E a (called s) = evolves E a s" "evolves E a (count_in f s) = evolves E a s"
  "evolves E a (set_last_error e s) = evolves E a s"
  by (simp_all add: evolves_def)

lemma evolves_step: "evolves E s t \<Longrightarrow> protocol_step (e_sc E) (view t) (view u) \<Longrightarrow> evolves E s u"
  by (simp add: evolves_def rtranclp.rtrancl_into_rtrancl)

text \<open>Control flow.\<close>

lemma evolves_let [evolve]:
  "evolves E s t \<Longrightarrow> (\<And>y. y = t \<Longrightarrow> evolves E s y \<Longrightarrow> evolves E s (f y))
   \<Longrightarrow> evolves E s (Let t f)"
  by simp

lemma evolves_pair [evolve]:
  "evolves E s (snd p) \<Longrightarrow> (\<And>a b. p = (a, b) \<Longrightarrow> evolves E s b \<Longrightarrow> evolves E s (f a b))
   \<Longrightarrow> evolves E s (case p of (a, b) \<Rightarrow> f a b)"
  by (cases p) simp

lemma evolves_if [evolve]:
  "(c \<Longrightarrow> evolves E s a) \<Longrightarrow> (\<not> c \<Longrightarrow> evolves E s b) \<Longrightarrow> evolves E s (if c then a else b)"
  by simp

lemma evolves_sum [evolve]:
  "(\<And>a. x = Inl a \<Longrightarrow> evolves E s (f a)) \<Longrightarrow> (\<And>b. x = Inr b \<Longrightarrow> evolves E s (g b))
   \<Longrightarrow> evolves E s (case x of Inl a \<Rightarrow> f a | Inr b \<Rightarrow> g b)"
  by (cases x) auto

lemma evolves_option [evolve]:
  "(x = None \<Longrightarrow> evolves E s f) \<Longrightarrow> (\<And>b. x = Some b \<Longrightarrow> evolves E s (g b))
   \<Longrightarrow> evolves E s (case x of None \<Rightarrow> f | Some b \<Rightarrow> g b)"
  by (cases x) auto

section \<open>Leaf operations\<close>

text \<open>Values bound on the way that are not states.\<close>

lemmas let_values =
  Let_def [of "t::string" for t] Let_def [of "t::bool" for t] Let_def [of "t::int" for t]
  Let_def [of "t::u32" for t] Let_def [of "t::u64" for t] Let_def [of "t::publish_result" for t]
  Let_def [of "t::keyprov_record" for t] Let_def [of "t::keyprov_readiness" for t]
  Let_def [of "t::cloud_readiness" for t] Let_def [of "t::capability_readiness" for t]
  Let_def [of "t::session_identity" for t] Let_def [of "t::bound_evidence" for t]
  Let_def [of "t::import_state" for t] Let_def [of "t::cloud_protocol_error" for t]
  Let_def [of "t::string list" for t] Let_def [of "t::attempt_snapshot" for t]

lemma view_calls [simp]:
  "view (snd (now_ms E s)) = view s" "view (snd (now_monotonic_ms E s)) = view s"
  "view (snd (clock_check_ok E s)) = view s" "view (snd (clock_source_of E s)) = view s"
  "view (snd (generate_id E p s)) = view s" "view (snd (with_jitter E b s)) = view s"
  "view (snd (query_sec_status E s)) = view s" "view (snd (build_candidate E s)) = view s"
  "view (schedule_retry E s) = view s" "view (schedule_status_retry E s) = view s"
  "view (transition_to q s) = view s" "view (count_blocked_reason rs s) = view s"
  "view (record_conflict_facts vc s) = view s"
  "view (snd (reconcile_obs_suppressed vs k ec ea s)) = view s"
  "view (reset_not_found_stabilization rs s) = view s"
  by (simp_all add: now_ms_def now_monotonic_ms_def clock_check_ok_def clock_source_of_def
      generate_id_def with_jitter_def query_sec_status_def build_candidate_def schedule_retry_def
      schedule_status_retry_def transition_to_def count_blocked_reason_def record_conflict_facts_def
      reconcile_obs_suppressed_def reset_not_found_stabilization_def count_stabilization_def Let_def
      split: option.split sum.split prod.split)

lemma evolves_calls [simp]:
  "evolves E a (snd (now_ms E s)) = evolves E a s"
  "evolves E a (snd (now_monotonic_ms E s)) = evolves E a s"
  "evolves E a (snd (clock_check_ok E s)) = evolves E a s"
  "evolves E a (snd (clock_source_of E s)) = evolves E a s"
  "evolves E a (snd (generate_id E p s)) = evolves E a s"
  "evolves E a (snd (with_jitter E b s)) = evolves E a s"
  "evolves E a (snd (query_sec_status E s)) = evolves E a s"
  "evolves E a (snd (build_candidate E s)) = evolves E a s"
  "evolves E a (schedule_retry E s) = evolves E a s"
  "evolves E a (schedule_status_retry E s) = evolves E a s"
  "evolves E a (transition_to q s) = evolves E a s"
  "evolves E a (count_blocked_reason rs s) = evolves E a s"
  "evolves E a (record_conflict_facts vc s) = evolves E a s"
  "evolves E a (snd (reconcile_obs_suppressed vs k ec ea s)) = evolves E a s"
  "evolves E a (reset_not_found_stabilization rs s) = evolves E a s"
  by (simp_all add: evolves_def)

lemma view_persist [simp]:
  "view (persist E s) = log_effect (EvtPersist (c_record (persist E s))) (view s)"
  by (simp add: persist_def now_ms_def record_of_members_def log_effect_def view_def emit_def
      called_def Let_def)

lemma persist_matches: "record_matches (view s) (c_record (persist E s))"
  by (simp add: persist_def now_ms_def record_of_members_def record_matches_def view_def emit_def
      called_def Let_def)

lemma evolves_persist [evolve]: "evolves E s t \<Longrightarrow> evolves E s (persist E t)"
  by (erule evolves_step) (simp add: p_persist persist_matches)

lemma evolves_emit_query [evolve]:
  "evolves E s t \<Longrightarrow> evolves E s (snd (query_import_result E t))"
  by (erule evolves_step)
    (simp add: query_import_result_def p_query [of _ "view t", simplified] split: prod.split)

lemma evolves_invalidate [evolve]: "evolves E s t \<Longrightarrow> evolves E s (invalidate_identity t)"
  by (erule evolves_step) (simp add: invalidate_identity_def p_invalidate [of _ "view t", simplified])

lemma evolves_enter_old [evolve]:
  "evolves E s t \<Longrightarrow> evolves E s (enter_reconcile_old_attempt E rs vc t)"
  unfolding enter_reconcile_old_attempt_def by (auto intro!: evolve)

lemma evolves_enter_evidence [evolve]:
  "evolves E s t \<Longrightarrow> evolves E s (enter_reconcile_evidence E rs t)"
  unfolding enter_reconcile_evidence_def by (auto intro!: evolve)

lemma evolves_conflict [evolve]:
  "evolves E s t \<Longrightarrow> evolves E s (t\<lparr>c_resolution := HardConflict\<rparr>)"
  by (erule evolves_step) (simp add: p_conflict)

lemma evolves_hard_blocked [evolve]:
  "evolves E s t \<Longrightarrow> evolves E s (enter_hard_blocked E rs t)"
  unfolding enter_hard_blocked_def by (auto intro!: evolve)

section \<open>Session and gate\<close>

lemma evolves_cloud [evolve]:
  "evolves E s t \<Longrightarrow> evolves E s (apply_cloud_readiness r t)"
  unfolding apply_cloud_readiness_def let_values by (auto intro!: evolve)

lemma evolves_capability [evolve]:
  "evolves E s t \<Longrightarrow> evolves E s (apply_capability_readiness r t)"
  unfolding apply_capability_readiness_def let_values by (auto intro!: evolve)

lemma evolves_refresh [evolve]:
  "evolves E s t \<Longrightarrow> evolves E s (refresh_readiness E t)"
  unfolding refresh_readiness_def let_values by (auto intro!: evolve)

lemma view_sec_readiness [simp]: "view (refresh_sec_readiness E s) = view s"
  by (simp add: refresh_sec_readiness_def update_sec_capability_epoch_def Let_def split: prod.split)

lemma evolves_sec_readiness [simp]: "evolves E a (refresh_sec_readiness E s) = evolves E a s"
  by (simp add: evolves_def)

text \<open>
  A closed gate leaves the identity alone or empties it, and the tick then invalidates it; an
  open gate has validated it.
\<close>

lemma gate_open:
  assumes "capability_gate E s = (Inr u, t)"
  shows "evolves E s t"
proof -
  let ?v = "refresh_sec_readiness E s"
  have "keyprov_validate_identity (c_identity t) = Inr ()" "c_identity_valid t"
    and "view t = (view s)\<lparr>av_valid := True, av_identity := c_identity t\<rparr>"
    using assms by (auto simp: capability_gate_def Let_def split: if_splits option.splits sum.splits)
  then show ?thesis
    using p_validate [of "c_identity t" "e_sc E" "view s"] evolves_step [OF evolves_refl] by simp
qed

lemma invalid_update: "\<not> av_valid v \<Longrightarrow> v\<lparr>av_valid := False, av_identity := i\<rparr> = v\<lparr>av_identity := i\<rparr>"
  by (cases v) simp

lemma gate_shut:
  assumes "capability_gate E s = (Inl reason, t)"
  shows "view (invalidate_identity t) = view (invalidate_identity s)"
    and "\<not> c_identity_valid t \<Longrightarrow> evolves E s t"
proof -
  have v: "view t = view s \<or> view t = (view s)\<lparr>av_identity := empty_identity\<rparr>"
    using assms by (auto simp: capability_gate_def Let_def split: if_splits option.splits sum.splits)
  show "view (invalidate_identity t) = view (invalidate_identity s)"
    using v by (auto simp: invalidate_identity_def)
  assume "\<not> c_identity_valid t"
  then have "\<not> av_valid (view t)" by simp
  with v have n: "\<not> av_valid (view s)" by (auto simp del: view_select)
  have "protocol_step (e_sc E) (view s) ((view s)\<lparr>av_identity := empty_identity\<rparr>)"
    using p_invalidate [of "e_sc E" "view s"] unfolding invalid_update [OF n] .
  with v have "view t = view s \<or> protocol_step (e_sc E) (view s) (view t)" by auto
  then show "evolves E s t"
    using evolves_same [OF evolves_refl] evolves_step [OF evolves_refl] by blast
qed

section \<open>Publication\<close>

lemma evolves_publish_rejected [evolve]:
  "evolves E s t \<Longrightarrow> evolves E s (publish_rejected E pr t)"
  unfolding publish_rejected_def let_values by (auto intro!: evolve)

lemma view_emit_publish:
  "view (emit ef (called s)) = log_effect ef (view s)"
  by simp

lemma evolves_publish_status [evolve]:
  assumes "evolves E s t" "rid = r_request_id (c_record t)"
  shows "evolves E s (snd (publish_keyprov E MkStatus mid b rid t))"
proof (cases "c_identity_valid t")
  case True
  then have "evolves E s (emit (EvtPublish MkStatus rid (si_session (c_identity t)) ok) (called t))" for ok
    using p_status [of "view t" "e_sc E" ok] assms by (auto intro: evolves_step)
  then show ?thesis
    using True by (auto simp: publish_keyprov_def Let_def intro!: evolve)
qed (use assms in \<open>simp add: publish_keyprov_def\<close>)

lemma evolves_status_request [evolve]:
  "evolves E s t \<Longrightarrow> evolves E s (send_status_request E t)"
  unfolding send_status_request_def let_values
  by (auto intro!: evolve simp: count_status_request_def mark_awaiting_def)

section \<open>The Request\<close>

lemma view_budget:
  "view (s\<lparr>c_budget := b\<rparr>)
     = (view s)\<lparr>av_requests := bl_request_send_count b, av_acks := bl_ack_send_count b\<rparr>"
  by (simp add: view_def)

lemma preconsume_counts [simp]:
  "bl_request_send_count (preconsume_request p n b) = bl_request_send_count b + 1"
  "bl_ack_send_count (preconsume_request p n b) = bl_ack_send_count b"
  "bl_request_send_count (preconsume_freshen b) = bl_request_send_count b"
  "bl_ack_send_count (preconsume_freshen b) = bl_ack_send_count b"
  "bl_request_send_count (preconsume_ack p n b) = bl_request_send_count b"
  "bl_ack_send_count (preconsume_ack p n b) = bl_ack_send_count b + 1"
  "bl_request_send_count (preconsume_chain_id p n b) = bl_request_send_count b"
  "bl_ack_send_count (preconsume_chain_id p n b) = bl_ack_send_count b"
  "bl_request_send_count (reset_for_new_attempt b) = 0"
  "bl_ack_send_count (reset_for_new_attempt b) = 0"
  by (simp_all add: preconsume_request_def preconsume_freshen_def preconsume_ack_def
      preconsume_chain_id_def reset_for_new_attempt_def Let_def)

lemma request_ok_below: "request_ok p n b \<Longrightarrow> bl_request_send_count b < kp_request_limit p"
  by (simp add: request_ok_def split: if_splits)

lemma same_calls:
  "view t = view s \<Longrightarrow> bl_request_send_count (c_budget t) = bl_request_send_count (c_budget s)"
  "view t = view s \<Longrightarrow> kp_request_limit (c_kl1_params t) = kp_request_limit (c_kl1_params s)"
  by (simp_all add: view_def)

lemma evolves_budget_over:
  "evolves E s (u\<lparr>c_budget := b\<rparr>) \<Longrightarrow> view t = view u \<Longrightarrow> evolves E s (t\<lparr>c_budget := b\<rparr>)"
  by (rule evolves_same) (auto simp: view_budget)

text \<open>A published Request and its budget.\<close>

lemma evolves_request_sent:
  assumes "evolves E s t" "c_identity_valid t"
    "bl_request_send_count (c_budget t) < kp_request_limit (c_kl1_params t)"
  shows "evolves E s ((emit (EvtPublish MkRequest (r_request_id (c_record t)) (si_session (c_identity t)) True)
           (called t))\<lparr>c_budget := preconsume_request p n (c_budget t)\<rparr>)"
  using assms(1)
  by (rule evolves_step)
    (use p_request [of "view t" "e_sc E"] assms(2,3) in
      \<open>simp add: view_def log_effect_def emit_def called_def\<close>)

lemma evolves_request_refused:
  assumes "evolves E s t" "c_identity_valid t"
  shows "evolves E s (emit (EvtPublish MkRequest (r_request_id (c_record t)) (si_session (c_identity t)) False)
           (called t))"
  using assms(1)
  by (rule evolves_step) (use p_refused [of "view t" "e_sc E"] assms(2) in simp)

lemma evolves_publish_request:
  assumes "evolves E s t"
    and "bl_request_send_count (c_budget t) < kp_request_limit (c_kl1_params t)"
    and "publish_keyprov E MkRequest mid b (r_request_id (c_record t)) t = (ok, u)"
  shows "evolves E s (if ok then u\<lparr>c_budget := preconsume_request p n (c_budget u)\<rparr> else u)"
proof (cases "c_identity_valid t")
  case True
  then show ?thesis
    using assms evolves_request_sent [OF assms(1) True assms(2)] evolves_request_refused [OF assms(1) True]
    by (auto simp: publish_keyprov_def Let_def emit_def called_def intro!: evolve split: if_splits)
qed (use assms in \<open>auto simp: publish_keyprov_def\<close>)

lemma evolves_send_request:
  assumes "evolves E s t"
    and "bl_request_send_count (c_budget t) < kp_request_limit (c_kl1_params t)"
  shows "evolves E s (send_request E t)"
proof -
  obtain n s1 where n: "now_ms E t = (n, s1)" by (cases "now_ms E t")
  obtain mid s2 where g: "generate_id E ''msg'' s1 = (mid, s2)" by (cases "generate_id E ''msg'' s1")
  have v: "view s2 = view t" using view_calls(1) [of E t] view_calls(5) [of E "''msg''" s1] n g by simp
  have e: "evolves E s s2" using evolves_same [OF assms(1) v] .
  have lim: "bl_request_send_count (c_budget s2) < kp_request_limit (c_kl1_params s2)"
    using assms(2) same_calls [OF v] by simp
  show ?thesis
  proof (cases "build_keyprov_request_envelope (e_pb E) (c_identity s2) (request_of_attempt n s2) mid []")
    case (Inl a)
    then show ?thesis using e by (auto simp: send_request_def n g intro!: evolve)
  next
    case (Inr b)
    obtain ok u where p: "publish_keyprov E MkRequest mid b (r_request_id (c_record s2)) s2 = (ok, u)"
      by (cases "publish_keyprov E MkRequest mid b (r_request_id (c_record s2)) s2")
    show ?thesis
      using evolves_publish_request [OF e lim p, of "c_kl1_params u" n]
      by (auto simp: send_request_def n g Inr p mark_awaiting_def Let_def intro!: evolve split: if_splits)
  qed
qed

lemma evolves_do_request [evolve]:
  assumes "evolves E s t"
  shows "evolves E s (do_request E t)"
  unfolding do_request_def candidate_failed_def
  using assms
  by (auto intro!: evolve evolves_send_request dest: request_ok_below simp: count_fingerprint_change_def)

section \<open>A new attempt\<close>

lemma evolves_new_attempt:
  assumes "evolves E s t" and "\<not> c_sec_outcome_unknown t"
    and "c_successor_request_id t \<noteq> [] \<Longrightarrow> rid = c_successor_request_id t"
    and "view u = fresh_attempt rid (view t)"
  shows "evolves E s u"
  using assms(1)
  by (rule evolves_step) (simp add: assms(4), rule p_new_attempt, use assms(2,3) in auto)

lemma view_candidate: "build_candidate E s = (r, t) \<Longrightarrow> view t = view s"
  using view_calls(8) [of E s] by simp

lemma view_terminalize [simp]: "view (terminalize_old s) = view s"
  by (simp add: terminalize_old_def Let_def)

lemma view_created:
  defines "u \<equiv> \<lambda>E cand fp t. reset_attempt_members (freeze_attempt E cand fp (choose_request_id E t))"
  shows "view (emit (EvtNewAttempt (r_request_id (c_record (u E cand fp t)))) (u E cand fp t))
     = fresh_attempt (r_request_id (c_record (u E cand fp t))) (view t)"
    and "c_successor_request_id t \<noteq> []
         \<Longrightarrow> r_request_id (c_record (u E cand fp t)) = c_successor_request_id t"
  by (auto simp: u_def reset_attempt_members_def freeze_attempt_def choose_request_id_def
      generate_id_def fresh_attempt_def emit_def called_def view_def reset_for_new_attempt_def Let_def)

lemma evolves_create [evolve]:
  assumes "evolves E s t"
  shows "evolves E s (create_new_attempt E t)"
proof (cases "c_sec_outcome_unknown t")
  case True
  then show ?thesis using assms by (auto simp: create_new_attempt_def intro!: evolve)
next
  case False
  obtain r s1 where b: "build_candidate E t = (r, s1)" by (cases "build_candidate E t")
  have e: "evolves E s s1" and k: "\<not> c_sec_outcome_unknown s1"
    using evolves_same [OF assms view_candidate [OF b]] view_eqD(6) [OF view_candidate [OF b]] False
    by auto
  show ?thesis
  proof (cases r)
    case (Inl a)
    then show ?thesis
      using e False by (auto simp: create_new_attempt_def b candidate_failed_def intro!: evolve)
  next
    case (Inr p)
    let ?u = "reset_attempt_members (freeze_attempt E (fst p) (snd p) (choose_request_id E (terminalize_old s1)))"
    have "evolves E s (emit (EvtNewAttempt (r_request_id (c_record ?u))) ?u)"
      by (rule evolves_new_attempt [OF evolves_same [OF e view_terminalize]])
        (use k view_created [where E = E and cand = "fst p" and fp = "snd p" and t = "terminalize_old s1"] in
          \<open>auto simp: view_eqD(6) [OF view_terminalize]\<close>)
    then show ?thesis
      using False Inr by (auto simp: create_new_attempt_def b Let_def intro!: evolve split: prod.split)
  qed
qed

lemma evolves_successor:
  assumes "evolves E s t" "c_successor_request_id t = []" "c_resolution t = NoSideEffectProven"
    "\<not> c_sec_outcome_unknown t"
  shows "evolves E s (t\<lparr>c_successor_request_id := rid\<rparr>)"
  using assms(1) by (rule evolves_step) (simp, rule p_successor, use assms in auto)

lemma evolves_supersede:
  assumes "evolves E s t" "c_resolution t = NoSideEffectProven" "\<not> c_sec_outcome_unknown t"
  shows "evolves E s (supersede_remote_once E t)"
proof -
  let ?t = "set_last_error ''vmd_batch_terminated''
              (count_in (\<lambda>n. n\<lparr>cn_superseded_remote := cn_superseded_remote n + 1\<rparr>) t)"
  obtain n s1 where n: "now_ms E ?t = (n, s1)" by (cases "now_ms E ?t")
  have v: "view s1 = view t" using view_calls(1) [of E ?t] n by simp
  have e: "evolves E s s1" using evolves_same [OF assms(1) v] .
  have k: "c_resolution s1 = NoSideEffectProven" "\<not> c_sec_outcome_unknown s1"
    using assms(2,3) view_eqD(5,6) [OF v] by auto
  obtain rid s2 where g: "generate_id E ''kp'' s1 = (rid, s2)" by (cases "generate_id E ''kp'' s1")
  have v2: "view s2 = view s1" using view_calls(5) [of E "''kp''" s1] g by simp
  have e2: "evolves E s (s2\<lparr>c_successor_request_id := rid\<rparr>)" if "c_successor_request_id s1 = []"
    using evolves_successor [OF evolves_same [OF e v2]] k that view_eqD(5,6,8) [OF v2] by simp
  let ?w = "s2\<lparr>c_successor_request_id := rid, c_successor_request_id_digest := generate_digest E rid\<rparr>"
  obtain n2 s3 where n2: "now_ms E ?w = (n2, s3)" by (cases "now_ms E ?w")
  have e3: "evolves E s s3" if "c_successor_request_id s1 = []"
    using evolves_calls(1) [of E s ?w] e2 [OF that] n2 by simp
  show ?thesis
    using e e3 by (auto simp: supersede_remote_once_def n g n2 Let_def intro!: evolve)
qed

lemma evolves_freshen_consume:
  assumes "evolves E s t" "bl_request_send_count (c_budget t) < kp_request_limit (c_kl1_params t)"
  shows "evolves E s (t\<lparr>c_budget := preconsume_request p n (preconsume_freshen (c_budget t))\<rparr>)"
  using assms(1)
  by (rule evolves_step)
    (use p_freshen [of "view t" "e_sc E"] assms(2) in \<open>simp add: view_def\<close>)

lemma evolves_freshen [evolve]:
  assumes "evolves E s t"
  shows "evolves E s (snd (maybe_freshen E t))"
proof -
  obtain c s1 where c: "clock_source_of E t = (c, s1)" by (cases "clock_source_of E t")
  have e: "evolves E s s1" using evolves_calls(4) [of E s t] assms c by simp
  let ?u = "utc_upper c"
  let ?x = "s1\<lparr>c_budget := preconsume_request (c_kl1_params s1) ?u (preconsume_freshen (c_budget s1))\<rparr>"
  have x: "evolves E s ?x" if "request_ok (c_kl1_params s1) ?u (c_budget s1)"
    using evolves_freshen_consume [OF e request_ok_below [OF that]] .
  let ?y = "set_last_error ''lease_freshen''
              (count_in (\<lambda>n. n\<lparr>cn_kl1_freshen_total := cn_kl1_freshen_total n + 1\<rparr>) ?x)"
  have "evolves E s (do_request E ((persist E ?y)\<lparr>c_state := REQUESTING\<rparr>))"
    if "request_ok (c_kl1_params s1) ?u (c_budget s1)"
    by (rule evolves_do_request, unfold evolves_frame, rule evolves_persist) (simp add: x [OF that])
  with assms e show ?thesis by (auto simp: maybe_freshen_def c Let_def)
qed

lemma evolves_expired [evolve]: "evolves E s t \<Longrightarrow> evolves E s (handle_expired_response E t)"
  unfolding handle_expired_response_def by (auto intro!: evolve)

lemma evolves_timeout [evolve]: "evolves E s t \<Longrightarrow> evolves E s (on_response_timeout E t)"
  unfolding on_response_timeout_def by (auto intro!: evolve)

section \<open>Acknowledgement\<close>

definition ackable :: "env \<Rightarrow> coord \<Rightarrow> bool" where
  "ackable E t \<longleftrightarrow>
     c_ack_items t \<noteq> [] \<or> list_ex (commit_of (e_sc E) (r_request_id (c_record t)) []) (c_trace t)"

lemma ackable_same:
  assumes "view t = view s"
  shows "ackable E t = ackable E s"
  using view_eqD [OF assms] by (simp add: ackable_def)

lemma evolves_ack_refused:
  assumes "evolves E s t" "c_identity_valid t" "ackable E t"
  shows "evolves E s (emit (EvtPublish (MkAck (c_ack_items t)) (r_request_id (c_record t))
           (si_session (c_identity t)) False) (called t))"
  using assms(1)
  by (rule evolves_step)
    (use p_ack_refused [of "view t" "e_sc E"] assms(2,3) in \<open>simp add: ackable_def\<close>)

lemma evolves_ack_sent:
  assumes "evolves E s t" "c_identity_valid t" "ackable E t"
    "bl_ack_send_count (c_budget t) < kp_ack_limit (c_kl1_params t)"
  shows "evolves E s ((emit (EvtPublish (MkAck (c_ack_items t)) (r_request_id (c_record t))
           (si_session (c_identity t)) True) (called t))\<lparr>c_budget := preconsume_ack p n (c_budget t)\<rparr>)"
  using assms(1)
  by (rule evolves_step)
    (use p_ack [of "view t" "e_sc E"] assms(2-4) in
      \<open>simp add: ackable_def view_def log_effect_def emit_def called_def\<close>)

lemma evolves_publish_ack:
  assumes "evolves E s t" "ackable E t"
    and "bl_ack_send_count (c_budget t) < kp_ack_limit (c_kl1_params t)"
    and "publish_keyprov E (MkAck (c_ack_items t)) mid b (r_request_id (c_record t)) t = (ok, u)"
  shows "evolves E s (if ok then u\<lparr>c_budget := preconsume_ack p n (c_budget u)\<rparr> else u)"
proof (cases "c_identity_valid t")
  case True
  then show ?thesis
    using assms evolves_ack_sent [OF assms(1) True assms(2,3)] evolves_ack_refused [OF assms(1) True assms(2)]
    by (auto simp: publish_keyprov_def Let_def emit_def called_def intro!: evolve split: if_splits)
qed (use assms in \<open>auto simp: publish_keyprov_def\<close>)

lemma evolves_send_ack:
  assumes "evolves E s t" "ackable E t"
    and "bl_ack_send_count (c_budget t) < kp_ack_limit (c_kl1_params t)"
  shows "evolves E s (send_ack E n t)"
proof -
  obtain mid s1 where g: "generate_id E ''msg'' t = (mid, s1)" by (cases "generate_id E ''msg'' t")
  have v: "view s1 = view t" using view_calls(5) [of E "''msg''" t] g by simp
  have e: "evolves E s s1" using evolves_same [OF assms(1) v] .
  have a: "ackable E s1" using assms(2) ackable_same [OF v] by simp
  have lim: "bl_ack_send_count (c_budget s1) < kp_ack_limit (c_kl1_params s1)"
    using assms(3) v by (simp flip: view_select)
  show ?thesis
  proof (cases "build_keyprov_ack_envelope (e_pb E) (c_identity s1) (r_request_id (c_record s1))
           (c_ack_items s1) n mid (c_last_response_message_id s1)")
    case (Inl x)
    then show ?thesis using e by (auto simp: send_ack_def g intro!: evolve)
  next
    case (Inr b)
    obtain ok u where p:
      "publish_keyprov E (MkAck (c_ack_items s1)) mid b (r_request_id (c_record s1)) s1 = (ok, u)"
      by (cases "publish_keyprov E (MkAck (c_ack_items s1)) mid b (r_request_id (c_record s1)) s1")
    show ?thesis
      using evolves_publish_ack [OF e a lim p, of "c_kl1_params u" n]
      by (auto simp: send_ack_def g Inr p Let_def intro!: evolve evolves_budget_over [where u = u]
          split: if_splits)
  qed
qed

lemma evolves_ack_retry_status [evolve]:
  "evolves E s t \<Longrightarrow> evolves E s (ack_retry_status E n t)"
  unfolding ack_retry_status_def let_values
  by (auto intro!: evolve simp: count_status_request_def)

lemma ack_ok_below: "ack_ok p n b \<Longrightarrow> bl_ack_send_count b < kp_ack_limit p"
  by (simp add: ack_ok_def split: if_splits)

lemma evolves_ack_with_items:
  assumes "evolves E s t" "ackable E t"
  shows "evolves E s (ack_with_items E t)"
proof -
  obtain n s1 where n: "now_ms E t = (n, s1)" by (cases "now_ms E t")
  have v: "view s1 = view t" using view_calls(1) [of E t] n by simp
  have e: "evolves E s s1" using evolves_same [OF assms(1) v] .
  have a: "ackable E s1" using assms(2) ackable_same [OF v] by simp
  show ?thesis
    using e a by (auto simp: ack_with_items_def n intro!: evolve evolves_send_ack dest: ack_ok_below)
qed

lemma evolves_take:
  assumes "evolves E s t" "list_ex (commit_of (e_sc E) (r_request_id (c_record t)) its) (c_trace t)"
  shows "evolves E s (t\<lparr>c_ack_items := its\<rparr>)"
  using assms(1) by (rule evolves_step) (use p_take [of "e_sc E" "view t" its] assms(2) in simp)

lemma query_trace:
  "query_import_result E t = ((ec, res), u)
   \<Longrightarrow> c_trace u = EvtQuery (r_request_id (c_record u)) ec res # c_trace t"
  by (auto simp: query_import_result_def emit_def called_def split: prod.splits)

lemma ackable_taken:
  assumes "list_ex (commit_of (e_sc E) (r_request_id (c_record t)) its) (c_trace t)"
  shows "ackable E (t\<lparr>c_ack_items := its\<rparr>)"
  using assms by (auto simp: ackable_def)

lemma evolves_do_ack [evolve]:
  assumes "evolves E s t"
  shows "evolves E s (do_ack E t)"
proof (cases "c_ack_items t = []")
  case True
  obtain ec res u where q: "query_import_result E t = ((ec, res), u)"
    by (metis prod.exhaust)
  have e: "evolves E s u" using evolves_emit_query [OF assms] q by (metis snd_conv)
  let ?its = "build_ack_items (e_sc E) res"
  have c: "list_ex (commit_of (e_sc E) (r_request_id (c_record u)) ?its) (c_trace u)"
    if "ec = EcSuccess" "ir_state res = ImpCommitted"
    using query_trace [OF q] that by simp
  show ?thesis
    using True e evolves_ack_with_items [OF evolves_take [OF e c] ackable_taken [OF c]]
    by (auto simp: do_ack_def q intro!: evolve)
next
  case False
  then show ?thesis
    using evolves_ack_with_items [OF assms] by (simp add: do_ack_def ackable_def)
qed

section \<open>Import\<close>

lemma evolves_retry_after [evolve]: "evolves E s t \<Longrightarrow> evolves E s (retry_after E e t)"
  unfolding retry_after_def by (auto intro!: evolve)

lemma evolves_blocked_with [evolve]: "evolves E s t \<Longrightarrow> evolves E s (blocked_with E e t)"
  unfolding blocked_with_def by (auto intro!: evolve)

lemma evolves_count_failed [simp]: "evolves E a (count_import_failed s) = evolves E a s"
  by (simp add: count_import_failed_def)

lemma evolves_import_committed:
  assumes "evolves E s t"
    "list_ex (commit_of (e_sc E) (r_request_id (c_record t)) (build_ack_items (e_sc E) res)) (c_trace t)"
  shows "evolves E s (import_committed E res t)"
  using assms evolves_take [of E s "t\<lparr>c_pending_callback := False\<rparr>" "build_ack_items (e_sc E) res"]
  by (auto simp: import_committed_def Let_def intro!: evolve split: option.split)

lemma evolves_handle_import_result:
  assumes "evolves E s t"
    and "ec = EcSuccess \<Longrightarrow> ir_state res = ImpCommitted \<Longrightarrow>
      list_ex (commit_of (e_sc E) (r_request_id (c_record t)) (build_ack_items (e_sc E) res)) (c_trace t)"
  shows "evolves E s (handle_import_result E ec res t)"
  unfolding handle_import_result_def Let_def
  using assms by (auto intro!: evolve evolves_import_committed)

lemma evolves_import_call:
  assumes "evolves E s t" "c_import_invocation_recorded t"
  shows "evolves E s (emit (EvtImport (r_request_id (c_record t)) its l ec res) (called t))"
  using assms(1) by (rule evolves_step) (use p_import [of "view t" "e_sc E"] assms(2) in simp)

lemma evolves_call_import:
  assumes "evolves E s t" "c_import_invocation_recorded t"
  shows "evolves E s (call_import E t)"
proof -
  obtain ec res where r: "e_sec_import E (c_calls t) = (ec, res)" by (cases "e_sec_import E (c_calls t)")
  show ?thesis
    using assms evolves_import_call [OF assms, of _ _ ec res]
    by (auto simp: call_import_def r Let_def intro!: evolve evolves_handle_import_result)
      (simp_all add: emit_def called_def)
qed

lemma evolves_intent:
  assumes "evolves E s t"
  shows "evolves E s (persist E (t\<lparr>c_import_invocation_recorded := True, c_resolution := Unresolved\<rparr>))"
  using assms
  by (rule evolves_step)
    (use p_intent [of "view t" _ "e_sc E"]
        persist_matches [of "t\<lparr>c_import_invocation_recorded := True, c_resolution := Unresolved\<rparr>" E] in simp)

lemma persist_recorded [simp]: "c_import_invocation_recorded (persist E t) = c_import_invocation_recorded t"
  by (simp add: persist_def now_ms_def emit_def called_def Let_def)

lemma clock_recorded: "clock_source_of E t = (c, u) \<Longrightarrow> view u = view t"
  using view_calls(4) [of E t] by simp

lemma evolves_do_import [evolve]:
  assumes "evolves E s t"
  shows "evolves E s (do_import E t)"
proof (cases "c_import_attempted t")
  case True
  obtain ec res u where q: "query_import_result E t = ((ec, res), u)" by (metis prod.exhaust)
  have "evolves E s u" using evolves_emit_query [OF assms] q by (metis snd_conv)
  then show ?thesis
    using True query_trace [OF q] by (auto simp: do_import_def q intro!: evolves_handle_import_result)
next
  case False
  define x where "x = (if \<not> c_import_invocation_recorded t
    then persist E (t\<lparr>c_import_invocation_recorded := True, c_resolution := Unresolved\<rparr>) else t)"
  have e: "evolves E s x" and rec: "c_import_invocation_recorded x"
    using assms evolves_intent [OF assms] by (auto simp: x_def)
  obtain c w where c: "clock_source_of E x = (c, w)" by (cases "clock_source_of E x")
  have v: "view w = view x" using clock_recorded [OF c] .
  have ew: "evolves E s w" using evolves_same [OF e v] .
  have recw: "c_import_invocation_recorded w"
    using arg_cong [OF v, of av_recorded] rec by simp
  show ?thesis
    unfolding do_import_def Let_def x_def [symmetric]
    using False e rec ew recw by (auto simp: c intro!: evolve evolves_call_import)
qed

lemma view_activate [simp]: "view (activate s) = view s"
  by (simp add: activate_def)

lemma evolves_activate [simp]: "evolves E a (activate s) = evolves E a s"
  by (simp add: evolves_def)

lemma evolves_check_incomplete [evolve]:
  "evolves E s t \<Longrightarrow> evolves E s (check_incomplete E t)"
  unfolding check_incomplete_def candidate_failed_def
  by (auto intro!: evolve simp: count_fingerprint_change_def)

lemma evolves_do_check [evolve]: "evolves E s t \<Longrightarrow> evolves E s (do_check E t)"
  unfolding do_check_def by (auto intro!: evolve)

section \<open>Reconciliation\<close>

lemma evolves_unknown [evolve]: "evolves E s t \<Longrightarrow> evolves E s (t\<lparr>c_sec_outcome_unknown := True\<rparr>)"
  by (erule evolves_step) (simp add: p_unknown)

lemma evolves_known:
  assumes "evolves E s t"
    "just_answered (r_request_id (c_record t)) [ImpCommitted, ImpNotFound] (c_trace t)"
  shows "evolves E s (t\<lparr>c_sec_outcome_unknown := False\<rparr>)"
  using assms(1) by (rule evolves_step) (use p_known [of "view t" "e_sc E"] assms(2) in simp)

lemma evolves_commit:
  assumes "evolves E s t" "just_answered (r_request_id (c_record t)) [ImpCommitted] (c_trace t)"
  shows "evolves E s (t\<lparr>c_resolution := Unresolved\<rparr>)"
  using assms(1) by (rule evolves_step) (use p_commit [of "view t" "e_sc E"] assms(2) in simp)

lemma evolves_prove:
  assumes "evolves E s t" "just_answered (r_request_id (c_record t)) [ImpNotFound] (c_trace t)"
    "c_resolution t = Unresolved" "c_ack_items t = []"
  shows "evolves E s (t\<lparr>c_resolution := NoSideEffectProven\<rparr>)"
  using assms(1) by (rule evolves_step) (use p_prove [of "view t" "e_sc E"] assms(2-4) in simp)

lemma just_answered_mono:
  "just_answered rid sts es \<Longrightarrow> set sts \<subseteq> set sts' \<Longrightarrow> just_answered rid sts' es"
  by (induction rid sts es rule: just_answered.induct) auto

lemma view_observe [simp]: "view (observe_not_found E ev s) = view s"
proof -
  have a: "view (reset_not_found_stabilization k s) = view s" for k s by simp
  show ?thesis
    by (simp add: observe_not_found_def restart_not_found_stabilization_for_def now_monotonic_ms_def
        now_ms_def Let_def)
qed

lemma journal_proof_resolution:
  assumes "evolves E s t" "just_answered (r_request_id (c_record t)) [ImpNotFound] (c_trace t)"
    "c_resolution t = Unresolved" "\<not> contrary_local_evidence t"
  shows "evolves E s (prove_no_side_effects E t)"
proof -
  have p: "evolves E s (t\<lparr>c_resolution := NoSideEffectProven\<rparr>)"
    using evolves_prove [OF assms(1-3)] assms(4) by (simp add: contrary_local_evidence_def)
  have "just_answered (r_request_id (c_record t)) [ImpCommitted, ImpNotFound] (c_trace t)"
    using just_answered_mono [OF assms(2)] by simp
  then have "evolves E s (count_stabilization ''REACHED'' (t\<lparr>c_resolution := NoSideEffectProven\<rparr>)
      \<lparr>c_sec_outcome_unknown := False\<rparr>)"
    using evolves_known [of E s "count_stabilization ''REACHED'' (t\<lparr>c_resolution := NoSideEffectProven\<rparr>)"] p
    by (simp add: count_stabilization_def count_in_def)
  then show ?thesis using assms(1) by (auto simp: prove_no_side_effects_def intro!: evolve)
qed

lemma evolves_journal_committed:
  assumes "evolves E s t"
    and j: "just_answered (r_request_id (c_record t)) [ImpCommitted] (c_trace t)"
    and c: "list_ex (commit_of (e_sc E) (r_request_id (c_record t)) (build_ack_items (e_sc E) res)) (c_trace t)"
  shows "evolves E s (journal_committed E res t)"
proof -
  let ?a = "t\<lparr>c_ack_items := build_ack_items (e_sc E) res\<rparr>"
  have e: "evolves E s ?a" using evolves_take [OF assms(1) c] .
  have j2: "just_answered (r_request_id (c_record t)) [ImpCommitted, ImpNotFound] (c_trace t)"
    using just_answered_mono [OF j] by simp
  have "evolves E s (?a\<lparr>c_sec_outcome_unknown := False\<rparr>)"
    using evolves_known [OF e] j2 by simp
  then have "evolves E s (?a\<lparr>c_sec_outcome_unknown := False, c_resolution := Unresolved\<rparr>)"
    using evolves_commit [of E s "?a\<lparr>c_sec_outcome_unknown := False\<rparr>"] j by simp
  with e show ?thesis by (auto simp: journal_committed_def Let_def intro!: evolve)
qed

lemma evolves_journal_weak [evolve]:
  "evolves E s t \<Longrightarrow> evolves E s (journal_weak_not_found E t)"
  unfolding journal_weak_not_found_def by (auto intro!: evolve)

lemma view_stabilise [simp]: "view (stabilise E ev s) = view s"
  by (simp add: stabilise_def Let_def)

lemma stabilisation_reachedD:
  assumes "stabilisation_reached E s = (r, t)"
  shows "view t = view s" "r \<Longrightarrow> \<not> contrary_local_evidence t"
  using assms by (auto simp: stabilisation_reached_def now_monotonic_ms_def Let_def split: if_splits)

lemma evolves_journal_strong:
  assumes "evolves E s t" and j: "just_answered (r_request_id (c_record t)) [ImpNotFound] (c_trace t)"
  shows "evolves E s (snd (journal_strong_not_found E ev t))"
proof -
  define s1 where "s1 = t\<lparr>c_pending_callback := False, c_sec_outcome_unknown := False\<rparr>"
  have "just_answered (r_request_id (c_record t)) [ImpCommitted, ImpNotFound] (c_trace t)"
    using just_answered_mono [OF j] by simp
  then have e1: "evolves E s s1"
    using evolves_known [of E s "t\<lparr>c_pending_callback := False\<rparr>"] assms(1) by (simp add: s1_def)
  obtain r s4 where r: "stabilisation_reached E (stabilise E ev s1) = (r, s4)"
    by (cases "stabilisation_reached E (stabilise E ev s1)")
  have v4: "view s4 = view s1" using stabilisation_reachedD(1) [OF r] by simp
  have e4: "evolves E s s4" using evolves_same [OF e1 v4] .
  have "evolves E s (prove_no_side_effects E s4)"
    if "c_resolution s1 \<noteq> NoSideEffectProven" "c_resolution s1 \<noteq> HardConflict" r
  proof (rule journal_proof_resolution [OF e4 _ _ stabilisation_reachedD(2) [OF r that(3)]])
    show "just_answered (r_request_id (c_record s4)) [ImpNotFound] (c_trace s4)"
      using j view_eqD(1,9) [OF v4] by (simp add: s1_def)
    show "c_resolution s4 = Unresolved"
      using that view_eqD(5) [OF v4] by (cases "c_resolution s1") auto
  qed
  with e1 e4 show ?thesis
    unfolding journal_strong_not_found_def s1_def [symmetric]
    by (auto simp: r Let_def intro!: evolve)
qed

lemma evolves_note_contrary [evolve]: "evolves E s t \<Longrightarrow> evolves E s (note_contrary_round t)"
  by (auto simp: note_contrary_round_def Let_def intro!: evolve)

lemma evolves_journal_contrary [evolve]:
  assumes "evolves E s t"
  shows "evolves E s (snd (journal_contrary E ev t))"
proof -
  obtain sup s1 where r: "reconcile_obs_suppressed (- 1) (ev_kind (be_evidence ev)) 0 (- 1)
      (note_contrary_round t) = (sup, s1)"
    by (metis prod.exhaust)
  have "evolves E s s1"
    using evolves_note_contrary [OF assms] evolves_calls(14) r by (metis snd_conv)
  then show ?thesis
    using assms by (auto simp: journal_contrary_def r Let_def intro!: evolve)
qed

lemma classified_answer:
  "ev_kind (sec_classify_import_result ec res v) = EvCommitted \<longleftrightarrow> ec = EcSuccess \<and> ir_state res = ImpCommitted"
  "ev_kind (sec_classify_import_result ec res v) = EvNotFound \<longleftrightarrow> ec = EcSuccess \<and> ir_state res = ImpNotFound"
  by (auto simp: sec_classify_import_result_def Let_def split: import_state.split)

lemma evolves_journal [evolve]:
  assumes "evolves E s t"
  shows "evolves E s (snd (reconcile_sec_journal E t))"
proof -
  obtain ec res s1 where q: "query_import_result E t = ((ec, res), s1)" by (metis prod.exhaust)
  have e1: "evolves E s s1" using evolves_emit_query [OF assms] q by (metis snd_conv)
  define ev where "ev = bind_evidence E s1
    (sec_classify_import_result ec res (c_sec_import_result_contract_version s1))"
  define s2 where "s2 = s1\<lparr>c_last_sec_evidence_kind := ev_kind (be_evidence ev)\<rparr>"
  have e2: "evolves E s s2" using e1 by (simp add: s2_def)
  have tr: "c_trace s2 = EvtQuery (r_request_id (c_record s2)) ec res # c_trace t"
    using query_trace [OF q] by (simp add: s2_def)
  have k: "ev_kind (be_evidence ev)
      = ev_kind (sec_classify_import_result ec res (c_sec_import_result_contract_version s1))"
    by (simp add: ev_def bind_evidence_def)
  have comm: "evolves E s (journal_committed E res s2)" if "ev_kind (be_evidence ev) = EvCommitted"
  proof -
    have "ec = EcSuccess" "ir_state res = ImpCommitted"
      using that k classified_answer(1) by auto
    then show ?thesis using evolves_journal_committed [OF e2] tr by simp
  qed
  have strong: "evolves E s (snd (journal_strong_not_found E ev s2))"
    if "ev_kind (be_evidence ev) = EvNotFound"
  proof -
    have "ec = EcSuccess" "ir_state res = ImpNotFound"
      using that k classified_answer(2) by auto
    then show ?thesis using evolves_journal_strong [OF e2] tr by simp
  qed
  have weak: "evolves E s (journal_weak_not_found E s2)" using e2 by (rule evolves_journal_weak)
  have contrary: "evolves E s (snd (journal_contrary E ev s2))"
    using e2 by (rule evolves_journal_contrary)
  have retry: "evolves E s (schedule_status_retry E s2)" using e2 by simp
  show ?thesis
    unfolding reconcile_sec_journal_def q Let_def prod.case ev_def [symmetric] s2_def [symmetric]
    using assms comm strong weak contrary retry
    by (cases "ev_kind (be_evidence ev)") auto
qed

lemma evolves_await_repair [evolve]: "evolves E s t \<Longrightarrow> evolves E s (await_remote_repair E t)"
  unfolding await_remote_repair_def by (auto intro!: evolve)

lemma evolves_matrix_wait [evolve]: "evolves E s t \<Longrightarrow> evolves E s (matrix_wait E st err rs q t)"
  unfolding matrix_wait_def by (auto intro!: evolve)

lemma evolves_matrix [evolve]: "evolves E s t \<Longrightarrow> evolves E s (apply_cloud_matrix E st err t)"
  unfolding apply_cloud_matrix_def by (auto intro!: evolve evolves_supersede)

lemma evolves_deadline [evolve]: "evolves E s t \<Longrightarrow> evolves E s (snd (status_deadline_passed E t))"
  by (auto simp: status_deadline_passed_def now_ms_def)

lemma evolves_do_reconcile [evolve]: "evolves E s t \<Longrightarrow> evolves E s (do_reconcile E t)"
  unfolding do_reconcile_def by (auto intro!: evolve split: reconcile_action.split)

lemma evolves_status_conflict [evolve]:
  "evolves E s t \<Longrightarrow> evolves E s (status_idempotency_conflict E code t)"
  unfolding status_idempotency_conflict_def by (auto intro!: evolve)

lemma evolves_reconcile_status [evolve]:
  "evolves E s t \<Longrightarrow> evolves E s (handle_reconcile_status E st t)"
  unfolding handle_reconcile_status_def let_values by (auto intro!: evolve)

section \<open>Entry points\<close>

lemma evolves_poll [evolve]: "evolves E s t \<Longrightarrow> evolves E s (poll_status E n t)"
  unfolding poll_status_def by (auto intro!: evolve)

lemma evolves_run_state [evolve]: "evolves E s t \<Longrightarrow> evolves E s (run_state E n t)"
  unfolding run_state_def by (auto intro!: evolve split: coord_state.split)

lemma evolves_gate_closed:
  assumes "capability_gate E s = (Inl reason, t)" "view x = view t"
  shows "evolves E s (gate_closed E reason x)"
proof -
  define y where "y = (if c_identity_valid (x\<lparr>c_gate_reason := reason\<rparr>)
    then invalidate_identity (x\<lparr>c_gate_reason := reason\<rparr>) else x\<lparr>c_gate_reason := reason\<rparr>)"
  have inv: "view (invalidate_identity (x\<lparr>c_gate_reason := reason\<rparr>)) = view (invalidate_identity s)"
    using gate_shut(1) [OF assms(1)] assms(2) by (simp add: invalidate_identity_def)
  have "evolves E s y"
  proof (cases "c_identity_valid x")
    case True
    then show ?thesis
      using evolves_same [OF evolves_invalidate [OF evolves_refl] inv] by (simp add: y_def)
  next
    case False
    then have "\<not> c_identity_valid t" using view_eqD(3) [OF assms(2)] by simp
    from gate_shut(2) [OF assms(1) this] have "evolves E s x" using evolves_same assms(2) by blast
    then show ?thesis using False by (simp add: y_def)
  qed
  then show ?thesis
    unfolding gate_closed_def Let_def y_def [symmetric] by (auto intro!: evolve)
qed

lemma evolves_tick: "evolves E s (tick E s)"
proof (cases "cfg_enabled (c_config s)")
  case True
  obtain g s1 where g: "capability_gate E s = (g, s1)" by (cases "capability_gate E s")
  define s2 where "s2 = s1\<lparr>c_capability_ready := (case g of Inl _ \<Rightarrow> False | Inr _ \<Rightarrow> True)\<rparr>"
  obtain ok s3 where ok: "clock_check_ok E s2 = (ok, s3)" by (cases "clock_check_ok E s2")
  have v: "view (s3\<lparr>c_clock_synced := b\<rparr>) = view s1" for b
    using ok by (auto simp: clock_check_ok_def s2_def)
  show ?thesis
  proof (cases g)
    case (Inl reason)
    then have "clock_check_ok E (s1\<lparr>c_capability_ready := False\<rparr>) = (ok, s3)"
      using ok by (simp add: s2_def)
    then show ?thesis
      using True Inl evolves_gate_closed [OF _ v, of E s reason ok] g by (simp add: tick_def Let_def)
  next
    case (Inr u)
    then have "evolves E s s1" using gate_open g by blast
    then have "evolves E s (s3\<lparr>c_clock_synced := ok\<rparr>)" using evolves_same v by blast
    then have "evolves E s s3" by simp
    moreover have "clock_check_ok E (s1\<lparr>c_capability_ready := True\<rparr>) = (ok, s3)"
      using ok Inr by (simp add: s2_def)
    ultimately show ?thesis
      using True Inr by (auto simp: tick_def g Let_def intro!: evolve)
  qed
qed (simp add: tick_def)

lemma evolves_counts [simp]:
  "evolves E a (count_rejected s) = evolves E a s" "evolves E a (count_conflict s) = evolves E a s"
  by (simp_all add: count_rejected_def count_conflict_def)

lemma evolves_retry_or_reconcile [evolve]:
  "evolves E s t \<Longrightarrow> evolves E s (retry_or_reconcile E t)"
  unfolding retry_or_reconcile_def by (auto intro!: evolve)

lemma evolves_response_failed [evolve]:
  "evolves E s t \<Longrightarrow> evolves E s (response_failed E r t)"
  unfolding response_failed_def by (auto intro!: evolve)

lemma evolves_accept_response [evolve]:
  "evolves E s t \<Longrightarrow> evolves E s (accept_response E mid r t)"
  unfolding accept_response_def let_values by (auto intro!: evolve simp: Let_def)

lemma evolves_handle_response [evolve]:
  "evolves E s t \<Longrightarrow> evolves E s (handle_response E mid r t)"
  unfolding handle_response_def let_values by (auto intro!: evolve)

lemma evolves_ack_result [evolve]: "evolves E s t \<Longrightarrow> evolves E s (handle_ack_result E a t)"
  unfolding handle_ack_result_def by (auto intro!: evolve)

lemma evolves_status_response [evolve]:
  "evolves E s t \<Longrightarrow> evolves E s (handle_status_response E st t)"
  unfolding handle_status_response_def by (auto intro!: evolve)

lemma evolves_body [evolve]:
  "(\<And>r. x = DecResponse r \<Longrightarrow> evolves E s (f r)) \<Longrightarrow> (\<And>a. x = DecAckResult a \<Longrightarrow> evolves E s (g a))
   \<Longrightarrow> (\<And>st. x = DecStatusResponse st \<Longrightarrow> evolves E s (h st))
   \<Longrightarrow> evolves E s (case x of DecResponse r \<Rightarrow> f r | DecAckResult a \<Rightarrow> g a | DecStatusResponse st \<Rightarrow> h st)"
  by (cases x) auto

lemma evolves_downlink: "evolves E s (handle_routed_downlink E ev s)"
  unfolding handle_routed_downlink_def
  by (auto intro!: evolve)

lemma evolves_drop [evolve]: "evolves E s t \<Longrightarrow> evolves E s (t\<lparr>c_ack_items := []\<rparr>)"
  by (erule evolves_step) (simp add: p_drop)

lemma evolves_stop: "evolves E s (stop s)"
  unfolding stop_def by (auto intro!: evolve)

lemma evolves_coord_step: "evolves E s (coord_step E ev s)"
  by (cases ev)
    (auto simp: evolves_tick evolves_downlink evolves_stop begin_shutdown_def intro!: evolve)

end
