(* ===== verification/CoordScenario.thy ===== *)
theory CoordScenario
  imports CoordRefine
begin

text \<open>
  A concrete environment in which provisioning runs from an empty store to ACTIVE: the daemon
  reports no active key, the cloud answers with two wrapped keys, the import commits, the
  acknowledgement is confirmed. It shows that the hypotheses of the properties can hold.
\<close>

definition lab_rid :: string where
  "lab_rid = ''kp-'' @ replicate 32 CHR ''0''"

definition lab_identity :: session_identity where
  "lab_identity = identity_ex\<lparr>si_device_identity_digest := replicate 64 CHR ''a'',
     si_certificate_ref := ''sha256:'' @ replicate 64 CHR ''b''\<rparr>"

definition lab_config :: coord_config where
  "lab_config = default_config\<lparr>cfg_enabled := True, cfg_retry_jitter := False\<rparr>"

definition lab_lock :: release_lock where
  "lab_lock = \<lparr>rl_par_proto_release = ''r'', rl_required_par_proto_release = ''r'',
     rl_descriptor_set_hash = replicate 64 CHR ''0'', rl_package = kKeyprovPackage,
     rl_service = kKeyprovService, rl_protocol_version = kKeyprovProtocolVersion,
     rl_canonical_registry = ''reg'', rl_golden_vector_set_id = ''g'',
     rl_golden_vector_set_hash = replicate 64 CHR ''1'', rl_cross_language_golden_ready = True\<rparr>"

definition lab_response :: pb_response where
  "lab_response = \<lparr>pr_request_id = lab_rid, pr_result = kKeyProvResultSucceeded,
     pr_items = [wrapped_ex, wrapped_ex\<lparr>pw_purpose := 2\<rparr>],
     pr_expire_at_ms = 1000000, pr_error = None\<rparr>"

definition lab_envelope :: "string \<Rightarrow> vehicle_envelope" where
  "lab_envelope ty =
     (fill_common lab_identity lab_rid ''m'' [] ty [] 7)\<lparr>ve_message_kind := MESSAGE_KIND_RESPONSE\<rparr>"

definition lab_pb :: pb_codec where
  "lab_pb = toy_pb
     \<lparr>parse_envelope := (\<lambda>b. if b = [1] then Some (lab_envelope kKeyprovPayloadResponse)
                              else if b = [2] then Some (lab_envelope kKeyprovPayloadAckResult)
                              else if b = [3] then Some (lab_envelope kKeyprovPayloadStatusResponse)
                              else None),
      parse_response := (\<lambda>b. Some lab_response),
      parse_ack_result := (\<lambda>b. Some \<lparr>par_request_id = lab_rid, par_result = kKeyProvResultSucceeded,
                             par_occurred_at_ms = 9, par_error = None\<rparr>)\<rparr>"

definition lab_item :: "string \<Rightarrow> sec_import_item" where
  "lab_item p = \<lparr>ii_purpose = p, ii_key_id = ''k'', ii_business_key_version = 5,
     ii_state = KeyActive, ii_envelope_format = 1, ii_envelope_digest = replicate 32 0,
     ii_key_check_value = [1, 2, 3], ii_key_check_value_present = True,
     ii_proof_algorithm = ''P1363'', ii_import_proof = replicate 64 0,
     ii_recipient_certificate_digest = replicate 32 0\<rparr>"

definition lab_committed :: import_result where
  "lab_committed = \<lparr>ir_request_id = lab_rid, ir_business_domain = ''V2C_COMM'',
     ir_state = ImpCommitted, ir_items = [lab_item ''UPLINK_AEAD'', lab_item ''DOWNLINK_AEAD'']\<rparr>"

definition lab_cloud :: cloud_readiness where
  "lab_cloud = no_cloud\<lparr>cl_cloud_ready := True, cl_contract_version := 3,
     cl_device_identity_digest := si_device_identity_digest lab_identity,
     cl_certificate_ref := si_certificate_ref lab_identity, cl_ecu_uid := si_ecu_uid lab_identity,
     cl_session := si_session lab_identity, cl_publish_contract_version := 1\<rparr>"

definition lab_capability :: capability_readiness where
  "lab_capability = \<lparr>cy_capability = kCapabilityKeyprov, cy_ready = True,
     cy_connection_generation = 3, cy_cert_session_generation = 1, cy_reason_code = []\<rparr>"

definition lab_env :: env where
  "lab_env = \<lparr>e_utc = (\<lambda>i. 1000 + int i), e_mono = int, e_health = None,
     e_clock_sync = (\<lambda>_. True), e_rand = (\<lambda>_. 0), e_jitter = (\<lambda>_ _. 0),
     e_sec_status = (\<lambda>_. (EcSuccess, [])), e_sec_import = (\<lambda>_. (EcSuccess, lab_committed)),
     e_sec_query = (\<lambda>_. (EcSuccess, lab_committed)),
     e_sec_capability = (\<lambda>_. (EcSuccess,
        \<lparr>cap_capability_contract_version = 1, cap_envelope_v1_import_ready = True,
         cap_atomic_dual_purpose_commit_ready = True, cap_import_proof_sign_ready = True,
         cap_secure_journal_replay_ready = True, cap_import_result_not_found_v1 = True\<rparr>)),
     e_sec_contract = (\<lambda>_. (EcSuccess,
        \<lparr>ks_supports_lease_admission = True, ks_result_contract_version = 2,
         ks_query_semantics_version = 1, ks_kl1_profile_version = 1, ks_capability_epoch = 7\<rparr>)),
     e_publish = (\<lambda>_. \<lparr>pu_accepted = True, pu_outcome = DeliveryAccepted, pu_reason_code = [],
                        pu_retryable = True\<rparr>),
     e_cloud = (\<lambda>_. lab_cloud), e_capability = (\<lambda>_. lab_capability), e_hash = toy_hash,
     e_pb = lab_pb, e_sc = toy_sec, e_lock = lab_lock, e_runtime_check = True\<rparr>"

lemma lab_env_spec: "env_spec lab_env"
  by (simp add: env_spec_def lab_env_def toy_hash_spec)

definition lab_downlink :: "u8 \<Rightarrow> coord_event" where
  "lab_downlink b = DownlinkEvent \<lparr>rde_owner = ''tsp'', rde_route_id = ''keyprov.downlink'',
     rde_target = ''tsp.keyprov'', rde_payload = [b]\<rparr>"

definition lab_events :: "coord_event list" where
  "lab_events = [TickEvent, lab_downlink 1, TickEvent, lab_downlink 2]"

definition lab_run :: "nat \<Rightarrow> coord" where
  "lab_run n = coord_run lab_env lab_config empty_record (take n lab_events)"

end
