(* ===== verification/CoordProperties.thy ===== *)
theory CoordProperties
  imports CoordScenario
begin

text \<open>
  The properties of the coordinator as a whole: refinement of the attempt protocol, and the
  protocol's invariants read back on every state reachable from a start on any stored record.
\<close>

section \<open>From the start on\<close>

lemma evolves_start: "evolves E s (start E s)"
  unfolding start_def by (auto intro!: evolve)

lemma initial_view:
  fixes E cfg r
  defines "v \<equiv> view (initialize E cfg r coord0)"
  shows "av_trace v = [EvtLoad r]" "av_rid v = r_request_id r" "\<not> av_valid v" "av_items v = []"
    "av_request_limit v = cfg_kl1_request_limit cfg" "av_ack_limit v = cfg_kl1_ack_limit cfg"
    "av_recorded v \<Longrightarrow> r_import_invocation r"
    "av_resolution v = NoSideEffectProven \<Longrightarrow> r_import_invocation_resolution r = resolution_code NoSideEffectProven"
proof -
  let ?s = "initialize E cfg r coord0"
  have a: "c_trace ?s = [EvtLoad r] \<and> r_request_id (c_record ?s) = r_request_id r
    \<and> \<not> c_identity_valid ?s \<and> c_ack_items ?s = []
    \<and> kp_request_limit (c_kl1_params ?s) = cfg_kl1_request_limit cfg
    \<and> kp_ack_limit (c_kl1_params ?s) = cfg_kl1_ack_limit cfg
    \<and> (c_import_invocation_recorded ?s \<longrightarrow> r_import_invocation r)
    \<and> (c_resolution ?s = NoSideEffectProven \<longrightarrow>
         resolution_of_code (r_import_invocation_resolution r) = Some NoSideEffectProven)"
    by (simp add: initialize_def Let_def restore_state_def restore_attempt_def coord0_def emit_def
        params_of_config_def count_blocked_reason_def count_in_def split: option.splits)
  show "av_trace v = [EvtLoad r]" "av_rid v = r_request_id r" "\<not> av_valid v" "av_items v = []"
    "av_request_limit v = cfg_kl1_request_limit cfg" "av_ack_limit v = cfg_kl1_ack_limit cfg"
    "av_recorded v \<Longrightarrow> r_import_invocation r"
    "av_resolution v = NoSideEffectProven \<Longrightarrow> r_import_invocation_resolution r = resolution_code NoSideEffectProven"
    using a by (auto simp: v_def resolution_of_code_def resolution_code_def split: if_splits)
qed

lemma reachable_evolves:
  "coord_reachable E cfg r s \<Longrightarrow> evolves E (initialize E cfg r coord0) s"
  by (induction rule: coord_reachable.induct)
    (auto intro: evolves_start evolves_trans evolves_coord_step)

lemma reachable_run:
  assumes "coord_reachable E cfg r s"
  shows "(protocol_step (e_sc E))\<^sup>*\<^sup>* (view (initialize E cfg r coord0)) (view s)"
  using reachable_evolves [OF assms] by (simp add: evolves_def)

definition limits_are :: "u32 \<Rightarrow> u32 \<Rightarrow> attempt_view \<Rightarrow> bool" where
  "limits_are rl al v \<longleftrightarrow> av_request_limit v = rl \<and> av_ack_limit v = al"

lemma limits_kept: "protocol_step sc v w \<Longrightarrow> limits_are rl al v \<Longrightarrow> limits_are rl al w"
  by (induction rule: protocol_step.induct) (auto simp: limits_are_def log_effect_def fresh_attempt_def)

interpretation plimits: protocol_invariant sc "limits_are rl al" for sc rl al
  by unfold_locales (rule limits_kept)

section \<open>The properties\<close>

text \<open>
  C1. Refinement: whatever arrives (a readiness event, a tick, a routed downlink, shutdown, stop),
  the coordinator's step is a sequence of attempt protocol steps, in every state and for every
  behaviour of the clocks, the daemons and the store.
\<close>

theorem coord_refines_protocol:
  "(protocol_step (e_sc E))\<^sup>*\<^sup>* (view s) (view (coord_step E ev s))"
  using evolves_coord_step [of E s ev] by (simp add: evolves_def)

text \<open>
  C23. Every provisioning message is handed to the MQTT facade with a complete session (daemon
  epoch and both generations), that of the identity validated by the gate.
\<close>

theorem publications_session_bound:
  assumes "coord_reachable E cfg r s"
  shows "list_all published_complete (c_trace s)
    \<and> (c_identity_valid s \<longrightarrow> keyprov_validate_identity (c_identity s) = Inr ())"
proof -
  have "identity_inv (view (initialize E cfg r coord0))"
    using initial_view [of E cfg r] by (simp add: identity_inv_def del: view_select)
  from pid.run [OF reachable_run [OF assms] this] show ?thesis by (simp add: identity_inv_def)
qed

theorem publications_session_bound_witness:
  "list_all published_complete (c_trace (lab_run 4))"
  unfolding lab_run_def by (rule publications_session_bound [OF coord_run_reachable, THEN conjunct1])

text \<open>
  C10. Since an attempt began (or since the record was loaded) at most the configured number of
  Requests and of acknowledgements have been accepted for delivery, whatever happened between.
\<close>

theorem attempt_sends_bounded:
  assumes "coord_reachable E cfg r s"
  shows "sent_since is_request (c_trace s) \<le> unat (cfg_kl1_request_limit cfg)
    \<and> sent_since is_ack (c_trace s) \<le> unat (cfg_kl1_ack_limit cfg)"
proof -
  let ?v = "view (initialize E cfg r coord0)"
  have "budget_inv ?v" and "limits_are (cfg_kl1_request_limit cfg) (cfg_kl1_ack_limit cfg) ?v"
    using initial_view [of E cfg r] by (simp_all add: budget_inv_def limits_are_def del: view_select)
  then have "budget_inv (view s)" and "limits_are (cfg_kl1_request_limit cfg) (cfg_kl1_ack_limit cfg) (view s)"
    using pbudget.run plimits.run reachable_run [OF assms] by blast+
  then show ?thesis by (auto simp: budget_inv_def limits_are_def word_le_nat_alt)
qed

theorem attempt_sends_bounded_witness:
  "sent_since is_request (c_trace (lab_run 4)) \<le> 8 \<and> sent_since is_ack (c_trace (lab_run 4)) \<le> 3"
  using attempt_sends_bounded [OF coord_run_reachable, of lab_env lab_config empty_record "take 4 lab_events"]
  by (simp add: lab_run_def lab_config_def default_config_def)

text \<open>
  C2. Write-ahead and proof: each call of the import API is preceded by a stored (or loaded)
  record of the same request id with the import intent, and each acknowledgement carries exactly
  the items of a committed result the daemon had reported for that request id.
\<close>

theorem imports_and_acks_grounded:
  assumes "coord_reachable E cfg r s"
  shows "effects_grounded (e_sc E) (c_trace s)"
proof -
  have "grounded_inv (e_sc E) (view (initialize E cfg r coord0))"
    using initial_view [of E cfg r] by (simp add: grounded_inv_def del: view_select)
  from pground.run [OF reachable_run [OF assms] this] show ?thesis by (simp add: grounded_inv_def)
qed

theorem imports_and_acks_grounded_witness:
  "effects_grounded toy_sec (c_trace (lab_run 4))"
  using imports_and_acks_grounded [OF coord_run_reachable, of lab_env lab_config empty_record "take 4 lab_events"]
  by (simp add: lab_run_def) (simp add: lab_env_def)

text \<open>
  The resolution "no side effect" always has its ground in the history: the daemon answered
  NOT\_FOUND for the current request id, or the attempt began under it, or the loaded record
  already carried the proof.
\<close>

theorem proof_has_ground:
  assumes "coord_reachable E cfg r s" and "c_resolution s = NoSideEffectProven"
  shows "list_ex (proof_of (r_request_id (c_record s))) (c_trace s)"
proof -
  have "proof_inv (view (initialize E cfg r coord0))"
    using initial_view [of E cfg r] by (simp add: proof_inv_def del: view_select)
  from pproof.run [OF reachable_run [OF assms(1)] this] show ?thesis
    using assms(2) by (simp add: proof_inv_def)
qed


lemma start_keeps:
  "c_resolution (start E s) = c_resolution s" "r_request_id (c_record (start E s)) = r_request_id (c_record s)"
  by (simp_all add: start_def refresh_readiness_def apply_cloud_readiness_def invalidate_identity_def
      apply_capability_readiness_def count_in_def called_def Let_def)

definition proven_record :: keyprov_record where
  "proven_record = empty_record\<lparr>r_valid := True, r_request_id := ''kp-1'', r_state := ''BLOCKED'',
     r_import_invocation_resolution := 1\<rparr>"

lemma proven_start: "c_resolution (coord_run lab_env lab_config proven_record []) = NoSideEffectProven"
  by (simp add: coord_run_def start_keeps initialize_def restore_attempt_def restore_state_def
      proven_record_def empty_record_def lab_config_def default_config_def resolution_of_code_def
      emit_def coord0_def Let_def)

theorem proof_has_ground_witness:
  "list_ex (proof_of (r_request_id (c_record (coord_run lab_env lab_config proven_record []))))
     (c_trace (coord_run lab_env lab_config proven_record []))"
  by (rule proof_has_ground [OF coord_run_reachable proven_start])

end
