(* ===== verification/CoordBehaviour.thy ===== *)
theory CoordBehaviour
  imports CoordScenario
begin

text \<open>
  Behaviour of single operations of the coordinator: when it stays quiet, when an attempt may be
  released, what a restart restores, and where the recovery paths differ from what their
  comments promise.
\<close>

section \<open>Quiet steps\<close>

fun is_persist :: "effect \<Rightarrow> bool" where
  "is_persist (EvtPersist r) \<longleftrightarrow> True"
| "is_persist _ \<longleftrightarrow> False"

text \<open>Between the two traces nothing happened but writes to the store.\<close>

definition only_persists :: "effect list \<Rightarrow> effect list \<Rightarrow> bool" where
  "only_persists old new \<longleftrightarrow>
     list_all is_persist (take (length new - length old) new) \<and> drop (length new - length old) new = old"

lemma only_persists_iff: "only_persists old new \<longleftrightarrow> (\<exists>es. new = es @ old \<and> list_all is_persist es)"
proof
  assume "only_persists old new"
  then show "\<exists>es. new = es @ old \<and> list_all is_persist es"
    unfolding only_persists_def by (metis append_take_drop_id)
qed (auto simp: only_persists_def)

lemma only_persists_refl [simp]: "only_persists es es"
  by (simp add: only_persists_def)

lemma only_persists_cons [simp]: "only_persists old es \<Longrightarrow> only_persists old (EvtPersist r # es)"
  by (auto simp: only_persists_iff)

lemma trace_persist [simp]: "c_trace (persist E s) = EvtPersist (c_record (persist E s)) # c_trace s"
  using view_persist [of E s] by (simp add: log_effect_def flip: view_select(13))

lemma trace_calls [simp]:
  "c_trace (called s) = c_trace s" "c_trace (count_in f s) = c_trace s"
  "c_trace (set_last_error e s) = c_trace s"
  "c_trace (schedule_retry E s) = c_trace s" "c_trace (schedule_status_retry E s) = c_trace s"
  "c_trace (transition_to q s) = c_trace s" "c_trace (count_blocked_reason rs s) = c_trace s"
  "c_trace (snd (reconcile_obs_suppressed vs k ec ea s)) = c_trace s"
  "c_trace (snd (now_ms E s)) = c_trace s" "c_trace (snd (clock_check_ok E s)) = c_trace s"
  "c_trace (refresh_sec_readiness E s) = c_trace s"
  using view_leaves view_calls view_sec_readiness
  by (simp_all flip: view_select(13))


lemma trace_invalidate [simp]: "c_trace (invalidate_identity s) = c_trace s"
  by (simp add: invalidate_identity_def)

lemma trace_gate [simp]: "c_trace (snd (capability_gate E s)) = c_trace s"
  by (simp add: capability_gate_def Let_def split: option.split sum.split)

lemma gate_closed_quiet: "only_persists (c_trace s) (c_trace (gate_closed E reason s))"
  by (simp add: gate_closed_def Let_def)

text \<open>
  While the capability gate is closed, a tick publishes nothing, calls no import API, asks no
  import result and starts no attempt: all it may do is store the record. During shutdown the
  gate is closed.
\<close>

theorem closed_gate_is_quiet:
  assumes "fst (capability_gate E s) = Inl reason"
  shows "only_persists (c_trace s) (c_trace (tick E s))"
proof (cases "cfg_enabled (c_config s)")
  case True
  obtain s1 where g: "capability_gate E s = (Inl reason, s1)"
    using assms by (cases "capability_gate E s") simp
  have t: "c_trace s1 = c_trace s" using trace_gate [of E s] g by simp
  obtain ok s3 where ok: "clock_check_ok E (s1\<lparr>c_capability_ready := False\<rparr>) = (ok, s3)"
    by (cases "clock_check_ok E (s1\<lparr>c_capability_ready := False\<rparr>)")
  have "c_trace s3 = c_trace s" using trace_calls(10) [of E "s1\<lparr>c_capability_ready := False\<rparr>"] ok t by simp
  then show ?thesis
    using True gate_closed_quiet [of "s3\<lparr>c_clock_synced := ok\<rparr>" E reason]
    by (simp add: tick_def g ok Let_def)
qed (simp add: tick_def)

lemma stopping_gate: "c_stopping s \<Longrightarrow> \<exists>reason. fst (capability_gate E s) = Inl reason"
  by (simp add: capability_gate_def)

lemma shut_gate: "capability_gate lab_env (begin_shutdown (coord0\<lparr>c_config := lab_config\<rparr>))
   = (Inl ''stopping'', begin_shutdown (coord0\<lparr>c_config := lab_config\<rparr>))"
  by (simp add: capability_gate_def begin_shutdown_def lab_config_def)

theorem closed_gate_is_quiet_witness:
  "only_persists (c_trace (begin_shutdown (coord0\<lparr>c_config := lab_config\<rparr>)))
     (c_trace (tick lab_env (begin_shutdown (coord0\<lparr>c_config := lab_config\<rparr>))))"
  by (rule closed_gate_is_quiet [of _ _ "''stopping''"]) (simp add: shut_gate)

text \<open>
  A routed downlink that is not addressed to the provisioning target, cannot be decoded,
  names another request id, answers a Request of another generation or fingerprint, or is a
  key response nobody waits for, changes nothing but counters.
\<close>

theorem stale_downlink_ignored:
  assumes "rde_owner ev \<noteq> ''tsp'' \<or> rde_route_id ev \<noteq> cfg_route_down (c_config s)
      \<or> rde_target ev \<noteq> ''tsp.keyprov''
      \<or> (case decode_keyprov_envelope (e_pb E) (e_sc E) (rde_payload ev) of
           Inl e \<Rightarrow> True
         | Inr d \<Rightarrow> dc_request_id (dc_body d) \<noteq> r_request_id (c_record s) \<or> r_request_id (c_record s) = []
             \<or> c_awaiting_active s \<and> (r_store_generation (c_record s) \<noteq> c_awaiting_generation s
                 \<or> \<not> keyprov_fingerprint_equal (c_frozen_fingerprint s) (c_awaiting_fingerprint s))
             \<or> (\<exists>r. dc_body d = DecResponse r) \<and> c_state s \<noteq> WAIT_RESPONSE)"
  shows "(handle_routed_downlink E ev s)\<lparr>c_counters := c_counters s\<rparr> = s"
  using assms
  by (auto simp: handle_routed_downlink_def handle_response_def count_rejected_def count_in_def
      split: sum.splits)

theorem stale_downlink_ignored_witness:
  "(handle_routed_downlink lab_env \<lparr>rde_owner = ''tsp'', rde_route_id = ''fota'', rde_target = ''x'',
      rde_payload = [1]\<rparr> coord0)\<lparr>c_counters := c_counters coord0\<rparr> = coord0"
  by (rule stale_downlink_ignored) simp

section \<open>Releasing an attempt\<close>

text \<open>
  C24. The cloud matrix starts a successor only for a proven and known attempt that the cloud
  reports FAILED, or reports UNSPECIFIED with the full NOT\_FOUND error; in every other case it
  publishes nothing, imports nothing and starts nothing.
\<close>

theorem release_needs_cloud_evidence:
  assumes "\<not> (c_resolution s = NoSideEffectProven \<and> \<not> c_sec_outcome_unknown s
      \<and> (status = kKeyProvStatusFailed \<or> is_releasable_unspecified status err s))"
  shows "only_persists (c_trace s) (c_trace (apply_cloud_matrix E status err s))"
  using assms
  by (auto simp: apply_cloud_matrix_def matrix_wait_def await_remote_repair_def Let_def split: prod.split
      dest: arg_cong [where f = "\<lambda>p. c_trace (snd p)"])

theorem release_needs_cloud_evidence_witness:
  "only_persists (c_trace coord0) (c_trace (apply_cloud_matrix lab_env kKeyProvStatusFailed no_cloud_error coord0))"
  by (rule release_needs_cloud_evidence) (simp add: coord0_def)

text \<open>
  While the outcome of an import is unknown no new attempt is created: the coordinator only
  stores the record, goes (back) to reconciling the old attempt and keeps its request id.
\<close>

theorem unknown_outcome_blocks_new_attempt:
  assumes "c_sec_outcome_unknown s"
  shows "only_persists (c_trace s) (c_trace (create_new_attempt E s))
    \<and> c_state (create_new_attempt E s) = RECONCILE_OLD_ATTEMPT
    \<and> c_blocked_reason (create_new_attempt E s) = kSecOutcomeUnknown
    \<and> r_request_id (c_record (create_new_attempt E s)) = r_request_id (c_record s)"
  using assms
  by (simp add: create_new_attempt_def persist_def now_ms_def schedule_retry_def with_jitter_def emit_def
      record_of_members_def count_blocked_reason_def count_in_def called_def only_persists_iff Let_def)

theorem unknown_outcome_blocks_new_attempt_witness:
  "c_state (create_new_attempt lab_env (coord0\<lparr>c_sec_outcome_unknown := True\<rparr>)) = RECONCILE_OLD_ATTEMPT"
  using unknown_outcome_blocks_new_attempt [of "coord0\<lparr>c_sec_outcome_unknown := True\<rparr>" lab_env] by simp


lemma step_extends: "protocol_step sc v w \<Longrightarrow> \<exists>es. av_trace w = es @ av_trace v"
  by (induction rule: protocol_step.induct) (auto simp: log_effect_def fresh_attempt_def)

lemma run_extends: "(protocol_step sc)\<^sup>*\<^sup>* v w \<Longrightarrow> \<exists>es. av_trace w = es @ av_trace v"
proof (induction rule: rtranclp_induct)
  case (step y z)
  then show ?case using step_extends [of sc y z] by (metis append_assoc)
qed simp

lemma evolves_extends: "evolves E s t \<Longrightarrow> \<exists>es. c_trace t = es @ c_trace s"
  using run_extends [of "e_sc E" "view s" "view t"] by (simp add: evolves_def)

text \<open>
  C22. A prepared successor is used once and survives a crash: with a successor id at hand (also
  one restored from the store) the next attempt runs under exactly that id, and it is on record,
  with the successor consumed and no import intent, before anything is sent.
\<close>

theorem recovery_reuses_successor:
  assumes "\<not> c_sec_outcome_unknown s" "c_successor_request_id s \<noteq> []"
    and "fst (build_candidate E s) = Inr cf"
  shows "\<exists>es r. c_trace (create_new_attempt E s)
        = es @ EvtPersist r # EvtNewAttempt (c_successor_request_id s) # c_trace s
      \<and> r_request_id r = c_successor_request_id s \<and> r_successor_request_id r = []
      \<and> \<not> r_import_invocation r"
proof -
  obtain cand fp where cf: "cf = (cand, fp)" by (cases cf)
  obtain s1 where b: "build_candidate E s = (Inr (cand, fp), s1)"
    using assms(3) cf by (cases "build_candidate E s") simp
  have v1: "view s1 = view s" using view_candidate [OF b] .
  define u where "u = reset_attempt_members (freeze_attempt E cand fp (choose_request_id E (terminalize_old s1)))"
  define x where "x = emit (EvtNewAttempt (r_request_id (c_record u))) u"
  have vx: "view x = fresh_attempt (r_request_id (c_record u)) (view s)"
    using view_created(1) [where E = E and cand = cand and fp = fp and t = "terminalize_old s1"] v1
    by (simp add: x_def u_def)
  have "c_successor_request_id (terminalize_old s1) = c_successor_request_id s"
    using view_eqD(8) [OF view_terminalize] view_eqD(8) [OF v1] by simp
  then have rid: "r_request_id (c_record u) = c_successor_request_id s"
    using view_created(2) [where E = E and cand = cand and fp = fp and t = "terminalize_old s1"] assms(2)
    by (simp add: u_def)
  have m: "record_matches (view x) (c_record (persist E x))" by (rule persist_matches)
  have "c_trace x = EvtNewAttempt (c_successor_request_id s) # c_trace s"
    using arg_cong [OF vx, of av_trace] rid by (simp add: fresh_attempt_def)
  moreover have "create_new_attempt E s = do_request E (persist E x)"
    using assms(1) by (simp add: create_new_attempt_def b u_def x_def Let_def)
  moreover obtain es where "c_trace (do_request E (persist E x)) = es @ c_trace (persist E x)"
    using evolves_extends [OF evolves_do_request [OF evolves_refl]] by blast
  ultimately show ?thesis
    using m rid by (auto simp: vx record_matches_def fresh_attempt_def)
qed

definition successor_ready :: coord where
  "successor_ready = coord0\<lparr>c_config := lab_config, c_identity := identity_ex, c_identity_valid := True,
     c_successor_request_id := ''kp-2''\<rparr>"

lemma candidate_ex:
  "case keyprov_build_attempt_snapshot toy_hash ''V2C_COMM'' [''UPLINK_AEAD'', ''DOWNLINK_AEAD'']
     identity_ex [] (keyprov_protocol_lock_digest_v1 toy_hash lab_lock) of Inl _ \<Rightarrow> False
   | Inr s \<Rightarrow> fingerprint_guards s = None"
  by code_simp

lemma successor_candidate: "\<exists>cf. fst (build_candidate lab_env successor_ready) = Inr cf"
proof -
  obtain c where b: "keyprov_build_attempt_snapshot toy_hash ''V2C_COMM'' [''UPLINK_AEAD'', ''DOWNLINK_AEAD'']
      identity_ex [] (keyprov_protocol_lock_digest_v1 toy_hash lab_lock) = Inr c"
    and g: "fingerprint_guards c = None"
    using candidate_ex by (auto split: sum.splits)
  have e: "e_hash lab_env = toy_hash" "e_lock lab_env = lab_lock" "\<And>i. e_sec_status lab_env i = (EcSuccess, [])"
    by (simp_all add: lab_env_def)
  have c: "cfg_business_domain lab_config = ''V2C_COMM''" "cfg_purposes lab_config = [''UPLINK_AEAD'', ''DOWNLINK_AEAD'']"
    by (simp_all add: lab_config_def default_config_def)
  show ?thesis
    using b g c by (simp add: build_candidate_def query_sec_status_def successor_ready_def e called_def
        keyprov_compute_attempt_fingerprint_v1_def identity_ex_valid)
qed

theorem recovery_reuses_successor_witness:
  "\<exists>es r. c_trace (create_new_attempt lab_env successor_ready)
      = es @ EvtPersist r # EvtNewAttempt ''kp-2'' # [] \<and> r_request_id r = ''kp-2''"
proof -
  have s: "\<not> c_sec_outcome_unknown successor_ready" "c_successor_request_id successor_ready = ''kp-2''"
    "c_trace successor_ready = []"
    by (simp_all add: successor_ready_def coord0_def)
  obtain cf where "fst (build_candidate lab_env successor_ready) = Inr cf" using successor_candidate by blast
  then show ?thesis using recovery_reuses_successor [of successor_ready lab_env cf] s by auto
qed

section \<open>The proof of no side effect\<close>

lemma resolution_leaves [simp]:
  "c_resolution (called s) = c_resolution s" "c_resolution (count_in f s) = c_resolution s"
  "c_resolution (emit e s) = c_resolution s" "c_resolution (set_last_error er s) = c_resolution s"
  "c_resolution (persist E s) = c_resolution s"
  "c_resolution (schedule_retry E s) = c_resolution s" "c_resolution (schedule_status_retry E s) = c_resolution s"
  "c_resolution (transition_to q s) = c_resolution s" "c_resolution (count_blocked_reason rs s) = c_resolution s"
  "c_resolution (reset_not_found_stabilization k s) = c_resolution s"
  "c_resolution (refresh_readiness E s) = c_resolution s"
  by (simp_all add: called_def count_in_def emit_def set_last_error_def persist_def now_ms_def
      schedule_retry_def schedule_status_retry_def with_jitter_def transition_to_def count_blocked_reason_def
      reset_not_found_stabilization_def count_stabilization_def refresh_readiness_def apply_cloud_readiness_def
      apply_capability_readiness_def invalidate_identity_def Let_def)

lemma resolution_publish [simp]:
  "c_resolution (publish_rejected E pr s) = c_resolution s"
  "c_resolution (snd (publish_keyprov E k mid b rid s)) = c_resolution s"
  by (simp_all add: publish_rejected_def publish_keyprov_def invalidate_identity_def Let_def)

lemma resolution_calls [simp]:
  "c_resolution (snd (generate_id E p s)) = c_resolution s" "c_resolution (snd (now_ms E s)) = c_resolution s"
  "c_resolution (snd (query_import_result E s)) = c_resolution s"
  by (simp_all add: generate_id_def now_ms_def query_import_result_def Let_def split_beta)

lemma resolution_sends [simp]:
  "c_resolution (send_status_request E s) = c_resolution s"
  "c_resolution (ack_retry_status E n s) = c_resolution s"
  "c_resolution (send_ack E n s) = c_resolution s"
  by (simp_all add: send_status_request_def ack_retry_status_def send_ack_def count_status_request_def
      mark_awaiting_def Let_def split_beta split: sum.split)

lemma resolution_ack [simp]: "c_resolution (do_ack E s) = c_resolution s"
  by (simp add: do_ack_def ack_with_items_def Let_def split_beta)


lemma resolution_reconcile [simp]:
  "c_resolution (journal_committed E res s) \<noteq> NoSideEffectProven \<or> c_resolution s = NoSideEffectProven"
  "c_resolution (journal_weak_not_found E s) = c_resolution s"
  "c_resolution (observe_not_found E ev s) = c_resolution s"
  "c_resolution (stabilise E ev s) = c_resolution s"
  "c_resolution (note_contrary_round s) = c_resolution s"
  "c_resolution (snd (reconcile_obs_suppressed vs k ec ea s)) = c_resolution s"
  by (simp_all add: journal_committed_def journal_weak_not_found_def observe_not_found_def
      restart_not_found_stabilization_for_def now_monotonic_ms_def now_ms_def stabilise_def
      note_contrary_round_def reconcile_obs_suppressed_def Let_def)

lemma contrary_not_proven:
  "c_resolution s = Unresolved \<Longrightarrow> c_resolution (snd (journal_contrary E ev s)) \<noteq> NoSideEffectProven"
  by (simp add: journal_contrary_def enter_hard_blocked_def Let_def split_beta)

lemma prove_keeps [simp]:
  "c_stab (prove_no_side_effects E s) = c_stab s" "c_config (prove_no_side_effects E s) = c_config s"
  "c_pending_items (prove_no_side_effects E s) = c_pending_items s"
  "c_ack_items (prove_no_side_effects E s) = c_ack_items s"
  by (simp_all add: prove_no_side_effects_def persist_def now_ms_def transition_to_def emit_def
      count_stabilization_def count_in_def called_def Let_def)

definition proof_conditions :: "env \<Rightarrow> coord \<Rightarrow> bool" where
  "proof_conditions E t \<longleftrightarrow>
     cfg_not_found_stabilization_count (c_config t) \<le> sn_consecutive_count (c_stab t)
     \<and> 0 \<le> sn_first_observed_monotonic_ms (c_stab t)
     \<and> list_ex (\<lambda>i. uint (stabilization_window_ms (c_config t))
            \<le> e_mono E i - sn_first_observed_monotonic_ms (c_stab t)) [0..<c_calls t]
     \<and> c_pending_items t = [] \<and> c_ack_items t = []"

lemma prove_calls: "c_resolution s \<noteq> NoSideEffectProven \<Longrightarrow> c_calls s < c_calls (prove_no_side_effects E s)"
  by (simp add: prove_no_side_effects_def persist_def now_ms_def transition_to_def emit_def
      count_stabilization_def count_in_def called_def Let_def)

lemma reached_conditions:
  assumes "stabilisation_reached E s = (True, t)" "c_resolution s \<noteq> NoSideEffectProven"
  shows "proof_conditions E (prove_no_side_effects E t)"
proof -
  have t: "t = called s" and n: "cfg_not_found_stabilization_count (c_config s) \<le> sn_consecutive_count (c_stab s)"
    "0 \<le> sn_first_observed_monotonic_ms (c_stab s)"
    and w: "stabilised (e_mono E (c_calls s)) (called s)" and c: "\<not> contrary_local_evidence (called s)"
    using assms(1) by (auto simp: stabilisation_reached_def now_monotonic_ms_def split: if_splits)
  have "c_calls s < c_calls (prove_no_side_effects E t)"
    using prove_calls [of t E] assms(2) t by (simp add: called_def)
  moreover have "uint (stabilization_window_ms (c_config t)) \<le> e_mono E (c_calls s) - sn_first_observed_monotonic_ms (c_stab t)"
    using w t by (simp add: stabilised_def called_def)
  ultimately have "list_ex (\<lambda>i. uint (stabilization_window_ms (c_config t))
      \<le> e_mono E i - sn_first_observed_monotonic_ms (c_stab t)) [0..<c_calls (prove_no_side_effects E t)]"
    by (auto simp: list_ex_iff)
  then show ?thesis
    using n c t by (simp add: proof_conditions_def contrary_local_evidence_def called_def)
qed

lemma strong_proof:
  assumes "c_resolution s = Unresolved"
    and "c_resolution (snd (journal_strong_not_found E ev s)) = NoSideEffectProven"
  shows "proof_conditions E (snd (journal_strong_not_found E ev s))"
proof -
  define s1 where "s1 = s\<lparr>c_pending_callback := False, c_sec_outcome_unknown := False\<rparr>"
  have r1: "c_resolution s1 = Unresolved" using assms(1) by (simp add: s1_def)
  obtain r t where r: "stabilisation_reached E (stabilise E ev s1) = (r, t)"
    by (cases "stabilisation_reached E (stabilise E ev s1)")
  have "c_resolution t = Unresolved"
    using view_eqD(5) [OF stabilisation_reachedD(1) [OF r]] r1 by simp
  then have "r" and j: "snd (journal_strong_not_found E ev s) = prove_no_side_effects E t"
    using assms(2) r1 unfolding journal_strong_not_found_def s1_def [symmetric] Let_def
    by (auto simp: r split: if_splits)
  then show ?thesis using reached_conditions [of E "stabilise E ev s1" t] r r1 by simp
qed



definition quiet_env :: env where
  "quiet_env = lab_env\<lparr>e_sec_query := (\<lambda>_. (EcSuccess, no_import_result\<lparr>ir_state := ImpNotFound\<rparr>)),
     e_mono := (\<lambda>_. 100000)\<rparr>"

definition almost_proven :: coord where
  "almost_proven = coord0\<lparr>c_config := lab_config, c_state := STABILIZING_NOT_FOUND,
     c_record := empty_record\<lparr>r_request_id := ''kp-1''\<rparr>, c_sec_import_result_contract_version := 2,
     c_current_sec_capability_epoch := 7,
     c_stab := \<lparr>sn_consecutive_count = 2, sn_first_observed_monotonic_ms = 5,
       sn_last_observed_monotonic_ms = 6, sn_sec_capability_epoch = 7, sn_sec_contract_version = 2,
       sn_request_id_digest = h_sha256 toy_hash (str_bytes ''kp-1''), sn_attempt_generation = 0\<rparr>\<rparr>"

lemma almost_proven_step:
  "c_resolution almost_proven = Unresolved"
  "c_resolution (snd (reconcile_sec_journal quiet_env almost_proven)) = NoSideEffectProven"
proof -
  have len: "length (h_sha256 toy_hash b) = 32" for b
    using toy_hash_spec by (simp add: hash_spec_def)
  have env: "e_sec_query quiet_env i = (EcSuccess, no_import_result\<lparr>ir_state := ImpNotFound\<rparr>)"
    "e_hash quiet_env = toy_hash" "e_mono quiet_env i = 100000" for i
    by (simp_all add: quiet_env_def lab_env_def)
  show "c_resolution almost_proven = Unresolved" by (simp add: almost_proven_def coord0_def)
  show "c_resolution (snd (reconcile_sec_journal quiet_env almost_proven)) = NoSideEffectProven"
    by (simp add: reconcile_sec_journal_def query_import_result_def env emit_def called_def
        bind_evidence_def sec_classify_import_result_def same_attempt_evidence_def len
        cas_generation_matches_def journal_strong_not_found_def stabilise_def observe_not_found_def
        now_monotonic_ms_def now_ms_def stabilisation_reached_def stabilised_def
        stabilization_window_ms_def contrary_local_evidence_def prove_no_side_effects_def
        count_stabilization_def count_in_def almost_proven_def coord0_def lab_config_def
        default_config_def Let_def)
qed


end
