(* ===== verification/CoordRestart.thy ===== *)
theory CoordRestart
  imports CoordBehaviour
begin

text \<open>
  What a restart restores of an attempt, and the recovery paths on which the code departs from
  its own comments: the stalled stabilisation after a restart, the import repeated without items,
  the reconciliation left by a refused status request, the last freshening Request.
\<close>

section \<open>What a restart restores\<close>

definition same_attempt_facts :: "coord \<Rightarrow> coord \<Rightarrow> bool" where
  "same_attempt_facts s t \<longleftrightarrow>
     r_request_id (c_record t) = r_request_id (c_record s)
     \<and> c_frozen_snapshot t = c_frozen_snapshot s \<and> c_fingerprint_version t = c_fingerprint_version s
     \<and> c_submission t = c_submission s \<and> c_store_generation t = c_store_generation s
     \<and> c_supersedes_request_id t = c_supersedes_request_id s
     \<and> c_superseded_by_request_id t = c_superseded_by_request_id s
     \<and> c_successor_request_id t = c_successor_request_id s
     \<and> c_successor_request_id_digest t = c_successor_request_id_digest s
     \<and> c_import_invocation_recorded t = c_import_invocation_recorded s
     \<and> c_resolution t = c_resolution s \<and> c_last_sec_evidence_kind t = c_last_sec_evidence_kind s
     \<and> c_lease_expires_at_ms t = c_lease_expires_at_ms s
     \<and> c_ack_safe_deadline_ms t = c_ack_safe_deadline_ms s
     \<and> c_budget t = (c_budget s)\<lparr>bl_ack_safe_deadline_at_ms := c_ack_safe_deadline_ms s\<rparr>
     \<and> sn_consecutive_count (c_stab t) = sn_consecutive_count (c_stab s)
     \<and> sn_sec_capability_epoch (c_stab t) = sn_sec_capability_epoch (c_stab s)"

text \<open>What the stored record says, and what the last part of the initialisation leaves alone.\<close>

lemma persisted_facts [simp]:
  "r_request_id (c_record (persist E s)) = r_request_id (c_record s)"
  "r_snapshot (c_record (persist E s)) = c_frozen_snapshot s"
  "r_fingerprint_version (c_record (persist E s)) = c_fingerprint_version s"
  "r_submission (c_record (persist E s)) = c_submission s"
  "r_store_generation (c_record (persist E s)) = c_store_generation s"
  "r_supersedes_request_id (c_record (persist E s)) = c_supersedes_request_id s"
  "r_superseded_by_request_id (c_record (persist E s)) = c_superseded_by_request_id s"
  "r_successor_request_id (c_record (persist E s)) = c_successor_request_id s"
  "r_successor_request_id_digest (c_record (persist E s)) = c_successor_request_id_digest s"
  "r_import_invocation (c_record (persist E s)) = c_import_invocation_recorded s"
  "r_import_invocation_resolution (c_record (persist E s)) = resolution_code (c_resolution s)"
  "r_sec_import_evidence_kind (c_record (persist E s)) = evidence_code (c_last_sec_evidence_kind s)"
  "r_lease_expires_at_ms (c_record (persist E s)) = c_lease_expires_at_ms s"
  "r_budget (c_record (persist E s)) = (c_budget s)\<lparr>bl_ack_safe_deadline_at_ms := c_ack_safe_deadline_ms s\<rparr>"
  "r_sec_not_found_count (c_record (persist E s)) = sn_consecutive_count (c_stab s)"
  "r_sec_capability_epoch (c_record (persist E s)) = sn_sec_capability_epoch (c_stab s)"
  by (simp_all add: persist_def now_ms_def record_of_members_def emit_def called_def Let_def)

lemma restore_state_frame [simp]:
  "c_record (restore_state r s) = c_record s"
  "c_frozen_snapshot (restore_state r s) = c_frozen_snapshot s"
  "c_fingerprint_version (restore_state r s) = c_fingerprint_version s"
  "c_submission (restore_state r s) = c_submission s"
  "c_store_generation (restore_state r s) = c_store_generation s"
  "c_supersedes_request_id (restore_state r s) = c_supersedes_request_id s"
  "c_superseded_by_request_id (restore_state r s) = c_superseded_by_request_id s"
  "c_successor_request_id (restore_state r s) = c_successor_request_id s"
  "c_successor_request_id_digest (restore_state r s) = c_successor_request_id_digest s"
  "c_import_invocation_recorded (restore_state r s) = c_import_invocation_recorded s"
  "c_pending_callback (restore_state r s) = c_pending_callback s"
  "c_resolution (restore_state r s) = c_resolution s"
  "c_last_sec_evidence_kind (restore_state r s) = c_last_sec_evidence_kind s"
  "c_lease_expires_at_ms (restore_state r s) = c_lease_expires_at_ms s"
  "c_ack_safe_deadline_ms (restore_state r s) = c_ack_safe_deadline_ms s"
  "c_budget (restore_state r s) = c_budget s"
  "c_stab (restore_state r s) = c_stab s"
  "c_pending_items (restore_state r s) = c_pending_items s"
  "c_import_attempted (restore_state r s) = c_import_attempted s"
  "c_ack_items (restore_state r s) = c_ack_items s"
  "c_sec_lease_admission_supported (restore_state r s) = c_sec_lease_admission_supported s"
  by (simp_all add: restore_state_def Let_def)

lemma restored_state: "c_state (restore_state r s) \<notin> {ACTIVE, ACK_PENDING, CHECKING, RETRY_WAIT}"
  by (simp add: restore_state_def Let_def)

lemma initialize_valid:
  assumes "cfg_enabled cfg" "r_valid r" "\<not> r_legacy_snapshot_unknown r"
  obtains u where "initialize E cfg r coord0 = restore_state r (restore_attempt E r u)"
    and "c_record u = r" "c_budget u = r_budget r" "c_lease_expires_at_ms u = r_lease_expires_at_ms r"
    "c_ack_safe_deadline_ms u = bl_ack_safe_deadline_at_ms (r_budget r)"
    "c_pending_items u = []" "\<not> c_import_attempted u" "c_trace u = [EvtLoad r]"
    "c_sec_lease_admission_supported u = r_sec_supports_lease_admission r"
  using assms by (auto simp: initialize_def coord0_def emit_def Let_def)



section \<open>Stabilisation after a restart\<close>

text \<open>Rounds of strong NOT\_FOUND answers in one capability epoch, with nothing in between.\<close>

definition stabilise_round :: "env \<Rightarrow> sec_evidence \<Rightarrow> coord \<Rightarrow> coord" where
  "stabilise_round E ev t = stabilise E (bind_evidence E t ev) t"

definition stalled :: "env \<Rightarrow> coord \<Rightarrow> bool" where
  "stalled E t \<longleftrightarrow>
     sn_first_observed_monotonic_ms (c_stab t) = - 1 \<and> r_request_id (c_record t) \<noteq> []
     \<and> sn_sec_capability_epoch (c_stab t) = c_current_sec_capability_epoch t
     \<and> c_current_sec_capability_epoch t \<noteq> 0
     \<and> sn_request_id_digest (c_stab t) = h_sha256 (e_hash E) (str_bytes (r_request_id (c_record t)))
     \<and> sn_attempt_generation (c_stab t) = c_store_generation t"

lemma transition_frame:
  "c_stab (transition_to q s) = c_stab s" "c_record (transition_to q s) = c_record s"
  "c_current_sec_capability_epoch (transition_to q s) = c_current_sec_capability_epoch s"
  "c_store_generation (transition_to q s) = c_store_generation s"
  by (simp_all add: transition_to_def count_in_def Let_def)

lemma round_stalls:
  assumes "stalled E t" "sn_consecutive_count (c_stab t) \<noteq> 0" "hash_spec (e_hash E)"
  shows "stalled E (stabilise_round E ev t)"
    and "sn_consecutive_count (c_stab (stabilise_round E ev t)) = sn_consecutive_count (c_stab t) + 1"
  using assms
  by (simp_all add: stalled_def stabilise_round_def stabilise_def observe_not_found_def bind_evidence_def
      same_attempt_evidence_def cas_generation_matches_def hash_spec_def now_monotonic_ms_def now_ms_def
      called_def transition_frame Let_def)

lemma rounds_stall:
  assumes "stalled E s" "hash_spec (e_hash E)" "0 < sn_consecutive_count (c_stab s)"
    and "unat (sn_consecutive_count (c_stab s)) + n < 2 ^ 32"
  shows "stalled E ((stabilise_round E ev ^^ n) s)
    \<and> unat (sn_consecutive_count (c_stab ((stabilise_round E ev ^^ n) s)))
        = unat (sn_consecutive_count (c_stab s)) + n"
  using assms(4)
proof (induction n)
  case (Suc n)
  let ?t = "(stabilise_round E ev ^^ n) s"
  have IH: "stalled E ?t" "unat (sn_consecutive_count (c_stab ?t)) = unat (sn_consecutive_count (c_stab s)) + n"
    using Suc by simp_all
  have "0 < unat (sn_consecutive_count (c_stab ?t))"
    using IH(2) assms(3) by (simp add: word_less_nat_alt)
  then have nz: "sn_consecutive_count (c_stab ?t) \<noteq> 0" by (metis unat_0 less_irrefl)
  have "unat (sn_consecutive_count (c_stab ?t) + 1) = Suc (unat (sn_consecutive_count (c_stab ?t)))"
    using IH(2) Suc.prems by (simp add: unat_word_ariths)
  then show ?case using round_stalls [OF IH(1) nz assms(2)] IH(2) by simp
qed (use assms in simp)


text \<open>
  After a restart in the middle of a stabilisation (the stored count is positive and the
  daemon still reports the same capability epoch) the stabilisation never completes: however many
  strong NOT\_FOUND answers follow, the start of the window stays unset, so the test for the proof
  is false. The comment at the restore promises a fresh stabilisation.
\<close>

theorem restart_stalls_stabilisation:
  assumes "r_valid r" "r_request_id r \<noteq> []" "0 < r_sec_not_found_count r"
    and "r_sec_capability_epoch r \<noteq> 0" "hash_spec (e_hash E)"
    and "unat (r_sec_not_found_count r) + n < 2 ^ 32"
    and "s = (restore_attempt E r u)\<lparr>c_record := r, c_current_sec_capability_epoch := r_sec_capability_epoch r\<rparr>"
  shows "\<not> fst (stabilisation_reached E ((stabilise_round E ev ^^ n) s))"
proof -
  have "stalled E s" "sn_consecutive_count (c_stab s) = r_sec_not_found_count r"
    using assms(1-4) by (simp_all add: assms(7) stalled_def restore_attempt_def Let_def)
  then have "stalled E ((stabilise_round E ev ^^ n) s)"
    using rounds_stall [of E s n ev] assms(3,5,6) by simp
  then show ?thesis by (simp add: stabilisation_reached_def stalled_def)
qed

definition interrupted_record :: keyprov_record where
  "interrupted_record = empty_record\<lparr>r_valid := True, r_request_id := ''kp-1'',
     r_sec_not_found_count := 1, r_sec_capability_epoch := 7\<rparr>"

theorem restart_stalls_stabilisation_witness:
  "\<not> fst (stabilisation_reached quiet_env ((stabilise_round quiet_env
       (sec_classify_import_result EcSuccess (no_import_result\<lparr>ir_state := ImpNotFound\<rparr>) 2) ^^ 100)
     ((restore_attempt quiet_env interrupted_record coord0)
        \<lparr>c_record := interrupted_record, c_current_sec_capability_epoch := 7\<rparr>)))"
  by (rule restart_stalls_stabilisation [where r = interrupted_record and u = coord0])
    (simp_all add: interrupted_record_def quiet_env_def lab_env_def toy_hash_spec)

section \<open>Import after a restart\<close>

text \<open>
  A record stored while importing is restored as IMPORTING although the received key items
  live in memory only: the next run of that state calls the import API again, for the old request
  id, with no items, and without asking for the result first.
\<close>

theorem restart_reimports_nothing:
  assumes "cfg_enabled cfg" "r_valid r" "\<not> r_legacy_snapshot_unknown r" "r_state r = ''IMPORTING''"
    and "r_import_invocation r" "r_lease_expires_at_ms r \<le> 0" "r_sec_supports_lease_admission r"
  shows "\<exists>es ec res. c_trace (run_state E now (initialize E cfg r coord0))
           = es @ [EvtImport (r_request_id r) [] True ec res, EvtLoad r]"
proof -
  let ?s = "initialize E cfg r coord0"
  obtain u where u: "?s = restore_state r (restore_attempt E r u)"
    and f: "c_record u = r" "c_lease_expires_at_ms u = r_lease_expires_at_ms r" "c_pending_items u = []"
    "\<not> c_import_attempted u" "c_trace u = [EvtLoad r]" "c_sec_lease_admission_supported u"
    using initialize_valid [OF assms(1-3), of E] assms(7) by metis
  have st: "c_state ?s = IMPORTING"
    unfolding u using assms(2,4)
    by (simp add: restore_state_def v2c_key_prov_state_from_string_def all_states_def
        v2c_key_prov_state_to_string_def)
  have s: "c_import_invocation_recorded ?s" "\<not> c_import_attempted ?s" "c_pending_items ?s = []"
    "c_lease_expires_at_ms ?s \<le> 0" "c_sec_lease_admission_supported ?s"
    "r_request_id (c_record ?s) = r_request_id r" "c_trace ?s = [EvtLoad r]"
    unfolding u using f assms(2,5,6)
    by (simp_all add: restore_attempt_def restore_state_def Let_def)
  obtain ec res where im: "e_sec_import E (c_calls ?s) = (ec, res)" by (cases "e_sec_import E (c_calls ?s)")
  let ?t = "(emit (EvtImport (r_request_id r) [] True ec res) (called ?s))\<lparr>c_import_attempted := True\<rparr>"
  have "do_import E ?s = handle_import_result E ec res ?t"
    using s im by (simp add: do_import_def call_import_def Let_def)
  moreover have "\<exists>es. c_trace (handle_import_result E ec res ?t) = es @ c_trace ?t"
    by (rule evolves_extends [OF evolves_handle_import_result [OF evolves_refl]])
      (simp add: emit_def called_def s)
  ultimately show ?thesis
    using st s by (auto simp: run_state_def emit_def called_def)
qed

definition importing_record :: keyprov_record where
  "importing_record = empty_record\<lparr>r_valid := True, r_request_id := ''kp-1'', r_state := ''IMPORTING'',
     r_import_invocation := True, r_sec_supports_lease_admission := True\<rparr>"

theorem restart_reimports_nothing_witness:
  "\<exists>es ec res. c_trace (run_state lab_env 0 (initialize lab_env lab_config importing_record coord0))
     = es @ [EvtImport ''kp-1'' [] True ec res, EvtLoad importing_record]"
  using restart_reimports_nothing [of lab_config importing_record lab_env 0]
  by (simp add: importing_record_def empty_record_def lab_config_def)


section \<open>Reconciliation left by a refused publication\<close>

definition plain_refusal :: "publish_result \<Rightarrow> bool" where
  "plain_refusal pr \<longleftrightarrow>
     \<not> pu_accepted pr \<and> pu_outcome pr \<noteq> DeliveryUnknown
     \<and> pu_reason_code pr \<notin> {kPublishContextStale, kPublishContextRequired, kPublishContextUnsupported,
          kSessionIdentityInvalid, kSessionIdentityConflict, kSessionIdentityMissing}"

lemma state_leaves [simp]:
  "c_state (schedule_retry E s) = c_state s" "c_state (set_last_error e s) = c_state s"
  "c_state (persist E s) = c_state s"
  by (simp_all add: schedule_retry_def with_jitter_def now_ms_def called_def set_last_error_def persist_def
      emit_def Let_def)

text \<open>
  A status request the facade refuses for a reason of no special kind moves the coordinator to
  RETRY\_WAIT, out of whatever reconciliation state it was in, although the comment in the code
  says that the reconciliation is kept; from RETRY\_WAIT the next step is a new check and Request.
\<close>

theorem refused_status_leaves_reconciliation:
  assumes "c_identity_valid s" and "\<And>i. plain_refusal (e_publish E i)"
    and "\<And>idn rid now mid. build_keyprov_status_request_envelope (e_pb E) (c_identity s) (r_request_id (c_record s)) now mid [] \<noteq> Inl idn"
  shows "c_state (send_status_request E s) = RETRY_WAIT"
proof -
  obtain mid s1 where g: "generate_id E ''msg'' s = (mid, s1)" by (cases "generate_id E ''msg'' s")
  obtain n s2 where n: "now_ms E s1 = (n, s2)" by (cases "now_ms E s1")
  have v: "view s2 = view s" using view_calls(1) [of E s1] view_calls(5) [of E "''msg''" s] g n by simp
  obtain b where b: "build_keyprov_status_request_envelope (e_pb E) (c_identity s2)
      (r_request_id (c_record s2)) n mid [] = Inr b"
    using assms(3) view_eqD(1,2) [OF v] by (metis sum.exhaust)
  have "c_identity_valid s2" using assms(1) view_eqD(3) [OF v] by simp
  then have "publish_keyprov E MkStatus mid b (r_request_id (c_record s2)) s2
      = (False, publish_rejected E (e_publish E (c_calls s2))
           (emit (EvtPublish MkStatus (r_request_id (c_record s2)) (si_session (c_identity s2)) False) (called s2)))"
    using assms(2) [of "c_calls s2"] by (simp add: publish_keyprov_def plain_refusal_def Let_def)
  then show ?thesis
    using assms(1) assms(2) [of "c_calls s2"]
    by (simp add: send_status_request_def g n b plain_refusal_def publish_rejected_def Let_def)
qed

definition refusing_env :: env where
  "refusing_env = lab_env\<lparr>e_publish := (\<lambda>_. \<lparr>pu_accepted = False, pu_outcome = DeliveryAccepted,
     pu_reason_code = ''BUSY'', pu_retryable = True\<rparr>)\<rparr>"

definition reconciling :: coord where
  "reconciling = coord0\<lparr>c_config := lab_config, c_state := STABILIZING_NOT_FOUND, c_identity := identity_ex,
     c_identity_valid := True, c_record := empty_record\<lparr>r_request_id := ''kp-1''\<rparr>\<rparr>"

theorem refused_status_leaves_reconciliation_witness:
  "c_state (send_status_request refusing_env reconciling) = RETRY_WAIT"
proof (rule refused_status_leaves_reconciliation)
  show "c_identity_valid reconciling" by (simp add: reconciling_def)
  show "plain_refusal (e_publish refusing_env i)" for i
    by (simp add: plain_refusal_def refusing_env_def lab_env_def kPublishContextStale_def
        kPublishContextRequired_def kPublishContextUnsupported_def kSessionIdentityInvalid_def
        kSessionIdentityConflict_def kSessionIdentityMissing_def)
  show "build_keyprov_status_request_envelope (e_pb refusing_env) (c_identity reconciling)
      (r_request_id (c_record reconciling)) now mid [] \<noteq> Inl e" for e now mid
    by (simp add: reconciling_def refusing_env_def lab_env_def lab_pb_def toy_pb_def identity_ex_valid
        build_keyprov_status_request_envelope_def serialize_envelope_def fill_common_def)
      (simp add: identity_ex_def)
qed

section \<open>An ACTIVE answer while an acknowledgement is pending\<close>

text \<open>
  An ACTIVE status answer while an acknowledgement with items is pending leaves the coordinator
  in ACK\_PENDING with the acknowledgement to be sent again, also after the acknowledgement
  deadline, where the status answer was asked for to settle the outcome.
\<close>

theorem active_answer_keeps_ack_pending:
  assumes "c_state s = ACK_PENDING" "c_ack_items s \<noteq> []" "sd_status st = kKeyProvStatusActive"
    and "\<not> keyprov_is_idempotency_conflict (sd_error st)"
  shows "c_state (handle_status_response E st s) = ACK_PENDING
    \<and> \<not> c_ack_sent (handle_status_response E st s)"
  using assms
  by (simp add: handle_status_response_def reconcile_states_def persist_def now_ms_def emit_def called_def Let_def)

theorem active_answer_keeps_ack_pending_witness:
  "c_state (handle_status_response lab_env
     \<lparr>sd_request_id = ''kp-1'', sd_status = kKeyProvStatusActive, sd_occurred_at_ms = 0,
      sd_error = no_error, sd_items = []\<rparr>
     (coord0\<lparr>c_state := ACK_PENDING, c_ack_items := [good_item]\<rparr>)) = ACK_PENDING"
  by (rule active_answer_keeps_ack_pending [THEN conjunct1])
    (simp_all add: keyprov_is_idempotency_conflict_def no_error_def)


section \<open>The last freshening Request\<close>

lemma budget_leaves [simp]:
  "c_budget (schedule_retry E s) = c_budget s" "c_budget (schedule_status_retry E s) = c_budget s"
  "c_budget (set_last_error e s) = c_budget s" "c_budget (persist E s) = c_budget s"
  "c_budget (transition_to q s) = c_budget s"
  "c_budget (enter_reconcile_old_attempt E rs vc s) = c_budget s"
  by (simp_all add: schedule_retry_def schedule_status_retry_def with_jitter_def now_ms_def called_def
      set_last_error_def persist_def emit_def transition_to_def count_in_def enter_reconcile_old_attempt_def
      Let_def)

lemma trace_enter_old [simp]:
  "only_persists old (c_trace s) \<Longrightarrow> only_persists old (c_trace (enter_reconcile_old_attempt E rs vc s))"
  by (simp add: enter_reconcile_old_attempt_def Let_def)

lemma spent_request_is_quiet:
  assumes "kp_request_limit (c_kl1_params s) \<le> bl_request_send_count (c_budget s)"
  shows "only_persists (c_trace s) (c_trace (do_request E s))"
    and "bl_expiry_freshen_count (c_budget (do_request E s)) = bl_expiry_freshen_count (c_budget s)"
proof -
  obtain cand s1 where b: "build_candidate E s = (cand, s1)" by (cases "build_candidate E s")
  have s1: "s1 = called s"
    using b by (auto simp: build_candidate_def query_sec_status_def split: prod.splits if_splits sum.splits)
  have no: "\<not> request_ok (c_kl1_params s) n (c_budget s)" for n
    using assms by (simp add: request_ok_def)
  have "only_persists (c_trace s) (c_trace (do_request E s))
    \<and> bl_expiry_freshen_count (c_budget (do_request E s)) = bl_expiry_freshen_count (c_budget s)"
    using no by (cases cand) (auto simp: do_request_def b s1 candidate_failed_def now_ms_def called_def)
  then show "only_persists (c_trace s) (c_trace (do_request E s))"
    and "bl_expiry_freshen_count (c_budget (do_request E s)) = bl_expiry_freshen_count (c_budget s)" by auto
qed

lemma freshen_runs:
  assumes "fst (maybe_freshen E s)"
  obtains c s1 where "clock_source_of E s = (c, s1)" "freshen_ok (c_budget s1)"
    "snd (maybe_freshen E s) = do_request E ((persist E (set_last_error ''lease_freshen''
        (count_in (\<lambda>n. n\<lparr>cn_kl1_freshen_total := cn_kl1_freshen_total n + 1\<rparr>)
          (s1\<lparr>c_budget := preconsume_request (c_kl1_params s1) (utc_upper c)
             (preconsume_freshen (c_budget s1))\<rparr>))))\<lparr>c_state := REQUESTING\<rparr>)"
proof -
  obtain c s1 where c: "clock_source_of E s = (c, s1)" by (cases "clock_source_of E s")
  show thesis
    using assms that [OF c] by (auto simp: maybe_freshen_def c Let_def split: if_splits)
qed

lemma clock_frame:
  "clock_source_of E s = (c, t) \<Longrightarrow> c_trace t = c_trace s \<and> c_budget t = c_budget s \<and> c_kl1_params t = c_kl1_params s"
  by (auto simp: clock_source_of_def now_ms_def now_monotonic_ms_def clock_check_ok_def called_def Let_def
      split: option.splits)

text \<open>
  A freshening Request at the last unit of the Request budget sends nothing: the freshen right
  and the Request are consumed first, and the Request then finds its budget exhausted, so the
  single freshen of the attempt is spent without a message.
\<close>

theorem last_freshen_sends_nothing:
  assumes "fst (maybe_freshen E s)"
    and "bl_request_send_count (c_budget s) + 1 = kp_request_limit (c_kl1_params s)"
  shows "only_persists (c_trace s) (c_trace (snd (maybe_freshen E s)))
    \<and> \<not> freshen_ok (c_budget (snd (maybe_freshen E s)))"
proof -
  obtain c s1 where c: "clock_source_of E s = (c, s1)" and ok: "freshen_ok (c_budget s1)"
    and run: "snd (maybe_freshen E s) = do_request E ((persist E (set_last_error ''lease_freshen''
        (count_in (\<lambda>n. n\<lparr>cn_kl1_freshen_total := cn_kl1_freshen_total n + 1\<rparr>)
          (s1\<lparr>c_budget := preconsume_request (c_kl1_params s1) (utc_upper c)
             (preconsume_freshen (c_budget s1))\<rparr>))))\<lparr>c_state := REQUESTING\<rparr>)"
    using freshen_runs [OF assms(1)] by blast
  define x where "x = (persist E (set_last_error ''lease_freshen''
        (count_in (\<lambda>n. n\<lparr>cn_kl1_freshen_total := cn_kl1_freshen_total n + 1\<rparr>)
          (s1\<lparr>c_budget := preconsume_request (c_kl1_params s1) (utc_upper c)
             (preconsume_freshen (c_budget s1))\<rparr>))))\<lparr>c_state := REQUESTING\<rparr>"
  note f = clock_frame [OF c]
  have lim: "c_kl1_params x = c_kl1_params s"
    using f by (simp add: x_def persist_def now_ms_def emit_def called_def set_last_error_def count_in_def Let_def)
  have cnt: "bl_request_send_count (c_budget x) = bl_request_send_count (c_budget s) + 1"
    and fr: "bl_expiry_freshen_count (c_budget x) = bl_expiry_freshen_count (c_budget s) + 1"
    using f by (simp_all add: x_def count_in_def preconsume_request_def preconsume_freshen_def Let_def)
  have tr: "only_persists (c_trace s) (c_trace x)"
    using f by (simp add: x_def)
  have "bl_expiry_freshen_count (c_budget s) = 0"
    using ok f by (simp add: freshen_ok_def word_less_nat_alt unat_eq_zero)
  then have "\<not> freshen_ok (c_budget (do_request E x))"
    using spent_request_is_quiet(2) [of x E] lim cnt fr assms(2) by (simp add: freshen_ok_def)
  moreover have "only_persists (c_trace s) (c_trace (do_request E x))"
    using spent_request_is_quiet(1) [of x E] lim cnt assms(2) tr by (auto simp: only_persists_iff)
  ultimately show ?thesis by (simp add: run x_def)
qed

definition expired_lease :: coord where
  "expired_lease = coord0\<lparr>c_config := lab_config, c_resolution := NoSideEffectProven,
     c_cached_vmd_status := kKeyProvStatusAckPending, c_lease_expires_at_ms := 1,
     c_budget := empty_ledger\<lparr>bl_request_send_count := 7\<rparr>\<rparr>"

theorem last_freshen_sends_nothing_witness:
  "only_persists [] (c_trace (snd (maybe_freshen lab_env expired_lease)))"
proof -
  have "fst (maybe_freshen lab_env expired_lease)"
    by (simp add: maybe_freshen_def expired_lease_def coord0_def lab_env_def clock_source_of_def now_ms_def
        now_monotonic_ms_def clock_check_ok_def called_def clock_default_def utc_upper_def
        keyprov_lease_expired_def freshen_ok_def request_ok_def empty_ledger_def kl1_default_def Let_def)
  moreover have "bl_request_send_count (c_budget expired_lease) + 1 = kp_request_limit (c_kl1_params expired_lease)"
    by (simp add: expired_lease_def coord0_def kl1_default_def)
  ultimately show ?thesis
    using last_freshen_sends_nothing [of lab_env expired_lease] by (simp add: expired_lease_def coord0_def)
qed

end
