(* ===== verification/SubscriptionCatalog.thy ===== *)
theory SubscriptionCatalog
  imports KeyprovStore
begin

text \<open>
  The business subscriptions the service submits to the MQTT daemon: items and snapshots
  (src/include/subscription\_types.h), the catalogue with its validation
  (src/src/subscription\_catalog.cpp), the canonical digest and the generation of a snapshot
  (src/src/snapshot\_builder.cpp) and their persistence (src/src/subscription\_store.cpp).

  The YAML library answers through the record \<open>yaml_entry\<close>, the hash through \<open>hash_lib\<close>,
  the key-value store through \<open>kv_ops\<close>.
\<close>

section \<open>Items and snapshots\<close>

datatype direction = UP | DOWN | BIDIRECTIONAL

definition direction_to_string :: "direction \<Rightarrow> string" where
  "direction_to_string d =
     (case d of UP \<Rightarrow> ''UP'' | DOWN \<Rightarrow> ''DOWN'' | BIDIRECTIONAL \<Rightarrow> ''BIDIRECTIONAL'')"

text \<open>\<open>std::toupper\<close> in the C locale.\<close>

definition c_toupper :: "char \<Rightarrow> char" where
  "c_toupper c = (if CHR ''a'' \<le> c \<and> c \<le> CHR ''z'' then char_of (of_char c - 32 :: nat) else c)"

definition direction_from_string :: "string \<Rightarrow> direction option" where
  "direction_from_string s =
     (let upper = map c_toupper s in
      if upper = ''UP'' then Some UP
      else if upper = ''DOWN'' then Some DOWN
      else if upper = ''BIDIRECTIONAL'' \<or> upper = ''BIDI'' then Some BIDIRECTIONAL
      else None)"

datatype criticality = OPTIONAL | GLOBAL_MANDATORY | CAPABILITY_MANDATORY

definition subscription_criticality_to_string :: "criticality \<Rightarrow> string" where
  "subscription_criticality_to_string c =
     (case c of OPTIONAL \<Rightarrow> ''OPTIONAL'' | GLOBAL_MANDATORY \<Rightarrow> ''GLOBAL_MANDATORY''
      | CAPABILITY_MANDATORY \<Rightarrow> ''CAPABILITY_MANDATORY'')"

definition subscription_criticality_from_string :: "string \<Rightarrow> criticality option" where
  "subscription_criticality_from_string s =
     (if s = ''OPTIONAL'' then Some OPTIONAL
      else if s = ''GLOBAL_MANDATORY'' then Some GLOBAL_MANDATORY
      else if s = ''CAPABILITY_MANDATORY'' then Some CAPABILITY_MANDATORY
      else None)"

lemma criticality_inject [simp]:
  "subscription_criticality_to_string c = subscription_criticality_to_string d \<longleftrightarrow> c = d"
  by (cases c; cases d) (simp_all add: subscription_criticality_to_string_def)

lemma direction_inject [simp]: "direction_to_string c = direction_to_string d \<longleftrightarrow> c = d"
  by (cases c; cases d) (simp_all add: direction_to_string_def)

record subscription_item =
  it_route_id :: string
  it_topic_template :: string
  it_direction :: direction
  it_qos :: u8
  it_target :: string
  it_mandatory :: bool
  it_enabled :: "bool option"
  it_readiness_scope :: string
  it_criticality :: criticality

definition kSubscriptionContractVersion :: u32 where "kSubscriptionContractVersion = 1"

record subscription_snapshot =
  ss_owner :: string
  ss_generation :: u64
  ss_content_digest :: string
  ss_registration_complete :: bool
  ss_contract_version :: u32
  ss_items :: "subscription_item list"

definition empty_snapshot_s :: subscription_snapshot where
  "empty_snapshot_s = \<lparr>ss_owner = [], ss_generation = 0, ss_content_digest = [],
     ss_registration_complete = False, ss_contract_version = kSubscriptionContractVersion,
     ss_items = []\<rparr>"

datatype snapshot_status = ACCEPTED | REJECTED | UNKNOWN

record replace_result =
  rs_status :: snapshot_status
  rs_accepted_generation :: u64
  rs_rejected_route_ids :: "string list"
  rs_reason_code :: string

section \<open>The catalogue\<close>

record catalog =
  cat_items :: "subscription_item list"
  cat_mandatory_count :: u32

definition empty_catalog :: catalog where
  "empty_catalog = \<lparr>cat_items = [], cat_mandatory_count = 0\<rparr>"

fun contains_str :: "string \<Rightarrow> string \<Rightarrow> bool" where
  "contains_str p [] \<longleftrightarrow> p = []"
| "contains_str p (c # cs) \<longleftrightarrow> starts_with p (c # cs) \<or> contains_str p cs"

text \<open>\<open>None\<close>: the item is valid; otherwise the text of \<open>error\<close>.\<close>

definition validate_item :: "subscription_item \<Rightarrow> string option" where
  "validate_item i =
     (if it_route_id i = [] then Some ''route_id is empty''
      else if it_topic_template i = []
        then Some (''topic_template is empty for route_id='' @ it_route_id i)
      else if contains_str ''{device_sn}'' (it_topic_template i)
        then Some (''topic_template uses deprecated {device_sn} for route_id='' @ it_route_id i
                   @ '', use {ecu_uid}'')
      else if it_target i = [] then Some (''target is empty for route_id='' @ it_route_id i)
      else if it_qos i > 2 then Some (''qos out of range [0,2] for route_id='' @ it_route_id i)
      else None)"

fun validate_items :: "string list \<Rightarrow> subscription_item list \<Rightarrow> string option" where
  "validate_items seen [] = None"
| "validate_items seen (i # its) =
     (case validate_item i of
        Some err \<Rightarrow> Some err
      | None \<Rightarrow> if it_route_id i \<in> set seen then Some (''duplicate route_id='' @ it_route_id i)
                else validate_items (it_route_id i # seen) its)"

definition catalog_validate :: "subscription_item list \<Rightarrow> string option" where
  "catalog_validate its = validate_items [] its"

fun count_mandatory :: "subscription_item list \<Rightarrow> u32" where
  "count_mandatory [] = 0"
| "count_mandatory (i # its) = (if it_mandatory i then 1 else 0) + count_mandatory its"

definition catalog_replace :: "subscription_item list \<Rightarrow> catalog \<Rightarrow> catalog" where
  "catalog_replace its c = \<lparr>cat_items = its, cat_mandatory_count = count_mandatory its\<rparr>"

text \<open>
  One entry of the YAML sequence: \<open>entry[k].as<T>(default)\<close> for each type, and the optional
  \<open>enabled\<close> (absent, or the outcome of \<open>as<bool>()\<close>, which throws on a bad value).
\<close>

record yaml_entry =
  ye_str :: "string \<Rightarrow> string \<Rightarrow> string"
  ye_int :: "string \<Rightarrow> int \<Rightarrow> int"
  ye_bool :: "string \<Rightarrow> bool \<Rightarrow> bool"
  ye_enabled :: "bool option option"

text \<open>
  \<open>None\<close>: an exception leaves \<open>load_from_yaml\<close>; \<open>Some (Inl error)\<close>: it returns false.
\<close>

definition quoted :: "string \<Rightarrow> string" where
  "quoted s = [CHR 0x27] @ s @ [CHR 0x27]"

definition parse_entry :: "yaml_entry \<Rightarrow> (string + subscription_item) option" where
  "parse_entry e =
     (let rid = ye_str e ''route_id'' [];
          topic = ye_str e ''topic_template'' [];
          dir_str = ye_str e ''direction'' ''UP''
      in case direction_from_string dir_str of
           None \<Rightarrow> Some (Inl (''invalid direction '' @ quoted dir_str @ '' for route_id='' @ rid))
         | Some dir \<Rightarrow>
             (case ye_enabled e of
                Some None \<Rightarrow> None
              | en \<Rightarrow>
                 (let crit = ye_str e ''criticality'' [];
                      item = \<lparr>it_route_id = rid, it_topic_template = topic, it_direction = dir,
                         it_qos = word_of_int (ye_int e ''qos'' 1), it_target = ye_str e ''target'' [],
                         it_mandatory = ye_bool e ''mandatory'' False,
                         it_enabled = (case en of Some b \<Rightarrow> b | None \<Rightarrow> None),
                         it_readiness_scope = ye_str e ''readiness_scope'' [], it_criticality = OPTIONAL\<rparr>
                  in if crit = [] then Some (Inr item)
                     else (case subscription_criticality_from_string crit of
                             None \<Rightarrow> Some (Inl (''invalid criticality '' @ quoted crit @ '' for route_id='' @ rid))
                           | Some c \<Rightarrow> Some (Inr (item\<lparr>it_criticality := c\<rparr>))))))"

fun parse_entries :: "yaml_entry list \<Rightarrow> (string + subscription_item list) option" where
  "parse_entries [] = Some (Inr [])"
| "parse_entries (e # es) =
     (case parse_entry e of
        None \<Rightarrow> None
      | Some (Inl err) \<Rightarrow> Some (Inl err)
      | Some (Inr i) \<Rightarrow>
         (case parse_entries es of
            Some (Inr its) \<Rightarrow> Some (Inr (i # its))
          | r \<Rightarrow> r))"

text \<open>A node that is missing or not a sequence is no entries.\<close>

definition load_from_yaml :: "yaml_entry list option \<Rightarrow> catalog \<Rightarrow> (string option \<times> catalog) option" where
  "load_from_yaml node c =
     (case parse_entries (case node of None \<Rightarrow> [] | Some es \<Rightarrow> es) of
        None \<Rightarrow> None
      | Some (Inl err) \<Rightarrow> Some (Some err, c)
      | Some (Inr its) \<Rightarrow>
          (case catalog_validate its of
             Some err \<Rightarrow> Some (Some err, c)
           | None \<Rightarrow> Some (None, catalog_replace its c)))"

section \<open>The canonical digest and the generation\<close>

text \<open>\<open>std::to_string\<close> of an unsigned value.\<close>

fun nat_to_str :: "nat \<Rightarrow> string" where
  "nat_to_str n =
     (if n < 10 then [char_of (48 + n)] else nat_to_str (n div 10) @ [char_of (48 + n mod 10)])"

declare nat_to_str.simps [simp del]

definition sorted_by_route_id :: "subscription_item list \<Rightarrow> subscription_item list" where
  "sorted_by_route_id its = sort_key it_route_id its"

definition item_fields :: "subscription_item \<Rightarrow> string list" where
  "item_fields i =
     [it_route_id i, it_topic_template i, direction_to_string (it_direction i),
      nat_to_str (unat (it_qos i)), it_target i, if it_mandatory i then ''1'' else ''0'',
      case it_enabled i of None \<Rightarrow> ''-'' | Some b \<Rightarrow> if b then ''1'' else ''0'',
      it_readiness_scope i, subscription_criticality_to_string (it_criticality i)]"

fun join_with :: "string \<Rightarrow> string list \<Rightarrow> string" where
  "join_with sep [] = []"
| "join_with sep [x] = x"
| "join_with sep (x # y # zs) = x @ sep @ join_with sep (y # zs)"

definition serialize_item :: "subscription_item \<Rightarrow> string" where
  "serialize_item i = join_with ''|'' (item_fields i)"

definition canonical_items :: "subscription_item list \<Rightarrow> string" where
  "canonical_items its = concat (map (\<lambda>i. serialize_item i @ [CHR 0x0A]) (sorted_by_route_id its))"

definition compute_digest :: "hash_lib \<Rightarrow> subscription_item list \<Rightarrow> string" where
  "compute_digest h its = h_sha256_hex h (str_bytes (canonical_items its))"

definition build_snapshot ::
  "hash_lib \<Rightarrow> subscription_item list \<Rightarrow> string \<Rightarrow> u64 \<Rightarrow> string \<Rightarrow> subscription_snapshot" where
  "build_snapshot h its owner current_generation current_digest =
     (let snap = empty_snapshot_s\<lparr>ss_owner := owner, ss_items := sorted_by_route_id its,
                   ss_content_digest := compute_digest h its\<rparr>;
          snap1 = (if current_generation > 0 \<and> ss_content_digest snap = current_digest
                   then snap\<lparr>ss_generation := current_generation\<rparr>
                   else snap\<lparr>ss_generation := current_generation + 1\<rparr>)
      in snap1\<lparr>ss_registration_complete := True\<rparr>)"

section \<open>Persistence of the generation\<close>

definition kGenerationKey :: string where "kGenerationKey = ''subscriptions.generation''"
definition kDigestKey :: string where "kDigestKey = ''subscriptions.content_digest''"

text \<open>The result is the return value with \<open>generation\<close> and \<open>digest\<close> as they are left.\<close>

definition subscription_load :: "'s kv_ops \<Rightarrow> 's \<Rightarrow> bool \<times> u64 \<times> string" where
  "subscription_load kv s =
     (if \<not> kv_ready kv s then (False, 0, [])
      else if \<not> kv_has kv s kGenerationKey \<or> \<not> kv_has kv s kDigestKey then (False, 0, [])
      else (let gen_str = kv_load_or kv s kGenerationKey [];
                digest = kv_load_or kv s kDigestKey []
            in if gen_str = [] then (False, 0, digest)
               else (case stoull gen_str of
                       None \<Rightarrow> (False, 0, [])
                     | Some g \<Rightarrow> (g > 0, g, digest))))"

definition subscription_save :: "'s kv_ops \<Rightarrow> u64 \<Rightarrow> string \<Rightarrow> 's \<Rightarrow> 's" where
  "subscription_save kv generation digest s =
     (if \<not> kv_ready kv s then s
      else kv_flush kv (kv_save kv (kv_save kv s kGenerationKey (nat_to_str (unat generation)))
                          kDigestKey digest))"

section \<open>The catalogue admits valid items only\<close>

lemma validate_items_none:
  "validate_items seen its = None \<longleftrightarrow>
     (\<forall>i\<in>set its. validate_item i = None) \<and> distinct (map it_route_id its)
     \<and> set (map it_route_id its) \<inter> set seen = {}"
  by (induction its arbitrary: seen) (auto split: option.splits)

lemma catalog_validate_none:
  "catalog_validate its = None \<longleftrightarrow>
     (\<forall>i\<in>set its. validate_item i = None) \<and> distinct (map it_route_id its)"
  by (simp add: catalog_validate_def validate_items_none)

lemma parse_entries_each:
  "parse_entries es = Some (Inr its) \<longleftrightarrow> list_all2 (\<lambda>e i. parse_entry e = Some (Inr i)) es its"
proof (induction es arbitrary: its)
  case (Cons e es)
  have det: "list_all2 (\<lambda>e i. parse_entry e = Some (Inr i)) es xs \<Longrightarrow>
      list_all2 (\<lambda>e i. parse_entry e = Some (Inr i)) es ys \<Longrightarrow> xs = ys" for xs ys
    using Cons.IH [of xs] Cons.IH [of ys] by simp
  show ?case using Cons.IH by (auto simp: list_all2_Cons1 split: option.splits sum.splits dest: det)
qed auto

text \<open>
  Loading is all or nothing: either the catalogue is unchanged and an error is reported, or it
  holds exactly the items of the configuration, in order, each valid and no route id twice, and
  the counter of mandatory items is theirs.
\<close>

theorem load_all_or_nothing:
  assumes "load_from_yaml node c = Some (err, c')"
  shows "case err of
     Some e \<Rightarrow> c' = c
   | None \<Rightarrow> list_all2 (\<lambda>e i. parse_entry e = Some (Inr i)) (case node of None \<Rightarrow> [] | Some es \<Rightarrow> es) (cat_items c')
       \<and> list_all (\<lambda>i. validate_item i = None) (cat_items c') \<and> distinct (map it_route_id (cat_items c'))
       \<and> cat_mandatory_count c' = of_nat (length (filter it_mandatory (cat_items c')))"
proof -
  have count: "count_mandatory its = of_nat (length (filter it_mandatory its))" for its
    by (induction its) simp_all
  show ?thesis
    using assms
    by (auto simp: load_from_yaml_def catalog_validate_none parse_entries_each catalog_replace_def count
        list_all_iff split: option.splits sum.splits)
qed

definition entry_of :: "string \<Rightarrow> string \<Rightarrow> int \<Rightarrow> yaml_entry" where
  "entry_of rid topic q = \<lparr>ye_str = (\<lambda>k d. if k = ''route_id'' then rid else if k = ''topic_template'' then topic
       else if k = ''target'' then ''tsp.fota'' else d),
     ye_int = (\<lambda>k d. if k = ''qos'' then q else d), ye_bool = (\<lambda>k d. True), ye_enabled = None\<rparr>"

lemma load_ex:
  "load_from_yaml (Some [entry_of ''fota.uplink'' ''v/{ecu_uid}/up'' 1]) empty_catalog
     = Some (None, \<lparr>cat_items = [\<lparr>it_route_id = ''fota.uplink'', it_topic_template = ''v/{ecu_uid}/up'',
         it_direction = UP, it_qos = 1, it_target = ''tsp.fota'', it_mandatory = True, it_enabled = None,
         it_readiness_scope = [], it_criticality = OPTIONAL\<rparr>], cat_mandatory_count = 1\<rparr>)"
  by code_simp

theorem load_all_or_nothing_witness:
  "\<exists>c. load_from_yaml (Some [entry_of ''fota.uplink'' ''v/{ecu_uid}/up'' 1]) empty_catalog = Some (None, c)
     \<and> distinct (map it_route_id (cat_items c))"
  using load_all_or_nothing [OF load_ex] load_ex by auto

text \<open>
  The quality of service of the configuration is narrowed to eight bits before it is checked:
  an entry differing from a good one in \<open>qos\<close> by a multiple of 256 is loaded all the same, with
  the quality of service of the good one.
\<close>

theorem qos_checked_after_narrowing:
  assumes "parse_entry e = Some (Inr i)" and "e' = e\<lparr>ye_int := (\<lambda>k d. ye_int e k d + 256 * n)\<rparr>"
  shows "parse_entry e' = Some (Inr i)"
proof -
  have "word_of_int (ye_int e ''qos'' 1 + 256 * n) = (word_of_int (ye_int e ''qos'' 1) :: u8)"
    by (simp only: word_of_int_eq_iff) (simp add: take_bit_eq_mod)
  then have "parse_entry e' = parse_entry e"
    by (simp add: parse_entry_def assms(2) Let_def split: option.splits)
  with assms(1) show ?thesis by simp
qed

theorem qos_checked_after_narrowing_witness:
  "\<exists>i. parse_entry ((entry_of ''a'' ''t'' 1)\<lparr>ye_int := (\<lambda>k d. ye_int (entry_of ''a'' ''t'' 1) k d + 256 * 1)\<rparr>)
     = Some (Inr i)"
proof -
  obtain i where i: "parse_entry (entry_of ''a'' ''t'' 1) = Some (Inr i)"
    by (simp add: parse_entry_def entry_of_def direction_from_string_def c_toupper_def Let_def)
  show ?thesis by (rule exI, rule qos_checked_after_narrowing [OF i refl])
qed

section \<open>The digest identifies the set of items\<close>

lemma nat_to_str_digits: "list_all c_digit (nat_to_str n) \<and> nat_to_str n \<noteq> []"
proof (induction n rule: nat_to_str.induct)
  case (1 n)
  have d: "c_digit (char_of (48 + m))" if "m < 10" for m :: nat
    using that by (auto simp: c_digit_def less_eq_char_def)
  show ?case
    using 1 d by (subst (1 2) nat_to_str.simps) auto
qed

lemma int_of_char_of: "(of_char (char_of (n :: nat)) :: int) = int (n mod 256)"
  by (metis of_char_of of_nat_of_char)

lemma digits_value: "foldl (\<lambda>a c. 10 * a + (of_char c - 48)) 0 (nat_to_str n) = int n"
proof (induction n rule: nat_to_str.induct)
  case (1 n)
  have "10 * int (n div 10) + int (n mod 10) = int (10 * (n div 10) + n mod 10)"
    by (simp only: of_nat_add of_nat_mult of_nat_numeral)
  then have "10 * int (n div 10) + int (n mod 10) = int n" by (simp only: mult_div_mod_eq)
  then show ?case using 1 by (subst nat_to_str.simps) (auto simp: int_of_char_of simp del: of_nat_mod)
qed

lemma nat_to_str_inject [simp]: "nat_to_str m = nat_to_str n \<longleftrightarrow> m = n"
  by (metis digits_value of_nat_eq_iff)

lemma stoull_nat_to_str: "stoull (nat_to_str (unat w)) = Some (w :: u64)"
proof -
  have all: "list_all c_digit (nat_to_str (unat w))" and ne: "nat_to_str (unat w) \<noteq> []"
    using nat_to_str_digits by auto
  then obtain c cs where s: "nat_to_str (unat w) = c # cs" and c: "c_digit c"
    by (cases "nat_to_str (unat w)") auto
  have "\<not> c_space c" "c \<noteq> CHR ''-''" "c \<noteq> CHR ''+''"
    using c by (auto simp: c_digit_def c_space_def less_eq_char_def)
  moreover have "takeWhile c_digit (c # cs) = c # cs"
    using all s by (simp add: takeWhile_eq_all_conv list_all_iff)
  moreover have "foldl (\<lambda>a c. 10 * a + (of_char c - 48)) 0 (c # cs) = uint w"
    using digits_value [of "unat w"] s by simp
  ultimately have "strto_parts (nat_to_str (unat w)) = Some (False, uint w)"
    by (simp add: strto_parts_def s Let_def)
  moreover have "uint w < 2 ^ 64" using unsigned_less [of w] by simp
  ultimately show ?thesis by (simp add: stoull_def)
qed

text \<open>A text up to and with its terminator marks its own end.\<close>

interpretation ended: self_delimiting "\<lambda>s. s @ [c]" "\<lambda>s. c \<notin> set s" for c :: "'a"
proof unfold_locales
  fix x y r s :: "'a list"
  assume "c \<notin> set x" "c \<notin> set y" "(x @ [c]) @ r = (y @ [c]) @ s"
  then show "x = y \<and> r = s"
  proof (induction x arbitrary: y)
    case Nil
    then show ?case by (cases y) auto
  next
    case (Cons a x)
    then show ?case by (cases y) auto
  qed
qed

lemma join_ended: "xs \<noteq> [] \<Longrightarrow> join_with [c] xs @ [c] = concat (map (\<lambda>s. s @ [c]) xs)"
  by (induction "[c]" xs rule: join_with.induct) auto

definition clean_text :: "string \<Rightarrow> bool" where
  "clean_text s \<longleftrightarrow> CHR ''|'' \<notin> set s \<and> CHR 0x0A \<notin> set s"

definition clean_item :: "subscription_item \<Rightarrow> bool" where
  "clean_item i \<longleftrightarrow> clean_text (it_route_id i) \<and> clean_text (it_topic_template i)
     \<and> clean_text (it_target i) \<and> clean_text (it_readiness_scope i)"

lemma digits_clean: "clean_text (nat_to_str n)"
  using nat_to_str_digits [of n]
  by (auto simp: clean_text_def list_all_iff c_digit_def less_eq_char_def)

lemma fields_clean: "clean_item i \<Longrightarrow> \<forall>f\<in>set (item_fields i). clean_text f"
  using digits_clean [of "unat (it_qos i)"]
  by (auto simp: item_fields_def clean_item_def)
     (auto simp: clean_text_def direction_to_string_def subscription_criticality_to_string_def
       split: direction.splits criticality.splits option.splits)

lemma fields_inject: "item_fields i = item_fields j \<longleftrightarrow> i = j"
  by (cases i; cases j) (auto simp: item_fields_def word_unat_eq_iff split: if_splits option.splits)

lemma serialize_inject:
  assumes "clean_item i" "clean_item j" "serialize_item i = serialize_item j"
  shows "i = j"
proof -
  have ne: "item_fields i \<noteq> []" "item_fields j \<noteq> []" by (simp_all add: item_fields_def)
  have "concat (map (\<lambda>s. s @ [CHR ''|'']) (item_fields i)) = concat (map (\<lambda>s. s @ [CHR ''|'']) (item_fields j))"
    unfolding join_ended [OF ne(1), symmetric] join_ended [OF ne(2), symmetric]
    using assms(3) by (simp add: serialize_item_def)
  moreover have "\<forall>f\<in>set (item_fields i). CHR ''|'' \<notin> set f" "\<forall>f\<in>set (item_fields j). CHR ''|'' \<notin> set f"
    using fields_clean assms(1,2) by (auto simp: clean_text_def)
  ultimately have "item_fields i = item_fields j"
    using ended.split_all [of "CHR ''|''" "item_fields i" "item_fields j"] by simp
  then show ?thesis by (simp add: fields_inject)
qed

lemma serialize_one_line:
  assumes "clean_item i"
  shows "CHR 0x0A \<notin> set (serialize_item i)"
proof -
  have "set (serialize_item i) \<subseteq> insert CHR ''|'' (\<Union> (set ` set (item_fields i)))"
    by (simp add: serialize_item_def item_fields_def)
  then show ?thesis using fields_clean [OF assms] by (auto simp: clean_text_def)
qed

lemma canonical_inject:
  assumes "\<forall>i\<in>set xs. clean_item i" "\<forall>i\<in>set ys. clean_item i" "canonical_items xs = canonical_items ys"
  shows "sorted_by_route_id xs = sorted_by_route_id ys"
proof -
  have "map serialize_item (sorted_by_route_id xs) = map serialize_item (sorted_by_route_id ys)"
    using assms serialize_one_line
    by (intro ended.split_all [of "CHR 0x0A"])
      (auto simp: canonical_items_def sorted_by_route_id_def comp_def)
  moreover have "inj_on serialize_item (set xs \<union> set ys)"
    using assms(1,2) serialize_inject by (auto simp: inj_on_def)
  ultimately show ?thesis
    by (auto simp: sorted_by_route_id_def dest!: map_inj_on)
qed

lemma sorted_depends_on_set:
  assumes "distinct (map it_route_id xs)" "mset xs = mset ys"
  shows "sorted_by_route_id xs = sorted_by_route_id ys"
  unfolding sorted_by_route_id_def
  using assms by (intro sort_key_inj_key_eq) (simp_all add: distinct_map)

text \<open>
  The canonical text behind the digest identifies the set of items: for two catalogues with
  unique route ids and texts free of the separators it is the same exactly when one is a
  reordering of the other; then the digest and the sorted items of the snapshot agree.
\<close>

theorem canonical_text_identifies:
  assumes "distinct (map it_route_id xs)" and "distinct (map it_route_id ys)"
    and "\<forall>i\<in>set xs. clean_item i" and "\<forall>i\<in>set ys. clean_item i"
  shows "(canonical_items xs = canonical_items ys \<longleftrightarrow> mset xs = mset ys)
    \<and> (mset xs = mset ys \<longrightarrow> compute_digest h xs = compute_digest h ys
         \<and> build_snapshot h xs ow g d = build_snapshot h ys ow g d)"
proof -
  have "mset xs = mset ys" if "canonical_items xs = canonical_items ys"
    using canonical_inject [OF assms(3,4) that] by (metis mset_sort sorted_by_route_id_def)
  moreover have "canonical_items xs = canonical_items ys \<and> sorted_by_route_id xs = sorted_by_route_id ys"
    if "mset xs = mset ys"
    using sorted_depends_on_set [OF assms(1) that] by (simp add: canonical_items_def)
  ultimately show ?thesis by (auto simp: compute_digest_def build_snapshot_def Let_def)
qed

definition item_ex :: "string \<Rightarrow> string \<Rightarrow> subscription_item" where
  "item_ex rid topic = \<lparr>it_route_id = rid, it_topic_template = topic, it_direction = UP, it_qos = 1,
     it_target = ''tsp.fota'', it_mandatory = True, it_enabled = None, it_readiness_scope = [],
     it_criticality = OPTIONAL\<rparr>"

theorem canonical_text_identifies_witness:
  "canonical_items [item_ex ''a'' ''t'', item_ex ''b'' ''t''] = canonical_items [item_ex ''b'' ''t'', item_ex ''a'' ''t'']"
  using canonical_text_identifies [of "[item_ex ''a'' ''t'', item_ex ''b'' ''t'']" "[item_ex ''b'' ''t'', item_ex ''a'' ''t'']"]
  by (simp add: item_ex_def clean_item_def clean_text_def)

text \<open>
  The separator is not escaped, so the canonical text does not identify catalogues in general:
  two valid catalogues with different routes share their digest, whatever the hash function, and a
  change from one to the other keeps the generation.
\<close>

theorem digest_collides_on_separator:
  "\<exists>xs ys. catalog_validate xs = None \<and> catalog_validate ys = None
     \<and> map it_route_id xs \<noteq> map it_route_id ys
     \<and> (\<forall>h g ow. compute_digest h xs = compute_digest h ys
          \<and> ss_generation (build_snapshot h ys ow g (compute_digest h xs)) = (if g > 0 then g else 1))"
proof -
  let ?xs = "[item_ex ''a'' ''b|c'']" and ?ys = "[item_ex ''a|b'' ''c'']"
  have "canonical_items ?xs = canonical_items ?ys"
    by (simp add: canonical_items_def sorted_by_route_id_def serialize_item_def item_fields_def item_ex_def)
  moreover have "catalog_validate ?xs = None" "catalog_validate ?ys = None"
    by (simp_all add: catalog_validate_def validate_item_def item_ex_def starts_with_def)
  ultimately show ?thesis
    by (intro exI [of _ ?xs] exI [of _ ?ys])
      (auto simp: compute_digest_def build_snapshot_def item_ex_def Let_def empty_snapshot_s_def
        word_greater_zero_iff)
qed

section \<open>The stored generation\<close>

text \<open>A saved value does not disturb the values of other keys, nor does flushing.\<close>

definition kv_frame :: "'s kv_ops \<Rightarrow> bool" where
  "kv_frame kv \<longleftrightarrow>
     (\<forall>s k k' v d. kv_ready kv s \<and> k' \<noteq> k \<longrightarrow> kv_load_or kv (kv_save kv s k v) k' d = kv_load_or kv s k' d)"

lemma saved_generation:
  assumes "kv_spec kv" "kv_frame kv" "kv_ready kv s" "g > 0"
  shows "subscription_load kv (subscription_save kv g d s) = (True, g, d)"
    and "kv_ready kv (subscription_save kv g d s)"
proof -
  let ?a = "kv_save kv s kGenerationKey (nat_to_str (unat g))"
  let ?b = "kv_save kv ?a kDigestKey d"
  have k: "kGenerationKey \<noteq> kDigestKey" by (simp add: kGenerationKey_def kDigestKey_def)
  have a: "kv_ready kv ?a" "kv_has kv ?a kGenerationKey"
      "kv_load_or kv ?a kGenerationKey [] = nat_to_str (unat g)"
    using assms(1,3) unfolding kv_spec_def by blast+
  have b: "kv_ready kv ?b" "kv_has kv ?b kDigestKey" "kv_has kv ?b kGenerationKey"
      "kv_load_or kv ?b kDigestKey [] = d" "kv_load_or kv ?b kGenerationKey [] = nat_to_str (unat g)"
    using assms(1,2) a k unfolding kv_spec_def kv_frame_def by metis+
  have c: "kv_ready kv (kv_flush kv ?b)" "kv_has kv (kv_flush kv ?b) k' = kv_has kv ?b k'"
      "kv_load_or kv (kv_flush kv ?b) k' [] = kv_load_or kv ?b k' []" for k'
    using assms(1) b(1) unfolding kv_spec_def by metis+
  have "nat_to_str (unat g) \<noteq> []" using nat_to_str_digits by blast
  then show "subscription_load kv (subscription_save kv g d s) = (True, g, d)"
    using assms(3,4) b c by (simp add: subscription_save_def subscription_load_def stoull_nat_to_str)
  show "kv_ready kv (subscription_save kv g d s)"
    using assms(3) c by (simp add: subscription_save_def)
qed

text \<open>
  The stored generation survives a restart: after saving, loading reports it as persisted and
  gives back generation and digest, and building a snapshot of the same items then keeps the
  generation, while any other digest moves it on by one.
\<close>

theorem generation_survives:
  assumes "kv_spec kv" "kv_frame kv" "kv_ready kv s" "g > 0"
    and "t = subscription_save kv g (compute_digest h xs) s"
  shows "subscription_load kv t = (True, g, compute_digest h xs)
    \<and> (let (_, g', d') = subscription_load kv t in
         ss_generation (build_snapshot h ys ow g' d')
           = (if compute_digest h ys = compute_digest h xs then g else g + 1))"
  using saved_generation(1) [OF assms(1-4)] assms(4)
  by (simp add: assms(5) build_snapshot_def empty_snapshot_s_def Let_def)

lemma map_kv_frame: "kv_frame map_kv"
  by (simp add: kv_frame_def map_kv_def)

theorem generation_survives_witness:
  "subscription_load map_kv (subscription_save map_kv 3 (compute_digest toy_hash []) Map.empty)
     = (True, 3, compute_digest toy_hash [])"
  by (rule generation_survives [OF map_kv_spec map_kv_frame _ _ refl, THEN conjunct1])
    (simp_all add: map_kv_def)

end
