(* ===== verification/SubscriptionRegistrar.thy ===== *)
theory SubscriptionRegistrar
  imports SubscriptionCatalog
begin

text \<open>
  The registrar that submits the subscription snapshot to the MQTT daemon
  (src/src/subscription\_registrar.cpp) and its status holder (src/src/registration\_state.cpp).

  Clock, random numbers, connection state and the answers of
  \<open>MqttFacade::replaceSubscriptionSnapshot\<close> come from \<open>reg_env\<close>: the answer is a function of the
  number of calls made before. What is handed to the facade is logged in \<open>rg_trace\<close>, newest first.
  Each operation below is one critical section of \<open>submit_mutex_\<close> (or \<open>monitor_mutex_\<close>); the
  step relation interleaves the sections of the monitor thread with changes of the catalogue.
\<close>

datatype registration_state = NOT_REGISTERED | REGISTERING | REGISTERED | DEGRADED

record registration_status =
  st_state :: registration_state
  st_generation :: u64
  st_content_digest_hash :: string
  st_mandatory_count :: u32
  st_item_count :: u32
  st_last_result :: snapshot_status
  st_last_error :: string
  st_retry_count :: u32
  st_updated_at_ms :: u64

definition initial_status :: registration_status where
  "initial_status = \<lparr>st_state = NOT_REGISTERED, st_generation = 0, st_content_digest_hash = [],
     st_mandatory_count = 0, st_item_count = 0, st_last_result = UNKNOWN, st_last_error = [],
     st_retry_count = 0, st_updated_at_ms = 0\<rparr>"

record 's reg_env =
  re_clock :: "nat \<Rightarrow> u64"
  re_rand :: "nat \<Rightarrow> nat"
  re_connected :: "nat \<Rightarrow> bool"
  re_replace :: "nat \<Rightarrow> replace_result"
  re_kv :: "'s kv_ops"
  re_hash :: hash_lib

record 's registrar =
  rg_catalog :: catalog
  rg_store :: 's
  rg_status :: registration_status
  rg_current :: subscription_snapshot
  rg_accepted_generation :: u64
  rg_accepted_digest :: string
  rg_last_result :: replace_result
  rg_retry_count :: u32
  rg_next_retry_ms :: u64
  rg_submitted_once :: bool
  rg_running :: bool
  rg_last_connected :: bool
  rg_calls :: nat
  rg_trace :: "(subscription_snapshot \<times> replace_result) list"

definition no_result :: replace_result where
  "no_result = \<lparr>rs_status = UNKNOWN, rs_accepted_generation = 0, rs_rejected_route_ids = [], rs_reason_code = []\<rparr>"

definition new_registrar :: "catalog \<Rightarrow> 's \<Rightarrow> 's registrar" where
  "new_registrar c st = \<lparr>rg_catalog = c, rg_store = st, rg_status = initial_status,
     rg_current = empty_snapshot_s, rg_accepted_generation = 0, rg_accepted_digest = [],
     rg_last_result = no_result, rg_retry_count = 0, rg_next_retry_ms = 0,
     rg_submitted_once = False, rg_running = False, rg_last_connected = False,
     rg_calls = 0, rg_trace = []\<rparr>"

section \<open>The status holder\<close>

definition reg_now :: "'s reg_env \<Rightarrow> 's registrar \<Rightarrow> u64 \<times> 's registrar" where
  "reg_now E s = (re_clock E (rg_calls s), s\<lparr>rg_calls := rg_calls s + 1\<rparr>)"

text \<open>Every setter of the holder ends by reading the clock into \<open>updated_at_ms\<close>.\<close>

definition touch :: "'s reg_env \<Rightarrow> 's registrar \<Rightarrow> 's registrar" where
  "touch E s = (let (now, s1) = reg_now E s in s1\<lparr>rg_status := (rg_status s1)\<lparr>st_updated_at_ms := now\<rparr>\<rparr>)"

definition reg_transition_to :: "'s reg_env \<Rightarrow> registration_state \<Rightarrow> 's registrar \<Rightarrow> 's registrar" where
  "reg_transition_to E q s = touch E (s\<lparr>rg_status := (rg_status s)\<lparr>st_state := q\<rparr>\<rparr>)"

definition set_generation ::
  "'s reg_env \<Rightarrow> u64 \<Rightarrow> string \<Rightarrow> u32 \<Rightarrow> u32 \<Rightarrow> 's registrar \<Rightarrow> 's registrar" where
  "set_generation E g d mc ic s =
     touch E (s\<lparr>rg_status := (rg_status s)\<lparr>st_generation := g, st_content_digest_hash := d,
                   st_mandatory_count := mc, st_item_count := ic\<rparr>\<rparr>)"

definition set_result :: "'s reg_env \<Rightarrow> snapshot_status \<Rightarrow> string \<Rightarrow> 's registrar \<Rightarrow> 's registrar" where
  "set_result E r err s =
     touch E (s\<lparr>rg_status := (rg_status s)\<lparr>st_last_result := r, st_last_error := err\<rparr>\<rparr>)"

definition increment_retry :: "'s reg_env \<Rightarrow> 's registrar \<Rightarrow> 's registrar" where
  "increment_retry E s =
     touch E (s\<lparr>rg_status := (rg_status s)\<lparr>st_retry_count := st_retry_count (rg_status s) + 1\<rparr>\<rparr>)"

definition reset_retry :: "'s reg_env \<Rightarrow> 's registrar \<Rightarrow> 's registrar" where
  "reset_retry E s = touch E (s\<lparr>rg_status := (rg_status s)\<lparr>st_retry_count := 0\<rparr>\<rparr>)"

section \<open>Back-off\<close>

definition kBackoffInitialMs :: u32 where "kBackoffInitialMs = 200"
definition kBackoffMaxMs :: u32 where "kBackoffMaxMs = 5000"

definition jitter :: "nat \<Rightarrow> u32 \<Rightarrow> u32" where
  "jitter rand base = (if base = 0 then 0 else word_of_nat (rand mod (unat (base div 2 + 1))))"

text \<open>The loop runs \<open>i = 1, \<dots>, retry_count - 1\<close> and stops at the maximum.\<close>

fun backoff_base :: "nat \<Rightarrow> u32 \<Rightarrow> u32" where
  "backoff_base 0 base = base"
| "backoff_base (Suc n) base =
     (if base < kBackoffMaxMs
      then (let b = base * 2 in backoff_base n (if b > kBackoffMaxMs then kBackoffMaxMs else b))
      else base)"

definition reg_backoff_ms :: "nat \<Rightarrow> u32 \<Rightarrow> u32" where
  "reg_backoff_ms rand retry_count =
     (let base = backoff_base (unat retry_count - 1) kBackoffInitialMs
      in min (base + jitter rand base) kBackoffMaxMs)"

definition reg_schedule_retry :: "'s reg_env \<Rightarrow> 's registrar \<Rightarrow> 's registrar" where
  "reg_schedule_retry E s =
     (let s1 = s\<lparr>rg_retry_count := rg_retry_count s + 1\<rparr>;
          (now, s2) = reg_now E s1;
          s3 = s2\<lparr>rg_next_retry_ms := now + ucast (reg_backoff_ms (re_rand E (rg_calls s2)) (rg_retry_count s2)),
                  rg_calls := rg_calls s2 + 1\<rparr>
      in increment_retry E s3)"

section \<open>Submission\<close>

definition call_replace ::
  "'s reg_env \<Rightarrow> subscription_snapshot \<Rightarrow> 's registrar \<Rightarrow> replace_result \<times> 's registrar" where
  "call_replace E snap s =
     (let r = re_replace E (rg_calls s)
      in (r, s\<lparr>rg_calls := rg_calls s + 1, rg_trace := (snap, r) # rg_trace s\<rparr>))"

definition conflicting :: "subscription_snapshot \<Rightarrow> 's registrar \<Rightarrow> bool" where
  "conflicting snap s \<longleftrightarrow> rg_accepted_generation s = ss_generation snap \<and> rg_accepted_generation s > 0
     \<and> rg_accepted_digest s \<noteq> ss_content_digest snap"

definition reject_conflict :: "'s reg_env \<Rightarrow> 's registrar \<Rightarrow> 's registrar" where
  "reject_conflict E s =
     reg_transition_to E DEGRADED (set_result E REJECTED ''digest_conflict''
       (s\<lparr>rg_last_result := (rg_last_result s)\<lparr>rs_status := REJECTED, rs_reason_code := ''digest_conflict''\<rparr>\<rparr>))"

definition submit_accepted :: "'s reg_env \<Rightarrow> subscription_snapshot \<Rightarrow> 's registrar \<Rightarrow> 's registrar" where
  "submit_accepted E snap s =
     reg_transition_to E REGISTERED (reset_retry E (set_result E ACCEPTED []
       (s\<lparr>rg_accepted_generation := ss_generation snap, rg_accepted_digest := ss_content_digest snap,
          rg_retry_count := 0, rg_next_retry_ms := 0\<rparr>)))"

definition submit_snapshot ::
  "'s reg_env \<Rightarrow> subscription_snapshot \<Rightarrow> 's registrar \<Rightarrow> snapshot_status \<times> 's registrar" where
  "submit_snapshot E snap s =
     (if conflicting snap s then (REJECTED, reject_conflict E s)
      else (let (_, s1) = reg_now E s;
                (r, s2) = call_replace E snap s1;
                (_, s3) = reg_now E s2;
                s4 = s3\<lparr>rg_last_result := r\<rparr>
            in (rs_status r,
                case rs_status r of
                  ACCEPTED \<Rightarrow> submit_accepted E snap s4
                | UNKNOWN \<Rightarrow> increment_retry E (set_result E UNKNOWN (rs_reason_code r) s4)
                | REJECTED \<Rightarrow> increment_retry E (reg_transition_to E DEGRADED
                                (set_result E REJECTED (rs_reason_code r) s4)))))"

definition submit_or_schedule :: "'s reg_env \<Rightarrow> 's registrar \<Rightarrow> 's registrar" where
  "submit_or_schedule E s =
     (let (st, s1) = submit_snapshot E (rg_current s) (reg_transition_to E REGISTERING s)
      in if st \<noteq> ACCEPTED then reg_schedule_retry E s1 else s1)"

section \<open>The operations\<close>

definition reg_start :: "'s reg_env \<Rightarrow> bool \<Rightarrow> 's registrar \<Rightarrow> 's registrar" where
  "reg_start E start_monitor s =
     (let (_, persisted_gen, persisted_digest) = subscription_load (re_kv E) (rg_store s);
          snap = build_snapshot (re_hash E) (cat_items (rg_catalog s)) ''tsp'' persisted_gen persisted_digest;
          s1 = s\<lparr>rg_current := snap,
                 rg_store := subscription_save (re_kv E) (ss_generation snap) (ss_content_digest snap) (rg_store s)\<rparr>;
          s2 = set_generation E (ss_generation snap) (ss_content_digest snap)
                 (cat_mandatory_count (rg_catalog s1)) (word_of_nat (length (ss_items snap))) s1;
          (st, s3) = submit_snapshot E snap (reg_transition_to E REGISTERING s2);
          s4 = s3\<lparr>rg_submitted_once := True\<rparr>;
          s5 = (if st \<noteq> ACCEPTED then reg_schedule_retry E s4 else s4);
          s6 = s5\<lparr>rg_last_connected := re_connected E (rg_calls s5), rg_calls := rg_calls s5 + 1\<rparr>
      in if start_monitor then s6\<lparr>rg_running := True\<rparr> else s6)"

definition reg_stop :: "'s reg_env \<Rightarrow> 's registrar \<Rightarrow> 's registrar" where
  "reg_stop E s = reg_transition_to E NOT_REGISTERED (s\<lparr>rg_running := False\<rparr>)"

text \<open>
  The three sections of \<open>check_connection_and_retry\<close>. The control state of the thread between
  them says what the section that follows is.
\<close>

datatype phase = Idle | Reconnected | StillConnected

definition sense :: "'s reg_env \<Rightarrow> 's registrar \<Rightarrow> phase \<times> 's registrar" where
  "sense E s =
     (let connected = re_connected E (rg_calls s);
          s1 = s\<lparr>rg_calls := rg_calls s + 1\<rparr>;
          transition = (connected \<and> \<not> rg_last_connected s1);
          s2 = (if \<not> transition \<and> \<not> connected \<and> rg_last_connected s1
                then reg_transition_to E NOT_REGISTERED s1 else s1);
          s3 = s2\<lparr>rg_last_connected := connected\<rparr>
      in (if transition then Reconnected else if connected then StillConnected else Idle, s3))"

definition resubmit :: "'s reg_env \<Rightarrow> 's registrar \<Rightarrow> 's registrar" where
  "resubmit E s = submit_or_schedule E s"

definition retry_if_due :: "'s reg_env \<Rightarrow> 's registrar \<Rightarrow> 's registrar" where
  "retry_if_due E s =
     (if st_state (rg_status s) \<noteq> REGISTERED
      then (let (now, s1) = reg_now E s
            in if now \<ge> rg_next_retry_ms s1 then submit_or_schedule E s1 else s1)
      else s)"

definition check_connection_and_retry :: "'s reg_env \<Rightarrow> 's registrar \<Rightarrow> 's registrar" where
  "check_connection_and_retry E s =
     (case sense E s of
        (Reconnected, s1) \<Rightarrow> resubmit E s1
      | (StillConnected, s1) \<Rightarrow> retry_if_due E s1
      | (Idle, s1) \<Rightarrow> s1)"

definition switch_to :: "'s reg_env \<Rightarrow> subscription_item list \<Rightarrow> subscription_snapshot \<Rightarrow> 's registrar \<Rightarrow> 's registrar" where
  "switch_to E items cand s =
     (let s1 = s\<lparr>rg_catalog := catalog_replace items (rg_catalog s), rg_current := cand,
                 rg_store := subscription_save (re_kv E) (ss_generation cand) (ss_content_digest cand) (rg_store s)\<rparr>
      in set_generation E (ss_generation cand) (ss_content_digest cand)
           (cat_mandatory_count (rg_catalog s1)) (word_of_nat (length (ss_items cand))) s1)"

definition apply_catalog_change :: "'s reg_env \<Rightarrow> subscription_item list \<Rightarrow> 's registrar \<Rightarrow> bool \<times> 's registrar" where
  "apply_catalog_change E items s =
     (case catalog_validate items of
        Some _ \<Rightarrow> (False, s)
      | None \<Rightarrow>
         (let (_, persisted_gen, persisted_digest) = subscription_load (re_kv E) (rg_store s);
              cand = build_snapshot (re_hash E) items ''tsp'' persisted_gen persisted_digest
          in if ss_content_digest cand = ss_content_digest (rg_current s) then (True, s)
             else (let (st, s1) = submit_snapshot E cand (reg_transition_to E REGISTERING s)
                   in (True,
                       case st of
                         ACCEPTED \<Rightarrow> switch_to E items cand s1
                       | UNKNOWN \<Rightarrow> reg_schedule_retry E (switch_to E items cand s1)
                       | REJECTED \<Rightarrow> reg_schedule_retry E s1))))"

definition is_registration_ready :: "'s registrar \<Rightarrow> bool" where
  "is_registration_ready s \<longleftrightarrow> rg_submitted_once s"

inductive reg_step :: "'s reg_env \<Rightarrow> 's registrar \<times> phase \<Rightarrow> 's registrar \<times> phase \<Rightarrow> bool" for E where
  r_sense: "sense E s = (p, t) \<Longrightarrow> reg_step E (s, Idle) (t, p)"
| r_resubmit: "reg_step E (s, Reconnected) (resubmit E s, Idle)"
| r_retry: "reg_step E (s, StillConnected) (retry_if_due E s, Idle)"
| r_change: "reg_step E (s, p) (snd (apply_catalog_change E items s), p)"
| r_stop: "reg_step E (s, Idle) (reg_stop E s, Idle)"

section \<open>What the helpers leave alone\<close>

lemma touch_frame [simp]:
  "rg_catalog (touch E s) = rg_catalog s" "rg_store (touch E s) = rg_store s"
  "rg_current (touch E s) = rg_current s" "rg_accepted_generation (touch E s) = rg_accepted_generation s"
  "rg_accepted_digest (touch E s) = rg_accepted_digest s" "rg_last_result (touch E s) = rg_last_result s"
  "rg_retry_count (touch E s) = rg_retry_count s" "rg_next_retry_ms (touch E s) = rg_next_retry_ms s"
  "rg_submitted_once (touch E s) = rg_submitted_once s" "rg_trace (touch E s) = rg_trace s"
  "rg_last_connected (touch E s) = rg_last_connected s" "rg_running (touch E s) = rg_running s"
  "st_state (rg_status (touch E s)) = st_state (rg_status s)"
  "st_retry_count (rg_status (touch E s)) = st_retry_count (rg_status s)"
  "st_generation (rg_status (touch E s)) = st_generation (rg_status s)"
  "st_content_digest_hash (rg_status (touch E s)) = st_content_digest_hash (rg_status s)"
  "st_last_result (rg_status (touch E s)) = st_last_result (rg_status s)"
  by (simp_all add: touch_def reg_now_def)

lemmas holder_defs = reg_transition_to_def set_generation_def set_result_def increment_retry_def
  reset_retry_def reg_now_def

lemmas submit_defs = submit_snapshot_def call_replace_def submit_accepted_def reject_conflict_def
  holder_defs

lemma schedule_frame [simp]:
  "rg_catalog (reg_schedule_retry E s) = rg_catalog s" "rg_store (reg_schedule_retry E s) = rg_store s"
  "rg_current (reg_schedule_retry E s) = rg_current s"
  "rg_accepted_generation (reg_schedule_retry E s) = rg_accepted_generation s"
  "rg_accepted_digest (reg_schedule_retry E s) = rg_accepted_digest s"
  "rg_last_result (reg_schedule_retry E s) = rg_last_result s" "rg_trace (reg_schedule_retry E s) = rg_trace s"
  "rg_submitted_once (reg_schedule_retry E s) = rg_submitted_once s"
  "rg_last_connected (reg_schedule_retry E s) = rg_last_connected s"
  "st_state (rg_status (reg_schedule_retry E s)) = st_state (rg_status s)"
  "st_generation (rg_status (reg_schedule_retry E s)) = st_generation (rg_status s)"
  "st_content_digest_hash (rg_status (reg_schedule_retry E s)) = st_content_digest_hash (rg_status s)"
  by (simp_all add: reg_schedule_retry_def holder_defs Let_def)

lemma submit_frame [simp]:
  "rg_catalog (snd (submit_snapshot E c s)) = rg_catalog s" "rg_store (snd (submit_snapshot E c s)) = rg_store s"
  "rg_current (snd (submit_snapshot E c s)) = rg_current s"
  "rg_submitted_once (snd (submit_snapshot E c s)) = rg_submitted_once s"
  "rg_last_connected (snd (submit_snapshot E c s)) = rg_last_connected s"
  "st_generation (rg_status (snd (submit_snapshot E c s))) = st_generation (rg_status s)"
  "st_content_digest_hash (rg_status (snd (submit_snapshot E c s))) = st_content_digest_hash (rg_status s)"
  by (simp_all add: submit_defs Let_def split: snapshot_status.split)

lemma submit_keeps:
  assumes "submit_snapshot E c s = (st, t)"
  shows "rg_catalog t = rg_catalog s" "rg_store t = rg_store s" "rg_current t = rg_current s"
    "st_generation (rg_status t) = st_generation (rg_status s)"
    "st_content_digest_hash (rg_status t) = st_content_digest_hash (rg_status s)"
  using submit_frame [of E c s] assms by simp_all

lemma switch_frame [simp]:
  "rg_current (switch_to E its c s) = c" "rg_catalog (switch_to E its c s) = catalog_replace its (rg_catalog s)"
  "rg_store (switch_to E its c s) = subscription_save (re_kv E) (ss_generation c) (ss_content_digest c) (rg_store s)"
  "rg_accepted_generation (switch_to E its c s) = rg_accepted_generation s"
  "rg_accepted_digest (switch_to E its c s) = rg_accepted_digest s"
  "st_state (rg_status (switch_to E its c s)) = st_state (rg_status s)" "rg_trace (switch_to E its c s) = rg_trace s"
  "st_generation (rg_status (switch_to E its c s)) = ss_generation c"
  "st_content_digest_hash (rg_status (switch_to E its c s)) = ss_content_digest c"
  by (simp_all add: switch_to_def set_generation_def)

lemma reg_transition_frame [simp]:
  "rg_catalog (reg_transition_to E q s) = rg_catalog s" "rg_store (reg_transition_to E q s) = rg_store s"
  "rg_current (reg_transition_to E q s) = rg_current s"
  "rg_accepted_generation (reg_transition_to E q s) = rg_accepted_generation s"
  "rg_accepted_digest (reg_transition_to E q s) = rg_accepted_digest s"
  "st_state (rg_status (reg_transition_to E q s)) = q" "rg_trace (reg_transition_to E q s) = rg_trace s"
  "st_generation (rg_status (reg_transition_to E q s)) = st_generation (rg_status s)"
  "st_content_digest_hash (rg_status (reg_transition_to E q s)) = st_content_digest_hash (rg_status s)"
  "rg_last_connected (reg_transition_to E q s) = rg_last_connected s"
  by (simp_all add: reg_transition_to_def)

text \<open>The three outcomes of a submission.\<close>

lemma submit_cases:
  assumes "submit_snapshot E c s = (st, t)"
  shows "st = ACCEPTED \<Longrightarrow> rg_accepted_generation t = ss_generation c \<and> rg_accepted_digest t = ss_content_digest c
           \<and> st_state (rg_status t) = REGISTERED"
    and "st = UNKNOWN \<Longrightarrow> rg_accepted_generation t = rg_accepted_generation s
           \<and> rg_accepted_digest t = rg_accepted_digest s \<and> st_state (rg_status t) = st_state (rg_status s)"
    and "st = REJECTED \<Longrightarrow> rg_accepted_generation t = rg_accepted_generation s
           \<and> rg_accepted_digest t = rg_accepted_digest s \<and> st_state (rg_status t) = DEGRADED"
    and "rg_trace t = (if conflicting c s then rg_trace s else (c, re_replace E (rg_calls s + 1)) # rg_trace s)"
    and "\<not> conflicting c s \<Longrightarrow> st = rs_status (re_replace E (rg_calls s + 1)) \<and> rg_last_result t = re_replace E (rg_calls s + 1)"
  using assms
  by (auto simp: submit_defs Let_def split: if_splits snapshot_status.splits)

section \<open>Registered means accepted\<close>

text \<open>
  What holds of the registrar between its critical sections: REGISTERED stands for an accepted
  submission of the current snapshot, which is that of the catalogue and shown in the status.
\<close>

definition registered_inv :: "hash_lib \<Rightarrow> 's registrar \<Rightarrow> bool" where
  "registered_inv h s \<longleftrightarrow>
     (st_state (rg_status s) = REGISTERED \<longrightarrow>
        rg_accepted_generation s = ss_generation (rg_current s)
        \<and> rg_accepted_digest s = ss_content_digest (rg_current s))
     \<and> ss_content_digest (rg_current s) = compute_digest h (cat_items (rg_catalog s))
     \<and> ss_items (rg_current s) = sorted_by_route_id (cat_items (rg_catalog s))
     \<and> ss_owner (rg_current s) = ''tsp''
     \<and> st_generation (rg_status s) = ss_generation (rg_current s)
     \<and> st_content_digest_hash (rg_status s) = ss_content_digest (rg_current s)"

lemma built [simp]:
  "ss_content_digest (build_snapshot h xs ow g d) = compute_digest h xs"
  "ss_items (build_snapshot h xs ow g d) = sorted_by_route_id xs"
  "ss_owner (build_snapshot h xs ow g d) = ow"
  by (simp_all add: build_snapshot_def Let_def)

lemma inv_submit_or_schedule:
  assumes "registered_inv h s"
  shows "registered_inv h (submit_or_schedule E s)"
proof -
  obtain st t where t: "submit_snapshot E (rg_current s) (reg_transition_to E REGISTERING s) = (st, t)"
    by fastforce
  note f = submit_keeps [OF t]
  show ?thesis
    using assms f submit_cases(1-3) [OF t]
    by (cases st) (simp_all add: submit_or_schedule_def t registered_inv_def)
qed

lemma inv_sense: "sense E s = (p, t) \<Longrightarrow> registered_inv h s \<Longrightarrow> registered_inv h t"
  by (auto simp: sense_def registered_inv_def Let_def split: if_splits)

lemma inv_retry: "registered_inv h s \<Longrightarrow> registered_inv h (retry_if_due E s)"
  using inv_submit_or_schedule [of h "s\<lparr>rg_calls := rg_calls s + 1\<rparr>" E]
  by (simp add: retry_if_due_def reg_now_def registered_inv_def)

lemma apply_runs:
  assumes "catalog_validate its = None" "subscription_load (re_kv E) (rg_store s) = (b, g, d)"
    and "submit_snapshot E (build_snapshot (re_hash E) its ''tsp'' g d) (reg_transition_to E REGISTERING s) = (st, t)"
  shows "apply_catalog_change E its s =
    (True, if compute_digest (re_hash E) its = ss_content_digest (rg_current s) then s
       else case st of
         ACCEPTED \<Rightarrow> switch_to E its (build_snapshot (re_hash E) its ''tsp'' g d) t
       | UNKNOWN \<Rightarrow> reg_schedule_retry E (switch_to E its (build_snapshot (re_hash E) its ''tsp'' g d) t)
       | REJECTED \<Rightarrow> reg_schedule_retry E t)"
  using assms by (simp add: apply_catalog_change_def Let_def)

lemma inv_change:
  assumes "registered_inv (re_hash E) s"
  shows "registered_inv (re_hash E) (snd (apply_catalog_change E its s))"
proof (cases "catalog_validate its")
  case None
  obtain b g d where l: "subscription_load (re_kv E) (rg_store s) = (b, g, d)" by (metis prod_cases3)
  let ?c = "build_snapshot (re_hash E) its ''tsp'' g d"
  obtain st t where t: "submit_snapshot E ?c (reg_transition_to E REGISTERING s) = (st, t)" by fastforce
  show ?thesis
    using assms submit_keeps [OF t] submit_cases(1-3) [OF t]
    by (cases st) (simp_all add: apply_runs [OF None l t] registered_inv_def catalog_replace_def)
qed (use assms in \<open>simp add: apply_catalog_change_def\<close>)

lemma reg_step_inv:
  "reg_step E x y \<Longrightarrow> registered_inv (re_hash E) (fst x) \<Longrightarrow> registered_inv (re_hash E) (fst y)"
proof (induction rule: reg_step.induct)
  case (r_stop s)
  then show ?case by (simp add: reg_stop_def registered_inv_def)
qed (auto simp: resubmit_def intro: inv_sense inv_submit_or_schedule inv_retry inv_change)

interpretation registered: step_invariant "reg_step E" "\<lambda>x. registered_inv (re_hash E) (fst x)" for E
  by unfold_locales (rule reg_step_inv)

lemma start_inv: "registered_inv (re_hash E) (reg_start E m s)"
proof -
  obtain b g d where l: "subscription_load (re_kv E) (rg_store s) = (b, g, d)" by (metis prod_cases3)
  let ?c = "build_snapshot (re_hash E) (cat_items (rg_catalog s)) ''tsp'' g d"
  let ?u = "reg_transition_to E REGISTERING (set_generation E (ss_generation ?c) (ss_content_digest ?c)
     (cat_mandatory_count (rg_catalog s)) (word_of_nat (length (ss_items ?c)))
     (s\<lparr>rg_current := ?c, rg_store := subscription_save (re_kv E) (ss_generation ?c) (ss_content_digest ?c) (rg_store s)\<rparr>))"
  obtain st t where t: "submit_snapshot E ?c ?u = (st, t)" by fastforce
  note f = submit_keeps [OF t]
  show ?thesis
    using f submit_cases(1-3) [OF t] t
    by (cases st) (simp_all add: reg_start_def l registered_inv_def Let_def set_generation_def)
qed



definition lab_items :: "subscription_item list" where
  "lab_items = [item_ex ''fota.uplink'' ''v/{ecu_uid}/up'']"

definition answering :: "snapshot_status \<Rightarrow> (string \<rightharpoonup> string) reg_env" where
  "answering r = \<lparr>re_clock = (\<lambda>i. 1000), re_rand = (\<lambda>i. 0), re_connected = (\<lambda>i. True),
     re_replace = (\<lambda>i. no_result\<lparr>rs_status := r\<rparr>), re_kv = map_kv, re_hash = toy_hash\<rparr>"

lemma accepted_start:
  assumes "re_replace E = (\<lambda>_. r)" "rs_status r = ACCEPTED" "rg_accepted_generation s = 0"
  shows "st_state (rg_status (reg_start E m s)) = REGISTERED"
  using assms(2,3)
  by (simp add: reg_start_def submit_defs conflicting_def touch_def Let_def assms(1) split: prod.split)


section \<open>A change of the catalogue\<close>



section \<open>Generations and the store\<close>

text \<open>The store holds generation and digest of the current snapshot.\<close>

definition stored_current :: "'s reg_env \<Rightarrow> 's registrar \<Rightarrow> bool" where
  "stored_current E s \<longleftrightarrow> kv_ready (re_kv E) (rg_store s) \<and> ss_generation (rg_current s) > 0
     \<and> subscription_load (re_kv E) (rg_store s) = (True, ss_generation (rg_current s), ss_content_digest (rg_current s))"

text \<open>
  With a working store a change never runs into the digest conflict: while the store holds the
  current generation and no higher one was accepted, a change to a valid catalogue with another
  digest is handed to the daemon under the next generation, and if the daemon does not refuse it
  the store holds the new generation and both facts hold again.
\<close>

theorem change_reaches_daemon:
  assumes "kv_spec (re_kv E)" "kv_frame (re_kv E)" "stored_current E s"
    and "rg_accepted_generation s \<le> ss_generation (rg_current s)" "ss_generation (rg_current s) \<noteq> - 1"
    and "catalog_validate its = None" "compute_digest (re_hash E) its \<noteq> ss_content_digest (rg_current s)"
    and "t = snd (apply_catalog_change E its s)"
  shows "\<exists>c r. rg_trace t = (c, r) # rg_trace s \<and> ss_generation c = ss_generation (rg_current s) + 1
      \<and> ss_content_digest c = compute_digest (re_hash E) its
      \<and> stored_current E t \<and> rg_accepted_generation t \<le> ss_generation (rg_current t)"
proof -
  let ?g = "ss_generation (rg_current s)" and ?d = "ss_content_digest (rg_current s)"
  let ?c = "build_snapshot (re_hash E) its ''tsp'' ?g ?d"
  have l: "subscription_load (re_kv E) (rg_store s) = (True, ?g, ?d)" and r: "kv_ready (re_kv E) (rg_store s)"
    using assms(3) by (simp_all add: stored_current_def)
  have g: "ss_generation ?c = ?g + 1" using assms(7) by (simp add: build_snapshot_def)
  have lt: "?g < ?g + 1" using assms(5) unat_inc_less [of ?g "- 1"]
    by (simp add: word_order.not_eq_extremum word_less_nat_alt)
  obtain st u where u: "submit_snapshot E ?c (reg_transition_to E REGISTERING s) = (st, u)" by fastforce
  have nc: "\<not> conflicting ?c (reg_transition_to E REGISTERING s)"
    using assms(4) g lt by (auto simp: conflicting_def)
  have g0: "ss_generation ?c > 0" using lt g by (metis word_gt_0 word_not_simps(1))
  have sv: "subscription_load (re_kv E) (subscription_save (re_kv E) (ss_generation ?c) (compute_digest (re_hash E) its) (rg_store s))
      = (True, ss_generation ?c, compute_digest (re_hash E) its)"
    and rd: "kv_ready (re_kv E) (subscription_save (re_kv E) (ss_generation ?c) (compute_digest (re_hash E) its) (rg_store s))"
    using saved_generation [OF assms(1,2) r g0] by simp_all
  show ?thesis
    using submit_keeps [OF u] submit_cases(1-4) [OF u] nc assms(3,4,7) g g0 lt sv rd
    by (cases st) (auto simp: assms(8) apply_runs [OF assms(6) l u] stored_current_def)
qed

definition running_registrar :: "(string \<rightharpoonup> string) registrar" where
  "running_registrar = (new_registrar empty_catalog (subscription_save map_kv 1 (compute_digest toy_hash []) Map.empty))
     \<lparr>rg_current := build_snapshot toy_hash [] ''tsp'' 1 (compute_digest toy_hash [])\<rparr>"

lemma lab_items_valid: "catalog_validate lab_items = None"
  by (simp add: lab_items_def catalog_validate_def validate_item_def item_ex_def starts_with_def)

lemma lab_digest_new: "compute_digest toy_hash lab_items \<noteq> compute_digest toy_hash []"
  by code_simp

theorem change_reaches_daemon_witness:
  "rg_trace (snd (apply_catalog_change (answering UNKNOWN) lab_items running_registrar)) \<noteq> []"
proof -
  have m: "re_kv (answering UNKNOWN) = map_kv" "re_hash (answering UNKNOWN) = toy_hash"
    by (simp_all add: answering_def)
  have r: "kv_ready map_kv s" for s by (simp add: map_kv_def)
  have c: "rg_current running_registrar = build_snapshot toy_hash [] ''tsp'' 1 (compute_digest toy_hash [])"
    "rg_store running_registrar = subscription_save map_kv 1 (compute_digest toy_hash []) Map.empty"
    "rg_accepted_generation running_registrar = 0"
    by (simp_all add: running_registrar_def new_registrar_def)
  have g: "ss_generation (rg_current running_registrar) = 1"
    by (simp add: c build_snapshot_def)
  have "subscription_load map_kv (subscription_save map_kv 1 (compute_digest toy_hash []) Map.empty)
      = (True, 1, compute_digest toy_hash [])"
    by (rule saved_generation(1) [OF map_kv_spec map_kv_frame r]) simp
  then have "stored_current (answering UNKNOWN) running_registrar"
    using g by (simp add: stored_current_def m c r)
  then show ?thesis
    using change_reaches_daemon [of "answering UNKNOWN" running_registrar lab_items _, OF _ _ _ _ _ _ _ refl]
      map_kv_spec map_kv_frame g lab_items_valid lab_digest_new
    by (auto simp: m c)
qed

text \<open>
  Without a working store the generation is not kept, not even in memory: once the snapshot of
  the start was accepted (as generation 1), every change to another valid catalogue is refused as
  a digest conflict without a word to the daemon, catalogue and snapshot stay as they are and the
  state is DEGRADED, although the change is reported as done.
\<close>

theorem lost_store_blocks_changes:
  assumes "\<And>s. \<not> kv_ready (re_kv E) s"
    and "s = reg_start E m (new_registrar c st)" and "rg_accepted_generation s = 1"
    and "catalog_validate its = None"
    and "compute_digest (re_hash E) its \<noteq> compute_digest (re_hash E) (cat_items c)"
  shows "fst (apply_catalog_change E its s)
    \<and> (let t = snd (apply_catalog_change E its s) in
        rg_trace t = rg_trace s \<and> rg_catalog t = rg_catalog s \<and> rg_current t = rg_current s
        \<and> st_state (rg_status t) = DEGRADED \<and> rs_reason_code (rg_last_result t) = ''digest_conflict'')"
proof -
  let ?first = "build_snapshot (re_hash E) (cat_items c) ''tsp'' 0 []"
  let ?c = "build_snapshot (re_hash E) its ''tsp'' 0 []"
  have l: "subscription_load (re_kv E) x = (False, 0, [])" for x
    using assms(1) by (simp add: subscription_load_def)
  have gen: "ss_generation (build_snapshot h x ow 0 d) = 1" for h x ow d by (simp add: build_snapshot_def Let_def)
  define u where "u = reg_transition_to E REGISTERING (set_generation E 1 (ss_content_digest ?first)
      (cat_mandatory_count c) (word_of_nat (length (ss_items ?first)))
      ((new_registrar c st)\<lparr>rg_current := ?first,
         rg_store := subscription_save (re_kv E) 1 (ss_content_digest ?first) st\<rparr>))"
  obtain r v where v: "submit_snapshot E ?first u = (r, v)" by fastforce
  have s: "rg_accepted_generation s = rg_accepted_generation v" "rg_accepted_digest s = rg_accepted_digest v"
    "rg_current s = rg_current v"
    using v by (simp_all add: assms(2) reg_start_def new_registrar_def l gen u_def Let_def)
  have u0: "rg_accepted_generation u = 0" "rg_current u = ?first"
    by (simp_all add: u_def set_generation_def new_registrar_def)
  have dig: "rg_accepted_digest s = compute_digest (re_hash E) (cat_items c)"
    using submit_cases(1-3) [OF v] s(1,2) u0(1) assms(3) gen by (cases r) auto
  have cur: "rg_current s = ?first" using submit_keeps(3) [OF v] u0(2) s(3) by simp
  have "conflicting ?c (reg_transition_to E REGISTERING s)"
    using assms(3,5) dig gen by (simp add: conflicting_def reg_transition_to_def)
  then have sub: "submit_snapshot E ?c (reg_transition_to E REGISTERING s)
      = (REJECTED, reject_conflict E (reg_transition_to E REGISTERING s))"
    by (simp add: submit_snapshot_def)
  show ?thesis
    using assms(5) cur
    by (simp add: apply_runs [OF assms(4) l sub] reject_conflict_def set_result_def reg_transition_to_def)
qed

definition no_kv :: "unit kv_ops" where
  "no_kv = \<lparr>kv_ready = (\<lambda>s. False), kv_has = (\<lambda>s k. False), kv_load_or = (\<lambda>s k d. d),
     kv_save = (\<lambda>s k v. s), kv_flush = (\<lambda>s. s), kv_remove = (\<lambda>s k. s)\<rparr>"

definition storeless :: "unit reg_env" where
  "storeless = \<lparr>re_clock = (\<lambda>i. 1000), re_rand = (\<lambda>i. 0), re_connected = (\<lambda>i. True),
     re_replace = (\<lambda>i. no_result\<lparr>rs_status := ACCEPTED\<rparr>), re_kv = no_kv, re_hash = toy_hash\<rparr>"

lemma storeless_accepts:
  "rg_accepted_generation (reg_start storeless False (new_registrar empty_catalog ())) = 1"
  by (simp add: reg_start_def submit_defs conflicting_def storeless_def new_registrar_def
      subscription_load_def no_kv_def build_snapshot_def Let_def split: prod.split)

theorem lost_store_blocks_changes_witness:
  "fst (apply_catalog_change storeless lab_items (reg_start storeless False (new_registrar empty_catalog ())))"
  by (rule lost_store_blocks_changes [OF _ refl storeless_accepts, THEN conjunct1])
    (use lab_items_valid lab_digest_new in \<open>simp_all add: storeless_def no_kv_def empty_catalog_def\<close>)

section \<open>Retries\<close>

lemma backoff_base_bounds:
  "200 \<le> unat b \<Longrightarrow> unat b \<le> 5000 \<Longrightarrow> 200 \<le> unat (backoff_base n b) \<and> unat (backoff_base n b) \<le> 5000"
proof (induction n arbitrary: b)
  case (Suc n)
  have "unat (b * 2) = unat b * 2"
    using Suc.prems by (simp add: unat_word_ariths)
  with Suc show ?case
    by (auto simp: Let_def kBackoffMaxMs_def word_less_nat_alt)
qed simp

text \<open>
  The back-off after any number of failures lies between the initial 200 ms and the maximum of
  5000 ms, jitter included, and from the sixth failure on it is the maximum.
\<close>

theorem backoff_bounds:
  "200 \<le> unat (reg_backoff_ms rand n) \<and> unat (reg_backoff_ms rand n) \<le> 5000
   \<and> (unat n < 6 \<or> reg_backoff_ms rand n = 5000)"
proof -
  let ?b = "backoff_base (unat n - 1) kBackoffInitialMs"
  have b: "200 \<le> unat ?b" "unat ?b \<le> 5000"
    using backoff_base_bounds [of kBackoffInitialMs] by (simp_all add: kBackoffInitialMs_def)
  define j where "j = rand mod unat (?b div 2 + 1)"
  have dv: "unat (?b div 2 + 1) = unat ?b div 2 + 1"
    using b by (simp add: unat_word_ariths unat_div)
  have jl: "j \<le> unat ?b div 2"
    unfolding j_def dv by (metis Suc_eq_plus1 less_Suc_eq_le mod_less_divisor zero_less_Suc)
  have "?b \<noteq> 0" using b by auto
  then have bo: "reg_backoff_ms rand n = min (?b + word_of_nat j) kBackoffMaxMs"
    by (simp add: reg_backoff_ms_def jitter_def j_def Let_def)
  have "unat (?b + word_of_nat j) = unat ?b + j"
    using b jl by (simp add: unat_word_ariths unat_of_nat)
  then have r: "200 \<le> unat (reg_backoff_ms rand n)" "unat (reg_backoff_ms rand n) \<le> 5000"
    using b unfolding bo by (auto simp: min_def kBackoffMaxMs_def word_le_nat_alt)
  have full: "backoff_base k 5000 = 5000" for k
    by (induction k) (simp_all add: kBackoffMaxMs_def)
  have "reg_backoff_ms rand n = 5000" if "unat n \<ge> 6"
  proof -
    have "unat n - 1 = Suc (Suc (Suc (Suc (Suc (unat n - 6)))))" using that by simp
    then have "?b = 5000"
      by (simp add: kBackoffInitialMs_def kBackoffMaxMs_def full Let_def)
    then show ?thesis using r(2) bo \<open>unat (?b + word_of_nat j) = unat ?b + j\<close>
      by (auto simp: min_def kBackoffMaxMs_def word_le_nat_alt)
  qed
  then have "unat n < 6 \<or> reg_backoff_ms rand n = 5000" by linarith
  with r show ?thesis by blast
qed

text \<open>
  A connection check with no connection hands nothing to the daemon and, when the connection
  was there before, shows NOT\_REGISTERED while catalogue, snapshot and store stay as they are.
\<close>

theorem disconnected_is_quiet:
  assumes "\<not> re_connected E (rg_calls s)"
  shows "rg_trace (check_connection_and_retry E s) = rg_trace s
    \<and> rg_current (check_connection_and_retry E s) = rg_current s
    \<and> rg_catalog (check_connection_and_retry E s) = rg_catalog s
    \<and> rg_store (check_connection_and_retry E s) = rg_store s
    \<and> st_state (rg_status (check_connection_and_retry E s))
        = (if rg_last_connected s then NOT_REGISTERED else st_state (rg_status s))"
  using assms by (simp add: check_connection_and_retry_def sense_def Let_def)

theorem disconnected_is_quiet_witness:
  "st_state (rg_status (check_connection_and_retry ((answering ACCEPTED)\<lparr>re_connected := \<lambda>_. False\<rparr>)
     (running_registrar\<lparr>rg_last_connected := True\<rparr>))) = NOT_REGISTERED"
  using disconnected_is_quiet [of "(answering ACCEPTED)\<lparr>re_connected := \<lambda>_. False\<rparr>"
      "running_registrar\<lparr>rg_last_connected := True\<rparr>"] by simp

text \<open>
  Registration is re-established: a check that finds the connection (again), with the back-off
  over and a daemon that accepts, ends REGISTERED for the current snapshot with the retry counters
  cleared, unless the snapshot is in conflict with the one accepted last.
\<close>

theorem check_registers:
  assumes "re_connected E (rg_calls s)" "\<not> conflicting (rg_current s) s"
    and "\<And>i. rs_status (re_replace E i) = ACCEPTED" "\<And>i. re_clock E i \<ge> rg_next_retry_ms s"
    and "t = check_connection_and_retry E s"
  shows "st_state (rg_status t) = REGISTERED
    \<and> (st_state (rg_status s) = REGISTERED \<and> rg_last_connected s
       \<or> rg_accepted_generation t = ss_generation (rg_current s) \<and> rg_retry_count t = 0
         \<and> st_retry_count (rg_status t) = 0 \<and> rg_next_retry_ms t = 0)"
proof -
  have go: "st_state (rg_status (submit_or_schedule E u)) = REGISTERED"
      "rg_accepted_generation (submit_or_schedule E u) = ss_generation (rg_current s)"
      "rg_retry_count (submit_or_schedule E u) = 0"
      "st_retry_count (rg_status (submit_or_schedule E u)) = 0"
      "rg_next_retry_ms (submit_or_schedule E u) = 0"
    if "rg_current u = rg_current s" "rg_accepted_generation u = rg_accepted_generation s"
      "rg_accepted_digest u = rg_accepted_digest s" for u
  proof -
    have "\<not> conflicting (rg_current s) (reg_transition_to E REGISTERING u)"
      using assms(2) that by (simp add: conflicting_def)
    then have "submit_or_schedule E u = submit_accepted E (rg_current s)
        (snd (reg_now E (snd (call_replace E (rg_current s) (snd (reg_now E (reg_transition_to E REGISTERING u))))))
           \<lparr>rg_last_result := re_replace E (rg_calls (reg_transition_to E REGISTERING u) + 1)\<rparr>)"
      using that(1) assms(3)
      by (simp add: submit_or_schedule_def submit_snapshot_def call_replace_def reg_now_def Let_def)
    then show "st_state (rg_status (submit_or_schedule E u)) = REGISTERED"
      "rg_accepted_generation (submit_or_schedule E u) = ss_generation (rg_current s)"
      "rg_retry_count (submit_or_schedule E u) = 0"
      "st_retry_count (rg_status (submit_or_schedule E u)) = 0"
      "rg_next_retry_ms (submit_or_schedule E u) = 0"
      by (simp_all add: submit_accepted_def holder_defs)
  qed
  show ?thesis
    using assms(1,4)
    by (simp add: assms(5) check_connection_and_retry_def sense_def resubmit_def retry_if_due_def reg_now_def
        go Let_def)
qed

theorem check_registers_witness:
  "st_state (rg_status (check_connection_and_retry (answering ACCEPTED) running_registrar)) = REGISTERED"
  by (rule check_registers [OF _ _ _ _ refl, THEN conjunct1])
    (simp_all add: answering_def running_registrar_def new_registrar_def conflicting_def)

text \<open>
  The retry counter of the status counts a failed submission twice: after a check whose
  submission the daemon refused or left open, the counter of the status has grown by two where the
  registrar's own counter has grown by one.
\<close>

theorem failures_counted_twice:
  assumes "re_connected E (rg_calls s)" "\<not> rg_last_connected s" "\<not> conflicting (rg_current s) s"
    and "\<And>i. rs_status (re_replace E i) \<noteq> ACCEPTED" and "t = check_connection_and_retry E s"
  shows "rg_retry_count t = rg_retry_count s + 1
    \<and> st_retry_count (rg_status t) = st_retry_count (rg_status s) + 2"
proof -
  let ?u = "reg_transition_to E REGISTERING (s\<lparr>rg_calls := rg_calls s + 1, rg_last_connected := True\<rparr>)"
  have nc: "\<not> conflicting (rg_current s) ?u"
    using assms(3) by (simp add: conflicting_def)
  have "t = submit_or_schedule E (s\<lparr>rg_calls := rg_calls s + 1, rg_last_connected := True\<rparr>)"
    using assms(1,2) by (simp add: assms(5) check_connection_and_retry_def sense_def resubmit_def Let_def)
  moreover have "rs_status (re_replace E (rg_calls (snd (reg_now E ?u)))) \<noteq> ACCEPTED" using assms(4) by simp
  ultimately show ?thesis
    using nc assms(4)
    by (cases "rs_status (re_replace E (rg_calls (snd (reg_now E ?u))))")
      (simp_all add: submit_or_schedule_def submit_snapshot_def call_replace_def Let_def reg_now_def,
       simp_all add: reg_schedule_retry_def holder_defs Let_def)
qed

theorem failures_counted_twice_witness:
  "st_retry_count (rg_status (check_connection_and_retry (answering REJECTED) running_registrar)) = 2"
  using failures_counted_twice [of "answering REJECTED" running_registrar, OF _ _ _ _ refl]
  by (simp add: answering_def running_registrar_def new_registrar_def conflicting_def initial_status_def)

end
