(* ===== verification/DownlinkRoute.thy ===== *)
theory DownlinkRoute
  imports TspPrelude
begin

text \<open>
  The dispatcher of routed downlinks (src/src/downlink\_route\_dispatcher.cpp): a map from the
  joined key of owner, route id and target to a handler. Handlers are abstract values here; the
  caller runs the one found.
\<close>

definition route_key :: "string \<Rightarrow> string \<Rightarrow> string \<Rightarrow> string" where
  "route_key owner route_id target = owner @ ''/'' @ route_id @ ''/'' @ target"

type_synonym 'h dispatcher = "string \<rightharpoonup> 'h"

definition register_handler ::
  "string \<Rightarrow> string \<Rightarrow> string \<Rightarrow> 'h \<Rightarrow> 'h dispatcher \<Rightarrow> 'h dispatcher" where
  "register_handler owner route_id target handler d = d(route_key owner route_id target \<mapsto> handler)"

text \<open>The handler that runs, or \<open>None\<close>: the downlink is refused.\<close>

definition dispatch :: "string \<Rightarrow> string \<Rightarrow> string \<Rightarrow> 'h dispatcher \<Rightarrow> 'h option" where
  "dispatch owner route_id target d = d (route_key owner route_id target)"

definition plain_part :: "string \<Rightarrow> bool" where
  "plain_part s \<longleftrightarrow> CHR ''/'' \<notin> set s"

lemma split_at_slash:
  "CHR ''/'' \<notin> set a \<Longrightarrow> CHR ''/'' \<notin> set b \<Longrightarrow> a @ ''/'' @ x = b @ ''/'' @ y \<longleftrightarrow> a = b \<and> x = y"
proof (induction a arbitrary: b)
  case Nil
  then show ?case by (cases b) auto
next
  case (Cons c a)
  then show ?case by (cases b) auto
qed

lemma route_key_inject:
  assumes "plain_part a" "plain_part b" "plain_part a'" "plain_part b'"
  shows "route_key a b c = route_key a' b' c' \<longleftrightarrow> a = a' \<and> b = b' \<and> c = c'"
  using assms split_at_slash by (auto simp: route_key_def plain_part_def)

text \<open>
  A downlink reaches the handler registered last for exactly its owner, route id and target,
  and no other: for names without a slash a registration changes the outcome for its own triple
  only, and with nothing registered every downlink is refused.
\<close>

theorem dispatch_exact:
  assumes "plain_part ow" "plain_part ri" "plain_part ow'" "plain_part ri'"
  shows "dispatch ow' ri' ta' (register_handler ow ri ta h d)
      = (if (ow', ri', ta') = (ow, ri, ta) then Some h else dispatch ow' ri' ta' d)
    \<and> dispatch ow' ri' ta' (Map.empty :: 'h dispatcher) = None"
  using route_key_inject [OF assms(3,4,1,2)] by (simp add: dispatch_def register_handler_def)

theorem dispatch_exact_witness:
  "dispatch ''tsp'' ''keyprov.downlink'' ''tsp.keyprov''
     (register_handler ''tsp'' ''fota.downlink'' ''tsp.fota'' (1::nat) Map.empty) = None"
  using dispatch_exact [of "''tsp''" "''fota.downlink''" "''tsp''" "''keyprov.downlink''"
      "''tsp.keyprov''" "''tsp.fota''" "1::nat" Map.empty]
  by (auto simp: plain_part_def)

text \<open>
  The key does not mark where its parts end: a downlink whose names contain a slash reaches a
  handler registered for another triple.
\<close>

theorem dispatch_confuses_slashes:
  "dispatch ''tsp'' ''fota'' ''x/tsp.fota'' (register_handler ''tsp'' ''fota/x'' ''tsp.fota'' h d) = Some h"
  by (simp add: dispatch_def register_handler_def route_key_def)

end
