(* ===== verification/EventPublisher.thy ===== *)
theory EventPublisher
  imports KeyprovStore
begin

text \<open>
  The publisher of downlink events to subscribed clients (src/src/tsp\_event\_publisher.cpp):
  a queue bounded per service, filled by the MQTT callback and emptied by one worker thread.

  The push and subscriber callbacks answer from \<open>push_env\<close>, by the number of calls made before;
  base64 and JSON output are library functions. \<open>ep_enqueued\<close>, \<open>ep_taken\<close> and \<open>ep_pushed\<close> record
  history, oldest first. Outputting JSON is total here: the library throws on a string that is
  not UTF-8, which the code does not handle.
\<close>

definition kEventVehicleMessage :: u32 where "kEventVehicleMessage = 102"

record vehicle_event =
  vm_service :: string
  vm_envelope_bytes :: bytes
  vm_trace_id :: string
  vm_request_id :: string

datatype slow_subscriber_policy = KDisconnect | KDrop | KReject

record push_env =
  pe_has_subscriber :: "(nat \<Rightarrow> bool) option"
  pe_push :: "(nat \<Rightarrow> bool) option"
  pe_base64 :: "bytes \<Rightarrow> string"
  pe_json :: json_lib

record publisher =
  ep_queue_capacity :: u32
  ep_policy :: slow_subscriber_policy
  ep_queue :: "vehicle_event list"
  ep_service_count :: "string \<Rightarrow> nat"
  ep_running :: bool
  ep_calls :: nat
  ep_enqueued :: "vehicle_event list"
  ep_taken :: "vehicle_event list"
  ep_pushed :: "(u32 \<times> string \<times> bool) list"

definition new_publisher :: "u32 \<Rightarrow> slow_subscriber_policy \<Rightarrow> publisher" where
  "new_publisher queue_size policy =
     \<lparr>ep_queue_capacity = (if queue_size = 0 then 256 else queue_size), ep_policy = policy, ep_queue = [],
      ep_service_count = (\<lambda>_. 0), ep_running = False, ep_calls = 0, ep_enqueued = [], ep_taken = [],
      ep_pushed = []\<rparr>"

definition encode_vehicle_message :: "push_env \<Rightarrow> vehicle_event \<Rightarrow> string" where
  "encode_vehicle_message E ev =
     js_dump (pe_json E) (jobj
       ([(''service'', JStr (vm_service ev)),
         (''envelope_base64'', JStr (pe_base64 E (vm_envelope_bytes ev)))]
        @ (if vm_trace_id ev \<noteq> [] then [(''trace_id'', JStr (vm_trace_id ev))] else [])
        @ (if vm_request_id ev \<noteq> [] then [(''request_id'', JStr (vm_request_id ev))] else [])))"

definition publisher_start :: "publisher \<Rightarrow> publisher" where
  "publisher_start p = p\<lparr>ep_running := True\<rparr>"

definition publisher_stop :: "publisher \<Rightarrow> publisher" where
  "publisher_stop p = p\<lparr>ep_running := False\<rparr>"

definition publish_vehicle_message ::
  "string \<Rightarrow> bytes \<Rightarrow> string \<Rightarrow> string \<Rightarrow> publisher \<Rightarrow> bool \<times> publisher" where
  "publish_vehicle_message service envelope_bytes trace_id request_id p =
     (let svc_count = ep_service_count p service in
      if svc_count \<ge> unat (ep_queue_capacity p)
      then (case ep_policy p of
              KReject \<Rightarrow> (False, p)
            | KDrop \<Rightarrow> (True, p)
            | KDisconnect \<Rightarrow> (True, p))
      else (let ev = \<lparr>vm_service = service, vm_envelope_bytes = envelope_bytes,
                      vm_trace_id = trace_id, vm_request_id = request_id\<rparr>
            in (True, p\<lparr>ep_queue := ep_queue p @ [ev],
                        ep_service_count := (ep_service_count p)(service := svc_count + 1),
                        ep_enqueued := ep_enqueued p @ [ev]\<rparr>)))"

text \<open>
  One turn of the worker: the section under the lock takes the front of the queue; what follows
  runs without the lock. \<open>Waiting\<close>: the condition variable blocks it; \<open>Ended\<close>: the loop breaks.
\<close>

datatype taken = Waiting | Ended | Taken vehicle_event publisher

definition take_event :: "publisher \<Rightarrow> taken" where
  "take_event p =
     (case ep_queue p of
        [] \<Rightarrow> if ep_running p then Waiting else Ended
      | ev # q \<Rightarrow>
          Taken ev (p\<lparr>ep_queue := q,
            ep_service_count :=
              (if ep_service_count p (vm_service ev) > 0
               then (ep_service_count p)(vm_service ev := ep_service_count p (vm_service ev) - 1)
               else ep_service_count p),
            ep_taken := ep_taken p @ [ev]\<rparr>))"

definition deliver_event :: "push_env \<Rightarrow> vehicle_event \<Rightarrow> publisher \<Rightarrow> publisher" where
  "deliver_event E ev p =
     (case pe_has_subscriber E of
        Some f \<Rightarrow> if \<not> f (ep_calls p) then p\<lparr>ep_calls := ep_calls p + 1\<rparr>
                  else (let p1 = p\<lparr>ep_calls := ep_calls p + 1\<rparr> in
                        case pe_push E of
                          None \<Rightarrow> p1
                        | Some g \<Rightarrow> p1\<lparr>ep_calls := ep_calls p1 + 1,
                            ep_pushed := ep_pushed p1 @ [(kEventVehicleMessage, encode_vehicle_message E ev, g (ep_calls p1))]\<rparr>)
      | None \<Rightarrow>
          (case pe_push E of
             None \<Rightarrow> p
           | Some g \<Rightarrow> p\<lparr>ep_calls := ep_calls p + 1,
               ep_pushed := ep_pushed p @ [(kEventVehicleMessage, encode_vehicle_message E ev, g (ep_calls p))]\<rparr>))"

text \<open>
  The loop with fuel: \<open>None\<close> when the fuel ran out, otherwise how it came to rest (\<open>True\<close>: it
  ended, \<open>False\<close>: it waits for an event).
\<close>

fun worker_loop :: "push_env \<Rightarrow> nat \<Rightarrow> publisher \<Rightarrow> (bool \<times> publisher) option" where
  "worker_loop E 0 p = None"
| "worker_loop E (Suc n) p =
     (case take_event p of
        Waiting \<Rightarrow> Some (False, p)
      | Ended \<Rightarrow> Some (True, p)
      | Taken ev p1 \<Rightarrow> worker_loop E n (deliver_event E ev p1))"

text \<open>Every interleaving of the callback with the worker, which holds at most one event.\<close>

inductive publisher_step :: "push_env \<Rightarrow> publisher \<times> vehicle_event option \<Rightarrow> publisher \<times> vehicle_event option \<Rightarrow> bool"
  for E where
  ps_publish: "publisher_step E (p, h) (snd (publish_vehicle_message sv b t r p), h)"
| ps_take: "take_event p = Taken ev p1 \<Longrightarrow> publisher_step E (p, None) (p1, Some ev)"
| ps_deliver: "publisher_step E (p, Some ev) (deliver_event E ev p, None)"
| ps_start: "publisher_step E (p, h) (publisher_start p, h)"
| ps_stop: "publisher_step E (p, h) (publisher_stop p, h)"

section \<open>Bounded, counted, in order\<close>

definition of_service :: "string \<Rightarrow> vehicle_event list \<Rightarrow> vehicle_event list" where
  "of_service sv = filter (\<lambda>ev. vm_service ev = sv)"

lemma of_service_simps [simp]:
  "of_service sv [] = []"
  "of_service sv (ev # evs) = (if vm_service ev = sv then ev # of_service sv evs else of_service sv evs)"
  "of_service sv (xs @ ys) = of_service sv xs @ of_service sv ys"
  by (simp_all add: of_service_def)

definition publisher_inv :: "u32 \<Rightarrow> publisher \<Rightarrow> bool" where
  "publisher_inv cap p \<longleftrightarrow> ep_queue_capacity p = cap
     \<and> (\<forall>sv. ep_service_count p sv = length (of_service sv (ep_queue p)))
     \<and> (\<forall>sv. length (of_service sv (ep_queue p)) \<le> unat cap)
     \<and> ep_enqueued p = ep_taken p @ ep_queue p"

lemma inv_publish:
  "publisher_inv cap p \<Longrightarrow> publisher_inv cap (snd (publish_vehicle_message sv b t r p))"
  by (auto simp: publish_vehicle_message_def publisher_inv_def Let_def not_le split: slow_subscriber_policy.split)

lemma inv_take:
  assumes "take_event p = Taken ev p1" "publisher_inv cap p"
  shows "publisher_inv cap p1"
proof (cases "ep_queue p")
  case (Cons e q)
  then have "length (of_service sv q) \<le> unat cap" for sv
    using assms(2) by (auto simp: publisher_inv_def dest: spec [of _ sv] split: if_splits)
  then show ?thesis
    using assms Cons by (auto simp: take_event_def publisher_inv_def)
qed (use assms in \<open>simp add: take_event_def split: if_splits\<close>)

lemma deliver_frame [simp]:
  "ep_queue (deliver_event E ev p) = ep_queue p" "ep_service_count (deliver_event E ev p) = ep_service_count p"
  "ep_queue_capacity (deliver_event E ev p) = ep_queue_capacity p" "ep_running (deliver_event E ev p) = ep_running p"
  "ep_enqueued (deliver_event E ev p) = ep_enqueued p" "ep_taken (deliver_event E ev p) = ep_taken p"
  by (simp_all add: deliver_event_def Let_def split: option.split)

lemma publisher_inv_kept:
  "publisher_step E x y \<Longrightarrow> publisher_inv cap (fst x) \<Longrightarrow> publisher_inv cap (fst y)"
  by (induction rule: publisher_step.induct)
    (auto intro: inv_publish inv_take, simp_all add: publisher_inv_def publisher_start_def publisher_stop_def)

interpretation publishing: step_invariant "publisher_step E" "\<lambda>x. publisher_inv cap (fst x)" for E cap
  by unfold_locales (rule publisher_inv_kept)

text \<open>
  In every interleaving of the MQTT callback with the worker each service has at most the
  configured number of events in the queue, the counter of the service is their number, and the
  worker takes the events in exactly the order in which they were accepted, none lost or repeated.
\<close>

theorem queue_bounded_and_fifo:
  assumes "(publisher_step E)\<^sup>*\<^sup>* (new_publisher queue_size policy, None) (p, h)"
  shows "length (of_service sv (ep_queue p)) \<le> unat (if queue_size = 0 then 256 else queue_size)
    \<and> ep_service_count p sv = length (of_service sv (ep_queue p))
    \<and> ep_enqueued p = ep_taken p @ ep_queue p"
proof -
  have "publisher_inv (if queue_size = 0 then 256 else queue_size) (new_publisher queue_size policy)"
    by (simp add: publisher_inv_def new_publisher_def)
  with publishing.run [OF assms, of "if queue_size = 0 then 256 else queue_size"] show ?thesis
    by (simp add: publisher_inv_def)
qed

definition lab_push :: push_env where
  "lab_push = \<lparr>pe_has_subscriber = Some (\<lambda>_. True), pe_push = Some (\<lambda>_. True),
     pe_base64 = (\<lambda>b. ''AQ==''), pe_json = toy_json JNull\<rparr>"

theorem queue_bounded_and_fifo_witness:
  "length (of_service ''a'' (ep_queue (snd (publish_vehicle_message ''a'' [1] [] [] (new_publisher 0 KDrop))))) \<le> 256"
proof -
  have "(publisher_step lab_push)\<^sup>*\<^sup>* (new_publisher 0 KDrop, None)
      (snd (publish_vehicle_message ''a'' [1] [] [] (new_publisher 0 KDrop)), None)"
    by (rule r_into_rtranclp) (rule ps_publish)
  from queue_bounded_and_fifo [OF this, THEN conjunct1, of "''a''"] show ?thesis by simp
qed

section \<open>Stopping drains the queue\<close>

text \<open>
  After stop the worker empties the queue and ends: with one unit of fuel more than events
  queued the loop returns and has taken every event, in order.
\<close>

theorem stop_drains:
  assumes "length (ep_queue p) < n"
  shows "\<exists>q. worker_loop E n (publisher_stop p) = Some (True, q) \<and> ep_queue q = []
    \<and> ep_taken q = ep_taken p @ ep_queue p"
proof -
  have "\<not> ep_running p \<Longrightarrow> length (ep_queue p) < n \<Longrightarrow>
      \<exists>q. worker_loop E n p = Some (True, q) \<and> ep_queue q = [] \<and> ep_taken q = ep_taken p @ ep_queue p" for p
  proof (induction n arbitrary: p)
    case (Suc n)
    show ?case
    proof (cases "take_event p")
      case (Taken ev p1)
      then have p1: "\<not> ep_running p1" "ep_queue p = ev # ep_queue p1" "ep_taken p1 = ep_taken p @ [ev]"
        using Suc.prems by (auto simp: take_event_def split: list.splits if_splits)
      then show ?thesis
        using Suc.IH [of "deliver_event E ev p1"] Suc.prems Taken by simp
    qed (use Suc.prems in \<open>auto simp: take_event_def split: list.splits if_splits\<close>)
  qed simp
  from this [of "publisher_stop p"] assms show ?thesis by (simp add: publisher_stop_def)
qed

theorem stop_drains_witness:
  "\<exists>q. worker_loop lab_push 2 (publisher_stop (snd (publish_vehicle_message ''a'' [1] [] [] (new_publisher 1 KReject))))
     = Some (True, q) \<and> ep_queue q = []"
  using stop_drains [of "snd (publish_vehicle_message ''a'' [1] [] [] (new_publisher 1 KReject))" 2 lab_push]
  by (auto simp: publish_vehicle_message_def new_publisher_def Let_def)

text \<open>
  What a full queue does is the policy's choice, and only \<open>kReject\<close> tells the caller: the queue
  is unchanged in every case, but with \<open>kDrop\<close> and \<open>kDisconnect\<close> the call reports success.
\<close>

theorem full_queue:
  assumes "ep_service_count p sv \<ge> unat (ep_queue_capacity p)"
  shows "publish_vehicle_message sv b t r p = (ep_policy p \<noteq> KReject, p)"
  using assms by (cases "ep_policy p") (simp_all add: publish_vehicle_message_def)

theorem full_queue_witness:
  "publish_vehicle_message ''a'' [1] [] [] ((new_publisher 1 KDrop)\<lparr>ep_service_count := \<lambda>_. 1\<rparr>)
     = (True, (new_publisher 1 KDrop)\<lparr>ep_service_count := \<lambda>_. 1\<rparr>)"
  using full_queue [of "(new_publisher 1 KDrop)\<lparr>ep_service_count := \<lambda>_. 1\<rparr>" "''a''" "[1]" "[]" "[]"]
  by (simp add: new_publisher_def)

end
