(* ===== verification/GatewayModel.thy ===== *)
theory GatewayModel
  imports CoordState DownlinkRoute EventPublisher
begin

text \<open>
  The vehicle message gateway (src/include/vehicle\_message\_gateway.h,
  src/src/vehicle\_message\_gateway.cpp): validation of envelopes, the blocking exchange with its
  table of correlations, the completion by downlink responses, the sweep of expired
  correlations, start and stop.

  Many threads run here: one per exchange, the MQTT callback, the sweep workers, the one that
  stops. The state holds the shared objects and, per exchange and per downlink in progress, where
  its thread is; each operation below is one critical section (or an atomic access), and
  \<open>gw_step\<close> interleaves them. A correlation entry is shared by pointer between the table, its
  exchange and the callback: entries live in the list \<open>gw_entries\<close>, a pointer is an index. The
  sweep holds the table lock throughout and the lock of one entry at a time; as it visits each
  entry once, it is one step.

  \<open>gw_clock\<close> is the steady clock in milliseconds, which only time steps move. Envelope parsing
  is the function \<open>parse_envelope\<close>, \<open>std::hash\<close> the parameter of the sweep; the wall clock and the
  answer of \<open>publishRoute\<close> are parameters of the steps. \<open>gw_matched\<close> records which downlink
  response was matched to which entry.
\<close>

section \<open>Outcomes, options, configuration\<close>

datatype transport_outcome =
    ToAccepted | ToRejected | ToTimeout | ToUnknown | ToUnavailable | ToVersionMismatch
  | ToPayloadTooLarge | ToProtocolError | ToStopping

definition transport_outcome_to_string :: "transport_outcome \<Rightarrow> string" where
  "transport_outcome_to_string o' =
     (case o' of ToAccepted \<Rightarrow> ''Accepted'' | ToRejected \<Rightarrow> ''Rejected'' | ToTimeout \<Rightarrow> ''Timeout''
      | ToUnknown \<Rightarrow> ''Unknown'' | ToUnavailable \<Rightarrow> ''Unavailable''
      | ToVersionMismatch \<Rightarrow> ''VersionMismatch'' | ToPayloadTooLarge \<Rightarrow> ''PayloadTooLarge''
      | ToProtocolError \<Rightarrow> ''ProtocolError'' | ToStopping \<Rightarrow> ''Stopping'')"

definition kPublishFailed :: int where "kPublishFailed = 1001"
definition kResponseConflict :: int where "kResponseConflict = 1003"
definition kFrameTooLarge :: int where "kFrameTooLarge = 2002"
definition kUnknownOutcome :: int where "kUnknownOutcome = 2005"

record exchange_options =
  xo_timeout_ms :: int
  xo_max_response_bytes :: nat

record exchange_result =
  xr_outcome :: transport_outcome
  xr_value :: "bytes option"
  xr_error_code :: int
  xr_error :: string

record gateway_config =
  gc_allowed_services :: "string list"
  gc_allowed_protocol_versions :: "string list"
  gc_max_envelope_bytes :: u32
  gc_max_payload_bytes :: u32
  gc_max_in_flight :: u32
  gc_downlink_queue_capacity :: u32
  gc_worker_count :: u32
  gc_default_exchange_timeout_ms :: u32

definition default_gateway_config :: gateway_config where
  "default_gateway_config = \<lparr>gc_allowed_services = [''vehicle.fota''],
     gc_allowed_protocol_versions = [''fota-v1''], gc_max_envelope_bytes = 16384,
     gc_max_payload_bytes = 8192, gc_max_in_flight = 64, gc_downlink_queue_capacity = 256,
     gc_worker_count = 1, gc_default_exchange_timeout_ms = 2500\<rparr>"

section \<open>Validation of an envelope\<close>

record envelope_validation =
  va_ok :: bool
  va_outcome :: transport_outcome
  va_reason :: string
  va_service :: string
  va_payload_type :: string
  va_message_kind :: int
  va_message_id :: string
  va_correlation_id :: string
  va_payload_size :: u32
  va_expired :: bool

definition new_validation :: envelope_validation where
  "new_validation = \<lparr>va_ok = False, va_outcome = ToProtocolError, va_reason = [], va_service = [],
     va_payload_type = [], va_message_kind = MESSAGE_KIND_UNSPECIFIED, va_message_id = [],
     va_correlation_id = [], va_payload_size = 0, va_expired = False\<rparr>"

definition ident_start :: "char \<Rightarrow> bool" where
  "ident_start c \<longleftrightarrow> CHR ''A'' \<le> c \<and> c \<le> CHR ''Z'' \<or> CHR ''a'' \<le> c \<and> c \<le> CHR ''z'' \<or> c = CHR ''_''"

definition ident_char :: "char \<Rightarrow> bool" where
  "ident_char c \<longleftrightarrow> ident_start c \<or> CHR ''0'' \<le> c \<and> c \<le> CHR ''9''"

definition payload_type_in_capability :: "string \<Rightarrow> string \<Rightarrow> bool" where
  "payload_type_in_capability service payload_type =
     (let prefix = service @ ''.v1.'' in
      if length payload_type \<le> length prefix then False
      else if take (length prefix) payload_type \<noteq> prefix then False
      else (let name = drop (length prefix) payload_type
            in name \<noteq> [] \<and> ident_start (hd name) \<and> list_all ident_char (tl name)))"

definition fail_with :: "transport_outcome \<Rightarrow> string \<Rightarrow> envelope_validation \<Rightarrow> envelope_validation" where
  "fail_with o' reason v = v\<lparr>va_outcome := o', va_reason := reason\<rparr>"

definition expired_at :: "int \<Rightarrow> vehicle_envelope \<Rightarrow> bool" where
  "expired_at wall_ms env \<longleftrightarrow>
     (case ve_expire_at_ms env of None \<Rightarrow> False | Some e \<Rightarrow> e > 0 \<and> wall_ms \<ge> e)"

definition validate_ids :: "vehicle_envelope \<Rightarrow> envelope_validation \<Rightarrow> envelope_validation" where
  "validate_ids env v =
     (let v1 = v\<lparr>va_message_id := ve_message_id env\<rparr> in
      if va_message_id v1 = [] then fail_with ToProtocolError ''message_id_missing'' v1
      else if va_message_kind v1 = MESSAGE_KIND_RESPONSE
        then (let v2 = v1\<lparr>va_correlation_id := (case ve_correlation_id env of None \<Rightarrow> [] | Some c \<Rightarrow> c)\<rparr> in
              if va_correlation_id v2 = [] then fail_with ToProtocolError ''correlation_id_missing'' v2
              else v2\<lparr>va_ok := True\<rparr>)
        else v1\<lparr>va_ok := True\<rparr>)"

definition validate_content ::
  "gateway_config \<Rightarrow> int \<Rightarrow> vehicle_envelope \<Rightarrow> envelope_validation \<Rightarrow> envelope_validation" where
  "validate_content cfg wall_ms env v =
     (let v1 = v\<lparr>va_service := ve_service env\<rparr> in
      if va_service v1 \<notin> set (gc_allowed_services cfg)
        then fail_with ToProtocolError ''service_not_allowed'' v1
      else (let v2 = v1\<lparr>va_payload_type := ve_payload_type env\<rparr> in
        if \<not> payload_type_in_capability (va_service v2) (va_payload_type v2)
          then fail_with ToVersionMismatch ''payload_type_not_supported'' v2
        else (let v3 = v2\<lparr>va_payload_size := word_of_nat (length (ve_payload env))\<rparr> in
          if va_payload_size v3 > gc_max_payload_bytes cfg
            then fail_with ToPayloadTooLarge ''payload_exceeds_max_bytes'' v3
          else if expired_at wall_ms env
            then fail_with ToRejected ''ttl_expired'' (v3\<lparr>va_expired := True\<rparr>)
          else validate_ids env v3)))"

definition validate_envelope ::
  "pb_codec \<Rightarrow> gateway_config \<Rightarrow> int \<Rightarrow> bytes \<Rightarrow> bool \<Rightarrow> envelope_validation" where
  "validate_envelope pb cfg wall_ms raw expect_request =
     (let v = new_validation in
      if length raw = 0 then fail_with ToProtocolError ''empty_envelope'' v
      else if length raw > unat (gc_max_envelope_bytes cfg)
        then fail_with ToPayloadTooLarge ''envelope_exceeds_max_bytes'' v
      else (case parse_envelope pb raw of
              None \<Rightarrow> fail_with ToProtocolError ''envelope_parse_failed'' v
            | Some env \<Rightarrow>
                if ve_protocol_version env \<notin> set (gc_allowed_protocol_versions cfg)
                  then fail_with ToVersionMismatch ''protocol_version_unsupported'' v
                else (let v1 = v\<lparr>va_message_kind := ve_message_kind env\<rparr> in
                  if va_message_kind v1 = MESSAGE_KIND_UNSPECIFIED
                    then fail_with ToProtocolError ''message_kind_unspecified'' v1
                  else if expect_request \<and> va_message_kind v1 \<noteq> MESSAGE_KIND_REQUEST
                    then fail_with ToProtocolError ''expected_request'' v1
                  else if \<not> expect_request \<and> va_message_kind v1 = MESSAGE_KIND_REQUEST
                    then fail_with ToProtocolError ''illegal_downlink_request'' v1
                  else validate_content cfg wall_ms env v1)))"

section \<open>The state\<close>

record correlation =
  ce_message_id :: string
  ce_service :: string
  ce_deadline :: int
  ce_max_response_bytes :: nat
  ce_mqtt_accepted :: bool
  ce_outcome :: transport_outcome
  ce_response :: bytes
  ce_terminal :: bool
  ce_completed_at :: int

record transport_counters =
  tc_request_total :: u64
  tc_request_published :: u64
  tc_response_completed :: u64
  tc_response_rejected :: u64
  tc_event_forwarded :: u64
  tc_event_dropped :: u64
  tc_exchange_timeout :: u64
  tc_envelope_invalid :: u64

definition no_transport_counters :: transport_counters where
  "no_transport_counters = \<lparr>tc_request_total = 0, tc_request_published = 0, tc_response_completed = 0,
     tc_response_rejected = 0, tc_event_forwarded = 0, tc_event_dropped = 0, tc_exchange_timeout = 0,
     tc_envelope_invalid = 0\<rparr>"

text \<open>Where an exchange is; \<open>Prepared\<close> and later stages refer to its entry by index.\<close>

datatype stage =
    Prepared | Publishing | Refusing bool | Published | Waiting_response
  | Closing transport_outcome bytes | Returned exchange_result

record exchange_call =
  xc_entry :: nat
  xc_stage :: stage

text \<open>A downlink response between the look-up of its entry and the completion.\<close>

record matched_response =
  mr_entry :: nat
  mr_service :: string
  mr_correlation_id :: string
  mr_expired :: bool
  mr_bytes :: bytes

text \<open>A routed downlink with the identifiers the events carry on (src/include/mqtt\_facade.h).\<close>

record downlink =
  dl_owner :: string
  dl_route_id :: string
  dl_target :: string
  dl_payload :: bytes
  dl_request_id :: string
  dl_trace_id :: string

datatype downlink_handler = VehicleHandler | RegisteredHandler nat

record gateway =
  gw_config :: gateway_config
  gw_running :: bool
  gw_stopping :: bool
  gw_workers :: nat
  gw_clock :: int
  gw_entries :: "correlation list"
  gw_table :: "(string \<times> nat) list"
  gw_recent :: "(string \<times> int) list"
  gw_calls :: "exchange_call list"
  gw_pending :: "matched_response list"
  gw_dispatcher :: "downlink_handler dispatcher option"
  gw_publisher :: "publisher option"
  gw_counters :: transport_counters
  gw_matched :: "matched_response list"

definition new_gateway :: gateway where
  "new_gateway = \<lparr>gw_config = default_gateway_config, gw_running = False, gw_stopping = False,
     gw_workers = 0, gw_clock = 0, gw_entries = [], gw_table = [], gw_recent = [], gw_calls = [],
     gw_pending = [], gw_dispatcher = None, gw_publisher = None, gw_counters = no_transport_counters,
     gw_matched = []\<rparr>"

definition count_tc :: "(transport_counters \<Rightarrow> transport_counters) \<Rightarrow> gateway \<Rightarrow> gateway" where
  "count_tc f s = s\<lparr>gw_counters := f (gw_counters s)\<rparr>"

definition set_entry :: "nat \<Rightarrow> correlation \<Rightarrow> gateway \<Rightarrow> gateway" where
  "set_entry i e s = s\<lparr>gw_entries := (gw_entries s)[i := e]\<rparr>"

definition set_stage :: "nat \<Rightarrow> stage \<Rightarrow> gateway \<Rightarrow> gateway" where
  "set_stage k st s = s\<lparr>gw_calls := (gw_calls s)[k := (gw_calls s ! k)\<lparr>xc_stage := st\<rparr>]\<rparr>"

text \<open>\<open>unordered_map::erase\<close> and \<open>operator[]\<close> assignment.\<close>

definition erase_key :: "string \<Rightarrow> (string \<times> 'v) list \<Rightarrow> (string \<times> 'v) list" where
  "erase_key k m = filter (\<lambda>kv. fst kv \<noteq> k) m"

definition put_key :: "string \<Rightarrow> 'v \<Rightarrow> (string \<times> 'v) list \<Rightarrow> (string \<times> 'v) list" where
  "put_key k v m = (k, v) # erase_key k m"

section \<open>Life cycle\<close>

definition gw_initialize :: "bool \<Rightarrow> gateway_config \<Rightarrow> gateway \<Rightarrow> bool \<times> gateway" where
  "gw_initialize has_mqtt config s =
     (if \<not> has_mqtt then (False, s)
      else (let s1 = s\<lparr>gw_config := config\<rparr> in
            (gc_allowed_services config \<noteq> [] \<and> gc_default_exchange_timeout_ms config \<noteq> 0, s1)))"

definition gw_start :: "gateway \<Rightarrow> gateway" where
  "gw_start s =
     (if gw_running s then s
      else s\<lparr>gw_running := True, gw_stopping := False,
             gw_dispatcher := Some (register_handler ''tsp'' ''fota.downlink'' ''tsp.fota'' VehicleHandler Map.empty),
             gw_workers := max 1 (unat (gc_worker_count (gw_config s)))\<rparr>)"

text \<open>
  Stopping, in its three parts: the flags; the completion of what is in flight, under the table
  lock; and, after the workers are joined, the clearing.
\<close>

definition stop_begin :: "gateway \<Rightarrow> gateway" where
  "stop_begin s = (if gw_running s then s\<lparr>gw_running := False, gw_stopping := True\<rparr> else s)"

definition stop_entry :: "int \<Rightarrow> correlation \<Rightarrow> correlation" where
  "stop_entry now e =
     (if \<not> ce_terminal e
      then e\<lparr>ce_outcome := ToStopping, ce_terminal := True, ce_completed_at := now\<rparr> else e)"

definition stop_mark :: "gateway \<Rightarrow> gateway" where
  "stop_mark s =
     s\<lparr>gw_entries := fold (\<lambda>kv es. es[snd kv := stop_entry (gw_clock s) (es ! snd kv)]) (gw_table s) (gw_entries s)\<rparr>"

definition stop_clear :: "gateway \<Rightarrow> gateway" where
  "stop_clear s = s\<lparr>gw_workers := 0, gw_dispatcher := None, gw_table := [], gw_recent := []\<rparr>"

definition set_event_publisher :: "publisher option \<Rightarrow> gateway \<Rightarrow> gateway" where
  "set_event_publisher p s = s\<lparr>gw_publisher := p\<rparr>"

definition register_downlink_handler :: "string \<Rightarrow> string \<Rightarrow> string \<Rightarrow> nat \<Rightarrow> gateway \<Rightarrow> gateway" where
  "register_downlink_handler owner route_id target h s =
     (case gw_dispatcher s of
        None \<Rightarrow> s
      | Some d \<Rightarrow> s\<lparr>gw_dispatcher := Some (register_handler owner route_id target (RegisteredHandler h) d)\<rparr>)"

end
