(* ===== verification/GatewayExchange.thy ===== *)
theory GatewayExchange
  imports GatewayModel
begin

text \<open>
  The operations of the gateway on its correlations: the stages of an exchange, the handling of a
  routed downlink, the sweep, and the step relation that interleaves them all.
\<close>

section \<open>The exchange\<close>

definition failed_result :: "transport_outcome \<Rightarrow> int \<Rightarrow> string \<Rightarrow> exchange_result" where
  "failed_result o' code err = \<lparr>xr_outcome = o', xr_value = None, xr_error_code = code, xr_error = err\<rparr>"

definition exchange_deadline :: "gateway_config \<Rightarrow> exchange_options \<Rightarrow> int \<Rightarrow> int" where
  "exchange_deadline cfg opts now =
     (let dflt = uint (gc_default_exchange_timeout_ms cfg);
          timeout = (if xo_timeout_ms opts > 0 then xo_timeout_ms opts else dflt)
      in now + min timeout dflt)"

text \<open>
  Up to the first lock: a refusal returns at once, otherwise a call with a fresh entry is in
  progress.
\<close>

definition exchange_enter ::
  "pb_codec \<Rightarrow> int \<Rightarrow> bytes \<Rightarrow> exchange_options \<Rightarrow> gateway \<Rightarrow> exchange_result option \<times> gateway" where
  "exchange_enter pb wall_ms raw opts s =
     (if gw_stopping s then (Some (failed_result ToStopping kPublishFailed ''stopping''), s)
      else (let v = validate_envelope pb (gw_config s) wall_ms raw True in
        if \<not> va_ok v
        then (Some (failed_result (va_outcome v) 0 (va_reason v)),
              count_tc (\<lambda>n. n\<lparr>tc_envelope_invalid := tc_envelope_invalid n + 1\<rparr>) s)
        else (let s1 = count_tc (\<lambda>n. n\<lparr>tc_request_total := tc_request_total n + 1\<rparr>) s;
                  e = \<lparr>ce_message_id = va_message_id v, ce_service = va_service v,
                       ce_deadline = exchange_deadline (gw_config s1) opts (gw_clock s1),
                       ce_max_response_bytes = (if xo_max_response_bytes opts > 0 then xo_max_response_bytes opts
                                                else unat (gc_max_envelope_bytes (gw_config s1))),
                       ce_mqtt_accepted = False, ce_outcome = ToUnknown, ce_response = [],
                       ce_terminal = False, ce_completed_at = 0\<rparr>
              in (None, s1\<lparr>gw_entries := gw_entries s1 @ [e],
                          gw_calls := gw_calls s1 @ [\<lparr>xc_entry = length (gw_entries s1), xc_stage = Prepared\<rparr>]\<rparr>))))"

abbreviation call_entry :: "nat \<Rightarrow> gateway \<Rightarrow> correlation" where
  "call_entry k s \<equiv> gw_entries s ! xc_entry (gw_calls s ! k)"

definition exchange_register :: "nat \<Rightarrow> gateway \<Rightarrow> gateway" where
  "exchange_register k s =
     (let mid = ce_message_id (call_entry k s) in
      if length (gw_table s) \<ge> unat (gc_max_in_flight (gw_config s))
        then set_stage k (Returned (failed_result ToRejected kPublishFailed ''max_in_flight'')) s
      else if mid \<in> fst ` set (gw_table s) \<or> mid \<in> fst ` set (gw_recent s)
        then set_stage k (Returned (failed_result ToProtocolError kResponseConflict ''message_identity_conflict''))
               (count_tc (\<lambda>n. n\<lparr>tc_response_rejected := tc_response_rejected n + 1\<rparr>) s)
      else set_stage k Publishing
             (s\<lparr>gw_table := put_key mid (xc_entry (gw_calls s ! k)) (gw_table s)\<rparr>))"

definition publish_returned :: "publish_result \<Rightarrow> nat \<Rightarrow> gateway \<Rightarrow> gateway" where
  "publish_returned pr k s =
     set_stage k (if pu_accepted pr then Published else Refusing (pu_outcome pr = DeliveryUnknown))
       (count_tc (\<lambda>n. n\<lparr>tc_request_published := tc_request_published n + 1\<rparr>) s)"

definition refuse_erase :: "bool \<Rightarrow> nat \<Rightarrow> gateway \<Rightarrow> gateway" where
  "refuse_erase unknown k s =
     set_stage k (Returned (if unknown then failed_result ToUnknown kUnknownOutcome ''publish_outcome_unknown''
                            else failed_result ToRejected kPublishFailed ''mqtt_local_rejected''))
       (s\<lparr>gw_table := erase_key (ce_message_id (call_entry k s)) (gw_table s)\<rparr>)"

definition mark_accepted :: "nat \<Rightarrow> gateway \<Rightarrow> gateway" where
  "mark_accepted k s =
     set_stage k Waiting_response
       (set_entry (xc_entry (gw_calls s ! k)) ((call_entry k s)\<lparr>ce_mqtt_accepted := True\<rparr>) s)"

text \<open>The wait ends when the entry is terminal or its deadline is reached.\<close>

definition wait_over :: "nat \<Rightarrow> gateway \<Rightarrow> bool" where
  "wait_over k s \<longleftrightarrow> ce_terminal (call_entry k s) \<or> gw_clock s \<ge> ce_deadline (call_entry k s)"

definition expire_entry :: "int \<Rightarrow> correlation \<Rightarrow> correlation" where
  "expire_entry now e =
     e\<lparr>ce_outcome := (if ce_mqtt_accepted e then ToTimeout else ToUnknown), ce_terminal := True,
       ce_completed_at := now\<rparr>"

definition count_timeout :: "gateway \<Rightarrow> gateway" where
  "count_timeout s = count_tc (\<lambda>n. n\<lparr>tc_exchange_timeout := tc_exchange_timeout n + 1\<rparr>) s"

definition wait_end :: "nat \<Rightarrow> gateway \<Rightarrow> gateway" where
  "wait_end k s =
     (let e = call_entry k s;
          s1 = (if \<not> ce_terminal e
                then count_timeout (set_entry (xc_entry (gw_calls s ! k)) (expire_entry (gw_clock s) e) s)
                else s);
          e1 = call_entry k s1
      in set_stage k (Closing (ce_outcome e1) (ce_response e1)) s1)"

text \<open>The protection window is computed on 32 bits.\<close>

definition protection_window :: "gateway_config \<Rightarrow> int" where
  "protection_window cfg = max (uint (2 * gc_default_exchange_timeout_ms cfg)) 5000"

definition exchange_result_of :: "transport_outcome \<Rightarrow> bytes \<Rightarrow> exchange_result" where
  "exchange_result_of o' response =
     (if o' = ToAccepted \<and> response \<noteq> []
      then \<lparr>xr_outcome = o', xr_value = Some response, xr_error_code = 0, xr_error = []\<rparr>
      else failed_result o'
        (if o' = ToUnknown then kUnknownOutcome else if o' = ToTimeout then kPublishFailed
         else if o' = ToPayloadTooLarge then kFrameTooLarge else 0)
        (if o' = ToTimeout then ''business_response_timeout''
         else if o' = ToUnknown then ''business_response_unknown''
         else if o' = ToPayloadTooLarge then ''response_too_large''
         else if o' = ToStopping then ''stopping'' else []))"

definition exchange_close :: "transport_outcome \<Rightarrow> bytes \<Rightarrow> nat \<Rightarrow> gateway \<Rightarrow> gateway" where
  "exchange_close o' response k s =
     (let mid = ce_message_id (call_entry k s);
          s1 = s\<lparr>gw_table := erase_key mid (gw_table s),
                 gw_recent := put_key mid (gw_clock s + protection_window (gw_config s)) (gw_recent s)\<rparr>;
          s2 = (if o' = ToAccepted
                then count_tc (\<lambda>n. n\<lparr>tc_response_completed := tc_response_completed n + 1\<rparr>) s1 else s1)
      in set_stage k (Returned (exchange_result_of o' response)) s2)"

section \<open>The downlink\<close>

definition count_rejected_response :: "gateway \<Rightarrow> gateway" where
  "count_rejected_response s = count_tc (\<lambda>n. n\<lparr>tc_response_rejected := tc_response_rejected n + 1\<rparr>) s"

definition count_invalid :: "gateway \<Rightarrow> gateway" where
  "count_invalid s = count_tc (\<lambda>n. n\<lparr>tc_envelope_invalid := tc_envelope_invalid n + 1\<rparr>) s"

definition match_response :: "envelope_validation \<Rightarrow> bytes \<Rightarrow> gateway \<Rightarrow> gateway" where
  "match_response v raw s =
     (case map_of (gw_table s) (va_correlation_id v) of
        None \<Rightarrow> count_rejected_response s
      | Some i \<Rightarrow>
          (let m = \<lparr>mr_entry = i, mr_service = va_service v, mr_correlation_id = va_correlation_id v,
                    mr_expired = va_expired v, mr_bytes = raw\<rparr>
           in s\<lparr>gw_pending := gw_pending s @ [m], gw_matched := gw_matched s @ [m]\<rparr>))"

definition forward_event :: "envelope_validation \<Rightarrow> downlink \<Rightarrow> gateway \<Rightarrow> gateway" where
  "forward_event v ev s =
     (case gw_publisher s of
        None \<Rightarrow> count_tc (\<lambda>n. n\<lparr>tc_event_dropped := tc_event_dropped n + 1\<rparr>) s
      | Some p \<Rightarrow>
          (let (ok, p1) = publish_vehicle_message (va_service v) (dl_payload ev) (dl_trace_id ev) (dl_request_id ev) p;
               s1 = s\<lparr>gw_publisher := Some p1\<rparr>
           in if \<not> ok then count_tc (\<lambda>n. n\<lparr>tc_event_dropped := tc_event_dropped n + 1\<rparr>) s1
              else count_tc (\<lambda>n. n\<lparr>tc_event_forwarded := tc_event_forwarded n + 1\<rparr>) s1))"

definition gw_handle_routed_downlink :: "pb_codec \<Rightarrow> int \<Rightarrow> downlink \<Rightarrow> gateway \<Rightarrow> gateway" where
  "gw_handle_routed_downlink pb wall_ms ev s =
     (if gw_stopping s then s
      else if dl_owner ev \<noteq> ''tsp'' \<or> dl_route_id ev \<noteq> ''fota.downlink'' \<or> dl_target ev \<noteq> ''tsp.fota''
        then count_invalid s
      else (let v = validate_envelope pb (gw_config s) wall_ms (dl_payload ev) False in
        if \<not> va_ok v then count_invalid s
        else if va_message_kind v = MESSAGE_KIND_RESPONSE then match_response v (dl_payload ev) s
        else if va_message_kind v = MESSAGE_KIND_EVENT then forward_event v ev s
        else count_invalid s))"

text \<open>The subscription callback: the dispatcher, when there is one, picks the handler.\<close>

definition downlink_arrives :: "pb_codec \<Rightarrow> int \<Rightarrow> downlink \<Rightarrow> gateway \<Rightarrow> gateway" where
  "downlink_arrives pb wall_ms ev s =
     (case gw_dispatcher s of
        None \<Rightarrow> s
      | Some d \<Rightarrow>
          (case dispatch (dl_owner ev) (dl_route_id ev) (dl_target ev) d of
             Some VehicleHandler \<Rightarrow> gw_handle_routed_downlink pb wall_ms ev s
           | _ \<Rightarrow> s))"

text \<open>The completion, under the lock of the entry.\<close>

definition complete_entry :: "int \<Rightarrow> matched_response \<Rightarrow> correlation \<Rightarrow> correlation option" where
  "complete_entry now m e =
     (if ce_terminal e \<or> ce_service e \<noteq> mr_service m \<or> mr_expired m then None
      else if length (mr_bytes m) > ce_max_response_bytes e
        then Some (e\<lparr>ce_outcome := ToPayloadTooLarge, ce_terminal := True, ce_completed_at := now\<rparr>)
      else Some (e\<lparr>ce_outcome := ToAccepted, ce_response := mr_bytes m, ce_terminal := True,
                   ce_completed_at := now\<rparr>))"

definition complete_match :: "matched_response \<Rightarrow> gateway \<Rightarrow> gateway" where
  "complete_match m s =
     (case complete_entry (gw_clock s) m (gw_entries s ! mr_entry m) of
        None \<Rightarrow> count_rejected_response s
      | Some e \<Rightarrow>
          (let s1 = set_entry (mr_entry m) e s
           in if ce_outcome e = ToPayloadTooLarge then count_rejected_response s1 else s1))"

definition complete_pending :: "nat \<Rightarrow> gateway \<Rightarrow> gateway" where
  "complete_pending j s =
     (let m = gw_pending s ! j
      in complete_match m (s\<lparr>gw_pending := take j (gw_pending s) @ drop (Suc j) (gw_pending s)\<rparr>))"

section \<open>The sweep\<close>

definition sweep_entry :: "(string \<Rightarrow> nat) \<Rightarrow> nat \<Rightarrow> int \<Rightarrow> string \<times> nat \<Rightarrow> gateway \<Rightarrow> gateway" where
  "sweep_entry hash shard now kv s =
     (let e = gw_entries s ! snd kv in
      if hash (ce_message_id e) mod gw_workers s \<noteq> shard then s
      else if \<not> ce_terminal e \<and> ce_deadline e \<le> now
        then count_timeout (set_entry (snd kv) (expire_entry now e) s)
      else if ce_terminal e \<and> now - ce_completed_at e > 1000
        then s\<lparr>gw_recent := put_key (ce_message_id e) (now + protection_window (gw_config s)) (gw_recent s),
               gw_table := erase_key (fst kv) (gw_table s)\<rparr>
      else s)"

definition sweep :: "(string \<Rightarrow> nat) \<Rightarrow> nat \<Rightarrow> int \<Rightarrow> gateway \<Rightarrow> gateway" where
  "sweep hash shard now s =
     (let s1 = fold (sweep_entry hash shard now) (gw_table s) s
      in s1\<lparr>gw_recent := filter (\<lambda>kv. now < snd kv) (gw_recent s1)\<rparr>)"

section \<open>All interleavings\<close>

abbreviation call_at :: "nat \<Rightarrow> stage \<Rightarrow> gateway \<Rightarrow> bool" where
  "call_at k st s \<equiv> k < length (gw_calls s) \<and> xc_stage (gw_calls s ! k) = st"

inductive gw_step :: "pb_codec \<Rightarrow> (string \<Rightarrow> nat) \<Rightarrow> gateway \<Rightarrow> gateway \<Rightarrow> bool" for pb hash where
  g_time: "0 \<le> d \<Longrightarrow> gw_step pb hash s (s\<lparr>gw_clock := gw_clock s + d\<rparr>)"
| g_enter: "gw_step pb hash s (snd (exchange_enter pb wall raw opts s))"
| g_register: "call_at k Prepared s \<Longrightarrow> gw_step pb hash s (exchange_register k s)"
| g_publish: "call_at k Publishing s \<Longrightarrow> gw_step pb hash s (publish_returned pr k s)"
| g_refuse: "call_at k (Refusing u) s \<Longrightarrow> gw_step pb hash s (refuse_erase u k s)"
| g_accepted: "call_at k Published s \<Longrightarrow> gw_step pb hash s (mark_accepted k s)"
| g_wait: "call_at k Waiting_response s \<Longrightarrow> wait_over k s \<Longrightarrow> gw_step pb hash s (wait_end k s)"
| g_close: "call_at k (Closing o' b) s \<Longrightarrow> gw_step pb hash s (exchange_close o' b k s)"
| g_downlink: "gw_step pb hash s (downlink_arrives pb wall ev s)"
| g_complete: "j < length (gw_pending s) \<Longrightarrow> gw_step pb hash s (complete_pending j s)"
| g_sweep: "shard < gw_workers s \<Longrightarrow> now \<le> gw_clock s \<Longrightarrow> gw_step pb hash s (sweep hash shard now s)"
| g_start: "gw_step pb hash s (gw_start s)"
| g_stop_begin: "gw_step pb hash s (stop_begin s)"
| g_stop_mark: "gw_stopping s \<Longrightarrow> gw_step pb hash s (stop_mark s)"
| g_stop_clear: "gw_stopping s \<Longrightarrow> gw_step pb hash s (stop_clear s)"
| g_publisher: "gw_step pb hash s (set_event_publisher p s)"
| g_handler: "gw_step pb hash s (register_downlink_handler ow ri ta h s)"

inductive_cases gw_stepE: "gw_step pb hash s t"

end
