(* ===== verification/GatewayTable.thy ===== *)
theory GatewayTable
  imports GatewayExchange
begin

text \<open>
  The correlation table of the gateway: its invariant under every interleaving, the bound on
  exchanges in flight, and the protection of message ids that ended recently.
\<close>

section \<open>The table\<close>

lemma nth_update_field: "f v = f (xs ! k) \<Longrightarrow> f (xs[k := v] ! j) = f (xs ! j)"
  by (cases "k < length xs"; cases "j = k") (simp_all add: nth_list_update list_update_beyond)

lemma map_update_field: "f v = f (xs ! k) \<Longrightarrow> map f (xs[k := v]) = map f xs"
  by (rule nth_equalityI) (simp_all add: nth_update_field)

lemma set_erase_key: "set (erase_key k m) = {kv \<in> set m. fst kv \<noteq> k}"
  by (simp add: erase_key_def)

lemma keys_erase [simp]: "fst ` set (erase_key k m) = fst ` set m - {k}"
  by (auto simp: erase_key_def)

lemma keys_put [simp]: "fst ` set (put_key k v m) = insert k (fst ` set m)"
  by (auto simp: put_key_def)

lemma distinct_erase [simp]: "distinct (map fst m) \<Longrightarrow> distinct (map fst (erase_key k m))"
  by (simp add: erase_key_def distinct_map_filter)

lemma distinct_put [simp]: "distinct (map fst m) \<Longrightarrow> distinct (map fst (put_key k v m))"
  by (simp add: put_key_def)

lemma length_erase: "length (erase_key k m) \<le> length m"
  by (simp add: erase_key_def)

lemma erase_fresh: "k \<notin> fst ` set m \<Longrightarrow> erase_key k m = m"
  by (auto simp: erase_key_def filter_id_conv)

definition ids_of :: "gateway \<Rightarrow> string list" where
  "ids_of s = map ce_message_id (gw_entries s)"

text \<open>
  The table maps each id once, to an entry with that id, holds no more than the limit, and no id
  is at the same time active and protected.
\<close>

definition table_ok :: "gateway \<Rightarrow> bool" where
  "table_ok s \<longleftrightarrow> distinct (map fst (gw_table s))
     \<and> (\<forall>(mid, i) \<in> set (gw_table s). i < length (gw_entries s) \<and> ids_of s ! i = mid)
     \<and> length (gw_table s) \<le> unat (gc_max_in_flight (gw_config s))
     \<and> fst ` set (gw_table s) \<inter> fst ` set (gw_recent s) = {}
     \<and> (\<forall>c \<in> set (gw_calls s). xc_entry c < length (gw_entries s))"

lemma stage_frame [simp]:
  "gw_config (set_stage k st s) = gw_config s" "gw_table (set_stage k st s) = gw_table s"
  "gw_recent (set_stage k st s) = gw_recent s" "gw_entries (set_stage k st s) = gw_entries s"
  "gw_clock (set_stage k st s) = gw_clock s" "gw_matched (set_stage k st s) = gw_matched s"
  "gw_pending (set_stage k st s) = gw_pending s" "gw_stopping (set_stage k st s) = gw_stopping s"
  "length (gw_calls (set_stage k st s)) = length (gw_calls s)"
  "gw_workers (set_stage k st s) = gw_workers s"
  "xc_entry (gw_calls (set_stage k st s) ! j) = xc_entry (gw_calls s ! j)"
  by (simp_all add: set_stage_def nth_update_field [where f = xc_entry])

lemma count_frame [simp]:
  "gw_config (count_tc f s) = gw_config s" "gw_table (count_tc f s) = gw_table s"
  "gw_recent (count_tc f s) = gw_recent s" "gw_entries (count_tc f s) = gw_entries s"
  "gw_clock (count_tc f s) = gw_clock s" "gw_matched (count_tc f s) = gw_matched s"
  "gw_pending (count_tc f s) = gw_pending s" "gw_calls (count_tc f s) = gw_calls s"
  "gw_stopping (count_tc f s) = gw_stopping s" "gw_workers (count_tc f s) = gw_workers s"
  "gw_publisher (count_tc f s) = gw_publisher s"
  by (simp_all add: count_tc_def)

lemma entry_frame [simp]:
  "gw_config (set_entry i e s) = gw_config s" "gw_table (set_entry i e s) = gw_table s"
  "gw_recent (set_entry i e s) = gw_recent s" "gw_entries (set_entry i e s) = (gw_entries s)[i := e]"
  "gw_clock (set_entry i e s) = gw_clock s" "gw_matched (set_entry i e s) = gw_matched s"
  "gw_pending (set_entry i e s) = gw_pending s" "gw_calls (set_entry i e s) = gw_calls s"
  "gw_stopping (set_entry i e s) = gw_stopping s" "gw_workers (set_entry i e s) = gw_workers s"
  by (simp_all add: set_entry_def)

lemma calls_set_stage:
  "c \<in> set (gw_calls (set_stage k st s)) \<Longrightarrow>
     \<exists>c' \<in> set (gw_calls s). xc_entry c = xc_entry c' \<and> (xc_stage c = st \<or> c = c')"
proof -
  assume c: "c \<in> set (gw_calls (set_stage k st s))"
  then obtain j where j: "j < length (gw_calls s)" "c = gw_calls (set_stage k st s) ! j"
    by (auto simp: in_set_conv_nth)
  have "gw_calls s ! j \<in> set (gw_calls s)" using j(1) by simp
  moreover have "xc_entry c = xc_entry (gw_calls s ! j) \<and> (xc_stage c = st \<or> c = gw_calls s ! j)"
    using j by (cases "j = k") (simp_all add: set_stage_def)
  ultimately show ?thesis by blast
qed

lemma ids_same [simp]:
  "ids_of (count_tc f s) = ids_of s" "ids_of (set_stage k st s) = ids_of s"
  "ids_of (s\<lparr>gw_table := t\<rparr>) = ids_of s" "ids_of (s\<lparr>gw_recent := r\<rparr>) = ids_of s"
  by (simp_all add: ids_of_def)

lemma ids_set_entry:
  "ce_message_id e = ce_message_id (gw_entries s ! i) \<Longrightarrow> ids_of (set_entry i e s) = ids_of s"
  by (simp add: ids_of_def map_update_field)

lemma length_ids [simp]: "length (ids_of s) = length (gw_entries s)"
  by (simp add: ids_of_def)

lemma entry_id: "i < length (gw_entries s) \<Longrightarrow> ce_message_id (gw_entries s ! i) = ids_of s ! i"
  by (simp add: ids_of_def)

lemma table_ok_stage [simp]: "table_ok (set_stage k st s) \<longleftrightarrow> table_ok s"
  by (auto simp: table_ok_def Ball_set_list_all [of _ "\<lambda>c. xc_entry c < n" for n] list_all_length
      dest: calls_set_stage)

lemma table_ok_count [simp]: "table_ok (count_tc f s) \<longleftrightarrow> table_ok s"
  by (simp add: table_ok_def)

lemma table_ok_entry:
  "ce_message_id e = ce_message_id (gw_entries s ! i) \<Longrightarrow> table_ok s \<Longrightarrow> table_ok (set_entry i e s)"
  by (auto simp: table_ok_def ids_set_entry)

lemma table_ok_erase: "table_ok s \<Longrightarrow> table_ok (s\<lparr>gw_table := erase_key k (gw_table s)\<rparr>)"
  using length_erase [of k "gw_table s"] by (auto simp: table_ok_def set_erase_key)

lemma table_ok_terminate:
  assumes "table_ok s" "gw_table t = erase_key k (gw_table s)" "gw_recent t = put_key k u (gw_recent s)"
    and "gw_entries t = gw_entries s" "gw_calls t = gw_calls s" "gw_config t = gw_config s"
  shows "table_ok t"
  using assms length_erase [of k "gw_table s"] by (auto simp: table_ok_def set_erase_key ids_of_def)

lemma table_ok_insert:
  assumes "table_ok s" "i < length (gw_entries s)" "mid = ids_of s ! i"
    and "mid \<notin> fst ` set (gw_table s)" "mid \<notin> fst ` set (gw_recent s)"
    and "length (gw_table s) < unat (gc_max_in_flight (gw_config s))"
  shows "table_ok (s\<lparr>gw_table := put_key mid i (gw_table s)\<rparr>)"
  using assms by (auto simp: table_ok_def put_key_def erase_fresh)

lemma table_ok_register:
  assumes "table_ok s" "k < length (gw_calls s)"
  shows "table_ok (exchange_register k s)"
proof -
  let ?i = "xc_entry (gw_calls s ! k)"
  have i: "?i < length (gw_entries s)" using assms by (auto simp: table_ok_def)
  show ?thesis
    using i table_ok_insert [OF assms(1) i, of "ids_of s ! ?i"] assms(1)
    by (simp add: exchange_register_def Let_def not_le entry_id)
qed

lemma entry_bound: "table_ok s \<Longrightarrow> k < length (gw_calls s) \<Longrightarrow> xc_entry (gw_calls s ! k) < length (gw_entries s)"
  by (auto simp: table_ok_def)

lemma table_ok_sweep_entry:
  assumes "table_ok s \<and> ids_of s = ids" "snd kv < length ids \<and> ids ! snd kv = fst kv"
  shows "table_ok (sweep_entry hash shard now kv s) \<and> ids_of (sweep_entry hash shard now kv s) = ids"
proof -
  have l: "snd kv < length (gw_entries s)" and k: "ce_message_id (gw_entries s ! snd kv) = fst kv"
    using assms by (auto simp: entry_id)
  have "ce_message_id (expire_entry now (gw_entries s ! snd kv)) = ce_message_id (gw_entries s ! snd kv)"
    by (simp add: expire_entry_def)
  then show ?thesis
    using assms(1) k
    by (auto simp: sweep_entry_def Let_def count_timeout_def ids_set_entry
        intro!: table_ok_entry table_ok_terminate [of s])
qed

lemma table_ok_filter: "table_ok s \<Longrightarrow> table_ok (s\<lparr>gw_recent := filter P (gw_recent s)\<rparr>)"
  by (auto simp: table_ok_def)

lemma table_ok_sweep:
  assumes "table_ok s"
  shows "table_ok (sweep hash shard now s)"
proof -
  have "table_ok (fold (sweep_entry hash shard now) (gw_table s) s)
      \<and> ids_of (fold (sweep_entry hash shard now) (gw_table s) s) = ids_of s"
  proof (rule fold_invariant [where Q = "\<lambda>kv. snd kv < length (ids_of s) \<and> ids_of s ! snd kv = fst kv"])
    show "snd kv < length (ids_of s) \<and> ids_of s ! snd kv = fst kv" if "kv \<in> set (gw_table s)" for kv
      using assms that by (cases kv) (auto simp: table_ok_def)
  qed (use assms table_ok_sweep_entry in blast)+
  then show ?thesis by (simp add: sweep_def Let_def table_ok_filter)
qed

lemma stop_entries_ids:
  "map ce_message_id (fold (\<lambda>kv es. es[snd kv := stop_entry now (es ! snd kv)]) kvs es) = map ce_message_id es"
proof (induction kvs arbitrary: es)
  case (Cons kv kvs)
  have "map ce_message_id (es[snd kv := stop_entry now (es ! snd kv)]) = map ce_message_id es"
    by (rule map_update_field) (simp add: stop_entry_def)
  then show ?case using Cons by simp
qed simp

lemma stop_entries_length [simp]:
  "length (fold (\<lambda>kv es. es[snd kv := stop_entry now (es ! snd kv)]) kvs es) = length es"
  using arg_cong [OF stop_entries_ids, of length now kvs es] by simp

lemma table_ok_downlink: "table_ok s \<Longrightarrow> table_ok (downlink_arrives pb wall ev s)"
  by (auto simp: downlink_arrives_def gw_handle_routed_downlink_def match_response_def forward_event_def
      count_invalid_def count_rejected_response_def Let_def table_ok_def ids_of_def
      split: option.split downlink_handler.split prod.split)

lemma table_ok_complete: "table_ok s \<Longrightarrow> table_ok (complete_match m s)"
  by (auto simp: complete_match_def complete_entry_def count_rejected_response_def Let_def
      intro!: table_ok_entry split: option.split if_splits)


lemma table_ok_kept: "gw_step pb hash s t \<Longrightarrow> table_ok s \<Longrightarrow> table_ok t"
proof (induction rule: gw_step.induct)
  case (g_enter s wall raw opts)
  then show ?case
    by (auto simp: exchange_enter_def Let_def, auto simp: table_ok_def ids_of_def nth_append)
next
  case (g_register k s)
  then show ?case by (simp add: table_ok_register)
next
  case (g_refuse k u s)
  then show ?case by (simp add: refuse_erase_def table_ok_erase)
next
  case (g_accepted k s)
  then show ?case by (simp add: mark_accepted_def table_ok_entry)
next
  case (g_wait k s)
  then show ?case by (simp add: wait_end_def Let_def count_timeout_def table_ok_entry expire_entry_def)
next
  case (g_close k o' b s)
  then show ?case by (auto simp: exchange_close_def Let_def intro: table_ok_terminate [of s])
next
  case (g_complete j s)
  then have "table_ok (s\<lparr>gw_pending := take j (gw_pending s) @ drop (Suc j) (gw_pending s)\<rparr>)"
    by (simp add: table_ok_def ids_of_def)
  then show ?case by (simp add: complete_pending_def Let_def table_ok_complete)
next
  case (g_stop_mark s)
  then show ?case by (simp add: stop_mark_def table_ok_def ids_of_def stop_entries_ids)
next
  case (g_handler s ow ri ta h)
  then show ?case by (simp add: register_downlink_handler_def table_ok_def ids_of_def split: option.split)
qed (simp_all add: publish_returned_def table_ok_downlink table_ok_sweep gw_start_def stop_begin_def
       stop_clear_def set_event_publisher_def, simp_all add: table_ok_def ids_of_def)

interpretation active_table: step_invariant "gw_step pb hash" table_ok for pb hash
  by unfold_locales (rule table_ok_kept)

definition fresh_gateway :: "gateway_config \<Rightarrow> gateway" where
  "fresh_gateway cfg = new_gateway\<lparr>gw_config := cfg\<rparr>"

lemma fresh_table_ok: "table_ok (fresh_gateway cfg)"
  by (simp add: table_ok_def fresh_gateway_def new_gateway_def)

lemma config_kept: "gw_step pb hash s t \<Longrightarrow> gw_config s = cfg \<Longrightarrow> gw_config t = cfg"
proof (induction rule: gw_step.induct)
  case (g_sweep shard s now)
  have "gw_config (fold (sweep_entry hash shard now) kvs s) = cfg" if "gw_config s = cfg" for kvs
    using that by (induction kvs arbitrary: s) (auto simp: sweep_entry_def count_timeout_def Let_def)
  then show ?case using g_sweep by (simp add: sweep_def Let_def)
next
  case (g_complete j s)
  then show ?case
    by (simp add: complete_pending_def complete_match_def count_rejected_response_def Let_def split: option.split)
next
  case (g_downlink s wall ev)
  then show ?case
    by (auto simp: downlink_arrives_def gw_handle_routed_downlink_def match_response_def forward_event_def
      count_invalid_def count_rejected_response_def Let_def split: option.split downlink_handler.split prod.split)
qed (simp_all add: exchange_enter_def exchange_register_def publish_returned_def refuse_erase_def
    mark_accepted_def wait_end_def count_timeout_def exchange_close_def gw_start_def stop_begin_def
    stop_mark_def stop_clear_def set_event_publisher_def register_downlink_handler_def Let_def
    split: option.split)

interpretation fixed_config: step_invariant "gw_step pb hash" "\<lambda>s. gw_config s = cfg" for pb hash cfg
  by unfold_locales (rule config_kept)

text \<open>
  C16. However exchanges, downlinks, sweeps, starts and stops interleave, the correlation table
  never holds more than the configured number of exchanges, no message id twice, and no id that is
  still in its protection window.
\<close>

theorem in_flight_bounded:
  assumes "(gw_step pb hash)\<^sup>*\<^sup>* (fresh_gateway cfg) s"
  shows "length (gw_table s) \<le> unat (gc_max_in_flight cfg) \<and> distinct (map fst (gw_table s))
    \<and> fst ` set (gw_table s) \<inter> fst ` set (gw_recent s) = {}"
proof -
  have "gw_config s = cfg"
    by (rule fixed_config.run [OF assms]) (simp add: fresh_gateway_def)
  with active_table.run [OF assms fresh_table_ok] show ?thesis by (simp add: table_ok_def)
qed

theorem in_flight_bounded_witness:
  "length (gw_table (gw_start (fresh_gateway default_gateway_config))) \<le> 64"
  using in_flight_bounded [OF r_into_rtranclp, OF g_start [of toy_pb length "fresh_gateway default_gateway_config"]]
  by (simp add: default_gateway_config_def)

end
