(* ===== verification/GatewayCorrelation.thy ===== *)
theory GatewayCorrelation
  imports GatewayTable
begin

text \<open>
  The correlation of responses with exchanges: whatever threads interleave, an exchange is answered
  only by a response matched to its own entry, and an entry is completed once.
\<close>

section \<open>An exchange is answered by its own response\<close>

text \<open>A matched response was validated as a response to the entry it was matched to.\<close>

definition response_for :: "pb_codec \<Rightarrow> gateway_config \<Rightarrow> correlation \<Rightarrow> matched_response \<Rightarrow> bool" where
  "response_for pb cfg e m \<longleftrightarrow>
     (\<exists>wall. let v = validate_envelope pb cfg wall (mr_bytes m) False in
        va_ok v \<and> va_message_kind v = MESSAGE_KIND_RESPONSE
        \<and> va_correlation_id v = ce_message_id e \<and> va_service v = mr_service m)"

definition matches_ok :: "pb_codec \<Rightarrow> gateway_config \<Rightarrow> gateway \<Rightarrow> bool" where
  "matches_ok pb cfg s \<longleftrightarrow>
     (\<forall>m \<in> set (gw_matched s). mr_entry m < length (gw_entries s)
        \<and> response_for pb cfg (gw_entries s ! mr_entry m) m)
     \<and> set (gw_pending s) \<subseteq> set (gw_matched s)"

text \<open>An entry is accepted through a matched response of its service that fits its limit.\<close>

definition accepted_ok :: "matched_response set \<Rightarrow> nat \<Rightarrow> correlation \<Rightarrow> bool" where
  "accepted_ok ms i e \<longleftrightarrow>
     (ce_outcome e = ToAccepted \<longrightarrow> ce_terminal e \<and> length (ce_response e) \<le> ce_max_response_bytes e
        \<and> (\<exists>m \<in> ms. mr_entry m = i \<and> mr_bytes m = ce_response e \<and> mr_service m = ce_service e))"

definition entries_ok :: "gateway \<Rightarrow> bool" where
  "entries_ok s \<longleftrightarrow> (\<forall>i < length (gw_entries s). accepted_ok (set (gw_matched s)) i (gw_entries s ! i))"

definition stage_ok :: "correlation \<Rightarrow> stage \<Rightarrow> bool" where
  "stage_ok e st \<longleftrightarrow>
     (case st of
        Closing o' b \<Rightarrow> ce_terminal e \<and> ce_outcome e = o' \<and> ce_response e = b
      | Returned r \<Rightarrow> (\<forall>b. xr_value r = Some b \<longrightarrow> ce_terminal e \<and> ce_outcome e = ToAccepted \<and> ce_response e = b)
      | _ \<Rightarrow> True)"

definition stages_ok :: "gateway \<Rightarrow> bool" where
  "stages_ok s \<longleftrightarrow>
     (\<forall>k < length (gw_calls s). stage_ok (gw_entries s ! xc_entry (gw_calls s ! k)) (xc_stage (gw_calls s ! k)))"

text \<open>
  How entries may change: identity, service and limit never, and nothing once terminal but the
  acceptance flag; an entry accepted in the step was so by a match.
\<close>

definition entry_evolves :: "matched_response set \<Rightarrow> nat \<Rightarrow> correlation \<Rightarrow> correlation \<Rightarrow> bool" where
  "entry_evolves ms i e f \<longleftrightarrow>
     ce_message_id f = ce_message_id e \<and> ce_service f = ce_service e
     \<and> ce_max_response_bytes f = ce_max_response_bytes e
     \<and> (ce_terminal e \<longrightarrow> ce_terminal f \<and> ce_outcome f = ce_outcome e \<and> ce_response f = ce_response e)
     \<and> (accepted_ok ms i e \<longrightarrow> accepted_ok ms i f)"

definition entries_evolve :: "gateway \<Rightarrow> gateway \<Rightarrow> bool" where
  "entries_evolve s t \<longleftrightarrow> length (gw_entries s) \<le> length (gw_entries t)
     \<and> (\<forall>i < length (gw_entries s). entry_evolves (set (gw_matched t)) i (gw_entries s ! i) (gw_entries t ! i))"

lemma entry_evolves_refl [simp]: "entry_evolves ms i e e"
  by (simp add: entry_evolves_def)

lemma entry_evolves_trans: "entry_evolves ms i e f \<Longrightarrow> entry_evolves ms i f g \<Longrightarrow> entry_evolves ms i e g"
  by (simp add: entry_evolves_def)

lemma evolves_nth_update:
  "(i = j \<Longrightarrow> entry_evolves ms j e v) \<Longrightarrow> entry_evolves ms j e (xs ! j) \<Longrightarrow> entry_evolves ms j e (xs[i := v] ! j)"
  by (cases "i < length xs"; cases "i = j") (simp_all add: nth_list_update list_update_beyond)

lemma evolve_same: "gw_entries t = gw_entries s \<Longrightarrow> entries_evolve s t"
  by (simp add: entries_evolve_def)

lemma evolve_update:
  assumes "gw_entries t = (gw_entries s)[i := e]" "entry_evolves (set (gw_matched t)) i (gw_entries s ! i) e"
  shows "entries_evolve s t"
  using assms by (auto simp: entries_evolve_def intro: evolves_nth_update)

lemma evolve_expire: "\<not> ce_terminal e \<Longrightarrow> entry_evolves ms i e (expire_entry now e)"
  by (simp add: entry_evolves_def expire_entry_def accepted_ok_def)

lemma evolve_stop: "entry_evolves ms i e (stop_entry now e)"
  by (simp add: entry_evolves_def stop_entry_def accepted_ok_def)

lemma evolve_accept: "entry_evolves ms i e (e\<lparr>ce_mqtt_accepted := True\<rparr>)"
  by (simp add: entry_evolves_def accepted_ok_def)

lemma evolve_complete:
  "complete_entry now m e = Some f \<Longrightarrow> m \<in> ms \<Longrightarrow> mr_entry m = i \<Longrightarrow> entry_evolves ms i e f"
  by (auto simp: complete_entry_def entry_evolves_def accepted_ok_def split: if_splits)

lemma evolve_sweep: "entries_evolve s (sweep hash shard now s)"
proof -
  let ?P = "\<lambda>u. length (gw_entries u) = length (gw_entries s) \<and> gw_matched u = gw_matched s
     \<and> (\<forall>i < length (gw_entries s). entry_evolves (set (gw_matched s)) i (gw_entries s ! i) (gw_entries u ! i))"
  have one: "?P (sweep_entry hash shard now kv u)" if "?P u" for kv u
    using that
    by (auto simp: sweep_entry_def count_timeout_def Let_def
        intro!: evolves_nth_update intro: entry_evolves_trans evolve_expire)
  have "?P (fold (sweep_entry hash shard now) (gw_table s) s)"
    by (rule fold_invariant [where Q = "\<lambda>_. True"]) (use one in auto)
  then show ?thesis by (simp add: sweep_def Let_def entries_evolve_def)
qed

lemma evolve_stop_mark: "entries_evolve s (stop_mark s)"
proof -
  let ?P = "\<lambda>es. length es = length (gw_entries s)
     \<and> (\<forall>i < length (gw_entries s). entry_evolves (set (gw_matched s)) i (gw_entries s ! i) (es ! i))"
  have one: "?P (es[snd kv := stop_entry (gw_clock s) (es ! snd kv)])" if "?P es" for kv es
    using that by (auto intro!: evolves_nth_update intro: entry_evolves_trans evolve_stop)
  have "?P (fold (\<lambda>kv es. es[snd kv := stop_entry (gw_clock s) (es ! snd kv)]) (gw_table s) (gw_entries s))"
    by (rule fold_invariant [where Q = "\<lambda>_. True"]) (use one in auto)
  then show ?thesis by (simp add: stop_mark_def entries_evolve_def)
qed

lemma evolve_downlink: "entries_evolve s (downlink_arrives pb wall ev s)"
  by (rule evolve_same)
    (auto simp: downlink_arrives_def gw_handle_routed_downlink_def match_response_def forward_event_def
      count_invalid_def count_rejected_response_def Let_def
      split: option.split downlink_handler.split prod.split)

lemma complete_match_frame [simp]:
  "gw_matched (complete_match m s) = gw_matched s" "gw_pending (complete_match m s) = gw_pending s"
  "gw_calls (complete_match m s) = gw_calls s" "gw_table (complete_match m s) = gw_table s"
  "gw_recent (complete_match m s) = gw_recent s" "gw_clock (complete_match m s) = gw_clock s"
  by (simp_all add: complete_match_def count_rejected_response_def Let_def split: option.split)

lemma evolve_complete_match:
  assumes "m \<in> set (gw_matched s)"
  shows "entries_evolve s (complete_match m s)"
proof (cases "complete_entry (gw_clock s) m (gw_entries s ! mr_entry m)")
  case None
  then show ?thesis by (simp add: complete_match_def count_rejected_response_def evolve_same)
next
  case (Some e)
  then show ?thesis
    using evolve_complete [OF Some assms refl]
    by (intro evolve_update [of _ s "mr_entry m" e])
      (simp_all add: complete_match_def count_rejected_response_def Let_def)
qed

lemma entries_evolve_step:
  "gw_step pb hash s t \<Longrightarrow> set (gw_pending s) \<subseteq> set (gw_matched s) \<Longrightarrow> entries_evolve s t"
proof (induction rule: gw_step.induct)
  case (g_enter s wall raw opts)
  then show ?case
    by (simp add: exchange_enter_def Let_def evolve_same) (simp add: entries_evolve_def nth_append)
next
  case (g_accepted k s)
  then show ?case
    by (intro evolve_update [OF _ evolve_accept]) (simp add: mark_accepted_def)
next
  case (g_wait k s)
  then show ?case
    by (cases "ce_terminal (call_entry k s)")
      (simp_all add: wait_end_def Let_def count_timeout_def evolve_same evolve_update evolve_expire)
next
  case (g_complete j s)
  then have "gw_pending s ! j \<in> set (gw_matched s)" using nth_mem by blast
  then show ?case
    using evolve_complete_match [of "gw_pending s ! j"
        "s\<lparr>gw_pending := take j (gw_pending s) @ drop (Suc j) (gw_pending s)\<rparr>"]
    by (simp add: complete_pending_def Let_def entries_evolve_def)
qed (simp_all add: evolve_sweep evolve_stop_mark evolve_downlink, simp_all add: evolve_same exchange_register_def
    publish_returned_def refuse_erase_def exchange_close_def gw_start_def stop_begin_def stop_clear_def
    set_event_publisher_def register_downlink_handler_def Let_def split: option.split)


lemma response_for_evolves: "entry_evolves ms i e f \<Longrightarrow> response_for pb cfg e m \<Longrightarrow> response_for pb cfg f m"
  by (simp add: response_for_def entry_evolves_def)

lemma matches_carry:
  assumes "matches_ok pb cfg s" "entries_evolve s t" "gw_matched t = gw_matched s"
    and "set (gw_pending t) \<subseteq> set (gw_pending s)"
  shows "matches_ok pb cfg t"
  using assms response_for_evolves
  unfolding matches_ok_def entries_evolve_def by (metis order_less_le_trans subset_trans)

lemma step_matches_frame:
  assumes "gw_step pb hash s t"
  shows "(\<exists>wall ev. t = downlink_arrives pb wall ev s)
    \<or> gw_matched t = gw_matched s \<and> set (gw_pending t) \<subseteq> set (gw_pending s)"
  using assms
proof (induction rule: gw_step.induct)
  case (g_sweep shard s now)
  have "gw_matched (fold (sweep_entry hash shard now) kvs s) = gw_matched s
      \<and> gw_pending (fold (sweep_entry hash shard now) kvs s) = gw_pending s" for kvs
    by (induction kvs arbitrary: s) (auto simp: sweep_entry_def count_timeout_def Let_def)
  then show ?case by (simp add: sweep_def Let_def)
next
  case (g_complete j s)
  then show ?case using in_set_takeD [of _ j] in_set_dropD [of _ "Suc j"] by (auto simp: complete_pending_def Let_def)
next
  case (g_downlink s wall ev)
  then show ?case by blast
qed (rule disjI2, simp add: exchange_enter_def exchange_register_def publish_returned_def refuse_erase_def
    mark_accepted_def wait_end_def count_timeout_def exchange_close_def gw_start_def stop_begin_def
    stop_mark_def stop_clear_def set_event_publisher_def register_downlink_handler_def Let_def
    split: option.split)+

lemma matches_match_response:
  assumes "matches_ok pb cfg s" "table_ok s" "gw_config s = cfg"
    and "v = validate_envelope pb cfg wall raw False" "va_ok v" "va_message_kind v = MESSAGE_KIND_RESPONSE"
  shows "matches_ok pb cfg (match_response v raw s)"
proof (cases "map_of (gw_table s) (va_correlation_id v)")
  case None
  then show ?thesis using assms(1) by (simp add: match_response_def count_rejected_response_def matches_ok_def)
next
  case (Some i)
  have "(va_correlation_id v, i) \<in> set (gw_table s)" by (rule map_of_SomeD [OF Some])
  then have i: "i < length (gw_entries s)" "ce_message_id (gw_entries s ! i) = va_correlation_id v"
    using assms(2) by (auto simp: table_ok_def entry_id)
  then show ?thesis
    using assms(1,4-6) Some
    by (auto simp: match_response_def matches_ok_def response_for_def Let_def)
qed

lemma matches_downlink:
  assumes "matches_ok pb cfg s" "table_ok s" "gw_config s = cfg"
  shows "matches_ok pb cfg (downlink_arrives pb wall ev s)"
proof -
  have frame: "matches_ok pb cfg t" if "gw_entries t = gw_entries s" "gw_matched t = gw_matched s" "gw_pending t = gw_pending s" for t
    using assms(1) that by (simp add: matches_ok_def)
  have "matches_ok pb cfg (forward_event v ev s)" for v
    by (rule frame) (simp_all add: forward_event_def Let_def split: option.split prod.split)
  moreover have "matches_ok pb cfg (count_invalid s)" by (rule frame) (simp_all add: count_invalid_def)
  ultimately show ?thesis
    using assms matches_match_response [OF assms refl]
    by (simp add: downlink_arrives_def gw_handle_routed_downlink_def Let_def split: option.split downlink_handler.split)
qed

definition correlated_inv :: "pb_codec \<Rightarrow> gateway_config \<Rightarrow> gateway \<Rightarrow> bool" where
  "correlated_inv pb cfg s \<longleftrightarrow> table_ok s \<and> gw_config s = cfg \<and> matches_ok pb cfg s \<and> entries_ok s \<and> stages_ok s"

lemma downlink_grows: "set (gw_matched s) \<subseteq> set (gw_matched (downlink_arrives pb wall ev s))"
proof -
  have "set (gw_matched s) \<subseteq> set (gw_matched (match_response v raw s))" for v raw
    by (auto simp: match_response_def count_rejected_response_def Let_def split: option.split)
  moreover have "gw_matched (forward_event v ev s) = gw_matched s" for v
    by (simp add: forward_event_def Let_def split: option.split prod.split)
  ultimately show ?thesis
    by (simp add: downlink_arrives_def gw_handle_routed_downlink_def count_invalid_def Let_def
      split: option.split downlink_handler.split)
qed

lemma matched_grows:
  assumes "gw_step pb hash s t"
  shows "set (gw_matched s) \<subseteq> set (gw_matched t)"
  using step_matches_frame [OF assms] downlink_grows [of s pb] by (elim disjE exE) simp_all

lemma accepted_ok_mono: "accepted_ok ms i e \<Longrightarrow> ms \<subseteq> ms' \<Longrightarrow> accepted_ok ms' i e"
  by (auto simp: accepted_ok_def)

lemma new_entries:
  assumes "gw_step pb hash s t"
  shows "\<forall>i < length (gw_entries t). i < length (gw_entries s) \<or> ce_outcome (gw_entries t ! i) = ToUnknown"
  using assms
proof (induction rule: gw_step.induct)
  case (g_sweep shard s now)
  have "length (gw_entries (fold (sweep_entry hash shard now) kvs s)) = length (gw_entries s)" for kvs
    by (induction kvs arbitrary: s) (auto simp: sweep_entry_def count_timeout_def Let_def)
  then show ?case by (simp add: sweep_def Let_def)
qed (auto simp: exchange_enter_def nth_append exchange_register_def publish_returned_def refuse_erase_def
    mark_accepted_def wait_end_def count_timeout_def exchange_close_def gw_start_def stop_begin_def
    stop_mark_def stop_clear_def set_event_publisher_def register_downlink_handler_def Let_def
    complete_pending_def complete_match_def count_rejected_response_def count_invalid_def
    downlink_arrives_def gw_handle_routed_downlink_def match_response_def forward_event_def less_Suc_eq
    split: option.splits downlink_handler.splits prod.splits)

lemma entries_ok_step:
  assumes "gw_step pb hash s t" "entries_evolve s t" "entries_ok s"
  shows "entries_ok t"
  unfolding entries_ok_def
proof (intro allI impI)
  fix i assume i: "i < length (gw_entries t)"
  show "accepted_ok (set (gw_matched t)) i (gw_entries t ! i)"
  proof (cases "i < length (gw_entries s)")
    case True
    then have "accepted_ok (set (gw_matched t)) i (gw_entries s ! i)"
      using assms(3) accepted_ok_mono matched_grows [OF assms(1)] by (auto simp: entries_ok_def)
    then show ?thesis using assms(2) True by (simp add: entries_evolve_def entry_evolves_def)
  next
    case False
    then show ?thesis using new_entries [OF assms(1)] i by (auto simp: accepted_ok_def)
  qed
qed


lemma stage_ok_evolves: "entry_evolves ms i e f \<Longrightarrow> stage_ok e st \<Longrightarrow> stage_ok f st"
  by (auto simp: entry_evolves_def stage_ok_def split: stage.splits)

lemma stages_carry:
  assumes "stages_ok s" "table_ok s" "entries_evolve s t" "gw_calls t = gw_calls s"
  shows "stages_ok t"
  using assms entry_bound [OF assms(2)] stage_ok_evolves
  by (simp add: stages_ok_def entries_evolve_def) blast

lemma stages_set:
  assumes "stages_ok s" "stage_ok (gw_entries s ! xc_entry (gw_calls s ! k)) st"
  shows "stages_ok (set_stage k st s)"
  unfolding stages_ok_def
proof (intro allI impI)
  fix j assume "j < length (gw_calls (set_stage k st s))"
  then show "stage_ok (gw_entries (set_stage k st s) ! xc_entry (gw_calls (set_stage k st s) ! j))
      (xc_stage (gw_calls (set_stage k st s) ! j))"
    using assms by (cases "j = k") (simp_all add: stages_ok_def, simp_all add: set_stage_def)
qed

lemma plain_stage [simp]:
  "stage_ok e Publishing" "stage_ok e Published" "stage_ok e (Refusing u)" "stage_ok e Waiting_response"
  "stage_ok e Prepared" "stage_ok e (Returned (failed_result o' c err))"
  by (simp_all add: stage_ok_def failed_result_def)

lemma closed_stage:
  "stage_ok e (Closing o' b) \<Longrightarrow> stage_ok e (Returned (exchange_result_of o' b))"
  by (auto simp: stage_ok_def exchange_result_of_def failed_result_def)

lemma same_calls_stages:
  "stages_ok s \<Longrightarrow> gw_entries t = gw_entries s \<Longrightarrow> gw_calls t = gw_calls s \<Longrightarrow> stages_ok t"
  by (simp add: stages_ok_def)

lemma downlink_calls [simp]: "gw_calls (downlink_arrives pb wall ev s) = gw_calls s"
  by (simp add: downlink_arrives_def gw_handle_routed_downlink_def match_response_def forward_event_def
      count_invalid_def count_rejected_response_def Let_def
      split: option.split downlink_handler.split prod.split)

lemma sweep_calls [simp]: "gw_calls (sweep hash shard now s) = gw_calls s"
proof -
  have "gw_calls (fold (sweep_entry hash shard now) kvs s) = gw_calls s" for kvs
    by (induction kvs arbitrary: s) (auto simp: sweep_entry_def count_timeout_def Let_def)
  then show ?thesis by (simp add: sweep_def Let_def)
qed

lemma stages_ok_step:
  assumes "gw_step pb hash s t" "entries_evolve s t" "table_ok s" "stages_ok s"
  shows "stages_ok t"
  using assms
proof (induction rule: gw_step.induct)
  case (g_enter s wall raw opts)
  then show ?case
    using entry_bound [of s]
    by (auto simp: exchange_enter_def Let_def stages_ok_def nth_append less_Suc_eq)
next
  case (g_register k s)
  have "stages_ok (s\<lparr>gw_table := x\<rparr>)" "stages_ok (count_tc f s)" for x f
    using g_register by (simp_all add: stages_ok_def)
  then show ?case using g_register by (simp add: exchange_register_def Let_def stages_set)
next
  case (g_refuse k u s)
  have "stages_ok (s\<lparr>gw_table := x\<rparr>)" for x using g_refuse by (simp add: stages_ok_def)
  then show ?case by (simp add: refuse_erase_def stages_set)
next
  case (g_publish k s pr)
  have "stages_ok (count_tc f s)" for f using g_publish by (simp add: stages_ok_def)
  then show ?case by (simp add: publish_returned_def stages_set)
next
  case (g_accepted k s)
  have "entries_evolve s (set_entry (xc_entry (gw_calls s ! k)) ((call_entry k s)\<lparr>ce_mqtt_accepted := True\<rparr>) s)"
    by (rule evolve_update [OF _ evolve_accept]) simp
  then have "stages_ok (set_entry (xc_entry (gw_calls s ! k)) ((call_entry k s)\<lparr>ce_mqtt_accepted := True\<rparr>) s)"
    by (intro stages_carry [OF g_accepted(4,3)]) simp_all
  then show ?case by (simp add: mark_accepted_def stages_set)
next
  case (g_wait k s)
  define u where "u = (if \<not> ce_terminal (call_entry k s)
      then count_timeout (set_entry (xc_entry (gw_calls s ! k)) (expire_entry (gw_clock s) (call_entry k s)) s) else s)"
  have b: "xc_entry (gw_calls s ! k) < length (gw_entries s)" using entry_bound g_wait by blast
  have calls: "gw_calls u = gw_calls s" by (simp add: u_def count_timeout_def)
  have "entries_evolve s u"
    by (simp add: u_def count_timeout_def evolve_same evolve_update evolve_expire)
  then have "stages_ok u" by (rule stages_carry [OF g_wait(5,4) _ calls])
  moreover have "ce_terminal (call_entry k u)" using b by (simp add: u_def count_timeout_def expire_entry_def)
  ultimately show ?case
    by (simp add: wait_end_def u_def [symmetric] Let_def stages_set stage_ok_def calls)
next
  case (g_close k o' b s)
  then have "stage_ok (call_entry k s) (Closing o' b)" by (simp add: stages_ok_def) metis
  then have r: "stage_ok (call_entry k s) (Returned (exchange_result_of o' b))" by (rule closed_stage)
  define u where "u = s\<lparr>gw_table := erase_key (ce_message_id (call_entry k s)) (gw_table s),
      gw_recent := put_key (ce_message_id (call_entry k s)) (gw_clock s + protection_window (gw_config s)) (gw_recent s)\<rparr>"
  define w where "w = (if o' = ToAccepted then count_tc (\<lambda>n. n\<lparr>tc_response_completed := tc_response_completed n + 1\<rparr>) u else u)"
  have w: "gw_entries w = gw_entries s" "gw_calls w = gw_calls s" by (simp_all add: w_def u_def)
  have "stages_ok (set_stage k (Returned (exchange_result_of o' b)) w)"
    by (rule stages_set [OF same_calls_stages [OF g_close(4) w]]) (simp only: w r)
  then show ?case by (simp only: exchange_close_def Let_def u_def w_def)
next
  case (g_complete j s)
  show ?case by (rule stages_carry [OF g_complete(4,3,2)]) (simp add: complete_pending_def Let_def)
next
  case (g_handler s ow ri ta h)
  show ?case
    by (rule stages_carry [OF g_handler(3,2,1)]) (simp add: register_downlink_handler_def split: option.split)
qed (rule stages_carry, assumption, assumption, assumption,
     simp add: gw_start_def stop_begin_def stop_mark_def stop_clear_def set_event_publisher_def)+

lemma correlated_inv_kept:
  assumes "gw_step pb hash s t" "correlated_inv pb cfg s"
  shows "correlated_inv pb cfg t"
proof -
  have i: "table_ok s" "gw_config s = cfg" "matches_ok pb cfg s" "entries_ok s" "stages_ok s"
    using assms(2) by (simp_all add: correlated_inv_def)
  have ev: "entries_evolve s t"
    using entries_evolve_step [OF assms(1)] i(3) by (simp add: matches_ok_def)
  have "matches_ok pb cfg t"
    using step_matches_frame [OF assms(1)] matches_carry [OF i(3) ev] matches_downlink [OF i(3,1,2)] by auto
  then show ?thesis
    using i entries_ok_step [OF assms(1) ev] stages_ok_step [OF assms(1) ev] table_ok_kept [OF assms(1)]
      config_kept [OF assms(1) i(2)] by (simp add: correlated_inv_def)
qed

interpretation correlated: step_invariant "gw_step pb hash" "correlated_inv pb cfg" for pb hash cfg
  by unfold_locales (rule correlated_inv_kept)

lemma fresh_correlated: "correlated_inv pb cfg (fresh_gateway cfg)"
  using fresh_table_ok [of cfg]
  by (simp add: correlated_inv_def matches_ok_def entries_ok_def stages_ok_def fresh_gateway_def new_gateway_def)

lemma value_matched:
  assumes "correlated_inv pb cfg s" and "k < length (gw_calls s)"
    and "xc_stage (gw_calls s ! k) = Returned r" "xr_value r = Some b"
  shows "\<exists>m \<in> set (gw_matched s). mr_entry m = xc_entry (gw_calls s ! k) \<and> mr_bytes m = b
    \<and> response_for pb cfg (call_entry k s) m \<and> mr_service m = ce_service (call_entry k s)
    \<and> length b \<le> ce_max_response_bytes (call_entry k s)"
proof -
  have inv: "table_ok s" "matches_ok pb cfg s" "entries_ok s" "stages_ok s"
    using assms(1) by (simp_all add: correlated_inv_def)
  have e: "ce_outcome (call_entry k s) = ToAccepted" "ce_response (call_entry k s) = b"
    using inv(4) assms(2-4) by (auto simp: stages_ok_def stage_ok_def)
  have "accepted_ok (set (gw_matched s)) (xc_entry (gw_calls s ! k)) (call_entry k s)"
    using inv(3) entry_bound [OF inv(1) assms(2)] by (simp add: entries_ok_def)
  then obtain m where m: "m \<in> set (gw_matched s)" "mr_entry m = xc_entry (gw_calls s ! k)" "mr_bytes m = b"
      "mr_service m = ce_service (call_entry k s)" "length b \<le> ce_max_response_bytes (call_entry k s)"
    using e by (auto simp: accepted_ok_def)
  then have "response_for pb cfg (call_entry k s) m" using inv(2) by (auto simp: matches_ok_def)
  with m show ?thesis by blast
qed

text \<open>
  C13. An exchange returns a business response only from a downlink that was validated as a
  RESPONSE, names the message id of this very exchange as its correlation, comes from the same
  service, was matched to this exchange's own entry while that was in the table, and fits the
  caller's limit; and it returns exactly those bytes.
\<close>

theorem exchange_answered_by_own_response:
  assumes "(gw_step pb hash)\<^sup>*\<^sup>* (fresh_gateway cfg) s" and "k < length (gw_calls s)"
    and "xc_stage (gw_calls s ! k) = Returned r" "xr_value r = Some b"
  shows "\<exists>m \<in> set (gw_matched s). mr_entry m = xc_entry (gw_calls s ! k) \<and> mr_bytes m = b
    \<and> response_for pb cfg (call_entry k s) m \<and> mr_service m = ce_service (call_entry k s)
    \<and> length b \<le> ce_max_response_bytes (call_entry k s)"
  using assms(2-4) by (rule value_matched [OF correlated.run [OF assms(1) fresh_correlated]])

text \<open>
  C17. A correlation is completed once: in every interleaving an entry that is terminal keeps its
  outcome and its response, and no entry ever changes its message id, service or limit.
\<close>

theorem completed_once:
  assumes "(gw_step pb hash)\<^sup>*\<^sup>* (fresh_gateway cfg) s" "gw_step pb hash s t"
    and "i < length (gw_entries s)" "ce_terminal (gw_entries s ! i)"
  shows "ce_terminal (gw_entries t ! i) \<and> ce_outcome (gw_entries t ! i) = ce_outcome (gw_entries s ! i)
    \<and> ce_response (gw_entries t ! i) = ce_response (gw_entries s ! i)
    \<and> ce_message_id (gw_entries t ! i) = ce_message_id (gw_entries s ! i)
    \<and> ce_service (gw_entries t ! i) = ce_service (gw_entries s ! i)"
proof -
  have "matches_ok pb cfg s"
    using correlated.run [OF assms(1) fresh_correlated] by (simp add: correlated_inv_def)
  then have "entries_evolve s t"
    using entries_evolve_step [OF assms(2)] by (simp add: matches_ok_def)
  then show ?thesis using assms(3,4) by (simp add: entries_evolve_def entry_evolves_def)
qed

section \<open>A concrete exchange\<close>

definition fota_envelope :: "int \<Rightarrow> string \<Rightarrow> string option \<Rightarrow> vehicle_envelope" where
  "fota_envelope kind mid corr = \<lparr>ve_request_id = ''r'', ve_timestamp_ms = 0, ve_protocol_version = ''fota-v1'',
     ve_device_id = ''d'', ve_idempotency_key = None, ve_payload_type = ''vehicle.fota.v1.TaskCheckRequest'',
     ve_payload = [7], ve_message_id = mid, ve_correlation_id = corr, ve_message_kind = kind,
     ve_service = ''vehicle.fota'', ve_expire_at_ms = None, ve_trace_id = None\<rparr>"

definition fota_pb :: pb_codec where
  "fota_pb = toy_pb\<lparr>parse_envelope := (\<lambda>b. if b = [1] then Some (fota_envelope 1 ''m1'' None)
     else if b = [2] then Some (fota_envelope 2 ''m2'' (Some ''m1''))
     else if b = [3] then Some (fota_envelope 3 ''m3'' None) else None)\<rparr>"

definition fota_options :: exchange_options where
  "fota_options = \<lparr>xo_timeout_ms = 2500, xo_max_response_bytes = 16384\<rparr>"

definition fota_downlink :: "u8 \<Rightarrow> downlink" where
  "fota_downlink b = \<lparr>dl_owner = ''tsp'', dl_route_id = ''fota.downlink'', dl_target = ''tsp.fota'',
     dl_payload = [b], dl_request_id = [], dl_trace_id = []\<rparr>"

definition published_ok :: publish_result where
  "published_ok = \<lparr>pu_accepted = True, pu_outcome = DeliveryAccepted, pu_reason_code = [], pu_retryable = True\<rparr>"

definition published_unknown :: publish_result where
  "published_unknown = \<lparr>pu_accepted = False, pu_outcome = DeliveryUnknown, pu_reason_code = [], pu_retryable = True\<rparr>"

definition fota_dispatcher :: "downlink_handler dispatcher" where
  "fota_dispatcher = register_handler ''tsp'' ''fota.downlink'' ''tsp.fota'' VehicleHandler Map.empty"

definition fota_entry :: correlation where
  "fota_entry = \<lparr>ce_message_id = ''m1'', ce_service = ''vehicle.fota'', ce_deadline = 2500,
     ce_max_response_bytes = 16384, ce_mqtt_accepted = False, ce_outcome = ToUnknown, ce_response = [],
     ce_terminal = False, ce_completed_at = 0\<rparr>"

definition fota_match :: matched_response where
  "fota_match = \<lparr>mr_entry = 0, mr_service = ''vehicle.fota'', mr_correlation_id = ''m1'',
     mr_expired = False, mr_bytes = [2]\<rparr>"

text \<open>The states of a gateway with one exchange at a given stage.\<close>

definition lab_gateway :: "stage \<Rightarrow> correlation \<Rightarrow> (string \<times> nat) list \<Rightarrow> transport_counters
    \<Rightarrow> matched_response list \<Rightarrow> matched_response list \<Rightarrow> gateway" where
  "lab_gateway st e tab n pend mat = \<lparr>gw_config = default_gateway_config, gw_running = True, gw_stopping = False,
     gw_workers = 1, gw_clock = 0, gw_entries = [e], gw_table = tab, gw_recent = [],
     gw_calls = [\<lparr>xc_entry = 0, xc_stage = st\<rparr>], gw_pending = pend, gw_dispatcher = Some fota_dispatcher,
     gw_publisher = None, gw_counters = n, gw_matched = mat\<rparr>"

lemma request_valid: "validate_envelope fota_pb default_gateway_config 5 [1] True
   = \<lparr>va_ok = True, va_outcome = ToProtocolError, va_reason = [], va_service = ''vehicle.fota'',
      va_payload_type = ''vehicle.fota.v1.TaskCheckRequest'', va_message_kind = 1, va_message_id = ''m1'',
      va_correlation_id = [], va_payload_size = 1, va_expired = False\<rparr>"
  by (simp add: validate_envelope_def validate_content_def validate_ids_def fail_with_def fota_pb_def
      fota_envelope_def default_gateway_config_def new_validation_def expired_at_def
      payload_type_in_capability_def ident_start_def ident_char_def Let_def)

lemma response_valid: "validate_envelope fota_pb default_gateway_config 5 [2] False
   = \<lparr>va_ok = True, va_outcome = ToProtocolError, va_reason = [], va_service = ''vehicle.fota'',
      va_payload_type = ''vehicle.fota.v1.TaskCheckRequest'', va_message_kind = 2, va_message_id = ''m2'',
      va_correlation_id = ''m1'', va_payload_size = 1, va_expired = False\<rparr>"
  by (simp add: validate_envelope_def validate_content_def validate_ids_def fail_with_def fota_pb_def
      fota_envelope_def default_gateway_config_def new_validation_def expired_at_def
      payload_type_in_capability_def ident_start_def ident_char_def Let_def)

lemma event_valid: "validate_envelope fota_pb default_gateway_config 5 [3] False
   = \<lparr>va_ok = True, va_outcome = ToProtocolError, va_reason = [], va_service = ''vehicle.fota'',
      va_payload_type = ''vehicle.fota.v1.TaskCheckRequest'', va_message_kind = 3, va_message_id = ''m3'',
      va_correlation_id = [], va_payload_size = 1, va_expired = False\<rparr>"
  by (simp add: validate_envelope_def validate_content_def validate_ids_def fail_with_def fota_pb_def
      fota_envelope_def default_gateway_config_def new_validation_def expired_at_def
      payload_type_in_capability_def ident_start_def ident_char_def Let_def)


abbreviation "tab1 \<equiv> [(''m1'', 0 :: nat)]"

definition fota_answered :: correlation where
  "fota_answered = fota_entry\<lparr>ce_mqtt_accepted := True, ce_outcome := ToAccepted, ce_response := [2], ce_terminal := True\<rparr>"

lemma lab_enter:
  "snd (exchange_enter fota_pb 5 [1] fota_options (gw_start (fresh_gateway default_gateway_config)))
     = lab_gateway Prepared fota_entry [] (no_transport_counters\<lparr>tc_request_total := 1\<rparr>) [] []"
proof -
  have "gw_start (fresh_gateway default_gateway_config) = \<lparr>gw_config = default_gateway_config, gw_running = True,
     gw_stopping = False, gw_workers = 1, gw_clock = 0, gw_entries = [], gw_table = [], gw_recent = [],
     gw_calls = [], gw_pending = [], gw_dispatcher = Some fota_dispatcher, gw_publisher = None,
     gw_counters = no_transport_counters, gw_matched = []\<rparr>"
    by (simp add: gw_start_def fresh_gateway_def new_gateway_def fota_dispatcher_def)
      (simp add: default_gateway_config_def)
  then show ?thesis
    by (simp add: exchange_enter_def request_valid lab_gateway_def fota_entry_def fota_options_def
        count_tc_def no_transport_counters_def exchange_deadline_def Let_def)
      (simp add: default_gateway_config_def)
qed

lemma lab_register: "exchange_register 0 (lab_gateway Prepared fota_entry [] n [] []) = lab_gateway Publishing fota_entry tab1 n [] []"
  by (simp add: exchange_register_def lab_gateway_def set_stage_def put_key_def erase_key_def fota_entry_def Let_def)
    (simp add: default_gateway_config_def)

lemma lab_publish:
  "publish_returned published_ok 0 (lab_gateway Publishing e t n [] [])
     = lab_gateway Published e t (n\<lparr>tc_request_published := tc_request_published n + 1\<rparr>) [] []"
  by (simp add: publish_returned_def published_ok_def lab_gateway_def set_stage_def count_tc_def)

lemma lab_mark: "mark_accepted 0 (lab_gateway Published e t n [] []) = lab_gateway Waiting_response (e\<lparr>ce_mqtt_accepted := True\<rparr>) t n [] []"
  by (simp add: mark_accepted_def lab_gateway_def set_stage_def set_entry_def)

lemma fota_route: "dispatch ''tsp'' ''fota.downlink'' ''tsp.fota'' fota_dispatcher = Some VehicleHandler"
  by (simp add: dispatch_def fota_dispatcher_def register_handler_def)

lemma lab_match:
  "downlink_arrives fota_pb 5 (fota_downlink 2) (lab_gateway st e tab1 n [] []) = lab_gateway st e tab1 n [fota_match] [fota_match]"
  by (simp add: downlink_arrives_def gw_handle_routed_downlink_def lab_gateway_def fota_downlink_def fota_route
      response_valid match_response_def fota_match_def Let_def)

lemma lab_complete:
  "complete_pending 0 (lab_gateway st (fota_entry\<lparr>ce_mqtt_accepted := True\<rparr>) t n [fota_match] ms)
     = lab_gateway st fota_answered t n [] ms"
  by (simp add: complete_pending_def complete_match_def complete_entry_def lab_gateway_def fota_match_def
      fota_entry_def fota_answered_def set_entry_def Let_def)

lemma lab_wait: "wait_end 0 (lab_gateway Waiting_response fota_answered t n p ms) = lab_gateway (Closing ToAccepted [2]) fota_answered t n p ms"
  by (simp add: wait_end_def lab_gateway_def fota_answered_def set_stage_def Let_def)

lemma lab_calls [simp]:
  "call_at 0 st' (lab_gateway st e t n p ms) \<longleftrightarrow> st = st'" "gw_pending (lab_gateway st e t n p ms) = p"
  "gw_calls (lab_gateway st e t n p ms) = [\<lparr>xc_entry = 0, xc_stage = st\<rparr>]"
  by (auto simp: lab_gateway_def)

lemma lab_exchange:
  obtains m where "(gw_step fota_pb length)\<^sup>*\<^sup>* (lab_gateway Prepared fota_entry [] n [] [])
    (lab_gateway Waiting_response fota_answered tab1 m [] [fota_match])"
proof -
  let ?R = "gw_step fota_pb length"
  let ?m = "n\<lparr>tc_request_published := tc_request_published n + 1\<rparr>"
  have "?R\<^sup>*\<^sup>* (lab_gateway Prepared fota_entry [] n [] []) (lab_gateway Prepared fota_entry [] n [] [])" by simp
  also have "?R \<dots> (lab_gateway Publishing fota_entry tab1 n [] [])"
    unfolding lab_register [symmetric] by (rule g_register) simp
  also have "?R \<dots> (lab_gateway Published fota_entry tab1 ?m [] [])"
    unfolding lab_publish [symmetric] by (rule g_publish) simp
  also have "?R \<dots> (lab_gateway Waiting_response (fota_entry\<lparr>ce_mqtt_accepted := True\<rparr>) tab1 ?m [] [])"
    unfolding lab_mark [symmetric] by (rule g_accepted) simp
  also have "?R \<dots> (lab_gateway Waiting_response (fota_entry\<lparr>ce_mqtt_accepted := True\<rparr>) tab1 ?m [fota_match] [fota_match])"
    unfolding lab_match [symmetric] by (rule g_downlink)
  also have "?R \<dots> (lab_gateway Waiting_response fota_answered tab1 ?m [] [fota_match])"
    unfolding lab_complete [symmetric] by (rule g_complete) simp
  finally show thesis by (rule that)
qed

lemma lab_waiting:
  obtains n where "(gw_step fota_pb length)\<^sup>*\<^sup>* (fresh_gateway default_gateway_config)
    (lab_gateway Waiting_response fota_answered tab1 n [] [fota_match])"
proof -
  let ?n = "no_transport_counters\<lparr>tc_request_total := 1\<rparr>"
  obtain m where m: "(gw_step fota_pb length)\<^sup>*\<^sup>* (lab_gateway Prepared fota_entry [] ?n [] [])
      (lab_gateway Waiting_response fota_answered tab1 m [] [fota_match])" by (rule lab_exchange)
  have "(gw_step fota_pb length)\<^sup>*\<^sup>* (fresh_gateway default_gateway_config) (lab_gateway Prepared fota_entry [] ?n [] [])"
    unfolding lab_enter [symmetric] by (meson g_enter g_start r_into_rtranclp rtranclp.rtrancl_into_rtrancl)
  from rtranclp_trans [OF this m] show thesis by (rule that)
qed

lemma lab_close:
  "(gw_step fota_pb length)\<^sup>*\<^sup>* (lab_gateway Waiting_response fota_answered tab1 n [] [fota_match])
     (exchange_close ToAccepted [2] 0 (lab_gateway (Closing ToAccepted [2]) fota_answered tab1 n [] [fota_match]))"
  "xc_stage (gw_calls (exchange_close ToAccepted [2] 0
     (lab_gateway (Closing ToAccepted [2]) fota_answered tab1 n [] [fota_match])) ! 0) = Returned (exchange_result_of ToAccepted [2])"
proof -
  have "(gw_step fota_pb length)\<^sup>*\<^sup>* (lab_gateway Waiting_response fota_answered tab1 n [] [fota_match])
      (lab_gateway Waiting_response fota_answered tab1 n [] [fota_match])" by simp
  also have "gw_step fota_pb length \<dots> (lab_gateway (Closing ToAccepted [2]) fota_answered tab1 n [] [fota_match])"
    unfolding lab_wait [symmetric] by (rule g_wait) (simp_all add: wait_over_def lab_gateway_def fota_answered_def)
  also have "gw_step fota_pb length \<dots>
      (exchange_close ToAccepted [2] 0 (lab_gateway (Closing ToAccepted [2]) fota_answered tab1 n [] [fota_match]))"
    by (rule g_close) simp
  finally show "(gw_step fota_pb length)\<^sup>*\<^sup>* (lab_gateway Waiting_response fota_answered tab1 n [] [fota_match])
     (exchange_close ToAccepted [2] 0 (lab_gateway (Closing ToAccepted [2]) fota_answered tab1 n [] [fota_match]))" .
  show "xc_stage (gw_calls (exchange_close ToAccepted [2] 0
     (lab_gateway (Closing ToAccepted [2]) fota_answered tab1 n [] [fota_match])) ! 0) = Returned (exchange_result_of ToAccepted [2])"
    by (simp add: exchange_close_def set_stage_def count_tc_def Let_def)
qed

lemma lab_closed:
  obtains s n r where "(gw_step fota_pb length)\<^sup>*\<^sup>* (fresh_gateway default_gateway_config) s"
    "s = exchange_close ToAccepted [2] 0 (lab_gateway (Closing ToAccepted [2]) fota_answered tab1 n [] [fota_match])"
    "xc_stage (gw_calls s ! 0) = Returned r" "xr_value r = Some [2]" "length (gw_calls s) = 1"
proof -
  obtain n where w: "(gw_step fota_pb length)\<^sup>*\<^sup>* (fresh_gateway default_gateway_config)
    (lab_gateway Waiting_response fota_answered tab1 n [] [fota_match])" by (rule lab_waiting)
  show thesis
    by (rule that [OF rtranclp_trans [OF w lab_close(1)] refl lab_close(2)])
      (simp_all add: exchange_result_of_def exchange_close_def set_stage_def count_tc_def Let_def)
qed

theorem exchange_answered_by_own_response_witness:
  "\<exists>s m. (gw_step fota_pb length)\<^sup>*\<^sup>* (fresh_gateway default_gateway_config) s \<and> m \<in> set (gw_matched s) \<and> mr_bytes m = [2]"
proof -
  obtain s n r where s: "(gw_step fota_pb length)\<^sup>*\<^sup>* (fresh_gateway default_gateway_config) s"
    "xc_stage (gw_calls s ! 0) = Returned r" "xr_value r = Some [2]" "length (gw_calls s) = 1"
    by (rule lab_closed)
  have k: "0 < length (gw_calls s)" using s(4) by simp
  from exchange_answered_by_own_response [OF s(1) k s(2,3)] s(1) show ?thesis by blast
qed

theorem completed_once_witness:
  "\<exists>s. ce_outcome (gw_entries (s\<lparr>gw_clock := gw_clock s + 1\<rparr>) ! 0) = ce_outcome (gw_entries s ! 0)
     \<and> (gw_step fota_pb length)\<^sup>*\<^sup>* (fresh_gateway default_gateway_config) s \<and> ce_terminal (gw_entries s ! 0)"
proof -
  obtain n where w: "(gw_step fota_pb length)\<^sup>*\<^sup>* (fresh_gateway default_gateway_config)
    (lab_gateway Waiting_response fota_answered tab1 n [] [fota_match])" by (rule lab_waiting)
  have "0 < length (gw_entries (lab_gateway Waiting_response fota_answered tab1 n [] [fota_match]))"
    "ce_terminal (gw_entries (lab_gateway Waiting_response fota_answered tab1 n [] [fota_match]) ! 0)"
    by (simp_all add: lab_gateway_def fota_answered_def)
  from completed_once [OF w g_time [of 1] this] w this(2) show ?thesis by (intro exI) auto
qed

end
