(* ===== verification/GatewayProperties.thy ===== *)
theory GatewayProperties
  imports GatewayCorrelation
begin

text \<open>
  What the gateway promises its callers: ids that ended stay protected, every exchange returns,
  only well-formed envelopes are admitted, stopping releases who waits; and what a full event
  queue does.
\<close>

section \<open>Message ids stay protected\<close>

text \<open>Steps while the gateway is not being stopped.\<close>

definition live_step :: "pb_codec \<Rightarrow> (string \<Rightarrow> nat) \<Rightarrow> gateway \<Rightarrow> gateway \<Rightarrow> bool" where
  "live_step pb hash s t \<longleftrightarrow> gw_step pb hash s t \<and> \<not> gw_stopping s"

definition guarded :: "string \<Rightarrow> int \<Rightarrow> gateway \<Rightarrow> bool" where
  "guarded mid u s \<longleftrightarrow> mid \<notin> fst ` set (gw_table s) \<and> (\<exists>u' \<ge> u. (mid, u') \<in> set (gw_recent s))"

definition protected_until :: "string \<Rightarrow> int \<Rightarrow> gateway \<Rightarrow> bool" where
  "protected_until mid u s \<longleftrightarrow> table_ok s \<and> u \<le> gw_clock s + 5000 \<and> (gw_clock s < u \<longrightarrow> guarded mid u s)"

lemma protected_untilI:
  "table_ok s \<Longrightarrow> u \<le> gw_clock s + 5000 \<Longrightarrow> mid \<notin> fst ` set (gw_table s) \<Longrightarrow> (mid, v) \<in> set (gw_recent s)
     \<Longrightarrow> u \<le> v \<Longrightarrow> protected_until mid u s"
  by (auto simp: protected_until_def guarded_def)

lemma window_bound: "5000 \<le> protection_window cfg"
  by (simp add: protection_window_def)

lemma put_keeps: "kv \<in> set m \<Longrightarrow> fst kv \<noteq> k \<Longrightarrow> kv \<in> set (put_key k v m)"
  by (simp add: put_key_def erase_key_def)

lemma guarded_same:
  "guarded mid u s \<Longrightarrow> fst ` set (gw_table t) \<subseteq> fst ` set (gw_table s) \<Longrightarrow> gw_recent t = gw_recent s \<Longrightarrow> guarded mid u t"
  by (auto simp: guarded_def)

lemma guarded_terminate:
  assumes "guarded mid u s" "gw_table t = erase_key k (gw_table s)" "gw_recent t = put_key k v (gw_recent s)"
    and "k \<noteq> mid \<or> u \<le> v"
  shows "guarded mid u t"
  using assms put_keeps [of "(mid, _)" "gw_recent s" k v]
  by (cases "k = mid") (auto simp: guarded_def put_key_def erase_key_def)

lemma guarded_register:
  assumes "guarded mid u s"
  shows "guarded mid u (exchange_register k s)"
proof -
  have "mid \<in> fst ` set (gw_recent s)" using assms by (force simp: guarded_def)
  then have "ce_message_id (call_entry k s) \<notin> fst ` set (gw_recent s) \<Longrightarrow> mid \<noteq> ce_message_id (call_entry k s)"
    by blast
  then show ?thesis using assms by (simp add: exchange_register_def Let_def guarded_def)
qed

lemma guarded_sweep:
  assumes "table_ok s" "guarded mid u s" "now < u"
  shows "guarded mid u (sweep hash shard now s)"
proof -
  let ?P = "\<lambda>x. ids_of x = ids_of s \<and> guarded mid u x"
  have one: "?P (sweep_entry hash shard now kv x)"
    if "snd kv < length (ids_of s) \<and> ids_of s ! snd kv = fst kv \<and> fst kv \<noteq> mid" "?P x" for kv x
  proof -
    have id: "ce_message_id (gw_entries x ! snd kv) = fst kv"
      using that entry_id [of "snd kv" x] by (metis length_ids)
    have "ids_of (sweep_entry hash shard now kv x) = ids_of x"
      using ids_set_entry [of "expire_entry now (gw_entries x ! snd kv)" x "snd kv"]
      by (simp add: sweep_entry_def Let_def count_timeout_def expire_entry_def ids_of_def)
    moreover have "guarded mid u (sweep_entry hash shard now kv x)"
    proof -
      let ?y = "sweep_entry hash shard now kv x"
      have "gw_table ?y = gw_table x \<and> gw_recent ?y = gw_recent x
        \<or> gw_table ?y = erase_key (fst kv) (gw_table x)
          \<and> gw_recent ?y = put_key (fst kv) (now + protection_window (gw_config x)) (gw_recent x)"
        using id by (simp add: sweep_entry_def Let_def count_timeout_def)
      moreover have "guarded mid u x" "fst kv \<noteq> mid" using that by blast+
      ultimately show ?thesis
        by (elim disjE conjE) (erule guarded_same, simp, simp, erule guarded_terminate, assumption, assumption, blast)
    qed
    ultimately show ?thesis using that(2) by argo
  qed
  have "?P (fold (sweep_entry hash shard now) (gw_table s) s)"
  proof (rule fold_invariant [where Q = "\<lambda>kv. snd kv < length (ids_of s) \<and> ids_of s ! snd kv = fst kv \<and> fst kv \<noteq> mid"])
    show "snd kv < length (ids_of s) \<and> ids_of s ! snd kv = fst kv \<and> fst kv \<noteq> mid" if "kv \<in> set (gw_table s)" for kv
    proof -
      have "fst kv \<in> fst ` set (gw_table s)" using that by (rule imageI)
      then have "fst kv \<noteq> mid" using assms(2) by (auto simp: guarded_def)
      then show ?thesis using assms(1) that by (cases kv) (auto simp: table_ok_def)
    qed
  qed (use assms(2) one in blast)+
  then have "guarded mid u (fold (sweep_entry hash shard now) (gw_table s) s)" by blast
  then show ?thesis using assms(3) by (auto simp: sweep_def Let_def guarded_def)
qed

lemma protected_kept:
  assumes "live_step pb hash s t" "protected_until mid u s"
  shows "protected_until mid u t"
proof -
  have step: "gw_step pb hash s t" and live: "\<not> gw_stopping s" using assms(1) by (simp_all add: live_step_def)
  have ok: "table_ok s" "table_ok t" and u: "u \<le> gw_clock s + 5000"
    using assms(2) table_ok_kept [OF step] by (simp_all add: protected_until_def)
  have "gw_clock s \<le> gw_clock t \<and> (gw_clock s < u \<longrightarrow> guarded mid u s \<longrightarrow> guarded mid u t)"
    using step live ok(1) u
  proof (induction rule: gw_step.induct)
    case (g_sweep shard s now)
    have "gw_clock (fold (sweep_entry hash shard now) kvs s) = gw_clock s" for kvs
      by (induction kvs arbitrary: s) (auto simp: sweep_entry_def count_timeout_def Let_def)
    then show ?case using g_sweep guarded_sweep [of s mid u now hash shard] by (simp add: sweep_def Let_def)
  next
    case (g_close k o' b s)
    have "guarded mid u s \<Longrightarrow> guarded mid u (exchange_close o' b k s)"
      using g_close window_bound [of "gw_config s"]
      by (rule_tac guarded_terminate [of _ _ _ _ "ce_message_id (call_entry k s)" "gw_clock s + protection_window (gw_config s)"])
        (auto simp: exchange_close_def Let_def)
    then show ?case by (simp add: exchange_close_def Let_def)
  next
    case (g_downlink s wall ev)
    have "gw_clock (downlink_arrives pb wall ev s) = gw_clock s \<and> gw_table (downlink_arrives pb wall ev s) = gw_table s
        \<and> gw_recent (downlink_arrives pb wall ev s) = gw_recent s"
      by (simp add: downlink_arrives_def gw_handle_routed_downlink_def match_response_def forward_event_def
        count_invalid_def count_rejected_response_def Let_def
        split: option.split downlink_handler.split prod.split)
    then show ?case by (simp add: guarded_def)
  next
    case (g_register k s)
    then show ?case using guarded_register [of mid u s k] by (simp add: exchange_register_def Let_def)
  next
    case (g_refuse k x s)
    then show ?case by (simp add: refuse_erase_def guarded_def)
  qed (simp_all add: exchange_enter_def publish_returned_def mark_accepted_def wait_end_def count_timeout_def
      gw_start_def stop_begin_def set_event_publisher_def register_downlink_handler_def complete_pending_def
      guarded_def Let_def split: option.split)
  then show ?thesis using assms(2) ok(2) by (simp add: protected_until_def)
qed

interpretation protection: step_invariant "live_step pb hash" "protected_until mid u" for pb hash mid u
  by unfold_locales (rule protected_kept)



text \<open>The same request again, after the first exchange was closed.\<close>

definition lab_again :: "transport_counters \<Rightarrow> gateway" where
  "lab_again n = snd (exchange_enter fota_pb 5 [1] fota_options
     (exchange_close ToAccepted [2] 0 (lab_gateway (Closing ToAccepted [2]) fota_answered tab1 n [] [fota_match])))"

lemma lab_again_is:
  "\<exists>rec c. lab_again n = \<lparr>gw_config = default_gateway_config, gw_running = True, gw_stopping = False,
     gw_workers = 1, gw_clock = 0, gw_entries = [fota_answered, fota_entry], gw_table = [], gw_recent = rec,
     gw_calls = [\<lparr>xc_entry = 0, xc_stage = Returned (exchange_result_of ToAccepted [2])\<rparr>,
                 \<lparr>xc_entry = 1, xc_stage = Prepared\<rparr>],
     gw_pending = [], gw_dispatcher = Some fota_dispatcher, gw_publisher = None, gw_counters = c,
     gw_matched = [fota_match]\<rparr>"
proof -
  have d: "exchange_deadline default_gateway_config fota_options 0 = 2500"
    by (simp add: exchange_deadline_def fota_options_def default_gateway_config_def)
  have e: "ce_message_id fota_answered = ''m1''" by (simp add: fota_answered_def fota_entry_def)
  show ?thesis
    by (simp add: lab_again_def exchange_close_def lab_gateway_def set_stage_def count_tc_def e erase_key_def
      exchange_enter_def request_valid d Let_def) (simp add: fota_entry_def fota_options_def)
qed

lemma lab_again_at:
  "call_at 1 Prepared (lab_again n)" "ce_message_id (call_entry 1 (lab_again n)) = ''m1''" "gw_clock (lab_again n) = 0"
proof -
  obtain rec c where e: "lab_again n = \<lparr>gw_config = default_gateway_config, gw_running = True, gw_stopping = False,
     gw_workers = 1, gw_clock = 0, gw_entries = [fota_answered, fota_entry], gw_table = [], gw_recent = rec,
     gw_calls = [\<lparr>xc_entry = 0, xc_stage = Returned (exchange_result_of ToAccepted [2])\<rparr>,
                 \<lparr>xc_entry = 1, xc_stage = Prepared\<rparr>],
     gw_pending = [], gw_dispatcher = Some fota_dispatcher, gw_publisher = None, gw_counters = c,
     gw_matched = [fota_match]\<rparr>" using lab_again_is by blast
  show "call_at 1 Prepared (lab_again n)" "gw_clock (lab_again n) = 0" by (simp_all add: e)
  have "call_entry 1 (lab_again n) = [fota_answered, fota_entry] ! 1" unfolding e by simp
  then have "ce_message_id (call_entry 1 (lab_again n)) = ce_message_id ([fota_answered, fota_entry] ! 1)"
    by (rule arg_cong)
  also have "\<dots> = ''m1''" by (simp add: fota_entry_def)
  finally show "ce_message_id (call_entry 1 (lab_again n)) = ''m1''" .
qed



definition unknown_pair :: gateway where
  "unknown_pair = (fresh_gateway default_gateway_config)\<lparr>gw_entries := [fota_entry, fota_entry], gw_table := tab1,
     gw_calls := [\<lparr>xc_entry = 0, xc_stage = Refusing True\<rparr>, \<lparr>xc_entry = 1, xc_stage = Prepared\<rparr>]\<rparr>"


section \<open>Every exchange can return\<close>

definition returns_by :: "pb_codec \<Rightarrow> (string \<Rightarrow> nat) \<Rightarrow> nat \<Rightarrow> int \<Rightarrow> gateway \<Rightarrow> bool" where
  "returns_by pb hash k d s \<longleftrightarrow>
     (\<exists>t r. (gw_step pb hash)\<^sup>*\<^sup>* s t \<and> xc_stage (gw_calls t ! k) = Returned r \<and> gw_clock t \<le> d)"

lemma returns_now: "xc_stage (gw_calls s ! k) = Returned r \<Longrightarrow> gw_clock s \<le> d \<Longrightarrow> returns_by pb hash k d s"
  unfolding returns_by_def by blast

lemma returns_step: "gw_step pb hash s u \<Longrightarrow> returns_by pb hash k d u \<Longrightarrow> returns_by pb hash k d s"
  unfolding returns_by_def by (meson converse_rtranclp_into_rtranclp)

lemma stage_set [simp]: "k < length (gw_calls s) \<Longrightarrow> xc_stage (gw_calls (set_stage k st s) ! k) = st"
  by (simp add: set_stage_def)

lemma returns_closing:
  assumes "call_at k (Closing o' b) s" "gw_clock s \<le> d"
  shows "returns_by pb hash k d s"
proof (rule returns_step [OF g_close [OF assms(1)]], rule returns_now)
  show "xc_stage (gw_calls (exchange_close o' b k s) ! k) = Returned (exchange_result_of o' b)"
    using assms(1) by (simp add: exchange_close_def Let_def)
  show "gw_clock (exchange_close o' b k s) \<le> d" using assms(2) by (simp add: exchange_close_def Let_def)
qed

lemma returns_over:
  assumes "call_at k Waiting_response s" "wait_over k s" "gw_clock s \<le> d"
  shows "returns_by pb hash k d s"
proof (rule returns_step [OF g_wait [OF assms(1,2)]], rule returns_closing)
  let ?u = "if \<not> ce_terminal (call_entry k s)
      then count_timeout (set_entry (xc_entry (gw_calls s ! k)) (expire_entry (gw_clock s) (call_entry k s)) s) else s"
  show "call_at k (Closing (ce_outcome (call_entry k ?u)) (ce_response (call_entry k ?u))) (wait_end k s)"
    using assms(1) by (simp add: wait_end_def Let_def count_timeout_def)
  show "gw_clock (wait_end k s) \<le> d" using assms(3) by (simp add: wait_end_def Let_def count_timeout_def)
qed

lemma returns_waiting:
  assumes "call_at k Waiting_response s" "ce_deadline (call_entry k s) \<le> d" "gw_clock s \<le> d"
  shows "returns_by pb hash k d s"
proof (rule returns_step [OF g_time [of "max 0 (ce_deadline (call_entry k s) - gw_clock s)"]], simp, rule returns_over)
  let ?u = "s\<lparr>gw_clock := gw_clock s + max 0 (ce_deadline (call_entry k s) - gw_clock s)\<rparr>"
  show "call_at k Waiting_response ?u" "wait_over k ?u" "gw_clock ?u \<le> d"
    using assms by (simp_all add: wait_over_def max_def)
qed

lemma returns_published:
  assumes "call_at k Published s" "table_ok s" "ce_deadline (call_entry k s) \<le> d" "gw_clock s \<le> d"
  shows "returns_by pb hash k d s"
  using assms entry_bound [of s k]
  by (intro returns_step [OF g_accepted [OF assms(1)]] returns_waiting) (simp_all add: mark_accepted_def)

lemma returns_refusing:
  assumes "call_at k (Refusing u) s" "gw_clock s \<le> d"
  shows "returns_by pb hash k d s"
  by (rule returns_step [OF g_refuse [OF assms(1)]], rule returns_now)
    (use assms in \<open>auto simp: refuse_erase_def intro: stage_set\<close>)

lemma returns_publishing:
  assumes "call_at k Publishing s" "gw_clock s \<le> d"
  shows "returns_by pb hash k d s"
  by (rule returns_step [OF g_publish [OF assms(1), of _ _ published_unknown]], rule returns_refusing [where u = True])
    (use assms in \<open>simp_all add: publish_returned_def published_unknown_def\<close>)

lemma returns_prepared:
  assumes "call_at k Prepared s" "gw_clock s \<le> d"
  shows "returns_by pb hash k d s"
proof (rule returns_step [OF g_register [OF assms(1)]])
  have c: "gw_clock (exchange_register k s) \<le> d" "k < length (gw_calls (exchange_register k s))"
    using assms by (simp_all add: exchange_register_def Let_def)
  have "(\<exists>r. xc_stage (gw_calls (exchange_register k s) ! k) = Returned r)
      \<or> xc_stage (gw_calls (exchange_register k s) ! k) = Publishing"
    using assms(1)
    by (cases "length (gw_table s) \<ge> unat (gc_max_in_flight (gw_config s))";
        cases "ce_message_id (call_entry k s) \<in> fst ` set (gw_table s) \<or> ce_message_id (call_entry k s) \<in> fst ` set (gw_recent s)")
      (simp_all add: exchange_register_def Let_def)
  then show "returns_by pb hash k d (exchange_register k s)"
    using c returns_now returns_publishing by (elim disjE exE) blast+
qed



section \<open>What is admitted\<close>

lemma payload_type_shape:
  "payload_type_in_capability sv pt \<longleftrightarrow>
     (\<exists>c cs. pt = sv @ ''.v1.'' @ c # cs \<and> ident_start c \<and> list_all ident_char cs)"
proof
  assume p: "payload_type_in_capability sv pt"
  let ?p = "sv @ ''.v1.''"
  have "pt = take (length ?p) pt @ drop (length ?p) pt" by (rule append_take_drop_id [symmetric])
  moreover have "take (length ?p) pt = ?p" "drop (length ?p) pt \<noteq> []" "ident_start (hd (drop (length ?p) pt))"
    "list_all ident_char (tl (drop (length ?p) pt))"
    using p unfolding payload_type_in_capability_def Let_def by (auto split: if_splits)
  ultimately show "\<exists>c cs. pt = sv @ ''.v1.'' @ c # cs \<and> ident_start c \<and> list_all ident_char cs"
    by (metis append.assoc list.collapse)
qed (auto simp: payload_type_in_capability_def Let_def)

text \<open>
  C33. An envelope is admitted exactly when it is well formed: neither empty nor longer than the
  limit, parsed, of an allowed version and service, of the direction expected, with a payload type
  that is an identifier under the first version of its service, a payload within its limit, not
  expired, with a message id and, for a response, a correlation id.
\<close>

theorem envelope_admitted:
  "va_ok (validate_envelope pb cfg wall raw req) \<longleftrightarrow>
     raw \<noteq> [] \<and> length raw \<le> unat (gc_max_envelope_bytes cfg)
   \<and> (\<exists>env. parse_envelope pb raw = Some env
        \<and> ve_protocol_version env \<in> set (gc_allowed_protocol_versions cfg)
        \<and> ve_message_kind env \<noteq> MESSAGE_KIND_UNSPECIFIED
        \<and> req = (ve_message_kind env = MESSAGE_KIND_REQUEST)
        \<and> ve_service env \<in> set (gc_allowed_services cfg)
        \<and> (\<exists>c cs. ve_payload_type env = ve_service env @ ''.v1.'' @ c # cs \<and> ident_start c \<and> list_all ident_char cs)
        \<and> word_of_nat (length (ve_payload env)) \<le> gc_max_payload_bytes cfg
        \<and> \<not> expired_at wall env
        \<and> ve_message_id env \<noteq> []
        \<and> (ve_message_kind env \<noteq> MESSAGE_KIND_RESPONSE \<or> ve_correlation_id env \<notin> {None, Some []}))"
proof (cases "parse_envelope pb raw")
  case None
  then show ?thesis by (simp add: validate_envelope_def fail_with_def new_validation_def Let_def)
next
  case (Some env)
  have ids: "va_ok (validate_ids env v) \<longleftrightarrow> va_ok v \<or> (ve_message_id env \<noteq> []
      \<and> (va_message_kind v \<noteq> MESSAGE_KIND_RESPONSE \<or> ve_correlation_id env \<notin> {None, Some []}))" for v
    by (auto simp: validate_ids_def fail_with_def Let_def split: option.split)
  have content: "va_ok (validate_content cfg wall env v) \<longleftrightarrow> ve_service env \<in> set (gc_allowed_services cfg)
      \<and> payload_type_in_capability (ve_service env) (ve_payload_type env)
      \<and> word_of_nat (length (ve_payload env)) \<le> gc_max_payload_bytes cfg \<and> \<not> expired_at wall env
      \<and> ve_message_id env \<noteq> [] \<and> (va_message_kind v \<noteq> MESSAGE_KIND_RESPONSE \<or> ve_correlation_id env \<notin> {None, Some []})"
    if "\<not> va_ok v" for v
    using that by (auto simp: validate_content_def ids fail_with_def Let_def)
  let ?v = "new_validation\<lparr>va_message_kind := ve_message_kind env\<rparr>"
  have "\<not> va_ok ?v" "va_message_kind ?v = ve_message_kind env" by (simp_all add: new_validation_def)
  note c = content [OF this(1), unfolded this(2)]
  show ?thesis
    unfolding validate_envelope_def Let_def Some option.case length_0_conv payload_type_shape [symmetric]
    using Some c by (cases req) (auto simp: fail_with_def new_validation_def)
qed

theorem envelope_admitted_witness:
  "va_ok (validate_envelope fota_pb default_gateway_config 5 [2] False)
   \<and> (\<exists>env. parse_envelope fota_pb [2] = Some env \<and> ve_correlation_id env \<notin> {None, Some []})"
proof -
  have ok: "va_ok (validate_envelope fota_pb default_gateway_config 5 [2] False)" by (simp add: response_valid)
  have "ve_message_kind e = MESSAGE_KIND_RESPONSE" if "parse_envelope fota_pb [2] = Some e" for e
    using that by (auto simp: fota_pb_def fota_envelope_def)
  with ok [unfolded envelope_admitted] ok show ?thesis by blast
qed

section \<open>Stopping\<close>

lemma stop_entries_at:
  "i < length es \<Longrightarrow> i \<in> snd ` set kvs \<Longrightarrow>
     fold (\<lambda>kv es. es[snd kv := stop_entry now (es ! snd kv)]) kvs es ! i = stop_entry now (es ! i)"
proof (induction kvs arbitrary: es)
  case (Cons kv kvs)
  let ?es = "es[snd kv := stop_entry now (es ! snd kv)]"
  have twice: "stop_entry now (stop_entry now e) = stop_entry now e" for e by (simp add: stop_entry_def)
  show ?case
  proof (cases "i \<in> snd ` set kvs")
    case True
    then show ?thesis using Cons by (cases "i = snd kv") (simp_all add: twice)
  next
    case False
    have "fold (\<lambda>kv es. es[snd kv := stop_entry now (es ! snd kv)]) ks xs ! i = xs ! i"
      if "i \<notin> snd ` set ks" for ks xs using that by (induction ks arbitrary: xs) auto
    from this [OF False, of ?es] show ?thesis using False Cons.prems by auto
  qed
qed simp

text \<open>
  C35. Stopping releases who waits: once the gateway marked the entries in flight, the wait of every
  exchange in the table is over, whatever its deadline; an exchange not completed before returns
  \<open>Stopping\<close>, one already completed keeps its result.
\<close>

theorem stop_releases_waiting:
  assumes "(gw_step pb hash)\<^sup>*\<^sup>* (fresh_gateway cfg) s" "call_at k Waiting_response s"
    and "xc_entry (gw_calls s ! k) \<in> snd ` set (gw_table s)"
    and "t = stop_mark (stop_begin s)" and "e = call_entry k s"
  shows "wait_over k t
    \<and> xc_stage (gw_calls (wait_end k t) ! k) =
        Closing (if ce_terminal e then ce_outcome e else ToStopping) (ce_response e)
    \<and> exchange_result_of ToStopping b = failed_result ToStopping 0 ''stopping''"
proof -
  have ok: "table_ok s" by (rule active_table.run [OF assms(1) fresh_table_ok])
  have b: "gw_entries (stop_begin s) = gw_entries s" "gw_table (stop_begin s) = gw_table s"
    "gw_calls (stop_begin s) = gw_calls s" by (simp_all add: stop_begin_def)
  have e: "call_entry k t = stop_entry (gw_clock (stop_begin s)) e"
    using stop_entries_at [OF entry_bound [OF ok] assms(3)] assms(2,4,5) by (simp add: stop_mark_def b)
  then have w: "wait_over k t" by (simp add: wait_over_def stop_entry_def)
  have "ce_terminal (call_entry k t)" "ce_response (call_entry k t) = ce_response e"
    "ce_outcome (call_entry k t) = (if ce_terminal e then ce_outcome e else ToStopping)"
    by (simp_all add: e stop_entry_def)
  moreover have "k < length (gw_calls t)" using assms(2,4) by (simp add: stop_mark_def b)
  ultimately have "xc_stage (gw_calls (wait_end k t) ! k) =
        Closing (if ce_terminal e then ce_outcome e else ToStopping) (ce_response e)"
    by (simp add: wait_end_def Let_def set_stage_def)
  then show ?thesis using w by (simp add: exchange_result_of_def)
qed

theorem stop_releases_waiting_witness:
  "\<exists>n. wait_over 0 (stop_mark (stop_begin (lab_gateway Waiting_response fota_answered tab1 n [] [fota_match])))"
proof -
  obtain n where w: "(gw_step fota_pb length)\<^sup>*\<^sup>* (fresh_gateway default_gateway_config)
    (lab_gateway Waiting_response fota_answered tab1 n [] [fota_match])" by (rule lab_waiting)
  have "call_at 0 Waiting_response (lab_gateway Waiting_response fota_answered tab1 n [] [fota_match])"
    "xc_entry (gw_calls (lab_gateway Waiting_response fota_answered tab1 n [] [fota_match]) ! 0)
      \<in> snd ` set (gw_table (lab_gateway Waiting_response fota_answered tab1 n [] [fota_match]))"
    by simp_all (simp add: lab_gateway_def)
  from stop_releases_waiting [OF w this refl refl] show ?thesis by blast
qed

section \<open>Events\<close>

text \<open>
  A downlink never completes a request by being an event, and an event dropped by a full queue
  is counted as forwarded unless the policy is to reject it: tables, entries and pending responses
  are untouched, and with \<open>kDrop\<close> or \<open>kDisconnect\<close> the queue stays as it was while the counter of
  forwarded events, not that of dropped ones, goes up.
\<close>

theorem dropped_event_counted_forwarded:
  assumes "gw_publisher s = Some p" "ep_service_count p (va_service v) \<ge> unat (ep_queue_capacity p)"
    and "ep_policy p \<noteq> KReject"
  shows "gw_publisher (forward_event v ev s) = Some p
    \<and> tc_event_forwarded (gw_counters (forward_event v ev s)) = tc_event_forwarded (gw_counters s) + 1
    \<and> tc_event_dropped (gw_counters (forward_event v ev s)) = tc_event_dropped (gw_counters s)
    \<and> gw_table (forward_event v ev s) = gw_table s \<and> gw_entries (forward_event v ev s) = gw_entries s
    \<and> gw_pending (forward_event v ev s) = gw_pending s"
  using assms by (simp add: forward_event_def full_queue Let_def) (simp add: count_tc_def)

theorem dropped_event_counted_forwarded_witness:
  "tc_event_forwarded (gw_counters (forward_event new_validation (fota_downlink 3)
     ((fresh_gateway default_gateway_config)\<lparr>gw_publisher := Some ((new_publisher 1 KDrop)\<lparr>ep_service_count := \<lambda>_. 1\<rparr>)\<rparr>))) = 1"
  using dropped_event_counted_forwarded [of "(fresh_gateway default_gateway_config)\<lparr>gw_publisher := Some ((new_publisher 1 KDrop)\<lparr>ep_service_count := \<lambda>_. 1\<rparr>)\<rparr>"
     "(new_publisher 1 KDrop)\<lparr>ep_service_count := \<lambda>_. 1\<rparr>" new_validation "fota_downlink 3"]
  by (simp add: new_publisher_def fresh_gateway_def new_gateway_def no_transport_counters_def)

end
