(* ===== verification/IpcBridge.thy ===== *)
theory IpcBridge
  imports GatewayModel
begin

text \<open>
  The local IPC between the service and its clients: method numbers and field names
  (src/include/tsp\_ipc\_protocol.h), the retry policy (src/src/tsp\_retry\_policy.cpp), error
  codes (src/src/tsp\_error\_codes.cpp), the request dispatcher (src/src/tsp\_ipc\_dispatcher.cpp),
  the subscription step of the server (src/src/tsp\_framework\_server.cpp) and the client facade
  (src/src/tsp\_client.cpp).

  The framework that carries requests and events is a function from a request to its answer;
  JSON and base64 are library functions, of which base64 decoding may throw (\<open>None\<close>). The relay is
  a function from a request to its result, \<open>None\<close> when there is none. An exception of the JSON
  library is \<open>None\<close>; no other exception can leave the handlers. Output of JSON is total: the
  library throws on text that is not UTF-8.
\<close>

section \<open>Codes\<close>

datatype ipc_method = GetNetStatus | ExchangeVehicleMessage | SubscribeVehicleMessage | SubscribeNetStatus

definition method_id :: "ipc_method \<Rightarrow> u32" where
  "method_id m = (case m of GetNetStatus \<Rightarrow> 1 | ExchangeVehicleMessage \<Rightarrow> 2
     | SubscribeVehicleMessage \<Rightarrow> 3 | SubscribeNetStatus \<Rightarrow> 4)"

definition method_of :: "u32 \<Rightarrow> ipc_method option" where
  "method_of i = List.find (\<lambda>m. method_id m = i)
     [GetNetStatus, ExchangeVehicleMessage, SubscribeVehicleMessage, SubscribeNetStatus]"

definition kEventNetStatusChanged :: u32 where "kEventNetStatusChanged = 100"

definition kSuccess :: int where "kSuccess = 0"
definition kPayloadParseFailed :: int where "kPayloadParseFailed = 1002"
definition kRouteApiIncompatible :: int where "kRouteApiIncompatible = 1007"
definition kInvalidParameter :: int where "kInvalidParameter = 2001"
definition kNotInitialized :: int where "kNotInitialized = 2003"
definition kConnectionFailed :: int where "kConnectionFailed = 2004"
definition kInternalError :: int where "kInternalError = 9999"
definition kFwSerializationFailed :: int where "kFwSerializationFailed = 305"
definition kFwHandlerFailed :: int where "kFwHandlerFailed = 306"

definition map_fw_status :: "int \<Rightarrow> int" where
  "map_fw_status fw_status = (if fw_status = 0 then kSuccess else kConnectionFailed)"

definition tsp_error_for_outcome :: "transport_outcome \<Rightarrow> int" where
  "tsp_error_for_outcome o' =
     (case o' of ToAccepted \<Rightarrow> kSuccess | ToRejected \<Rightarrow> kPayloadParseFailed | ToTimeout \<Rightarrow> kPublishFailed
      | ToUnknown \<Rightarrow> kUnknownOutcome | ToUnavailable \<Rightarrow> kRouteApiIncompatible
      | ToVersionMismatch \<Rightarrow> kRouteApiIncompatible | ToPayloadTooLarge \<Rightarrow> kFrameTooLarge
      | ToProtocolError \<Rightarrow> kPayloadParseFailed | ToStopping \<Rightarrow> kPublishFailed)"

definition parse_outcome :: "string \<Rightarrow> transport_outcome" where
  "parse_outcome s =
     (if s = ''Accepted'' then ToAccepted else if s = ''Rejected'' then ToRejected
      else if s = ''Timeout'' then ToTimeout else if s = ''Unknown'' then ToUnknown
      else if s = ''Unavailable'' then ToUnavailable else if s = ''VersionMismatch'' then ToVersionMismatch
      else if s = ''PayloadTooLarge'' then ToPayloadTooLarge else if s = ''ProtocolError'' then ToProtocolError
      else if s = ''Stopping'' then ToStopping else ToUnknown)"

section \<open>Retry policy\<close>

datatype retry_category = KReadOnly | KOneShot

definition categorize :: "u32 \<Rightarrow> retry_category" where
  "categorize i =
     (case method_of i of
        Some GetNetStatus \<Rightarrow> KReadOnly
      | Some ExchangeVehicleMessage \<Rightarrow> KOneShot
      | Some SubscribeVehicleMessage \<Rightarrow> KOneShot
      | Some SubscribeNetStatus \<Rightarrow> KOneShot
      | None \<Rightarrow> KOneShot)"

definition should_retry :: "u32 \<Rightarrow> bool" where
  "should_retry i \<longleftrightarrow> categorize i = KReadOnly"

section \<open>The dispatcher\<close>

record call_context =
  cx_trace_id :: string
  cx_request_id :: string

record net_status =
  ns_is_connected :: bool
  ns_signal_strength :: int
  ns_network_type :: string
  ns_operator_name :: string

record ipc_lib =
  il_json :: json_lib
  il_b64_encode :: "bytes \<Rightarrow> string"
  il_b64_decode :: "string \<Rightarrow> bytes option"

type_synonym relay_fn = "(bytes \<Rightarrow> exchange_options \<Rightarrow> call_context \<Rightarrow> exchange_result) option"

record ipc_dispatcher =
  id_relay :: relay_fn
  id_net :: "net_status option"
  id_max_payload_bytes :: u32

definition error_body :: "ipc_lib \<Rightarrow> string \<Rightarrow> string" where
  "error_body L err = js_dump (il_json L) (jobj [(''error'', JStr err)])"

definition failure_body :: "ipc_lib \<Rightarrow> string \<Rightarrow> string" where
  "failure_body L err = js_dump (il_json L) (jobj [(''success'', JBool False), (''error'', JStr err)])"

definition result_json :: "ipc_lib \<Rightarrow> exchange_result \<Rightarrow> json" where
  "result_json L r =
     jobj ([(''success'', JBool (xr_outcome r = ToAccepted)),
            (''outcome'', JStr (transport_outcome_to_string (xr_outcome r)))]
       @ (case xr_value r of None \<Rightarrow> [] | Some b \<Rightarrow> if b \<noteq> [] then [(''envelope_base64'', JStr (il_b64_encode L b))] else [])
       @ (if xr_error r \<noteq> [] then [(''error'', JStr (xr_error r))] else []))"

definition exchange_request ::
  "ipc_lib \<Rightarrow> json \<Rightarrow> bytes \<Rightarrow> (bytes \<times> exchange_options \<times> call_context) option" where
  "exchange_request L j b =
     do {
       timeout \<leftarrow> jvalue j ''timeout_ms'' (js_int (il_json L)) 0;
       max_bytes \<leftarrow> jvalue j ''max_response_bytes'' (js_u32 (il_json L)) 16384;
       trace \<leftarrow> jvalue j ''trace_id'' (js_str (il_json L)) [];
       req \<leftarrow> jvalue j ''request_id'' (js_str (il_json L)) [];
       Some (b, \<lparr>xo_timeout_ms = timeout, xo_max_response_bytes = unat max_bytes\<rparr>,
             \<lparr>cx_trace_id = trace, cx_request_id = req\<rparr>)
     }"

definition handle_exchange_vehicle_message ::
  "ipc_lib \<Rightarrow> ipc_dispatcher \<Rightarrow> string \<Rightarrow> (int \<times> string) option" where
  "handle_exchange_vehicle_message L D params =
     (case js_parse (il_json L) params of
        None \<Rightarrow> Some (kFwSerializationFailed, failure_body L ''Invalid JSON'')
      | Some j \<Rightarrow>
        do {
          envelope_b64 \<leftarrow> jvalue j ''envelope_base64'' (js_str (il_json L)) [];
          (if envelope_b64 = []
           then Some (kInvalidParameter, failure_body L ''Missing envelope_base64'')
           else if length envelope_b64 > unat (id_max_payload_bytes D)
           then Some (kFrameTooLarge, failure_body L ''Frame too large'')
           else (case il_b64_decode L envelope_b64 of
                   None \<Rightarrow> Some (kFwSerializationFailed, failure_body L ''base64 decode failed'')
                 | Some b \<Rightarrow>
                   do {
                     (request, options, ctx) \<leftarrow> exchange_request L j b;
                     (case id_relay D of
                        None \<Rightarrow> Some (kNotInitialized, failure_body L ''Relay not ready'')
                      | Some f \<Rightarrow>
                          (let r = f request options ctx
                           in Some (tsp_error_for_outcome (xr_outcome r), js_dump (il_json L) (result_json L r))))
                   }))
        })"

definition handle_get_net_status :: "ipc_lib \<Rightarrow> ipc_dispatcher \<Rightarrow> int \<times> string" where
  "handle_get_net_status L D =
     (case id_net D of
        None \<Rightarrow> (kNotInitialized, error_body L ''Net status provider not available'')
      | Some st \<Rightarrow>
          (0, js_dump (il_json L) (jobj
            [(''is_connected'', JBool (ns_is_connected st)), (''signal_strength'', JNum (ns_signal_strength st)),
             (''network_type'', JStr (ns_network_type st)), (''operator'', JStr (ns_operator_name st))])))"

definition handle_subscribe :: "ipc_lib \<Rightarrow> int \<times> string" where
  "handle_subscribe L = (0, js_dump (il_json L) (jobj [(''success'', JBool True)]))"

text \<open>\<open>j[status] = s\<close> throws unless \<open>j\<close> is an object or null.\<close>

definition make_json_response :: "ipc_lib \<Rightarrow> int \<Rightarrow> json \<Rightarrow> string option" where
  "make_json_response L status payload =
     (case payload of
        JObj kvs \<Rightarrow> Some (js_dump (il_json L) (JObj (jset ''status'' (JNum status) kvs)))
      | JNull \<Rightarrow> Some (js_dump (il_json L) (jobj [(''status'', JNum status)]))
      | _ \<Rightarrow> None)"

definition handle_method :: "ipc_lib \<Rightarrow> ipc_dispatcher \<Rightarrow> u32 \<Rightarrow> string \<Rightarrow> int \<times> string" where
  "handle_method L D i params =
     (case (case method_of i of
              Some ExchangeVehicleMessage \<Rightarrow> handle_exchange_vehicle_message L D params
            | Some GetNetStatus \<Rightarrow> Some (handle_get_net_status L D)
            | Some SubscribeVehicleMessage \<Rightarrow> Some (handle_subscribe L)
            | Some SubscribeNetStatus \<Rightarrow> Some (handle_subscribe L)
            | None \<Rightarrow> Some (kFwHandlerFailed, error_body L ''Unknown method''))
      of None \<Rightarrow> (kFwSerializationFailed, error_body L ''JSON error'')
       | Some result \<Rightarrow> result)"

definition ipc_dispatch :: "ipc_lib \<Rightarrow> ipc_dispatcher \<Rightarrow> u32 \<Rightarrow> string \<Rightarrow> string" where
  "ipc_dispatch L D i params =
     (let (status, body) = handle_method L D i params;
          fallback = js_dump (il_json L) (jobj [(''error'', JStr ''Invalid response''), (''status'', JNum status)])
      in case js_parse (il_json L) body of
           None \<Rightarrow> fallback
         | Some payload \<Rightarrow> (case make_json_response L status payload of None \<Rightarrow> fallback | Some t \<Rightarrow> t))"

text \<open>The request handler of the server: subscriptions are registered before the answer.\<close>

definition request_handler ::
  "ipc_lib \<Rightarrow> ipc_dispatcher \<Rightarrow> u32 \<Rightarrow> string \<Rightarrow> int \<Rightarrow> (int \<times> u32) list \<Rightarrow> string \<times> (int \<times> u32) list" where
  "request_handler L D i params client_fd subs =
     (ipc_dispatch L D i params,
      case method_of i of
        Some SubscribeVehicleMessage \<Rightarrow> subs @ [(client_fd, kEventVehicleMessage)]
      | Some SubscribeNetStatus \<Rightarrow> subs @ [(client_fd, kEventNetStatusChanged)]
      | _ \<Rightarrow> subs)"

section \<open>The client\<close>

text \<open>The framework's call: with the permission to replay or without, to status and answer.\<close>

type_synonym fw_call = "bool \<Rightarrow> u32 \<Rightarrow> string \<Rightarrow> int \<times> string"

definition send_ipc_request :: "fw_call \<Rightarrow> u32 \<Rightarrow> string \<Rightarrow> bool \<times> int \<times> string" where
  "send_ipc_request fw i params =
     (let (st, resp) = (if should_retry i then fw True i params else fw False i params) in (st = 0, st, resp))"

definition exchange_params :: "ipc_lib \<Rightarrow> bytes \<Rightarrow> exchange_options \<Rightarrow> call_context \<Rightarrow> json" where
  "exchange_params L b opts ctx =
     jobj ([(''envelope_base64'', JStr (il_b64_encode L b)),
            (''timeout_ms'', JNum (uint (word_of_int (xo_timeout_ms opts) :: u32))),
            (''max_response_bytes'', JNum (uint (word_of_nat (xo_max_response_bytes opts) :: u32)))]
       @ (if cx_trace_id ctx \<noteq> [] then [(''trace_id'', JStr (cx_trace_id ctx))] else [])
       @ (if cx_request_id ctx \<noteq> [] then [(''request_id'', JStr (cx_request_id ctx))] else []))"

definition parse_answer :: "ipc_lib \<Rightarrow> string \<Rightarrow> exchange_result option" where
  "parse_answer L text' =
     do {
       j \<leftarrow> js_parse (il_json L) text';
       out \<leftarrow> jvalue j ''outcome'' (js_str (il_json L)) ''Unknown'';
       code \<leftarrow> jvalue j ''status'' (js_int (il_json L)) 0;
       err \<leftarrow> jvalue j ''error'' (js_str (il_json L)) [];
       b64 \<leftarrow> jvalue j ''envelope_base64'' (js_str (il_json L)) [];
       (if b64 = []
        then Some \<lparr>xr_outcome = parse_outcome out, xr_value = None, xr_error_code = code, xr_error = err\<rparr>
        else do {
          b \<leftarrow> il_b64_decode L b64;
          Some \<lparr>xr_outcome = parse_outcome out, xr_value = Some b, xr_error_code = code, xr_error = err\<rparr>
        })
     }"

definition exchange_vehicle_message ::
  "ipc_lib \<Rightarrow> fw_call \<Rightarrow> bytes \<Rightarrow> exchange_options \<Rightarrow> call_context \<Rightarrow> exchange_result" where
  "exchange_vehicle_message L fw b opts ctx =
     (let (transport_ok, st, resp) =
            send_ipc_request fw (method_id ExchangeVehicleMessage) (js_dump (il_json L) (exchange_params L b opts ctx))
      in if \<not> transport_ok
         then \<lparr>xr_outcome = ToUnavailable, xr_value = None, xr_error_code = map_fw_status st,
               xr_error = ''transport_failed''\<rparr>
         else (case parse_answer L resp of
                 None \<Rightarrow> \<lparr>xr_outcome = ToProtocolError, xr_value = None, xr_error_code = kInternalError,
                          xr_error = ''invalid_response''\<rparr>
               | Some r \<Rightarrow> r))"

text \<open>The wrapped event handler of a subscription: what it passes on, if anything.\<close>

definition on_vehicle_event :: "ipc_lib \<Rightarrow> string \<Rightarrow> string \<Rightarrow> bytes option" where
  "on_vehicle_event L svc payload_json =
     do {
       j \<leftarrow> js_parse (il_json L) payload_json;
       sv \<leftarrow> jvalue j ''service'' (js_str (il_json L)) [];
       (if sv \<noteq> [] \<and> sv \<noteq> svc then None
        else do {
          b64 \<leftarrow> jvalue j ''envelope_base64'' (js_str (il_json L)) [];
          (if b64 = [] then None else il_b64_decode L b64)
        })
     }"

section \<open>What reaches the relay\<close>

text \<open>The request that an exchange passes to the relay, if any.\<close>

definition relayed_request ::
  "ipc_lib \<Rightarrow> ipc_dispatcher \<Rightarrow> string \<Rightarrow> (bytes \<times> exchange_options \<times> call_context) option" where
  "relayed_request L D params =
     do {
       j \<leftarrow> js_parse (il_json L) params;
       b64 \<leftarrow> jvalue j ''envelope_base64'' (js_str (il_json L)) [];
       (if b64 = [] \<or> length b64 > unat (id_max_payload_bytes D) then None
        else do {
          b \<leftarrow> il_b64_decode L b64;
          exchange_request L j b
        })
     }"

lemmas code_values = kSuccess_def kPayloadParseFailed_def kRouteApiIncompatible_def kInvalidParameter_def
  kNotInitialized_def kConnectionFailed_def kInternalError_def kFwSerializationFailed_def kFwHandlerFailed_def
  kPublishFailed_def kUnknownOutcome_def kFrameTooLarge_def kResponseConflict_def

lemma error_for_outcome_zero [simp]: "tsp_error_for_outcome o' = 0 \<longleftrightarrow> o' = ToAccepted"
  by (cases o') (simp_all add: tsp_error_for_outcome_def code_values)

lemma outcome_roundtrip [simp]: "parse_outcome (transport_outcome_to_string o') = o'"
  by (cases o') (simp_all add: parse_outcome_def transport_outcome_to_string_def)

lemma method_of_id [simp]: "method_of (method_id m) = Some m"
  by (cases m) (simp_all add: method_of_def method_id_def)

text \<open>The handler of an exchange, by what it passes on.\<close>

lemma exchange_handled:
  "handle_exchange_vehicle_message L D params =
     (case relayed_request L D params of
        Some (b, opts, ctx) \<Rightarrow>
          (case id_relay D of
             None \<Rightarrow> Some (kNotInitialized, failure_body L ''Relay not ready'')
           | Some f \<Rightarrow> Some (tsp_error_for_outcome (xr_outcome (f b opts ctx)),
               js_dump (il_json L) (result_json L (f b opts ctx))))
      | None \<Rightarrow> handle_exchange_vehicle_message L (D\<lparr>id_relay := None\<rparr>) params)"
proof (cases "js_parse (il_json L) params")
  case (Some j)
  show ?thesis
  proof (cases "jvalue j ''envelope_base64'' (js_str (il_json L)) []")
    case env: (Some b64)
    show ?thesis
    proof (cases "il_b64_decode L b64")
      case (Some b)
      show ?thesis
        by (cases "exchange_request L j b")
          (auto simp: handle_exchange_vehicle_message_def relayed_request_def \<open>js_parse _ _ = _\<close> env Some Let_def
            split: option.split)
    qed (simp add: handle_exchange_vehicle_message_def relayed_request_def Some env)
  qed (simp add: handle_exchange_vehicle_message_def relayed_request_def Some)
qed (simp add: handle_exchange_vehicle_message_def relayed_request_def)

lemma refused_status:
  "relayed_request L D params = None \<Longrightarrow>
     handle_exchange_vehicle_message L (D\<lparr>id_relay := None\<rparr>) params = Some (st, body) \<Longrightarrow> st \<noteq> 0"
  by (auto simp: handle_exchange_vehicle_message_def relayed_request_def code_values
      split: option.splits if_splits bind_splits)

lemma answer_has_status:
  "\<exists>kvs. ipc_dispatch L D i params = js_dump (il_json L) (JObj kvs)
     \<and> map_of kvs ''status'' = Some (JNum (fst (handle_method L D i params)))"
proof (cases "handle_method L D i params")
  case (Pair st body)
  have o: "\<exists>kvs. jobj xs = JObj kvs \<and> map_of kvs ''status'' = Some (JNum st)"
    if "map_of (rev xs) ''status'' = Some (JNum st)" for xs
    using that jget_jobj [of xs "''status''"] by (auto simp: jget_def jobj_def)
  have f: "\<exists>kvs. js_dump (il_json L) (jobj xs) = js_dump (il_json L) (JObj kvs) \<and> map_of kvs ''status'' = Some (JNum st)"
    if "map_of (rev xs) ''status'' = Some (JNum st)" for xs
    using o [OF that] by metis
  show ?thesis
  proof (cases "js_parse (il_json L) body")
    case None
    then show ?thesis by (auto simp: ipc_dispatch_def Pair intro!: f)
  next
    case (Some j)
    then show ?thesis by (cases j) (auto simp: ipc_dispatch_def Pair make_json_response_def intro!: f)
  qed
qed

text \<open>
  An exchange is answered with the status of success only if its parameters were well formed
  and within the frame limit, the relay was asked with exactly the envelope and options they
  encode, and the relay accepted; the answer is a JSON object that carries this status.
\<close>

theorem success_means_accepted:
  assumes "fst (handle_method L D (method_id ExchangeVehicleMessage) params) = 0"
  shows "\<exists>f b opts ctx kvs. id_relay D = Some f \<and> relayed_request L D params = Some (b, opts, ctx)
      \<and> xr_outcome (f b opts ctx) = ToAccepted
      \<and> ipc_dispatch L D (method_id ExchangeVehicleMessage) params = js_dump (il_json L) (JObj kvs)
      \<and> map_of kvs ''status'' = Some (JNum 0)"
proof -
  obtain body where h: "handle_exchange_vehicle_message L D params = Some (0, body)"
    using assms by (auto simp: handle_method_def code_values split: option.splits)
  then obtain f b opts ctx where f: "id_relay D = Some f" "relayed_request L D params = Some (b, opts, ctx)"
      "xr_outcome (f b opts ctx) = ToAccepted"
    using refused_status [of L D params 0 body]
    by (cases "relayed_request L D params"; cases "id_relay D") (auto simp: exchange_handled [of L D] code_values)
  moreover have "\<exists>kvs. ipc_dispatch L D (method_id ExchangeVehicleMessage) params = js_dump (il_json L) (JObj kvs)
      \<and> map_of kvs ''status'' = Some (JNum 0)"
    using answer_has_status [of L D "method_id ExchangeVehicleMessage" params] assms by simp
  ultimately show ?thesis by blast
qed

section \<open>Through the wire\<close>

definition json_returns :: "json_lib \<Rightarrow> json \<Rightarrow> bool" where
  "json_returns jl j \<longleftrightarrow> js_parse jl (js_dump jl j) = Some j"

definition b64_spec :: "ipc_lib \<Rightarrow> bool" where
  "b64_spec L \<longleftrightarrow> (\<forall>b. il_b64_decode L (il_b64_encode L b) = Some b \<and> (b \<noteq> [] \<longrightarrow> il_b64_encode L b \<noteq> []))"

definition answer_json :: "ipc_lib \<Rightarrow> exchange_result \<Rightarrow> json" where
  "answer_json L r = (case result_json L r of
     JObj kvs \<Rightarrow> JObj (jset ''status'' (JNum (tsp_error_for_outcome (xr_outcome r))) kvs) | j \<Rightarrow> j)"

lemma answer_get:
  "jget (answer_json L r) k =
     (if k = ''status'' then Some (JNum (tsp_error_for_outcome (xr_outcome r))) else jget (result_json L r) k)"
  by (auto simp: answer_json_def result_json_def jobj_def jget_def)

lemma jvalue_get: "(\<exists>kvs. j = JObj kvs) \<Longrightarrow> jvalue j k conv d = (case jget j k of None \<Rightarrow> Some d | Some v \<Rightarrow> conv v)"
  by (auto simp: jvalue_def jget_def)

lemma answer_object: "\<exists>kvs. answer_json L r = JObj kvs"
  by (simp add: answer_json_def result_json_def jobj_def)

lemma params_relayed:
  assumes "json_spec (il_json L)" "b64_spec L" "json_returns (il_json L) (exchange_params L b opts ctx)"
    and "b \<noteq> []" "length (il_b64_encode L b) \<le> unat (id_max_payload_bytes D)"
    and "0 \<le> xo_timeout_ms opts" "xo_timeout_ms opts < 2 ^ 31" "xo_max_response_bytes opts < 2 ^ 32"
  shows "relayed_request L D (js_dump (il_json L) (exchange_params L b opts ctx)) = Some (b, opts, ctx)"
proof -
  have j: "js_parse (il_json L) (js_dump (il_json L) (exchange_params L b opts ctx)) = Some (exchange_params L b opts ctx)"
    using assms(3) by (simp add: json_returns_def)
  have d: "jvalue (exchange_params L b opts ctx) k conv dv
      = (case map_of (rev ([(''envelope_base64'', JStr (il_b64_encode L b)),
            (''timeout_ms'', JNum (uint (word_of_int (xo_timeout_ms opts) :: u32))),
            (''max_response_bytes'', JNum (uint (word_of_nat (xo_max_response_bytes opts) :: u32)))]
       @ (if cx_trace_id ctx \<noteq> [] then [(''trace_id'', JStr (cx_trace_id ctx))] else [])
       @ (if cx_request_id ctx \<noteq> [] then [(''request_id'', JStr (cx_request_id ctx))] else []))) k
         of None \<Rightarrow> Some dv | Some v \<Rightarrow> conv v)" for k conv dv
    by (simp add: exchange_params_def jvalue_jobj jget_jobj)
  have t: "uint (word_of_int (xo_timeout_ms opts) :: u32) = xo_timeout_ms opts"
    using assms(6,7) by (simp add: uint_word_of_int take_bit_int_eq_self)
  have m: "unat (word_of_nat (xo_max_response_bytes opts) :: u32) = xo_max_response_bytes opts"
    using assms(8) by (simp add: unat_of_nat take_bit_nat_eq_self)
  have r: "int32_range (xo_timeout_ms opts)" using assms(6,7) by (simp add: int32_range_def)
  have c: "js_int (il_json L) (JNum (xo_timeout_ms opts)) = Some (xo_timeout_ms opts)"
    "js_u32 (il_json L) (JNum (uint w)) = Some w" "js_str (il_json L) (JStr s) = Some s" for w s
    using assms(1) r by (simp_all add: json_spec_def)
  have e: "il_b64_decode L (il_b64_encode L b) = Some b" "il_b64_encode L b \<noteq> []"
    using assms(2,4) by (simp_all add: b64_spec_def)
  let ?jl = "il_json L" and ?P = "exchange_params L b opts ctx"
  have f: "jvalue ?P ''timeout_ms'' (js_int ?jl) 0 = Some (xo_timeout_ms opts)"
    "jvalue ?P ''max_response_bytes'' (js_u32 ?jl) 16384 = Some (word_of_nat (xo_max_response_bytes opts))"
    "jvalue ?P ''trace_id'' (js_str ?jl) [] = Some (cx_trace_id ctx)"
    "jvalue ?P ''request_id'' (js_str ?jl) [] = Some (cx_request_id ctx)"
    "jvalue ?P ''envelope_base64'' (js_str ?jl) [] = Some (il_b64_encode L b)"
    by (simp_all add: d t c)
  have "exchange_request L ?P b = Some (b, opts, ctx)"
    by (simp add: exchange_request_def f m)
  then show ?thesis using assms(5) e by (simp add: relayed_request_def j f)
qed

lemma exchange_over_wire:
  assumes "json_spec (il_json L)" and "b64_spec L" and "id_relay D = Some f" and "f b opts ctx = r"
    and "json_returns (il_json L) (exchange_params L b opts ctx)"
    and "json_returns (il_json L) (result_json L r)" "json_returns (il_json L) (answer_json L r)"
    and "b \<noteq> []" "length (il_b64_encode L b) \<le> unat (id_max_payload_bytes D)"
    and "0 \<le> xo_timeout_ms opts" "xo_timeout_ms opts < 2 ^ 31" "xo_max_response_bytes opts < 2 ^ 32"
  shows "exchange_vehicle_message L (\<lambda>_ i p. (0, ipc_dispatch L D i p)) b opts ctx
    = r\<lparr>xr_value := (if xr_value r = Some [] then None else xr_value r),
        xr_error_code := tsp_error_for_outcome (xr_outcome r)\<rparr>"
proof -
  let ?p = "js_dump (il_json L) (exchange_params L b opts ctx)"
  have "relayed_request L D ?p = Some (b, opts, ctx)"
    by (rule params_relayed) (use assms in simp_all)
  then have "handle_method L D (method_id ExchangeVehicleMessage) ?p
      = (tsp_error_for_outcome (xr_outcome r), js_dump (il_json L) (result_json L r))"
    using assms(3,4) by (simp add: handle_method_def exchange_handled [of L D])
  then have a: "ipc_dispatch L D (method_id ExchangeVehicleMessage) ?p = js_dump (il_json L) (answer_json L r)"
    using assms(6) by (simp add: ipc_dispatch_def json_returns_def answer_json_def make_json_response_def
      result_json_def jobj_def)
  have g: "jget (result_json L r) k = map_of (rev
       ([(''success'', JBool (xr_outcome r = ToAccepted)),
         (''outcome'', JStr (transport_outcome_to_string (xr_outcome r)))]
       @ (case xr_value r of None \<Rightarrow> [] | Some b \<Rightarrow> if b \<noteq> [] then [(''envelope_base64'', JStr (il_b64_encode L b))] else [])
       @ (if xr_error r \<noteq> [] then [(''error'', JStr (xr_error r))] else []))) k" for k
    unfolding result_json_def by (rule jget_jobj)
  have "int32_range (tsp_error_for_outcome (xr_outcome r))"
    by (cases "xr_outcome r") (simp_all add: tsp_error_for_outcome_def code_values int32_range_def)
  then have c: "js_int (il_json L) (JNum (tsp_error_for_outcome (xr_outcome r))) = Some (tsp_error_for_outcome (xr_outcome r))"
    "js_str (il_json L) (JStr s) = Some s" for s
    using assms(1) by (simp_all add: json_spec_def)
  have e: "il_b64_decode L (il_b64_encode L x) = Some x" "x \<noteq> [] \<Longrightarrow> il_b64_encode L x \<noteq> []" for x
    using assms(2) by (simp_all add: b64_spec_def)
  let ?jl = "il_json L" and ?A = "answer_json L r"
  have "jvalue ?A ''outcome'' (js_str ?jl) ''Unknown'' = Some (transport_outcome_to_string (xr_outcome r))"
    "jvalue ?A ''status'' (js_int ?jl) 0 = Some (tsp_error_for_outcome (xr_outcome r))"
    "jvalue ?A ''error'' (js_str ?jl) [] = Some (xr_error r)"
    "jvalue ?A ''envelope_base64'' (js_str ?jl) [] =
      Some (case xr_value r of None \<Rightarrow> [] | Some b \<Rightarrow> if b \<noteq> [] then il_b64_encode L b else [])"
    by (simp_all add: jvalue_get [OF answer_object] answer_get g c split: option.split)
  note f = this
  have p: "js_parse ?jl (js_dump ?jl ?A) = Some ?A" using assms(7) by (simp add: json_returns_def)
  have "parse_answer L (js_dump ?jl ?A) = Some \<lparr>xr_outcome = xr_outcome r,
      xr_value = (if xr_value r = Some [] then None else xr_value r),
      xr_error_code = tsp_error_for_outcome (xr_outcome r), xr_error = xr_error r\<rparr>"
    using e by (cases "xr_value r") (simp_all add: parse_answer_def p f)
  also have "\<dots> = Some (r\<lparr>xr_value := (if xr_value r = Some [] then None else xr_value r),
      xr_error_code := tsp_error_for_outcome (xr_outcome r)\<rparr>)"
    by (cases r) simp
  finally have "parse_answer L (js_dump ?jl ?A) = \<dots>" .
  then show ?thesis
    by (simp add: exchange_vehicle_message_def send_ipc_request_def a)
qed

text \<open>
  C27. The wire is transparent: an exchange through the client, a framework that delivers and the
  dispatcher asks the relay with the caller's envelope, options and context, and returns its
  outcome, error and response unchanged; only the error code is computed anew from the outcome.
\<close>

theorem ipc_exchange_faithful:
  assumes "json_spec (il_json L)" and "b64_spec L" and "id_relay D = Some f" and "f b opts ctx = r"
    and "json_returns (il_json L) (exchange_params L b opts ctx)"
    and "json_returns (il_json L) (result_json L r)" "json_returns (il_json L) (answer_json L r)"
    and "b \<noteq> []" "length (il_b64_encode L b) \<le> unat (id_max_payload_bytes D)"
    and "0 \<le> xo_timeout_ms opts" "xo_timeout_ms opts < 2 ^ 31" "xo_max_response_bytes opts < 2 ^ 32"
  shows "exchange_vehicle_message L (\<lambda>_ i p. (0, ipc_dispatch L D i p)) b opts ctx
    = r\<lparr>xr_value := (if xr_value r = Some [] then None else xr_value r),
        xr_error_code := tsp_error_for_outcome (xr_outcome r)\<rparr>"
  using assms by (rule exchange_over_wire)

text \<open>A library for examples: bytes as characters, and three texts.\<close>

definition bytes_text :: "bytes \<Rightarrow> string" where
  "bytes_text b = map (\<lambda>w. char_of (unat w)) b"

lemma bytes_text_back: "str_bytes (bytes_text b) = b"
proof -
  have "of_char (char_of (unat w)) = w" for w :: u8
  proof -
    have "(of_char (char_of (unat w)) :: u8) = of_nat (of_char (char_of (unat w)))" by (rule of_nat_of_char [symmetric])
    moreover have "unat w mod 256 = unat w"
      using unsigned_less [where 'a = nat, of w] by (intro mod_less) simp
    ultimately show ?thesis by (simp only: of_char_of) simp
  qed
  then show ?thesis by (simp add: bytes_text_def str_bytes_def comp_def)
qed

definition lab_lib :: "json \<Rightarrow> json \<Rightarrow> json \<Rightarrow> ipc_lib" where
  "lab_lib p r a = \<lparr>il_json = (toy_json p)\<lparr>
       js_parse := (\<lambda>s. if s = ''p'' then Some p else if s = ''r'' then Some r else if s = ''a'' then Some a else None),
       js_dump := (\<lambda>j. if j = p then ''p'' else if j = r then ''r'' else if j = a then ''a'' else ''x'')\<rparr>,
     il_b64_encode = bytes_text, il_b64_decode = (\<lambda>s. Some (str_bytes s))\<rparr>"

lemma lab_lib_specs:
  "json_spec (il_json (lab_lib p r a))" "b64_spec (lab_lib p r a)"
  by (simp_all add: lab_lib_def json_spec_def toy_json_def b64_spec_def bytes_text_back)
    (simp add: bytes_text_def)

definition lab_result :: exchange_result where
  "lab_result = \<lparr>xr_outcome = ToAccepted, xr_value = Some [2], xr_error_code = 0, xr_error = []\<rparr>"

definition lab_opts :: exchange_options where
  "lab_opts = \<lparr>xo_timeout_ms = 2500, xo_max_response_bytes = 16384\<rparr>"

definition lab_dispatcher :: ipc_dispatcher where
  "lab_dispatcher = \<lparr>id_relay = Some (\<lambda>_ _ _. lab_result), id_net = None, id_max_payload_bytes = 10485760\<rparr>"

definition lab_wire :: ipc_lib where
  "lab_wire = (let L = lab_lib JNull JNull JNull; c = \<lparr>cx_trace_id = [], cx_request_id = []\<rparr>
     in lab_lib (exchange_params L [1] lab_opts c) (result_json L lab_result) (answer_json L lab_result))"

lemma json_same:
  assumes "il_b64_encode L = il_b64_encode L'"
  shows "exchange_params L = exchange_params L'" "result_json L = result_json L'" "answer_json L = answer_json L'"
  by (intro ext, simp only: exchange_params_def result_json_def answer_json_def assms)+

lemma lab_wire_same:
  "exchange_params lab_wire = exchange_params (lab_lib JNull JNull JNull)"
  "result_json lab_wire = result_json (lab_lib JNull JNull JNull)"
  "answer_json lab_wire = answer_json (lab_lib JNull JNull JNull)"
  by (rule json_same, simp add: lab_wire_def Let_def lab_lib_def)+

lemma lab_wire_returns:
  "json_returns (il_json lab_wire) (exchange_params lab_wire [1] lab_opts \<lparr>cx_trace_id = [], cx_request_id = []\<rparr>)"
  "json_returns (il_json lab_wire) (result_json lab_wire lab_result)"
  "json_returns (il_json lab_wire) (answer_json lab_wire lab_result)"
  unfolding lab_wire_same by (simp_all add: lab_wire_def Let_def lab_lib_def json_returns_def)

lemma lab_wire_specs: "json_spec (il_json lab_wire)" "b64_spec lab_wire"
  by (simp_all add: lab_wire_def Let_def lab_lib_specs)

theorem ipc_exchange_faithful_witness:
  "xr_value (exchange_vehicle_message lab_wire (\<lambda>_ i p. (0, ipc_dispatch lab_wire lab_dispatcher i p)) [1] lab_opts
     \<lparr>cx_trace_id = [], cx_request_id = []\<rparr>) = Some [2]"
  by (subst ipc_exchange_faithful [OF lab_wire_specs _ _ lab_wire_returns])
    (simp_all add: lab_dispatcher_def lab_result_def lab_opts_def,
     simp add: lab_wire_def lab_lib_def Let_def bytes_text_def)

theorem success_means_accepted_witness:
  "\<exists>f b opts ctx. id_relay lab_dispatcher = Some f \<and> xr_outcome (f b opts ctx) = ToAccepted"
proof -
  let ?c = "\<lparr>cx_trace_id = [], cx_request_id = []\<rparr>"
  have "relayed_request lab_wire lab_dispatcher (js_dump (il_json lab_wire) (exchange_params lab_wire [1] lab_opts ?c))
      = Some ([1], lab_opts, ?c)"
    by (rule params_relayed [OF lab_wire_specs lab_wire_returns(1)])
      (simp_all add: lab_dispatcher_def lab_opts_def, simp add: lab_wire_def lab_lib_def Let_def bytes_text_def)
  then have "fst (handle_method lab_wire lab_dispatcher (method_id ExchangeVehicleMessage)
      (js_dump (il_json lab_wire) (exchange_params lab_wire [1] lab_opts ?c))) = 0"
    by (simp add: handle_method_def exchange_handled [of lab_wire]) (simp add: lab_dispatcher_def lab_result_def)
  from success_means_accepted [OF this] show ?thesis by blast
qed

definition event_json :: "ipc_lib \<Rightarrow> vehicle_event \<Rightarrow> json" where
  "event_json L ev =
     jobj ([(''service'', JStr (vm_service ev)), (''envelope_base64'', JStr (il_b64_encode L (vm_envelope_bytes ev)))]
        @ (if vm_trace_id ev \<noteq> [] then [(''trace_id'', JStr (vm_trace_id ev))] else [])
        @ (if vm_request_id ev \<noteq> [] then [(''request_id'', JStr (vm_request_id ev))] else []))"

lemma encode_event:
  "pe_json E = il_json L \<Longrightarrow> pe_base64 E = il_b64_encode L \<Longrightarrow>
     encode_vehicle_message E ev = js_dump (il_json L) (event_json L ev)"
  by (simp add: encode_vehicle_message_def event_json_def)

lemma event_over_wire:
  assumes "json_spec (il_json L)" and "b64_spec L"
    and "pe_json E = il_json L" and "pe_base64 E = il_b64_encode L" and "il_b64_encode L [] = []"
    and "json_returns (il_json L) (event_json L ev)" and "vm_service ev \<noteq> []"
  shows "on_vehicle_event L svc (encode_vehicle_message E ev)
    = (if vm_service ev = svc \<and> vm_envelope_bytes ev \<noteq> [] then Some (vm_envelope_bytes ev) else None)"
proof -
  have "js_parse (il_json L) (encode_vehicle_message E ev) = Some (event_json L ev)"
    using assms(6) by (simp add: encode_event [OF assms(3,4)] json_returns_def)
  moreover have "jvalue (event_json L ev) ''service'' (js_str (il_json L)) [] = Some (vm_service ev)"
    "jvalue (event_json L ev) ''envelope_base64'' (js_str (il_json L)) [] = Some (il_b64_encode L (vm_envelope_bytes ev))"
    using assms(1) by (simp_all add: event_json_def jvalue_jobj jget_jobj json_spec_def)
  moreover have "il_b64_decode L (il_b64_encode L x) = Some x" "x \<noteq> [] \<Longrightarrow> il_b64_encode L x \<noteq> []" for x
    using assms(2) by (simp_all add: b64_spec_def)
  ultimately show ?thesis
    using assms(5,7) by (cases "vm_envelope_bytes ev") (auto simp: on_vehicle_event_def)
qed

text \<open>
  An event that the publisher pushes reaches the handler of a subscription with exactly its
  envelope when the subscription is for its service, and no handler of another service; an
  event with an empty envelope reaches none.
\<close>

theorem event_reaches_subscriber:
  assumes "json_spec (il_json L)" and "b64_spec L"
    and "pe_json E = il_json L" and "pe_base64 E = il_b64_encode L" and "il_b64_encode L [] = []"
    and "json_returns (il_json L) (event_json L ev)" and "vm_service ev \<noteq> []"
  shows "on_vehicle_event L svc (encode_vehicle_message E ev)
    = (if vm_service ev = svc \<and> vm_envelope_bytes ev \<noteq> [] then Some (vm_envelope_bytes ev) else None)"
  using assms by (rule event_over_wire)

definition lab_event :: vehicle_event where
  "lab_event = \<lparr>vm_service = ''vehicle.fota'', vm_envelope_bytes = [3], vm_trace_id = [], vm_request_id = ''q''\<rparr>"

definition event_lib :: ipc_lib where
  "event_lib = (let p = event_json (lab_lib JNull JNull JNull) lab_event in lab_lib p p p)"

lemma event_lib_specs:
  "json_spec (il_json event_lib)" "b64_spec event_lib" "il_b64_encode event_lib [] = []"
  by (simp_all add: event_lib_def Let_def lab_lib_specs) (simp add: lab_lib_def bytes_text_def)

lemma event_lib_returns: "json_returns (il_json event_lib) (event_json event_lib lab_event)"
proof -
  have "event_json event_lib = event_json (lab_lib JNull JNull JNull)"
    by (simp add: fun_eq_iff event_json_def event_lib_def Let_def lab_lib_def)
  then show ?thesis
    by (simp add: event_lib_def Let_def json_returns_def) (simp add: lab_lib_def)
qed

theorem event_reaches_subscriber_witness:
  "on_vehicle_event event_lib ''vehicle.fota'' (encode_vehicle_message
     (lab_push\<lparr>pe_json := il_json event_lib, pe_base64 := il_b64_encode event_lib\<rparr>) lab_event) = Some [3]"
proof -
  let ?E = "lab_push\<lparr>pe_json := il_json event_lib, pe_base64 := il_b64_encode event_lib\<rparr>"
  note s = event_lib_specs(1,2)
  from event_reaches_subscriber [OF s, of ?E lab_event "''vehicle.fota''", OF _ _ _ event_lib_returns]
  show ?thesis by (simp add: lab_event_def) (simp add: event_lib_def Let_def lab_lib_def bytes_text_def)
qed

text \<open>
  The framework may replay a request only when it reads the network status: an exchange and
  the subscriptions are sent once, whatever the method numbers.
\<close>

theorem only_status_is_replayed:
  "should_retry i \<longleftrightarrow> i = method_id GetNetStatus"
  by (auto simp: should_retry_def categorize_def method_of_def method_id_def)

theorem exchange_sent_once:
  "exchange_vehicle_message L fw b opts ctx = exchange_vehicle_message L (\<lambda>_. fw False) b opts ctx"
  by (simp add: exchange_vehicle_message_def send_ipc_request_def only_status_is_replayed) (simp add: method_id_def)

end
