(* ===== verification/MqttAdapter.thy ===== *)
theory MqttAdapter
  imports CoordState SubscriptionCatalog
begin

text \<open>
  The adapter between the service and the client library of the MQTT daemon
  (src/include/mqtt\_facade.h, src/include/mqtt\_client\_adapter.h,
  src/src/mqtt\_client\_adapter.cpp): its life cycle with the three event subscriptions it holds, and
  the translation of publications, subscription snapshots and readiness between the service's
  types and those of the library.

  The library is not under src/: the records here have the fields of its types that the code
  reads or sets, and what a call of the library answers is an argument. An enumeration of the
  library may hold a value that the code does not name.
\<close>

section \<open>Life cycle\<close>

record mqtt_adapter =
  mq_initialized :: bool
  mq_started :: bool
  mq_routed_sub :: bool
  mq_cloud_ready_sub :: bool
  mq_capability_sub :: bool

definition new_adapter :: mqtt_adapter where
  "new_adapter = \<lparr>mq_initialized = False, mq_started = False, mq_routed_sub = False,
     mq_cloud_ready_sub = False, mq_capability_sub = False\<rparr>"

definition adapter_initialize :: "mqtt_adapter \<Rightarrow> bool \<times> mqtt_adapter" where
  "adapter_initialize m = (True, m\<lparr>mq_initialized := True\<rparr>)"

definition adapter_start :: "mqtt_adapter \<Rightarrow> bool \<times> mqtt_adapter" where
  "adapter_start m = (if \<not> mq_initialized m then (False, m) else (True, m\<lparr>mq_started := True\<rparr>))"

definition adapter_stop :: "mqtt_adapter \<Rightarrow> mqtt_adapter" where
  "adapter_stop m =
     m\<lparr>mq_routed_sub := False, mq_cloud_ready_sub := False, mq_capability_sub := False, mq_started := False\<rparr>"

text \<open>A new handle replaces, and so cancels, the one before; \<open>active\<close> is what the library answers.\<close>

definition subscribe_routed_downlink :: "bool \<Rightarrow> mqtt_adapter \<Rightarrow> bool \<times> mqtt_adapter" where
  "subscribe_routed_downlink active m = (active, m\<lparr>mq_routed_sub := active\<rparr>)"

definition subscribe_cloud_readiness :: "bool \<Rightarrow> mqtt_adapter \<Rightarrow> bool \<times> mqtt_adapter" where
  "subscribe_cloud_readiness active m = (active, m\<lparr>mq_cloud_ready_sub := active\<rparr>)"

definition subscribe_capability_readiness :: "bool \<Rightarrow> mqtt_adapter \<Rightarrow> bool \<times> mqtt_adapter" where
  "subscribe_capability_readiness active m = (active, m\<lparr>mq_capability_sub := active\<rparr>)"

section \<open>Publications\<close>

datatype wire_publish_outcome = WpUnknown | WpOther int

record wire_publish_result =
  wp_accepted :: bool
  wp_outcome :: wire_publish_outcome
  wp_reason_code :: string
  wp_retryable :: bool
  wp_error :: "u32 option"

record publish_result_full = publish_result +
  pu_error_code :: u32

definition map_publish_result :: "wire_publish_result \<Rightarrow> publish_result_full" where
  "map_publish_result pr =
     \<lparr>pu_accepted = wp_accepted pr,
      pu_outcome = (if wp_outcome pr = WpUnknown then DeliveryUnknown else DeliveryAccepted),
      pu_reason_code = wp_reason_code pr, pu_retryable = wp_retryable pr,
      pu_error_code = (case wp_error pr of Some e \<Rightarrow> e | None \<Rightarrow> 0)\<rparr>"

record publish_options =
  po_qos :: int
  po_content_type :: string
  po_trace_id :: string
  po_request_id :: string
  po_expected_session :: "mqtt_session option"

definition default_publish_options :: publish_options where
  "default_publish_options = \<lparr>po_qos = 1, po_content_type = ''application/x-protobuf'', po_trace_id = [],
     po_request_id = [], po_expected_session = None\<rparr>"

record wire_publish =
  wo_owner :: string
  wo_route_id :: string
  wo_msg_id :: string
  wo_payload :: bytes
  wo_qos :: int
  wo_content_type :: string
  wo_trace_id :: string
  wo_request_id :: string
  wo_expected_session :: "mqtt_session option"

text \<open>The two overloads: without a session, and with the options.\<close>

definition publish_route ::
  "(wire_publish \<Rightarrow> wire_publish_result) \<Rightarrow> string \<Rightarrow> string \<Rightarrow> string \<Rightarrow> bytes \<Rightarrow> int \<Rightarrow> string \<Rightarrow> string \<Rightarrow> string
     \<Rightarrow> publish_result_full" where
  "publish_route client owner route_id msg_id payload qos content_type trace_id request_id =
     map_publish_result (client
       \<lparr>wo_owner = owner, wo_route_id = route_id, wo_msg_id = msg_id, wo_payload = payload, wo_qos = qos,
        wo_content_type = content_type, wo_trace_id = trace_id, wo_request_id = request_id,
        wo_expected_session = None\<rparr>)"

definition publish_route_with ::
  "(wire_publish \<Rightarrow> wire_publish_result) \<Rightarrow> string \<Rightarrow> string \<Rightarrow> string \<Rightarrow> bytes \<Rightarrow> publish_options
     \<Rightarrow> publish_result_full" where
  "publish_route_with client owner route_id msg_id payload options =
     map_publish_result (client
       \<lparr>wo_owner = owner, wo_route_id = route_id, wo_msg_id = msg_id, wo_payload = payload,
        wo_qos = po_qos options, wo_content_type = po_content_type options,
        wo_trace_id = po_trace_id options, wo_request_id = po_request_id options,
        wo_expected_session =
          (case po_expected_session options of
             None \<Rightarrow> None
           | Some es \<Rightarrow> Some \<lparr>ms_daemon_epoch = ms_daemon_epoch es,
               ms_connection_generation = ms_connection_generation es,
               ms_cert_session_generation = ms_cert_session_generation es\<rparr>)\<rparr>)"

section \<open>Subscription snapshots\<close>

datatype wire_direction = WdUp | WdDown | WdBidirectional
datatype wire_criticality = WcOptional | WcGlobalMandatory | WcCapabilityMandatory
datatype wire_accept_status = WaAccepted | WaRejected | WaUnknown | WaOther int

definition to_wire_direction :: "direction \<Rightarrow> wire_direction" where
  "to_wire_direction d = (case d of UP \<Rightarrow> WdUp | DOWN \<Rightarrow> WdDown | BIDIRECTIONAL \<Rightarrow> WdBidirectional)"

definition to_wire_criticality :: "criticality \<Rightarrow> wire_criticality" where
  "to_wire_criticality c =
     (case c of OPTIONAL \<Rightarrow> WcOptional | GLOBAL_MANDATORY \<Rightarrow> WcGlobalMandatory
      | CAPABILITY_MANDATORY \<Rightarrow> WcCapabilityMandatory)"

definition from_wire_status :: "wire_accept_status \<Rightarrow> snapshot_status" where
  "from_wire_status s =
     (case s of WaAccepted \<Rightarrow> ACCEPTED | WaRejected \<Rightarrow> REJECTED | WaUnknown \<Rightarrow> UNKNOWN | WaOther _ \<Rightarrow> UNKNOWN)"

record wire_item =
  wi_route_id :: string
  wi_topic_template :: string
  wi_direction :: wire_direction
  wi_qos :: u8
  wi_target :: string
  wi_mandatory :: bool
  wi_enabled :: "bool option"
  wi_readiness_scope :: string
  wi_criticality :: wire_criticality

record wire_snapshot =
  ws_owner :: string
  ws_generation :: u64
  ws_content_digest :: string
  ws_registration_complete :: bool
  ws_contract_version :: u32
  ws_items :: "wire_item list"

definition to_wire_item :: "subscription_item \<Rightarrow> wire_item" where
  "to_wire_item i =
     \<lparr>wi_route_id = it_route_id i, wi_topic_template = it_topic_template i,
      wi_direction = to_wire_direction (it_direction i), wi_qos = it_qos i, wi_target = it_target i,
      wi_mandatory = it_mandatory i, wi_enabled = it_enabled i, wi_readiness_scope = it_readiness_scope i,
      wi_criticality = to_wire_criticality (it_criticality i)\<rparr>"

definition to_wire_snapshot :: "subscription_snapshot \<Rightarrow> wire_snapshot" where
  "to_wire_snapshot s =
     \<lparr>ws_owner = ss_owner s, ws_generation = ss_generation s, ws_content_digest = ss_content_digest s,
      ws_registration_complete = ss_registration_complete s, ws_contract_version = ss_contract_version s,
      ws_items = map to_wire_item (ss_items s)\<rparr>"

record wire_replace_result =
  wr_status :: wire_accept_status
  wr_accepted_generation :: u64
  wr_rejected_route_ids :: "string list"
  wr_reason_code :: string

definition replace_subscription_snapshot ::
  "(wire_snapshot \<Rightarrow> wire_replace_result) \<Rightarrow> subscription_snapshot \<Rightarrow> replace_result" where
  "replace_subscription_snapshot client s =
     (let wr = client (to_wire_snapshot s)
      in \<lparr>rs_status = from_wire_status (wr_status wr), rs_accepted_generation = wr_accepted_generation wr,
          rs_rejected_route_ids = wr_rejected_route_ids wr, rs_reason_code = wr_reason_code wr\<rparr>)"

record snapshot_status_result =
  sr_status :: snapshot_status
  sr_generation :: u64
  sr_content_digest :: string
  sr_registration_complete :: bool

record wire_status_result =
  wsr_status :: wire_accept_status
  wsr_generation :: u64
  wsr_content_digest :: string
  wsr_registration_complete :: bool

definition get_subscription_snapshot_status ::
  "(string \<Rightarrow> u64 \<Rightarrow> wire_status_result) \<Rightarrow> string \<Rightarrow> u64 \<Rightarrow> snapshot_status_result" where
  "get_subscription_snapshot_status client owner generation =
     (let wr = client owner generation
      in \<lparr>sr_status = from_wire_status (wsr_status wr), sr_generation = wsr_generation wr,
          sr_content_digest = wsr_content_digest wr, sr_registration_complete = wsr_registration_complete wr\<rparr>)"

section \<open>Readiness\<close>

record cloud_readiness_full = cloud_readiness +
  cl_credential_id :: string
  cl_credential_version :: u64

record wire_readiness =
  wy_cloud_ready :: bool
  wy_connection_generation :: u64
  wy_cert_session_generation :: u64
  wy_credential_id :: string
  wy_credential_version :: u64
  wy_device_identity_digest :: string
  wy_certificate_ref :: string
  wy_reason_code :: string
  wy_contract_version :: u32
  wy_contract_supported :: bool
  wy_ecu_uid :: string
  wy_session_context :: mqtt_session
  wy_publish_contract_version :: u32
  wy_event_sequence :: u64

text \<open>The same fields are copied by the query and by the wrapper of the event callback.\<close>

definition cloud_of_wire :: "wire_readiness \<Rightarrow> cloud_readiness_full" where
  "cloud_of_wire w =
     \<lparr>cl_cloud_ready = wy_cloud_ready w, cl_connection_generation = wy_connection_generation w,
      cl_cert_session_generation = wy_cert_session_generation w,
      cl_device_identity_digest = wy_device_identity_digest w, cl_certificate_ref = wy_certificate_ref w,
      cl_reason_code = wy_reason_code w, cl_contract_version = wy_contract_version w,
      cl_contract_supported = wy_contract_supported w, cl_ecu_uid = wy_ecu_uid w,
      cl_session = \<lparr>ms_daemon_epoch = ms_daemon_epoch (wy_session_context w),
        ms_connection_generation = ms_connection_generation (wy_session_context w),
        ms_cert_session_generation = ms_cert_session_generation (wy_session_context w)\<rparr>,
      cl_publish_contract_version = wy_publish_contract_version w, cl_event_sequence = wy_event_sequence w,
      cl_credential_id = wy_credential_id w, cl_credential_version = wy_credential_version w\<rparr>"

definition no_cloud_full :: cloud_readiness_full where
  "no_cloud_full = cloud_readiness.extend no_cloud \<lparr>cl_credential_id = [], cl_credential_version = 0\<rparr>"

text \<open>\<open>None\<close>: there is no client.\<close>

definition get_cloud_readiness :: "wire_readiness option \<Rightarrow> cloud_readiness_full" where
  "get_cloud_readiness w = (case w of None \<Rightarrow> no_cloud_full | Some x \<Rightarrow> cloud_of_wire x)"

record capability_readiness_full = capability_readiness +
  cy_enabled :: bool
  cy_contract_supported :: bool
  cy_snapshot_accepted :: bool
  cy_uplink_ready :: bool
  cy_downlink_suback_ready :: bool
  cy_owner_generation :: u64

text \<open>The record of the library has the same fields.\<close>

definition capability_of_wire :: "string \<Rightarrow> capability_readiness_full \<Rightarrow> capability_readiness_full" where
  "capability_of_wire capability w =
     \<lparr>cy_capability = capability, cy_ready = cy_ready w,
      cy_connection_generation = cy_connection_generation w,
      cy_cert_session_generation = cy_cert_session_generation w, cy_reason_code = cy_reason_code w,
      cy_enabled = cy_enabled w, cy_contract_supported = cy_contract_supported w,
      cy_snapshot_accepted = cy_snapshot_accepted w, cy_uplink_ready = cy_uplink_ready w,
      cy_downlink_suback_ready = cy_downlink_suback_ready w, cy_owner_generation = cy_owner_generation w\<rparr>"

definition no_capability_full :: "string \<Rightarrow> capability_readiness_full" where
  "no_capability_full capability =
     capability_readiness.extend (no_capability\<lparr>cy_capability := capability\<rparr>)
       \<lparr>cy_enabled = False, cy_contract_supported = False, cy_snapshot_accepted = False, cy_uplink_ready = False,
        cy_downlink_suback_ready = False, cy_owner_generation = 0\<rparr>"

definition get_capability_readiness ::
  "(string \<Rightarrow> capability_readiness_full) option \<Rightarrow> string \<Rightarrow> capability_readiness_full" where
  "get_capability_readiness client capability =
     (case client of
        None \<Rightarrow> no_capability_full capability
      | Some f \<Rightarrow> capability_of_wire capability (f capability))"

definition on_capability_event :: "capability_readiness_full \<Rightarrow> capability_readiness_full" where
  "on_capability_event w = capability_of_wire (cy_capability w) w"

section \<open>Nothing is lost on the way\<close>

lemma to_wire_direction_inject [simp]: "to_wire_direction d = to_wire_direction e \<longleftrightarrow> d = e"
  by (cases d; cases e) (simp_all add: to_wire_direction_def)

lemma to_wire_criticality_inject [simp]: "to_wire_criticality c = to_wire_criticality d \<longleftrightarrow> c = d"
  by (cases c; cases d) (simp_all add: to_wire_criticality_def)

lemma to_wire_item_inject: "to_wire_item i = to_wire_item j \<longleftrightarrow> i = j"
  by (cases i; cases j) (auto simp: to_wire_item_def)

lemma to_wire_snapshot_inject: "to_wire_snapshot s = to_wire_snapshot t \<longleftrightarrow> s = t"
  by (cases s; cases t) (auto simp: to_wire_snapshot_def inj_map_eq_map inj_def to_wire_item_inject)

lemma status_accepted: "from_wire_status w = ACCEPTED \<longleftrightarrow> w = WaAccepted"
  by (cases w) (simp_all add: from_wire_status_def)

text \<open>
  The daemon decides on exactly the snapshot that is submitted: different snapshots are
  different on the wire, and the submission counts as accepted only if the daemon said so - a
  status that the code does not know counts as unknown.
\<close>

theorem submission_faithful:
  "(rs_status (replace_subscription_snapshot client s) = ACCEPTED \<longleftrightarrow> wr_status (client (to_wire_snapshot s)) = WaAccepted)
   \<and> (to_wire_snapshot s = to_wire_snapshot t \<longleftrightarrow> s = t)"
  by (simp add: replace_subscription_snapshot_def Let_def status_accepted to_wire_snapshot_inject)

text \<open>
  The session that guards a provisioning message reaches the daemon unchanged, a message
  without one reaches it without, and the publication counts as taken over or as unknown exactly
  as the daemon said.
\<close>

theorem session_reaches_daemon:
  "\<exists>w. publish_route_with client ow ri mid b opts = map_publish_result (client w)
     \<and> wo_expected_session w = po_expected_session opts \<and> wo_payload w = b \<and> wo_msg_id w = mid
     \<and> pu_accepted (publish_route_with client ow ri mid b opts) = wp_accepted (client w)
     \<and> (pu_outcome (publish_route_with client ow ri mid b opts) = DeliveryUnknown \<longleftrightarrow> wp_outcome (client w) = WpUnknown)"
proof -
  have "(case es of None \<Rightarrow> None | Some x \<Rightarrow> Some \<lparr>ms_daemon_epoch = ms_daemon_epoch x,
      ms_connection_generation = ms_connection_generation x,
      ms_cert_session_generation = ms_cert_session_generation x\<rparr>) = es" for es :: "mqtt_session option"
    by (simp split: option.split)
  then show ?thesis by (auto simp: publish_route_with_def map_publish_result_def)
qed

text \<open>
  A readiness snapshot becomes the same state of the service whether it is asked for or arrives
  as an event.
\<close>

theorem pull_equals_push:
  "cy_capability w = cap \<Longrightarrow> get_capability_readiness (Some (\<lambda>_. w)) cap = on_capability_event w"
  by (simp add: get_capability_readiness_def on_capability_event_def)

theorem pull_equals_push_witness:
  "get_capability_readiness (Some (\<lambda>_. no_capability_full ''c'')) ''c'' = on_capability_event (no_capability_full ''c'')"
  by (rule pull_equals_push) (simp add: no_capability_full_def capability_readiness.extend_def no_capability_def)

end
