(* ===== verification/SecAdapter.thy ===== *)
theory SecAdapter
  imports CoordState
begin

text \<open>
  The adapter between the coordinator and the SEC client library (src/src/sec\_business\_key\_adapter.cpp,
  src/include/sec\_business\_key\_facade.h): each operation connects when it has to and forwards.

  What the library answers to a question about the connection or to an attempt at it is a function
  of the number of calls made before; those calls are logged, oldest first, in the list that is the
  state. The answer to a request is the library's, passed on, so it is not part of the model.
\<close>

datatype 'ctx sec_request =
    GetBusinessKeyStatus string "string list"
  | ImportWrappedBusinessKeys string string "wrapped_item list"
  | GetBusinessKeyImportResult string
  | GetV2cKeyProvisioningCapability
  | GetKeyprovContractSnapshot
  | ImportWrappedBusinessKeysKl1 string string "wrapped_item list" 'ctx
  | GetBusinessKeyImportResultKl1 string

datatype 'ctx sec_call = AskedConnected bool | TriedConnect bool | Disconnected | Forwarded "'ctx sec_request"

record sec_lib =
  sl_is_connected :: "nat \<Rightarrow> bool"
  sl_connect :: "nat \<Rightarrow> bool"

definition sec_connect :: "sec_lib \<Rightarrow> bool \<Rightarrow> 'ctx sec_call list \<Rightarrow> bool \<times> 'ctx sec_call list" where
  "sec_connect L has_client t =
     (if \<not> has_client then (False, t)
      else (let c = sl_is_connected L (length t); t1 = t @ [AskedConnected c] in
            if c then (True, t1)
            else (let ok = sl_connect L (length t1) in (ok, t1 @ [TriedConnect ok]))))"

definition sec_disconnect :: "bool \<Rightarrow> 'ctx sec_call list \<Rightarrow> 'ctx sec_call list" where
  "sec_disconnect has_client t = (if has_client then t @ [Disconnected] else t)"

definition sec_is_connected :: "sec_lib \<Rightarrow> bool \<Rightarrow> 'ctx sec_call list \<Rightarrow> bool \<times> 'ctx sec_call list" where
  "sec_is_connected L has_client t =
     (if has_client then (sl_is_connected L (length t), t @ [AskedConnected (sl_is_connected L (length t))])
      else (False, t))"

text \<open>\<open>True\<close>: the request was forwarded and the answer is the library's; \<open>False\<close>: NOT_INITIALIZED.\<close>

definition sec_forward :: "sec_lib \<Rightarrow> bool \<Rightarrow> 'ctx sec_request \<Rightarrow> 'ctx sec_call list \<Rightarrow> bool \<times> 'ctx sec_call list" where
  "sec_forward L has_client req t =
     (if \<not> has_client then (False, t)
      else (True, snd (sec_connect L has_client t) @ [Forwarded req]))"

fun forwarded :: "'ctx sec_call list \<Rightarrow> 'ctx sec_request list" where
  "forwarded [] = []"
| "forwarded (Forwarded r # t) = r # forwarded t"
| "forwarded (c # t) = forwarded t"

lemma forwarded_append [simp]: "forwarded (s @ t) = forwarded s @ forwarded t"
  by (induction s rule: forwarded.induct) simp_all

lemma forward_one: "forwarded (snd (sec_forward L True r t)) = forwarded t @ [r]"
  by (simp add: sec_forward_def sec_connect_def Let_def)

text \<open>
  Whatever the connection does, each request of the coordinator reaches the SEC library exactly
  once, unchanged and in order: the adapter neither drops a request because connecting failed nor
  repeats one, and between two requests it makes at most one attempt to connect.
\<close>

theorem sec_requests_pass_once:
  "forwarded (foldl (\<lambda>t r. snd (sec_forward L True r t)) t0 reqs) = forwarded t0 @ reqs
   \<and> (\<exists>pre. snd (sec_forward L True r t0) = t0 @ pre @ [Forwarded r]
       \<and> (pre = [AskedConnected True] \<or> (\<exists>b. pre = [AskedConnected False, TriedConnect b])))"
proof
  show "forwarded (foldl (\<lambda>t r. snd (sec_forward L True r t)) t0 reqs) = forwarded t0 @ reqs"
    by (induction reqs arbitrary: t0) (simp_all add: forward_one)
  show "\<exists>pre. snd (sec_forward L True r t0) = t0 @ pre @ [Forwarded r]
       \<and> (pre = [AskedConnected True] \<or> (\<exists>b. pre = [AskedConnected False, TriedConnect b]))"
    by (cases "sl_is_connected L (length t0)") (simp_all add: sec_forward_def sec_connect_def Let_def)
qed

end
