(* ===== verification/AppConfig.thy ===== *)
theory AppConfig
  imports IpcBridge
begin

text \<open>
  How the process reads its configuration (the first part of \<open>TspApplication::initialize\<close>,
  src/src/tsp\_application.cpp) and the provider of the network status
  (src/src/net\_status\_provider.cpp).

  The snapshot of the configuration belongs to the framework: a \<open>config_view\<close> answers each typed
  question for a key, given the default the code passes. Its integers are signed and the code casts
  them to unsigned 32 bit, which \<open>read_u32\<close> writes out.
\<close>

section \<open>The configuration\<close>

record config_view =
  cv_int :: "string \<Rightarrow> int \<Rightarrow> int"
  cv_double :: "string \<Rightarrow> rat \<Rightarrow> rat"
  cv_string :: "string \<Rightarrow> string \<Rightarrow> string"
  cv_bool :: "string \<Rightarrow> bool \<Rightarrow> bool"
  cv_string_list :: "string \<Rightarrow> string list"

definition read_u32 :: "config_view \<Rightarrow> string \<Rightarrow> int \<Rightarrow> u32" where
  "read_u32 v key d = word_of_int (cv_int v key d)"

record ipc_config =
  ic_max_frame_bytes :: u32
  ic_receive_timeout_ms :: u32
  ic_connect_timeout_ms :: u32
  ic_listen_backlog :: int
  ic_initial_backoff_ms :: u32
  ic_max_backoff_ms :: u32
  ic_multiplier :: rat

definition read_ipc_config :: "config_view \<Rightarrow> ipc_config" where
  "read_ipc_config v = \<lparr>
     ic_max_frame_bytes = read_u32 v ''common.ipc.max_frame_bytes'' 10485760,
     ic_receive_timeout_ms = read_u32 v ''common.ipc.receive_timeout_ms'' 60000,
     ic_connect_timeout_ms = read_u32 v ''common.ipc.connect_timeout_ms'' 3000,
     ic_listen_backlog = cv_int v ''common.ipc.listen_backlog'' 5,
     ic_initial_backoff_ms = read_u32 v ''common.ipc.reconnect.initial_backoff_ms'' 100,
     ic_max_backoff_ms = read_u32 v ''common.ipc.reconnect.max_backoff_ms'' 5000,
     ic_multiplier = cv_double v ''common.ipc.reconnect.multiplier'' 2\<rparr>"

definition parse_slow_subscriber_policy :: "string \<Rightarrow> slow_subscriber_policy" where
  "parse_slow_subscriber_policy s =
     (if s = ''drop'' then KDrop else if s = ''reject'' then KReject else KDisconnect)"

definition read_gateway_config :: "config_view \<Rightarrow> gateway_config" where
  "read_gateway_config v = \<lparr>
     gc_allowed_services = [''vehicle.fota''],
     gc_allowed_protocol_versions =
       [cv_string v ''tsp.vehicle_message.allowed_protocol_version'' ''fota-v1''],
     gc_max_envelope_bytes = read_u32 v ''tsp.vehicle_message.max_envelope_bytes'' 16384,
     gc_max_payload_bytes = read_u32 v ''tsp.vehicle_message.max_payload_bytes'' 8192,
     gc_max_in_flight = read_u32 v ''tsp.vehicle_message.max_in_flight'' 64,
     gc_downlink_queue_capacity = read_u32 v ''tsp.vehicle_message.downlink_queue_capacity'' 256,
     gc_worker_count = read_u32 v ''tsp.vehicle_message.worker_count'' 1,
     gc_default_exchange_timeout_ms =
       read_u32 v ''tsp.vehicle_message.default_exchange_timeout_ms'' 2500\<rparr>"

text \<open>The member of the application starts from its initialisers; the fields the code assigns follow.\<close>

definition read_keyprov_config :: "config_view \<Rightarrow> coord_config" where
  "read_keyprov_config v = default_config\<lparr>
     cfg_enabled := cv_bool v ''tsp.key_provisioning.enabled'' False,
     cfg_business_domain := cv_string v ''tsp.key_provisioning.business_domain'' ''V2C_COMM'',
     cfg_route_up := cv_string v ''tsp.key_provisioning.route_up'' ''keyprov.uplink'',
     cfg_route_down := cv_string v ''tsp.key_provisioning.route_down'' ''keyprov.downlink'',
     cfg_certificate_profile := cv_string v ''tsp.key_provisioning.certificate_profile'' ''mqtt'',
     cfg_request_timeout_ms := read_u32 v ''tsp.key_provisioning.request_timeout_ms'' 10000,
     cfg_ack_timeout_ms := read_u32 v ''tsp.key_provisioning.ack_timeout_ms'' 10000,
     cfg_max_attempts_before_alert := read_u32 v ''tsp.key_provisioning.max_attempts_before_alert'' 8,
     cfg_retry_initial_ms := read_u32 v ''tsp.key_provisioning.retry.initial_ms'' 500,
     cfg_retry_max_ms := read_u32 v ''tsp.key_provisioning.retry.max_ms'' 30000,
     cfg_retry_multiplier := cv_double v ''tsp.key_provisioning.retry.multiplier'' 2,
     cfg_retry_jitter := cv_bool v ''tsp.key_provisioning.retry.jitter'' True,
     cfg_not_found_stabilization_count :=
       read_u32 v ''tsp.key_provisioning.not_found_stabilization_count'' 3,
     cfg_sec_import_timeout_ms := read_u32 v ''tsp.key_provisioning.sec_import_timeout_ms'' 5000,
     cfg_sec_callback_grace_ms := read_u32 v ''tsp.key_provisioning.sec_callback_grace_ms'' 1000,
     cfg_not_found_stabilization_window_ms :=
       read_u32 v ''tsp.key_provisioning.not_found_stabilization_window_ms'' 0,
     cfg_status_request_initial_interval_ms :=
       read_u32 v ''tsp.key_provisioning.status_request_initial_interval_ms'' 1000,
     cfg_status_request_max_interval_ms :=
       read_u32 v ''tsp.key_provisioning.status_request_max_interval_ms'' 30000,
     cfg_purposes := (let purposes = cv_string_list v ''tsp.key_provisioning.purposes'' in
                      if purposes \<noteq> [] then purposes else cfg_purposes default_config)\<rparr>"

text \<open>What \<open>initialize\<close> reads before it builds anything.\<close>

record app_config =
  ac_ipc :: ipc_config
  ac_tsp_socket_path :: string
  ac_downlink_queue_size :: u32
  ac_slow_policy :: slow_subscriber_policy
  ac_mqtt_socket_path :: string
  ac_store_root :: string
  ac_vehicle :: gateway_config
  ac_sec_socket_path :: string
  ac_keyprov :: coord_config

definition read_config :: "config_view \<Rightarrow> app_config" where
  "read_config v = \<lparr>
     ac_ipc = read_ipc_config v,
     ac_tsp_socket_path = cv_string v ''tsp.ipc.socket_path'' ''/tmp/tbox-tsp.sock'',
     ac_downlink_queue_size = read_u32 v ''tsp.ipc.downlink_queue_size'' 256,
     ac_slow_policy =
       parse_slow_subscriber_policy (cv_string v ''tsp.ipc.slow_subscriber_policy'' ''disconnect''),
     ac_mqtt_socket_path = cv_string v ''tsp.mqtt.socket_path'' ''/tmp/tbox-mqtt.sock'',
     ac_store_root = cv_string v ''common.store.root'' ''/var/tbox'',
     ac_vehicle = read_gateway_config v,
     ac_sec_socket_path = cv_string v ''tsp.sec.socket_path'' ''/tmp/tbox-sec.sock'',
     ac_keyprov = read_keyprov_config v\<rparr>"

section \<open>The network status\<close>

datatype provider_type = MockProvider | SystemProvider

text \<open>
  \<open>operstate\<close>: the first line of the state file of the interface, \<open>None\<close> when it does not open.
\<close>

definition read_interface_status :: "string option \<Rightarrow> bool" where
  "read_interface_status operstate =
     (case operstate of Some state \<Rightarrow> state = ''up'' | None \<Rightarrow> False)"

definition provider_net_status :: "string option \<Rightarrow> provider_type \<Rightarrow> net_status" where
  "provider_net_status operstate t =
     (case t of
        MockProvider \<Rightarrow> \<lparr>ns_is_connected = True, ns_signal_strength = 85, ns_network_type = ''4G'',
                        ns_operator_name = ''CMCC''\<rparr>
      | SystemProvider \<Rightarrow> \<lparr>ns_is_connected = read_interface_status operstate, ns_signal_strength = 80,
                          ns_network_type = ''4G'', ns_operator_name = ''CMCC''\<rparr>)"

section \<open>Properties\<close>

text \<open>The view of an empty configuration: every answer is the default.\<close>

definition empty_view :: config_view where
  "empty_view = \<lparr>cv_int = (\<lambda>k d. d), cv_double = (\<lambda>k d. d), cv_string = (\<lambda>k d. d),
     cv_bool = (\<lambda>k d. d), cv_string_list = (\<lambda>k. [])\<rparr>"

text \<open>
  With an empty configuration the process runs on the defaults the components are declared
  with: the gateway's configuration, the coordinator's, the queue of 256 events and the policy that
  disconnects; so the literals of the application and the initialisers of the components agree.
\<close>

theorem defaults_agree:
  "read_gateway_config empty_view = default_gateway_config
   \<and> read_keyprov_config empty_view = default_config
   \<and> ac_slow_policy (read_config empty_view) = KDisconnect
   \<and> new_publisher (ac_downlink_queue_size (read_config empty_view)) KDisconnect = new_publisher 256 KDisconnect"
  by (simp add: read_gateway_config_def default_gateway_config_def read_keyprov_config_def
      default_config_def read_config_def empty_view_def read_u32_def parse_slow_subscriber_policy_def)

lemma read_u32_value: "unat (read_u32 v key d) = nat (cv_int v key d mod 2 ^ 32)"
  by (simp add: read_u32_def unat_eq_nat_uint uint_word_of_int)

text \<open>
  A limit is taken modulo 2^32: a configured value from 0 up to 2^32 - 1 becomes the limit as
  it stands, and a negative value down to -2^31 the huge limit 2^32 + value instead of an error.
\<close>

theorem limits_taken_modulo:
  "unat (gc_max_in_flight (read_gateway_config v))
     = (let n = cv_int v ''tsp.vehicle_message.max_in_flight'' 64 in
        if 0 \<le> n \<and> n < 2 ^ 32 then nat n
        else if - (2 ^ 31) \<le> n \<and> n < 0 then nat (2 ^ 32 + n) else nat (n mod 2 ^ 32))"
proof -
  have "(n::int) mod 2 ^ 32 = 2 ^ 32 + n" if "- (2 ^ 31) \<le> n" "n < 0" for n
    using that mod_pos_pos_trivial [of "2 ^ 32 + n" "2 ^ 32"] by simp
  then show ?thesis
    by (simp add: read_gateway_config_def read_u32_value Let_def)
qed

end
