(* ===== verification/RelayService.thy ===== *)
theory RelayService
  imports AppConfig MqttAdapter SubscriptionRegistrar GatewayExchange CoordEvents
begin

text \<open>
  The relay service (src/include/tsp\_relay\_service.h, src/src/tsp\_relay\_service.cpp): it owns the
  registrar, the gateway and the coordinator, builds them, starts them on the MQTT adapter, hands
  each routed downlink to the one it is for, and stops them.

  An owning pointer is an option. The catalogue and the two stores are inside the registrar and the
  arguments. What the components read from outside is in \<open>relay_env\<close>; the adapter is shared with
  the application, so operations that subscribe take it and return it. The loading of the
  catalogue may throw, which leaves \<open>initializeLocal\<close> by the exception: \<open>None\<close>.
\<close>

section \<open>The state\<close>

record 's relay =
  rl_has_mqtt :: bool
  rl_registrar :: "'s registrar option"
  rl_gateway :: "gateway option"
  rl_keyprov :: "coord option"
  rl_keyprov_config :: coord_config
  rl_stopping :: bool

definition new_relay :: "bool \<Rightarrow> 's relay" where
  "new_relay has_mqtt = \<lparr>rl_has_mqtt = has_mqtt, rl_registrar = None, rl_gateway = None,
     rl_keyprov = None, rl_keyprov_config = default_config, rl_stopping = False\<rparr>"

record 's relay_env =
  rv_reg :: "'s reg_env"
  rv_coord :: env
  rv_stored :: keyprov_record
  rv_routed_active :: bool
  rv_cloud_active :: bool
  rv_capability_active :: bool

section \<open>Building and starting\<close>

definition initialize_local ::
  "'s relay_env \<Rightarrow> 's \<Rightarrow> yaml_entry list option \<Rightarrow> gateway_config \<Rightarrow> bool \<Rightarrow> coord_config \<Rightarrow> 's relay
     \<Rightarrow> (bool \<times> 's relay) option" where
  "initialize_local V store catalog_node gateway_config' sec keyprov_config r =
     (if \<not> rl_has_mqtt r then Some (False, r)
      else (case load_from_yaml catalog_node empty_catalog of
              None \<Rightarrow> None
            | Some (Some _, _) \<Rightarrow> Some (False, r)
            | Some (None, cat) \<Rightarrow>
                (let r1 = r\<lparr>rl_registrar := Some (new_registrar cat store)\<rparr>;
                     (ok, g) = gw_initialize True gateway_config' new_gateway;
                     r2 = r1\<lparr>rl_gateway := Some g\<rparr>
                 in if \<not> ok then Some (False, r2\<lparr>rl_gateway := None, rl_registrar := None\<rparr>)
                    else if sec
                    then Some (True, r2\<lparr>rl_keyprov_config := keyprov_config,
                           rl_keyprov := Some (initialize (rv_coord V) keyprov_config (rv_stored V) coord0)\<rparr>)
                    else Some (True, r2))))"

definition relay_handler :: "nat" where "relay_handler = 0"

text \<open>\<open>gateway_->start()\<close> subscribes to the downlinks unless the gateway runs already.\<close>

definition start_gateway :: "'s relay_env \<Rightarrow> gateway \<times> mqtt_adapter \<Rightarrow> gateway \<times> mqtt_adapter" where
  "start_gateway V gm =
     (case gm of (g, m) \<Rightarrow>
        (gw_start g, if gw_running g then m else snd (subscribe_routed_downlink (rv_routed_active V) m)))"

text \<open>\<open>keyprov_->start(true)\<close> subscribes to both kinds of readiness.\<close>

definition start_keyprov :: "'s relay_env \<Rightarrow> coord \<times> mqtt_adapter \<Rightarrow> coord \<times> mqtt_adapter" where
  "start_keyprov V cm =
     (case cm of (c, m) \<Rightarrow>
        (start (rv_coord V) c,
         snd (subscribe_capability_readiness (rv_capability_active V)
           (snd (subscribe_cloud_readiness (rv_cloud_active V) m)))))"

definition start_mqtt_integration ::
  "'s relay_env \<Rightarrow> 's relay \<times> mqtt_adapter \<Rightarrow> bool \<times> 's relay \<times> mqtt_adapter" where
  "start_mqtt_integration V rm =
     (case rm of (r, m) \<Rightarrow>
      (case (rl_registrar r, rl_gateway r) of
         (Some rg, Some g) \<Rightarrow>
           (let r1 = r\<lparr>rl_registrar := Some (reg_start (rv_reg V) True rg)\<rparr>;
                (g1, m1) = start_gateway V (g, m)
            in (case rl_keyprov r1 of
                  None \<Rightarrow> (True, r1\<lparr>rl_gateway := Some g1\<rparr>, m1)
                | Some c \<Rightarrow>
                    (let g2 = register_downlink_handler ''tsp'' (cfg_route_down (rl_keyprov_config r1))
                                ''tsp.keyprov'' relay_handler g1;
                         (c1, m2) = start_keyprov V (c, m1)
                     in (True, r1\<lparr>rl_gateway := Some g2, rl_keyprov := Some c1\<rparr>, m2))))
       | _ \<Rightarrow> (False, r, m)))"

definition relay_set_publisher :: "publisher option \<Rightarrow> 's relay \<Rightarrow> 's relay" where
  "relay_set_publisher p r =
     (case rl_gateway r of None \<Rightarrow> r | Some g \<Rightarrow> r\<lparr>rl_gateway := Some (set_event_publisher p g)\<rparr>)"

definition relay_registration_ready :: "'s relay \<Rightarrow> bool" where
  "relay_registration_ready r =
     (case rl_registrar r of None \<Rightarrow> False | Some rg \<Rightarrow> is_registration_ready rg)"

section \<open>Requests and downlinks\<close>

definition relay_exchange ::
  "pb_codec \<Rightarrow> int \<Rightarrow> bytes \<Rightarrow> exchange_options \<Rightarrow> 's relay \<Rightarrow> exchange_result option \<times> 's relay" where
  "relay_exchange pb wall_ms raw opts r =
     (if rl_stopping r then (Some (failed_result ToStopping kPublishFailed ''stopping''), r)
      else (case rl_gateway r of
              None \<Rightarrow> (Some (failed_result ToUnavailable kNotInitialized ''gateway_not_ready''), r)
            | Some g \<Rightarrow> (case exchange_enter pb wall_ms raw opts g of
                           (res, g') \<Rightarrow> (res, r\<lparr>rl_gateway := Some g'\<rparr>))))"

definition routed_of :: "downlink \<Rightarrow> routed_downlink" where
  "routed_of ev = \<lparr>rde_owner = dl_owner ev, rde_route_id = dl_route_id ev, rde_target = dl_target ev,
     rde_payload = dl_payload ev\<rparr>"

text \<open>The subscription callback of the gateway, with the handler the relay registered.\<close>

definition relay_downlink :: "env \<Rightarrow> int \<Rightarrow> downlink \<Rightarrow> 's relay \<Rightarrow> 's relay" where
  "relay_downlink E wall_ms ev r =
     (case rl_gateway r of
        None \<Rightarrow> r
      | Some g \<Rightarrow>
          (case gw_dispatcher g of
             None \<Rightarrow> r
           | Some d \<Rightarrow>
               (case dispatch (dl_owner ev) (dl_route_id ev) (dl_target ev) d of
                  None \<Rightarrow> r
                | Some VehicleHandler \<Rightarrow>
                    r\<lparr>rl_gateway := Some (gw_handle_routed_downlink (e_pb E) wall_ms ev g)\<rparr>
                | Some (RegisteredHandler h) \<Rightarrow>
                    (case rl_keyprov r of
                       None \<Rightarrow> r
                     | Some c \<Rightarrow> r\<lparr>rl_keyprov := Some (handle_routed_downlink E (routed_of ev) c)\<rparr>))))"

section \<open>Stopping\<close>

definition relay_begin_shutdown :: "'s relay \<Rightarrow> 's relay" where
  "relay_begin_shutdown r =
     r\<lparr>rl_stopping := True, rl_keyprov := map_option begin_shutdown (rl_keyprov r)\<rparr>"

text \<open>\<open>VehicleMessageGateway::stop\<close> from beginning to end.\<close>

definition gw_stop :: "gateway \<Rightarrow> gateway" where
  "gw_stop g = (if \<not> gw_running g then g else stop_clear (stop_mark (stop_begin g)))"

definition relay_stop :: "'s relay_env \<Rightarrow> 's relay \<Rightarrow> 's relay" where
  "relay_stop V r =
     r\<lparr>rl_stopping := True, rl_keyprov := map_option stop (rl_keyprov r),
       rl_gateway := map_option gw_stop (rl_gateway r),
       rl_registrar := map_option (reg_stop (rv_reg V)) (rl_registrar r)\<rparr>"

text \<open>
  What the threads of the components do by themselves: those of the gateway (its dispatcher changes
  by start, registration and stop only, its publisher by a downlink), the coordinator's on the
  clock or on readiness, the registrar's.
\<close>

inductive relay_work :: "'s relay_env \<Rightarrow> (string \<Rightarrow> nat) \<Rightarrow> 's relay \<Rightarrow> 's relay \<Rightarrow> bool" for V hash where
  rw_gateway: "rl_gateway r = Some g \<Longrightarrow> gw_step (e_pb (rv_coord V)) hash g g' \<Longrightarrow>
    gw_dispatcher g' = gw_dispatcher g \<Longrightarrow> gw_publisher g' = gw_publisher g \<Longrightarrow>
    relay_work V hash r (r\<lparr>rl_gateway := Some g'\<rparr>)"
| rw_cloud: "rl_keyprov r = Some c \<Longrightarrow>
    relay_work V hash r (r\<lparr>rl_keyprov := Some (apply_cloud_readiness cl c)\<rparr>)"
| rw_capability: "rl_keyprov r = Some c \<Longrightarrow>
    relay_work V hash r (r\<lparr>rl_keyprov := Some (apply_capability_readiness cp c)\<rparr>)"
| rw_tick: "rl_keyprov r = Some c \<Longrightarrow>
    relay_work V hash r (r\<lparr>rl_keyprov := Some (tick (rv_coord V) c)\<rparr>)"
| rw_registrar: "rl_registrar r = Some rg \<Longrightarrow> reg_step (rv_reg V) (rg, p) (rg', q) \<Longrightarrow>
    relay_work V hash r (r\<lparr>rl_registrar := Some rg'\<rparr>)"

text \<open>One step of a relay: a request or a downlink, the work of a thread, shutdown, stop.\<close>

inductive relay_step :: "'s relay_env \<Rightarrow> (string \<Rightarrow> nat) \<Rightarrow> 's relay \<Rightarrow> 's relay \<Rightarrow> bool" for V hash where
  rs_exchange: "relay_step V hash r (snd (relay_exchange (e_pb (rv_coord V)) wall raw opts r))"
| rs_downlink: "relay_step V hash r (relay_downlink (rv_coord V) wall ev r)"
| rs_work: "relay_work V hash r s \<Longrightarrow> relay_step V hash r s"
| rs_begin_shutdown: "relay_step V hash r (relay_begin_shutdown r)"
| rs_stop: "relay_step V hash r (relay_stop V r)"

inductive_cases relay_stepE: "relay_step V hash r s"

end
