(* ===== verification/TspApplication.thy ===== *)
theory TspApplication
  imports RelayService
begin

text \<open>
  The process (src/include/tsp\_application.h, src/src/tsp\_application.cpp) and its IPC server
  (src/include/tsp\_framework\_server.h, src/src/tsp\_framework\_server.cpp): what \<open>initialize\<close>,
  \<open>rollbackInitialization\<close> and \<open>cleanup\<close> build, start, stop and destroy, in the order of the code.

  The main thread is at a \<open>point\<close> between two calls; \<open>main_next\<close> makes the next call. Between two
  calls the other threads move: IPC requests while the server listens, MQTT callbacks while their
  subscription is active, the threads of the relay. An owning pointer is an option, so a destroyed
  object is \<open>None\<close>. The event publisher is one object: the server owns it and the gateway of the
  relay points to it, so each holds its value and \<open>on_publisher\<close> and \<open>share_publisher\<close> keep them
  the same. Its worker thread is in EventPublisher. An exception leaves at \<open>Thrown\<close>.
\<close>

section \<open>The state\<close>

datatype init_stage = StNone | StMqttClientReady | StRelayReady | StIpcStarted

record server =
  fs_listening :: bool
  fs_publisher :: publisher

record 's app =
  ap_stage :: init_stage
  ap_config :: app_config
  ap_mqtt :: "mqtt_adapter option"
  ap_relay :: "'s relay option"
  ap_server :: "server option"
  ap_net :: bool
  ap_sec :: bool

record 's app_env =
  av_view :: "config_view option"
  av_catalog :: "yaml_entry list option"
  av_store :: 's
  av_relay :: "'s relay_env"
  av_listens :: bool

definition new_app :: "'s app" where
  "new_app = \<lparr>ap_stage = StNone, ap_config = read_config empty_view, ap_mqtt = None, ap_relay = None,
     ap_server = None, ap_net = False, ap_sec = False\<rparr>"

definition on_publisher :: "(publisher \<Rightarrow> publisher) \<Rightarrow> 's app \<Rightarrow> 's app" where
  "on_publisher f a =
     a\<lparr>ap_server := map_option (\<lambda>s. s\<lparr>fs_publisher := f (fs_publisher s)\<rparr>) (ap_server a),
       ap_relay := map_option (\<lambda>r. r\<lparr>rl_gateway :=
         map_option (\<lambda>g. g\<lparr>gw_publisher := map_option f (gw_publisher g)\<rparr>) (rl_gateway r)\<rparr>) (ap_relay a)\<rparr>"

definition wired_publisher :: "'s app \<Rightarrow> publisher option" where
  "wired_publisher a =
     Option.bind (ap_relay a) (\<lambda>r. Option.bind (rl_gateway r) gw_publisher)"

definition share_publisher :: "'s app \<Rightarrow> 's app" where
  "share_publisher a =
     (case wired_publisher a of
        None \<Rightarrow> a
      | Some p \<Rightarrow> a\<lparr>ap_server := map_option (\<lambda>s. s\<lparr>fs_publisher := p\<rparr>) (ap_server a)\<rparr>)"

section \<open>The IPC server\<close>

definition new_server :: "app_config \<Rightarrow> server" where
  "new_server cfg = \<lparr>fs_listening = False,
     fs_publisher = new_publisher (ac_downlink_queue_size cfg) (ac_slow_policy cfg)\<rparr>"

definition set_listening :: "bool \<Rightarrow> 's app \<Rightarrow> 's app" where
  "set_listening b a = a\<lparr>ap_server := map_option (\<lambda>s. s\<lparr>fs_listening := b\<rparr>) (ap_server a)\<rparr>"

text \<open>\<open>listens\<close>: whether bind and listen of the IPC library succeed.\<close>

definition server_start :: "bool \<Rightarrow> 's app \<Rightarrow> bool \<times> 's app" where
  "server_start listens a =
     (if (case ap_server a of None \<Rightarrow> False | Some s \<Rightarrow> fs_listening s) then (True, a)
      else (let a1 = on_publisher publisher_start a in
            if listens then (True, set_listening True a1)
            else (False, on_publisher publisher_stop a1)))"

definition server_stop :: "'s app \<Rightarrow> 's app" where
  "server_stop a = set_listening False (on_publisher publisher_stop a)"

section \<open>The main thread\<close>

datatype init_point =
    AtConfig | AtMqttInit | AtMqttStart | AtRelay | AtNet | AtServer | AtWire | AtIntegration | AtListen

datatype rollback_point =
    RbServerStop | RbServerReset | RbShutdown | RbRelayStop | RbRelayReset | RbNet | RbMqttStop
  | RbMqttReset | RbStage

datatype cleanup_point =
    ClShutdown | ClRelayStop | ClServerStop | ClRelayReset | ClMqttStop | ClMqttReset | ClNet | ClSec
  | ClStage

text \<open>\<open>Refused\<close>: \<open>initialize\<close> returned false; \<open>Executing\<close>: it returned true.\<close>

datatype point =
    Init init_point | Rollback rollback_point | Cleanup cleanup_point | Refused | Executing | Cleaned
  | Thrown

text \<open>The configuration is read, and the SEC client made, before anything else.\<close>

definition config_step :: "'s app_env \<Rightarrow> 's app \<Rightarrow> point \<times> 's app" where
  "config_step V a =
     (case av_view V of
        None \<Rightarrow> (Refused, a)
      | Some v \<Rightarrow> (Init AtMqttInit, a\<lparr>ap_config := read_config v, ap_sec := True\<rparr>))"

declare config_step_def [simp]

fun init_step :: "'s app_env \<Rightarrow> init_point \<Rightarrow> 's app \<Rightarrow> point \<times> 's app" where
  "init_step V AtConfig a = config_step V a"
| "init_step V AtMqttInit a =
     (case adapter_initialize new_adapter of
        (ok, m) \<Rightarrow> if ok then (Init AtMqttStart, a\<lparr>ap_mqtt := Some m\<rparr>) else (Refused, a\<lparr>ap_mqtt := None\<rparr>))"
| "init_step V AtMqttStart a =
     (case ap_mqtt a of
        None \<Rightarrow> (Thrown, a)
      | Some m \<Rightarrow>
          (case adapter_start m of
             (ok, m1) \<Rightarrow> if ok then (Init AtRelay, a\<lparr>ap_mqtt := Some m1, ap_stage := StMqttClientReady\<rparr>)
                        else (Refused, a\<lparr>ap_mqtt := None\<rparr>)))"
| "init_step V AtRelay a =
     (case initialize_local (av_relay V) (av_store V) (av_catalog V) (ac_vehicle (ap_config a)) (ap_sec a)
             (ac_keyprov (ap_config a)) (new_relay (ap_mqtt a \<noteq> None)) of
        None \<Rightarrow> (Thrown, a\<lparr>ap_relay := Some (new_relay (ap_mqtt a \<noteq> None))\<rparr>)
      | Some (ok, r) \<Rightarrow> (if ok then Init AtNet else Rollback RbServerStop, a\<lparr>ap_relay := Some r\<rparr>))"
| "init_step V AtNet a = (Init AtServer, a\<lparr>ap_net := True\<rparr>)"
| "init_step V AtServer a = (Init AtWire, a\<lparr>ap_server := Some (new_server (ap_config a))\<rparr>)"
| "init_step V AtWire a =
     (Init AtIntegration,
      a\<lparr>ap_relay := map_option (relay_set_publisher (map_option fs_publisher (ap_server a))) (ap_relay a)\<rparr>)"
| "init_step V AtIntegration a =
     (case (ap_relay a, ap_mqtt a) of
        (Some r, Some m) \<Rightarrow>
          (case start_mqtt_integration (av_relay V) (r, m) of
             (ok, r1, m1) \<Rightarrow>
               (let a1 = a\<lparr>ap_relay := Some r1, ap_mqtt := Some m1\<rparr> in
                if ok then (Init AtListen, a1\<lparr>ap_stage := StRelayReady\<rparr>) else (Rollback RbServerStop, a1)))
      | _ \<Rightarrow> (Thrown, a))"
| "init_step V AtListen a =
     (case server_start (av_listens V) a of
        (ok, a1) \<Rightarrow> if ok then (Executing, a1\<lparr>ap_stage := StIpcStarted\<rparr>) else (Rollback RbServerStop, a1))"

fun rollback_step :: "'s app_env \<Rightarrow> rollback_point \<Rightarrow> 's app \<Rightarrow> point \<times> 's app" where
  "rollback_step V RbServerStop a = (Rollback RbServerReset, server_stop a)"
| "rollback_step V RbServerReset a = (Rollback RbShutdown, a\<lparr>ap_server := None\<rparr>)"
| "rollback_step V RbShutdown a =
     (Rollback RbRelayStop,
      if ap_stage a = StRelayReady \<or> ap_stage a = StIpcStarted
      then a\<lparr>ap_relay := map_option relay_begin_shutdown (ap_relay a)\<rparr> else a)"
| "rollback_step V RbRelayStop a =
     (Rollback RbRelayReset, a\<lparr>ap_relay := map_option (relay_stop (av_relay V)) (ap_relay a)\<rparr>)"
| "rollback_step V RbRelayReset a = (Rollback RbNet, a\<lparr>ap_relay := None\<rparr>)"
| "rollback_step V RbNet a = (Rollback RbMqttStop, a\<lparr>ap_net := False\<rparr>)"
| "rollback_step V RbMqttStop a = (Rollback RbMqttReset, a\<lparr>ap_mqtt := map_option adapter_stop (ap_mqtt a)\<rparr>)"
| "rollback_step V RbMqttReset a = (Rollback RbStage, a\<lparr>ap_mqtt := None\<rparr>)"
| "rollback_step V RbStage a = (Refused, a\<lparr>ap_stage := StNone\<rparr>)"

fun cleanup_step :: "'s app_env \<Rightarrow> cleanup_point \<Rightarrow> 's app \<Rightarrow> point \<times> 's app" where
  "cleanup_step V ClShutdown a =
     (Cleanup ClRelayStop, a\<lparr>ap_relay := map_option relay_begin_shutdown (ap_relay a)\<rparr>)"
| "cleanup_step V ClRelayStop a =
     (Cleanup ClServerStop, a\<lparr>ap_relay := map_option (relay_stop (av_relay V)) (ap_relay a)\<rparr>)"
| "cleanup_step V ClServerStop a = (Cleanup ClRelayReset, server_stop a)"
| "cleanup_step V ClRelayReset a = (Cleanup ClMqttStop, a\<lparr>ap_relay := None\<rparr>)"
| "cleanup_step V ClMqttStop a = (Cleanup ClMqttReset, a\<lparr>ap_mqtt := map_option adapter_stop (ap_mqtt a)\<rparr>)"
| "cleanup_step V ClMqttReset a = (Cleanup ClNet, a\<lparr>ap_mqtt := None\<rparr>)"
| "cleanup_step V ClNet a = (Cleanup ClSec, a\<lparr>ap_net := False\<rparr>)"
| "cleanup_step V ClSec a = (Cleanup ClStage, a\<lparr>ap_sec := False\<rparr>)"
| "cleanup_step V ClStage a = (Cleaned, a\<lparr>ap_stage := StNone\<rparr>)"

fun main_next :: "'s app_env \<Rightarrow> point \<times> 's app \<Rightarrow> (point \<times> 's app) option" where
  "main_next V (Init p, a) = Some (init_step V p a)"
| "main_next V (Rollback p, a) = Some (rollback_step V p a)"
| "main_next V (Cleanup p, a) = Some (cleanup_step V p a)"
| "main_next V (q, a) = None"

text \<open>At most \<open>n\<close> calls of the main thread, with nothing in between.\<close>

fun run_main :: "'s app_env \<Rightarrow> nat \<Rightarrow> point \<times> 's app \<Rightarrow> point \<times> 's app" where
  "run_main V 0 x = x"
| "run_main V (Suc n) x = (case main_next V x of None \<Rightarrow> x | Some y \<Rightarrow> run_main V n y)"

definition listening :: "'s app \<Rightarrow> bool" where
  "listening a \<longleftrightarrow> (case ap_server a of None \<Rightarrow> False | Some s \<Rightarrow> fs_listening s)"

definition routed_active :: "'s app \<Rightarrow> bool" where
  "routed_active a \<longleftrightarrow> (case ap_mqtt a of None \<Rightarrow> False | Some m \<Rightarrow> mq_routed_sub m)"

definition readiness_active :: "'s app \<Rightarrow> bool" where
  "readiness_active a \<longleftrightarrow>
     (case ap_mqtt a of None \<Rightarrow> False | Some m \<Rightarrow> mq_cloud_ready_sub m \<or> mq_capability_sub m)"

text \<open>
  The threads together. The framework runs \<open>cleanup\<close> when \<open>execute\<close> ends; whether it does after a
  refused \<open>initialize\<close> too is its own affair, so both are possible.
\<close>

inductive app_step :: "'s app_env \<Rightarrow> (string \<Rightarrow> nat) \<Rightarrow> point \<times> 's app \<Rightarrow> point \<times> 's app \<Rightarrow> bool"
  for V hash where
  as_main: "main_next V x = Some y \<Longrightarrow> app_step V hash x y"
| as_shutdown: "app_step V hash (Executing, a) (Cleanup ClShutdown, a)"
| as_refused: "app_step V hash (Refused, a) (Cleanup ClShutdown, a)"
| as_request: "listening a \<Longrightarrow> ap_relay a = Some r \<Longrightarrow>
    app_step V hash (q, a)
      (q, a\<lparr>ap_relay := Some (snd (relay_exchange (e_pb (rv_coord (av_relay V))) wall raw opts r))\<rparr>)"
| as_downlink: "routed_active a \<Longrightarrow> ap_relay a = Some r \<Longrightarrow>
    app_step V hash (q, a)
      (q, share_publisher (a\<lparr>ap_relay := Some (relay_downlink (rv_coord (av_relay V)) wall ev r)\<rparr>))"
| as_work: "ap_relay a = Some r \<Longrightarrow> relay_work (av_relay V) hash r r' \<Longrightarrow>
    app_step V hash (q, a) (q, a\<lparr>ap_relay := Some r'\<rparr>)"

text \<open>Whom the threads call: what must exist for a request, a callback, an event to be safe.\<close>

definition requests_safe :: "'s app \<Rightarrow> bool" where
  "requests_safe a \<longleftrightarrow>
     (listening a \<longrightarrow> (\<exists>r. ap_relay a = Some r \<and> rl_gateway r \<noteq> None) \<and> ap_net a)"

definition callbacks_safe :: "'s app \<Rightarrow> bool" where
  "callbacks_safe a \<longleftrightarrow>
     (routed_active a \<longrightarrow> (\<exists>r. ap_relay a = Some r \<and> rl_gateway r \<noteq> None))
     \<and> (readiness_active a \<longrightarrow> (\<exists>r. ap_relay a = Some r \<and> rl_keyprov r \<noteq> None))"

definition events_safe :: "'s app \<Rightarrow> bool" where
  "events_safe a \<longleftrightarrow> (wired_publisher a \<noteq> None \<longrightarrow> ap_server a \<noteq> None)"

end
