(* ===== verification/RelayProperties.thy ===== *)
theory RelayProperties
  imports RelayService CoordScenario
begin

text \<open>
  What holds of the relay service at work: which component a routed downlink reaches, what is left
  after a stop, that a shutdown is final, and what a failed initialisation leaves behind.
\<close>

section \<open>The table of handlers\<close>

definition fota_table :: "downlink_handler dispatcher" where
  "fota_table = register_handler ''tsp'' ''fota.downlink'' ''tsp.fota'' VehicleHandler Map.empty"

definition keyprov_table :: "coord_config \<Rightarrow> downlink_handler dispatcher" where
  "keyprov_table cfg =
     register_handler ''tsp'' (cfg_route_down cfg) ''tsp.keyprov'' (RegisteredHandler relay_handler) fota_table"

text \<open>The two keys differ for every configured route: their targets end differently.\<close>

lemma keys_apart: "route_key ''tsp'' rt ''tsp.keyprov'' \<noteq> route_key ''tsp'' ''fota.downlink'' ''tsp.fota''"
proof
  assume "route_key ''tsp'' rt ''tsp.keyprov'' = route_key ''tsp'' ''fota.downlink'' ''tsp.fota''"
  then have "last (route_key ''tsp'' rt ''tsp.keyprov'') = last (route_key ''tsp'' ''fota.downlink'' ''tsp.fota'')"
    by (rule arg_cong)
  then show False by (simp add: route_key_def)
qed

lemma dispatch_fota:
  "dispatch ''tsp'' ''fota.downlink'' ''tsp.fota'' fota_table = Some VehicleHandler"
  "dispatch ''tsp'' ''fota.downlink'' ''tsp.fota'' (keyprov_table cfg) = Some VehicleHandler"
  using keys_apart [of "cfg_route_down cfg"]
  by (auto simp: dispatch_def fota_table_def keyprov_table_def register_handler_def)

lemma dispatch_keyprov:
  "dispatch ''tsp'' (cfg_route_down cfg) ''tsp.keyprov'' (keyprov_table cfg) = Some (RegisteredHandler relay_handler)"
  by (simp add: dispatch_def keyprov_table_def register_handler_def)

text \<open>The relay's registrations: the table is gone, or it has the handlers of what the relay owns.\<close>

definition relay_routed :: "'s relay \<Rightarrow> bool" where
  "relay_routed r \<longleftrightarrow>
     (case rl_gateway r of
        None \<Rightarrow> True
      | Some g \<Rightarrow>
          (case gw_dispatcher g of
             None \<Rightarrow> True
           | Some d \<Rightarrow> d = (if rl_keyprov r = None then fota_table else keyprov_table (rl_keyprov_config r))))"

lemma exchange_keeps_dispatcher [simp]:
  "gw_dispatcher (snd (exchange_enter pb wall raw opts g)) = gw_dispatcher g"
  "gw_publisher (snd (exchange_enter pb wall raw opts g)) = gw_publisher g"
  by (simp_all add: exchange_enter_def count_tc_def Let_def)

lemma handle_keeps_dispatcher [simp]:
  "gw_dispatcher (gw_handle_routed_downlink pb wall ev g) = gw_dispatcher g"
  by (simp add: gw_handle_routed_downlink_def match_response_def forward_event_def count_tc_def
      count_invalid_def count_rejected_response_def Let_def split: option.split prod.split)

lemma gw_stop_dispatcher: "gw_dispatcher (gw_stop g) = (if gw_running g then None else gw_dispatcher g)"
  by (simp add: gw_stop_def stop_clear_def)

text \<open>What a step leaves alone: which components there are, and their configuration.\<close>

lemma relay_exchange_cases:
  obtains "snd (relay_exchange pb wall raw opts r) = r"
  | g where "rl_gateway r = Some g"
      "snd (relay_exchange pb wall raw opts r) = r\<lparr>rl_gateway := Some (snd (exchange_enter pb wall raw opts g))\<rparr>"
proof (cases "rl_stopping r")
  case True
  then show ?thesis using that(1) by (simp add: relay_exchange_def)
next
  case False
  then show ?thesis
    using that by (cases "rl_gateway r") (simp_all add: relay_exchange_def case_prod_unfold)
qed

lemma relay_exchange_frame [frame_simps]:
  "rl_keyprov (snd (relay_exchange pb wall raw opts r)) = rl_keyprov r"
  "rl_registrar (snd (relay_exchange pb wall raw opts r)) = rl_registrar r"
  "rl_keyprov_config (snd (relay_exchange pb wall raw opts r)) = rl_keyprov_config r"
  "rl_stopping (snd (relay_exchange pb wall raw opts r)) = rl_stopping r"
  "map_option gw_dispatcher (rl_gateway (snd (relay_exchange pb wall raw opts r))) = map_option gw_dispatcher (rl_gateway r)"
  "map_option gw_publisher (rl_gateway (snd (relay_exchange pb wall raw opts r))) = map_option gw_publisher (rl_gateway r)"
  "rl_has_mqtt (snd (relay_exchange pb wall raw opts r)) = rl_has_mqtt r"
  by (cases r rule: relay_exchange_cases [where pb = pb and wall = wall and raw = raw and opts = opts]; simp)+

lemma relay_downlink_frame [frame_simps]:
  "rl_registrar (relay_downlink E wall ev r) = rl_registrar r"
  "rl_keyprov_config (relay_downlink E wall ev r) = rl_keyprov_config r"
  "rl_stopping (relay_downlink E wall ev r) = rl_stopping r"
  "rl_has_mqtt (relay_downlink E wall ev r) = rl_has_mqtt r"
  "rl_keyprov (relay_downlink E wall ev r) = None \<longleftrightarrow> rl_keyprov r = None"
  "map_option gw_dispatcher (rl_gateway (relay_downlink E wall ev r)) = map_option gw_dispatcher (rl_gateway r)"
  by (simp_all add: relay_downlink_def split: option.split downlink_handler.split)

lemma relay_routed_alt:
  "relay_routed r \<longleftrightarrow>
     (case map_option gw_dispatcher (rl_gateway r) of
        Some (Some d) \<Rightarrow> d = (if rl_keyprov r = None then fota_table else keyprov_table (rl_keyprov_config r))
      | _ \<Rightarrow> True)"
  by (simp add: relay_routed_def split: option.split)

lemma relay_work_frame:
  assumes "relay_work V hash r s"
  shows "rl_keyprov s = None \<longleftrightarrow> rl_keyprov r = None" "rl_registrar s = None \<longleftrightarrow> rl_registrar r = None"
    "rl_keyprov_config s = rl_keyprov_config r" "rl_stopping s = rl_stopping r" "rl_has_mqtt s = rl_has_mqtt r"
    "map_option gw_dispatcher (rl_gateway s) = map_option gw_dispatcher (rl_gateway r)"
    "map_option gw_publisher (rl_gateway s) = map_option gw_publisher (rl_gateway r)"
  using assms by (cases rule: relay_work.cases; simp)+

lemma relay_step_routed: "relay_step V hash r s \<Longrightarrow> relay_routed r \<Longrightarrow> relay_routed s"
proof (induction rule: relay_step.induct)
  case (rs_stop r)
  then show ?case
    by (auto simp: relay_routed_def relay_stop_def gw_stop_dispatcher split: option.splits if_splits)
next
  case (rs_work r s)
  then show ?case by (simp only: relay_routed_alt relay_work_frame [OF rs_work(1)])
qed (auto simp: relay_routed_alt frame_simps relay_begin_shutdown_def split: option.splits)

lemma relay_step_stopping: "relay_step V hash r s \<Longrightarrow> rl_stopping r \<Longrightarrow> rl_stopping s"
  by (induction rule: relay_step.induct) (simp_all add: frame_simps relay_work_frame relay_begin_shutdown_def relay_stop_def)

interpretation routed: step_invariant "relay_step V hash" relay_routed for V hash
  by unfold_locales (rule relay_step_routed)

interpretation stopping: step_invariant "relay_step V hash" rl_stopping for V hash
  by unfold_locales (rule relay_step_stopping)

lemma gw_start_dispatcher:
  "\<not> gw_running g \<Longrightarrow> gw_dispatcher (gw_start g) = Some fota_table"
  by (simp add: gw_start_def fota_table_def)

lemma initialized_shape:
  assumes "initialize_local V st node gc sec kc (new_relay h) = Some (True, r)"
  obtains rg g where "rl_registrar r = Some rg" "rl_gateway r = Some g" "g = new_gateway\<lparr>gw_config := gc\<rparr>"
    "rl_keyprov r = (if sec then Some (initialize (rv_coord V) kc (rv_stored V) coord0) else None)"
    "rl_keyprov_config r = (if sec then kc else default_config)" "\<not> rl_stopping r"
  using assms
  by (auto simp: initialize_local_def new_relay_def gw_initialize_def Let_def split: if_splits option.splits)

lemma started_shape:
  assumes "initialize_local V st node gc sec kc (new_relay h) = Some (True, r)"
    and "start_mqtt_integration V (r, m) = (ok, r1, m1)"
  shows "ok \<and> relay_routed r1 \<and> \<not> rl_stopping r1 \<and> (rl_keyprov r1 \<noteq> None \<longleftrightarrow> sec)
    \<and> (\<exists>g. rl_gateway r1 = Some g \<and> gw_running g \<and> gw_dispatcher g \<noteq> None) \<and> rl_registrar r1 \<noteq> None"
proof -
  obtain rg g where s: "rl_registrar r = Some rg" "rl_gateway r = Some g" "g = new_gateway\<lparr>gw_config := gc\<rparr>"
    "rl_keyprov r = (if sec then Some (initialize (rv_coord V) kc (rv_stored V) coord0) else None)"
    "rl_keyprov_config r = (if sec then kc else default_config)" "\<not> rl_stopping r"
    by (rule initialized_shape [OF assms(1)])
  have n: "\<not> gw_running g" by (simp add: s(3) new_gateway_def)
  show ?thesis
  proof (cases sec)
    case True
    then have "rl_keyprov r = Some (initialize (rv_coord V) kc (rv_stored V) coord0)" using s(4) by simp
    with assms(2) s(1,2,5,6) n True show ?thesis
      by (simp add: start_mqtt_integration_def start_gateway_def start_keyprov_def gw_start_dispatcher
          register_downlink_handler_def relay_routed_def keyprov_table_def)
        (auto simp: gw_start_def keyprov_table_def)
  next
    case False
    with assms(2) s(1,2,4-6) n show ?thesis
      by (simp add: start_mqtt_integration_def start_gateway_def gw_start_dispatcher relay_routed_def)
        (auto simp: gw_start_def fota_table_def)
  qed
qed

section \<open>Where a downlink goes\<close>

lemma handle_other:
  assumes "\<not> (rde_owner e = ''tsp'' \<and> rde_route_id e = cfg_route_down (c_config c) \<and> rde_target e = ''tsp.keyprov'')"
  shows "handle_routed_downlink E e c = c"
  by (subst handle_routed_downlink_def, rule if_P) (use assms in blast)

lemma same_gateway: "\<exists>n. g = g\<lparr>gw_counters := n\<rparr>"
  by (rule exI [of _ "gw_counters g"]) simp

lemma gw_handle_other:
  assumes "(dl_owner ev, dl_route_id ev, dl_target ev) \<noteq> (''tsp'', ''fota.downlink'', ''tsp.fota'')"
  shows "\<exists>n. gw_handle_routed_downlink pb wall ev g = g\<lparr>gw_counters := n\<rparr>"
proof (cases "gw_stopping g")
  case True
  then have "gw_handle_routed_downlink pb wall ev g = g" by (simp add: gw_handle_routed_downlink_def)
  then show ?thesis using same_gateway [of g] by simp
next
  case False
  then have "gw_handle_routed_downlink pb wall ev g = count_invalid g"
    using assms by (auto simp: gw_handle_routed_downlink_def)
  then show ?thesis unfolding count_invalid_def count_tc_def by blast
qed

lemma relay_downlink_cases:
  assumes "rl_gateway r = Some g" and "rl_keyprov r = Some c"
  obtains "relay_downlink E wall ev r = r"
      "\<And>d. gw_dispatcher g = Some d \<Longrightarrow> dispatch (dl_owner ev) (dl_route_id ev) (dl_target ev) d = None"
  | d where "gw_dispatcher g = Some d"
      "dispatch (dl_owner ev) (dl_route_id ev) (dl_target ev) d = Some VehicleHandler"
      "relay_downlink E wall ev r = r\<lparr>rl_gateway := Some (gw_handle_routed_downlink (e_pb E) wall ev g)\<rparr>"
  | d n where "gw_dispatcher g = Some d"
      "dispatch (dl_owner ev) (dl_route_id ev) (dl_target ev) d = Some (RegisteredHandler n)"
      "relay_downlink E wall ev r = r\<lparr>rl_keyprov := Some (handle_routed_downlink E (routed_of ev) c)\<rparr>"
proof (cases "gw_dispatcher g")
  case None
  then show ?thesis using that(1) assms by (simp add: relay_downlink_def)
next
  case (Some d)
  note d = this
  show ?thesis
  proof (cases "dispatch (dl_owner ev) (dl_route_id ev) (dl_target ev) d")
    case None
    then show ?thesis using that(1) assms d by (simp add: relay_downlink_def)
  next
    case (Some h)
    then show ?thesis using that(2,3) assms d by (cases h) (simp_all add: relay_downlink_def)
  qed
qed

text \<open>
  C12. The two services do not see each other's messages: once the relay is built and started, and
  however requests, downlinks, threads and shutdown interleave after that, a routed downlink
  changes the coordinator only when it is for owner tsp, its configured route and tsp.keyprov,
  and the gateway, beyond its counters, only when it is for exactly tsp, fota.downlink and
  tsp.fota; each gets its own while the table of handlers is there, whatever route the
  configuration names, and the registrar is never touched.
\<close>

theorem downlinks_kept_apart:
  assumes "initialize_local V st node gc True kc (new_relay h) = Some (True, r0)"
    and "start_mqtt_integration V (r0, m0) = (ok, r1, m1)" and "(relay_step V hash)\<^sup>*\<^sup>* r1 r"
    and "rl_gateway r = Some g" and "rl_keyprov r = Some c"
  shows "let fota = (dl_owner ev, dl_route_id ev, dl_target ev) = (''tsp'', ''fota.downlink'', ''tsp.fota'');
             r' = relay_downlink (rv_coord V) wall ev r in
    (rl_keyprov r' \<noteq> Some c \<longrightarrow> dl_owner ev = ''tsp'' \<and> dl_route_id ev = cfg_route_down (c_config c)
        \<and> dl_target ev = ''tsp.keyprov'' \<and> rl_gateway r' = Some g)
    \<and> (\<not> fota \<longrightarrow> (\<exists>n. rl_gateway r' = Some (g\<lparr>gw_counters := n\<rparr>)))
    \<and> (gw_dispatcher g \<noteq> None \<and> fota \<longrightarrow>
        rl_gateway r' = Some (gw_handle_routed_downlink (e_pb (rv_coord V)) wall ev g))
    \<and> (gw_dispatcher g \<noteq> None \<and> dl_owner ev = ''tsp'' \<and> dl_route_id ev = cfg_route_down (rl_keyprov_config r)
        \<and> dl_target ev = ''tsp.keyprov'' \<longrightarrow>
        rl_keyprov r' = Some (handle_routed_downlink (rv_coord V) (routed_of ev) c))
    \<and> rl_registrar r' = rl_registrar r"
proof -
  have "relay_routed r1" using started_shape [OF assms(1,2)] by simp
  then have "relay_routed r" using routed.run [OF assms(3)] by blast
  then have d: "gw_dispatcher g = None \<or> gw_dispatcher g = Some (keyprov_table (rl_keyprov_config r))"
    using assms(4,5) by (auto simp: relay_routed_def split: option.splits)
  note same = same_gateway [of g]
  note own = dispatch_fota(2) [of "rl_keyprov_config r"] dispatch_keyprov [of "rl_keyprov_config r"]
  show ?thesis
  proof (rule relay_downlink_cases [OF assms(4,5), of "rv_coord V" wall ev])
    assume r': "relay_downlink (rv_coord V) wall ev r = r"
      and "\<And>d. gw_dispatcher g = Some d \<Longrightarrow> dispatch (dl_owner ev) (dl_route_id ev) (dl_target ev) d = None"
    then show ?thesis using d own same assms(4,5) by (auto simp only: r' Let_def prod.inject)
  next
    fix t
    assume t: "gw_dispatcher g = Some t"
      and h: "dispatch (dl_owner ev) (dl_route_id ev) (dl_target ev) t = Some VehicleHandler"
      and r': "relay_downlink (rv_coord V) wall ev r
        = r\<lparr>rl_gateway := Some (gw_handle_routed_downlink (e_pb (rv_coord V)) wall ev g)\<rparr>"
    have "\<not> (dl_owner ev = ''tsp'' \<and> dl_route_id ev = cfg_route_down (rl_keyprov_config r)
        \<and> dl_target ev = ''tsp.keyprov'')"
      using h t d own(2) by auto
    then show ?thesis using gw_handle_other [of ev "e_pb (rv_coord V)" wall g] assms(5)
      by (simp add: r' Let_def) blast
  next
    fix t n
    assume t: "gw_dispatcher g = Some t"
      and h: "dispatch (dl_owner ev) (dl_route_id ev) (dl_target ev) t = Some (RegisteredHandler n)"
      and r': "relay_downlink (rv_coord V) wall ev r
        = r\<lparr>rl_keyprov := Some (handle_routed_downlink (rv_coord V) (routed_of ev) c)\<rparr>"
    have f: "(dl_owner ev, dl_route_id ev, dl_target ev) \<noteq> (''tsp'', ''fota.downlink'', ''tsp.fota'')"
      using h t d own(1) by auto
    have "handle_routed_downlink (rv_coord V) (routed_of ev) c \<noteq> c \<longrightarrow>
        dl_owner ev = ''tsp'' \<and> dl_route_id ev = cfg_route_down (c_config c) \<and> dl_target ev = ''tsp.keyprov''"
      using handle_other [of "routed_of ev" c "rv_coord V"] by (auto simp only: routed_of_def routed_downlink.select_convs)
    then show ?thesis using f same assms(4) by (simp add: r' Let_def) blast
  qed
qed

definition lab_relay_env :: "(string \<rightharpoonup> string) relay_env" where
  "lab_relay_env = \<lparr>rv_reg = answering ACCEPTED, rv_coord = lab_env, rv_stored = empty_record,
     rv_routed_active = True, rv_cloud_active = True, rv_capability_active = True\<rparr>"

lemma lab_relay_starts:
  "\<exists>r0 ok r m. initialize_local lab_relay_env Map.empty None default_gateway_config True default_config
       (new_relay True) = Some (True, r0)
     \<and> start_mqtt_integration lab_relay_env (r0, new_adapter) = (ok, r, m)
     \<and> (\<exists>g. rl_gateway r = Some g \<and> gw_running g \<and> gw_dispatcher g \<noteq> None)
     \<and> (\<exists>c. rl_keyprov r = Some c) \<and> (\<exists>rg. rl_registrar r = Some rg)"
proof -
  have "\<exists>r0. initialize_local lab_relay_env Map.empty None default_gateway_config True default_config
      (new_relay True) = Some (True, r0)"
    by (simp add: initialize_local_def load_from_yaml_def new_relay_def catalog_validate_def
        gw_initialize_def default_gateway_config_def)
  then obtain r0 where i: "initialize_local lab_relay_env Map.empty None default_gateway_config True
      default_config (new_relay True) = Some (True, r0)" by blast
  obtain ok r m where t: "start_mqtt_integration lab_relay_env (r0, new_adapter) = (ok, r, m)"
    using prod_cases3 by blast
  show ?thesis using i t started_shape [OF i t] by blast
qed

theorem downlinks_kept_apart_witness:
  "\<exists>r :: (string \<rightharpoonup> string) relay. \<exists>g c. rl_gateway r = Some g \<and> rl_keyprov r = Some c \<and> gw_dispatcher g \<noteq> None
     \<and> rl_keyprov (relay_downlink lab_env 0 \<lparr>dl_owner = ''tsp'', dl_route_id = ''fota.downlink'',
         dl_target = ''tsp.fota'', dl_payload = [], dl_request_id = [], dl_trace_id = []\<rparr> r) = Some c"
proof -
  obtain r0 ok r m g c where i: "initialize_local lab_relay_env Map.empty None default_gateway_config True
      default_config (new_relay True) = Some (True, r0)"
    and t: "start_mqtt_integration lab_relay_env (r0, new_adapter) = (ok, r, m)"
    and g: "rl_gateway r = Some g" "gw_dispatcher g \<noteq> None" and c: "rl_keyprov r = Some c"
    using lab_relay_starts by blast
  have e: "rv_coord lab_relay_env = lab_env" by (simp add: lab_relay_env_def)
  show ?thesis
    using downlinks_kept_apart [OF i t rtranclp.rtrancl_refl g(1) c, unfolded e Let_def, where wall = 0
        and ev = "\<lparr>dl_owner = ''tsp'', dl_route_id = ''fota.downlink'',
         dl_target = ''tsp.fota'', dl_payload = [], dl_request_id = [], dl_trace_id = []\<rparr>"]
      g c by (intro exI [of _ r] exI [of _ g] exI [of _ c]) simp
qed

section \<open>Shutdown and stop\<close>

text \<open>
  A shutdown is final: from the moment it begins, in every interleaving, each request through
  the relay comes back at once as Stopping and changes nothing.
\<close>

theorem shutdown_is_final:
  assumes "(relay_step V hash)\<^sup>*\<^sup>* (relay_begin_shutdown r) s"
  shows "relay_exchange pb wall raw opts s = (Some (failed_result ToStopping kPublishFailed ''stopping''), s)"
proof -
  have "rl_stopping s"
    by (rule stopping.run [OF assms]) (simp add: relay_begin_shutdown_def)
  then show ?thesis by (simp add: relay_exchange_def)
qed

theorem shutdown_is_final_witness:
  "fst (relay_exchange (e_pb lab_env) 0 [] \<lparr>xo_timeout_ms = 0, xo_max_response_bytes = 0\<rparr>
     (relay_stop lab_relay_env (relay_begin_shutdown (new_relay True))))
   = Some (failed_result ToStopping kPublishFailed ''stopping'')"
proof -
  have "(relay_step lab_relay_env length)\<^sup>*\<^sup>* (relay_begin_shutdown (new_relay True))
      (relay_stop lab_relay_env (relay_begin_shutdown (new_relay True)))"
    by (rule r_into_rtranclp) (rule relay_step.rs_stop)
  from shutdown_is_final [OF this] show ?thesis by simp
qed



text \<open>
  A relay that fails to initialise owns no component, so nothing of it can run or be called; a
  request to it is Unavailable.
\<close>

theorem failed_relay_owns_nothing:
  assumes "initialize_local V st node gc sec kc (new_relay h) = Some (False, r)"
  shows "rl_registrar r = None \<and> rl_gateway r = None \<and> rl_keyprov r = None
    \<and> relay_exchange pb wall raw opts r = (Some (failed_result ToUnavailable kNotInitialized ''gateway_not_ready''), r)"
  using assms
  by (auto simp: initialize_local_def new_relay_def gw_initialize_def relay_exchange_def Let_def
      split: if_splits option.splits)

end
