(* ===== verification/AppProperties.thy ===== *)
theory AppProperties
  imports TspApplication RelayProperties
begin

text \<open>
  The life of the process: who owns what at each point of the main thread, in every interleaving
  with the other threads; that requests never reach what is gone; where callbacks and events can;
  when \<open>initialize\<close> succeeds; that the main thread always gets to the end.
\<close>

section \<open>What a relay is made of\<close>

definition relay_shape :: "'s relay \<Rightarrow> bool \<times> bool \<times> bool \<times> bool \<times> bool" where
  "relay_shape r = (rl_has_mqtt r, rl_registrar r = None, rl_gateway r = None, rl_keyprov r = None,
     Option.bind (rl_gateway r) gw_publisher = None)"

definition relay_fine :: "'s relay \<Rightarrow> bool" where
  "relay_fine r \<longleftrightarrow> rl_has_mqtt r \<and> (rl_gateway r = None \<longleftrightarrow> rl_registrar r = None)
     \<and> (rl_keyprov r \<noteq> None \<longrightarrow> rl_gateway r \<noteq> None)"

definition relay_full :: "'s relay \<Rightarrow> bool" where
  "relay_full r \<longleftrightarrow> rl_gateway r \<noteq> None \<and> rl_registrar r \<noteq> None \<and> rl_keyprov r \<noteq> None"

lemma bind_map: "map_option f x = map_option f y \<Longrightarrow> Option.bind x f = Option.bind y f"
  by (cases x; cases y) simp_all

lemma map_option_None_eq: "map_option f x = map_option f y \<Longrightarrow> x = None \<longleftrightarrow> y = None"
  by (cases x; cases y) simp_all

lemma exchange_shape: "relay_shape (snd (relay_exchange pb wall raw opts r)) = relay_shape r"
  "Option.bind (rl_gateway (snd (relay_exchange pb wall raw opts r))) gw_publisher = Option.bind (rl_gateway r) gw_publisher"
  using bind_map [OF relay_exchange_frame(6) [of pb wall raw opts r]]
    map_option_None_eq [OF relay_exchange_frame(6) [of pb wall raw opts r]]
  by (simp_all add: relay_shape_def relay_exchange_frame)

lemma work_shape:
  assumes "relay_work V hash r s"
  shows "relay_shape s = relay_shape r"
    "Option.bind (rl_gateway s) gw_publisher = Option.bind (rl_gateway r) gw_publisher"
  using bind_map [OF relay_work_frame(7) [OF assms]] map_option_None_eq [OF relay_work_frame(7) [OF assms]]
  by (simp_all add: relay_shape_def relay_work_frame [OF assms])

lemma handle_publisher: "gw_publisher (gw_handle_routed_downlink pb wall ev g) = None \<longleftrightarrow> gw_publisher g = None"
  by (simp add: gw_handle_routed_downlink_def match_response_def forward_event_def count_tc_def
      count_invalid_def count_rejected_response_def Let_def split: option.split prod.split)

lemma downlink_shape: "relay_shape (relay_downlink E wall ev r) = relay_shape r"
  by (simp add: relay_shape_def relay_downlink_def handle_publisher split: option.split downlink_handler.split)

lemma begin_shutdown_shape: "relay_shape (relay_begin_shutdown r) = relay_shape r"
  "rl_gateway (relay_begin_shutdown r) = rl_gateway r"
  by (simp_all add: relay_shape_def relay_begin_shutdown_def)

lemma gw_stop_publisher [simp]: "gw_publisher (gw_stop g) = gw_publisher g"
  by (simp add: gw_stop_def stop_clear_def stop_mark_def stop_begin_def)

lemma stop_shape: "relay_shape (relay_stop V r) = relay_shape r"
  "Option.bind (rl_gateway (relay_stop V r)) gw_publisher = Option.bind (rl_gateway r) gw_publisher"
  by (cases "rl_gateway r"; simp add: relay_shape_def relay_stop_def)+

section \<open>The invariant\<close>

definition quiet :: "'s app \<Rightarrow> bool" where
  "quiet a \<longleftrightarrow> \<not> routed_active a \<and> \<not> readiness_active a"

definition has_full :: "'s app \<Rightarrow> bool" where
  "has_full a \<longleftrightarrow> (case ap_relay a of None \<Rightarrow> False | Some r \<Rightarrow> relay_full r)"

definition nothing_but :: "'s app \<Rightarrow> bool" where
  "nothing_but a \<longleftrightarrow> ap_relay a = None \<and> ap_server a = None \<and> \<not> ap_net a"

text \<open>What each point of the main thread has built, or has left.\<close>

fun place :: "point \<Rightarrow> 's app \<Rightarrow> bool" where
  "place (Init AtConfig) a \<longleftrightarrow> nothing_but a \<and> ap_mqtt a = None \<and> \<not> ap_sec a \<and> ap_stage a = StNone"
| "place (Init AtMqttInit) a \<longleftrightarrow> nothing_but a \<and> ap_mqtt a = None \<and> ap_sec a \<and> ap_stage a = StNone"
| "place (Init AtMqttStart) a \<longleftrightarrow> nothing_but a \<and> quiet a \<and> ap_sec a \<and> ap_stage a = StNone
     \<and> (case ap_mqtt a of None \<Rightarrow> False | Some m \<Rightarrow> mq_initialized m)"
| "place (Init AtRelay) a \<longleftrightarrow> nothing_but a \<and> quiet a \<and> ap_sec a \<and> ap_mqtt a \<noteq> None"
| "place (Init AtNet) a \<longleftrightarrow> has_full a \<and> quiet a \<and> ap_sec a \<and> ap_mqtt a \<noteq> None \<and> ap_server a = None
     \<and> wired_publisher a = None"
| "place (Init AtServer) a \<longleftrightarrow> has_full a \<and> quiet a \<and> ap_sec a \<and> ap_mqtt a \<noteq> None \<and> ap_server a = None
     \<and> wired_publisher a = None \<and> ap_net a"
| "place (Init AtWire) a \<longleftrightarrow> has_full a \<and> quiet a \<and> ap_sec a \<and> ap_mqtt a \<noteq> None \<and> ap_server a \<noteq> None
     \<and> wired_publisher a = None \<and> ap_net a"
| "place (Init AtIntegration) a \<longleftrightarrow> has_full a \<and> quiet a \<and> ap_sec a \<and> ap_mqtt a \<noteq> None
     \<and> ap_server a \<noteq> None \<and> wired_publisher a \<noteq> None \<and> ap_net a"
| "place (Init AtListen) a \<longleftrightarrow> has_full a \<and> ap_sec a \<and> ap_mqtt a \<noteq> None \<and> ap_server a \<noteq> None
     \<and> wired_publisher a \<noteq> None \<and> ap_net a"
| "place Executing a \<longleftrightarrow> has_full a \<and> ap_sec a \<and> ap_mqtt a \<noteq> None \<and> ap_server a \<noteq> None
     \<and> wired_publisher a \<noteq> None \<and> ap_net a \<and> listening a \<and> ap_stage a = StIpcStarted"
| "place (Rollback RbServerStop) a \<longleftrightarrow> ap_mqtt a \<noteq> None"
| "place (Rollback RbServerReset) a \<longleftrightarrow> ap_mqtt a \<noteq> None"
| "place (Rollback RbShutdown) a \<longleftrightarrow> ap_mqtt a \<noteq> None \<and> ap_server a = None"
| "place (Rollback RbRelayStop) a \<longleftrightarrow> ap_mqtt a \<noteq> None \<and> ap_server a = None"
| "place (Rollback RbRelayReset) a \<longleftrightarrow> ap_mqtt a \<noteq> None \<and> ap_server a = None"
| "place (Rollback RbNet) a \<longleftrightarrow> ap_relay a = None \<and> ap_server a = None"
| "place (Rollback RbMqttStop) a \<longleftrightarrow> nothing_but a"
| "place (Rollback RbMqttReset) a \<longleftrightarrow> nothing_but a \<and> quiet a"
| "place (Rollback RbStage) a \<longleftrightarrow> nothing_but a \<and> ap_mqtt a = None"
| "place Refused a \<longleftrightarrow> nothing_but a \<and> ap_mqtt a = None \<and> ap_stage a = StNone"
| "place (Cleanup ClShutdown) a \<longleftrightarrow> True"
| "place (Cleanup ClRelayStop) a \<longleftrightarrow> True"
| "place (Cleanup ClServerStop) a \<longleftrightarrow> True"
| "place (Cleanup ClRelayReset) a \<longleftrightarrow> True"
| "place (Cleanup ClMqttStop) a \<longleftrightarrow> ap_relay a = None"
| "place (Cleanup ClMqttReset) a \<longleftrightarrow> ap_relay a = None \<and> quiet a"
| "place (Cleanup ClNet) a \<longleftrightarrow> ap_relay a = None \<and> ap_mqtt a = None"
| "place (Cleanup ClSec) a \<longleftrightarrow> ap_relay a = None \<and> ap_mqtt a = None \<and> \<not> ap_net a"
| "place (Cleanup ClStage) a \<longleftrightarrow> ap_relay a = None \<and> ap_mqtt a = None \<and> \<not> ap_net a \<and> \<not> ap_sec a"
| "place Cleaned a \<longleftrightarrow> ap_relay a = None \<and> ap_mqtt a = None \<and> \<not> ap_net a \<and> \<not> ap_sec a \<and> ap_stage a = StNone"
| "place Thrown a \<longleftrightarrow> True"

text \<open>The points at which subscriptions outlive the relay, and the gateway the publisher.\<close>

definition callbacks_gap :: "point set" where
  "callbacks_gap = {Rollback RbNet, Rollback RbMqttStop, Cleanup ClMqttStop}"

definition events_gap :: "point set" where
  "events_gap = {Rollback RbShutdown, Rollback RbRelayStop, Rollback RbRelayReset}"

definition serving :: "point set" where
  "serving = {Executing, Cleanup ClShutdown, Cleanup ClRelayStop, Cleanup ClServerStop}"

definition relay_held :: "'s app \<Rightarrow> bool" where
  "relay_held a \<longleftrightarrow> (\<forall>r. ap_relay a = Some r \<longrightarrow> relay_fine r \<and> ap_mqtt a \<noteq> None)"

definition app_ok :: "point \<times> 's app \<Rightarrow> bool" where
  "app_ok x \<longleftrightarrow> (case x of (q, a) \<Rightarrow>
     place q a \<and> relay_held a
     \<and> (listening a \<longrightarrow> q \<in> serving \<and> has_full a \<and> ap_net a)
     \<and> (q \<notin> callbacks_gap \<longrightarrow> quiet a \<or> has_full a)
     \<and> (q \<notin> events_gap \<longrightarrow> wired_publisher a = None \<or> wired_publisher a = map_option fs_publisher (ap_server a)))"

section \<open>What leaves the frame alone\<close>

text \<open>Two states that differ inside the components only.\<close>

definition same_frame :: "'s app \<Rightarrow> 's app \<Rightarrow> bool" where
  "same_frame a b \<longleftrightarrow> ap_stage b = ap_stage a \<and> ap_mqtt b = ap_mqtt a \<and> ap_net b = ap_net a \<and> ap_sec b = ap_sec a
     \<and> map_option relay_shape (ap_relay b) = map_option relay_shape (ap_relay a)
     \<and> (ap_server b = None \<longleftrightarrow> ap_server a = None) \<and> (listening b \<longleftrightarrow> listening a)"

lemma same_frameD:
  assumes "same_frame a b"
  shows "ap_stage b = ap_stage a" "ap_mqtt b = ap_mqtt a" "ap_net b = ap_net a" "ap_sec b = ap_sec a"
    "ap_server b = None \<longleftrightarrow> ap_server a = None" "listening b \<longleftrightarrow> listening a"
    "ap_relay b = None \<longleftrightarrow> ap_relay a = None" "quiet b \<longleftrightarrow> quiet a"
  using assms map_option_None_eq [of relay_shape "ap_relay b" "ap_relay a"]
  by (simp_all add: same_frame_def quiet_def routed_active_def readiness_active_def)

lemma shape_cases:
  "has_full a \<longleftrightarrow> (case map_option relay_shape (ap_relay a) of
     Some (h, rg, g, k, p) \<Rightarrow> \<not> g \<and> \<not> rg \<and> \<not> k | None \<Rightarrow> False)"
  "relay_held a \<longleftrightarrow> (case map_option relay_shape (ap_relay a) of
     Some (h, rg, g, k, p) \<Rightarrow> (h \<and> (g \<longleftrightarrow> rg) \<and> (\<not> k \<longrightarrow> \<not> g)) \<and> ap_mqtt a \<noteq> None | None \<Rightarrow> True)"
  "wired_publisher a = None \<longleftrightarrow> (case map_option relay_shape (ap_relay a) of
     Some (h, rg, g, k, p) \<Rightarrow> p | None \<Rightarrow> True)"
  by (cases "ap_relay a"; simp only: has_full_def relay_full_def relay_held_def relay_fine_def wired_publisher_def
      relay_shape_def option.case option.map prod.case bind.simps option.inject option.distinct simp_thms; blast)+

lemma same_frame_relay:
  assumes "same_frame a b"
  shows "has_full b \<longleftrightarrow> has_full a" "relay_held b \<longleftrightarrow> relay_held a" "wired_publisher b = None \<longleftrightarrow> wired_publisher a = None"
    "nothing_but b \<longleftrightarrow> nothing_but a"
proof -
  have "map_option relay_shape (ap_relay b) = map_option relay_shape (ap_relay a)" "ap_mqtt b = ap_mqtt a"
    using assms by (simp_all add: same_frame_def)
  then show "has_full b \<longleftrightarrow> has_full a" "relay_held b \<longleftrightarrow> relay_held a"
    "wired_publisher b = None \<longleftrightarrow> wired_publisher a = None"
    by (simp_all only: shape_cases)
  show "nothing_but b \<longleftrightarrow> nothing_but a" using same_frameD [OF assms] by (simp add: nothing_but_def)
qed

lemma place_same: "same_frame a b \<Longrightarrow> place q b \<longleftrightarrow> place q a"
  by (cases "(q, a)" rule: place.cases) (simp_all add: same_frameD same_frame_relay)

definition wired_well :: "'s app \<Rightarrow> bool" where
  "wired_well a \<longleftrightarrow> wired_publisher a = None \<or> wired_publisher a = map_option fs_publisher (ap_server a)"

lemma app_ok_same:
  assumes "app_ok (q, a)" and "same_frame a b" and "wired_well a \<Longrightarrow> wired_well b"
  shows "app_ok (q, b)"
  using assms(1,3) unfolding app_ok_def prod.case wired_well_def [symmetric]
  by (simp add: place_same [OF assms(2)] same_frameD [OF assms(2)] same_frame_relay [OF assms(2)])

lemma relay_replaced:
  assumes "ap_relay a = Some r" and "relay_shape r' = relay_shape r"
  shows "same_frame a (a\<lparr>ap_relay := Some r'\<rparr>)"
  using assms by (simp add: same_frame_def listening_def)

lemma wired_replaced:
  assumes "ap_relay a = Some r"
    and "Option.bind (rl_gateway r') gw_publisher = Option.bind (rl_gateway r) gw_publisher"
  shows "wired_well (a\<lparr>ap_relay := Some r'\<rparr>) \<longleftrightarrow> wired_well a"
  using assms by (simp add: wired_well_def wired_publisher_def)

lemma shared_frame: "same_frame a (share_publisher a)"
  by (simp add: same_frame_def share_publisher_def listening_def split: option.split)

lemma shared_wired: "ap_server a \<noteq> None \<or> wired_publisher a = None \<Longrightarrow> wired_well (share_publisher a)"
  by (auto simp: wired_well_def share_publisher_def wired_publisher_def split: option.split)

lemma on_publisher_frame: "same_frame a (on_publisher f a)"
proof (cases "ap_relay a")
  case None
  then show ?thesis by (simp add: same_frame_def on_publisher_def listening_def option.case_eq_if option.map_sel)
next
  case (Some r)
  then show ?thesis
    by (cases "rl_gateway r"; cases "ap_server a")
      (simp_all add: same_frame_def on_publisher_def listening_def relay_shape_def)
qed

lemma on_publisher_wired: "wired_well a \<Longrightarrow> wired_well (on_publisher f a)"
proof -
  have "wired_publisher (on_publisher f a) = map_option f (wired_publisher a)"
    by (cases "ap_relay a"; cases "Option.bind (ap_relay a) rl_gateway")
      (auto simp: wired_publisher_def on_publisher_def split: bind_splits)
  moreover have "map_option fs_publisher (ap_server (on_publisher f a)) = map_option f (map_option fs_publisher (ap_server a))"
    by (cases "ap_server a") (simp_all add: on_publisher_def)
  ultimately show "wired_well a \<Longrightarrow> wired_well (on_publisher f a)" by (auto simp: wired_well_def)
qed

lemma same_frame_trans: "same_frame a b \<Longrightarrow> same_frame b c \<Longrightarrow> same_frame a c"
  by (simp add: same_frame_def)

text \<open>The other threads keep the invariant.\<close>

lemma request_ok_app:
  assumes "app_ok (q, a)" and "ap_relay a = Some r"
  shows "app_ok (q, a\<lparr>ap_relay := Some (snd (relay_exchange pb wall raw opts r))\<rparr>)"
  by (rule app_ok_same [OF assms(1) relay_replaced [OF assms(2) exchange_shape(1)]])
    (simp add: wired_replaced [OF assms(2) exchange_shape(2)])

lemma work_ok_app:
  assumes "app_ok (q, a)" and "ap_relay a = Some r" and "relay_work V hash r r'"
  shows "app_ok (q, a\<lparr>ap_relay := Some r'\<rparr>)"
  by (rule app_ok_same [OF assms(1) relay_replaced [OF assms(2) work_shape(1) [OF assms(3)]]])
    (simp add: wired_replaced [OF assms(2) work_shape(2) [OF assms(3)]])

lemma downlink_ok_app:
  assumes "app_ok (q, a)" and "ap_relay a = Some r"
  shows "app_ok (q, share_publisher (a\<lparr>ap_relay := Some (relay_downlink E wall ev r)\<rparr>))"
proof -
  let ?b = "a\<lparr>ap_relay := Some (relay_downlink E wall ev r)\<rparr>"
  have f: "same_frame a ?b" by (rule relay_replaced [OF assms(2) downlink_shape])
  show ?thesis
  proof (rule app_ok_same [OF assms(1) same_frame_trans [OF f shared_frame]])
    assume "wired_well a"
    then have "ap_server a \<noteq> None \<or> wired_publisher a = None" by (auto simp: wired_well_def)
    then have w: "ap_server ?b \<noteq> None \<or> wired_publisher ?b = None"
      by (simp only: same_frame_relay(3) [OF f] same_frameD(5) [OF f])
    show "wired_well (share_publisher ?b)" by (rule shared_wired [OF w])
  qed
qed

section \<open>The main thread keeps the invariant\<close>

lemma initialized_local:
  assumes "initialize_local V st node gc True kc (new_relay True) = Some (ok, r)"
  shows "rl_has_mqtt r \<and> Option.bind (rl_gateway r) gw_publisher = None
    \<and> (if ok then relay_full r else rl_gateway r = None \<and> rl_registrar r = None \<and> rl_keyprov r = None)"
  using assms
  by (auto simp: initialize_local_def new_relay_def gw_initialize_def relay_full_def new_gateway_def Let_def
      split: if_splits option.splits)

lemma integration_shape:
  assumes "start_mqtt_integration V (r, m) = (ok, r', m')" and "relay_full r"
  shows "ok \<and> relay_shape r' = relay_shape r
    \<and> Option.bind (rl_gateway r') gw_publisher = Option.bind (rl_gateway r) gw_publisher"
proof -
  obtain rg g c where f: "rl_registrar r = Some rg" "rl_gateway r = Some g" "rl_keyprov r = Some c"
    using assms(2) by (auto simp: relay_full_def)
  have p: "gw_publisher (register_downlink_handler o' ri t h (gw_start g)) = gw_publisher g" for o' ri t h
    by (simp add: register_downlink_handler_def gw_start_def split: option.split)
  show ?thesis
    using assms(1) f p
    by (auto simp: start_mqtt_integration_def start_gateway_def start_keyprov_def relay_shape_def)
qed

lemma not_serving: "app_ok (q, a) \<Longrightarrow> q \<notin> serving \<Longrightarrow> \<not> listening a"
  by (auto simp: app_ok_def)

lemma stop_relay_ok:
  assumes "app_ok (q, a)"
  shows "same_frame a (a\<lparr>ap_relay := map_option (relay_stop V) (ap_relay a)\<rparr>)"
    "wired_well (a\<lparr>ap_relay := map_option (relay_stop V) (ap_relay a)\<rparr>) \<longleftrightarrow> wired_well a"
  by (cases "ap_relay a"; simp add: same_frame_def listening_def stop_shape wired_well_def wired_publisher_def)+

lemma shut_relay_ok:
  "same_frame a (a\<lparr>ap_relay := map_option relay_begin_shutdown (ap_relay a)\<rparr>)"
  "wired_well (a\<lparr>ap_relay := map_option relay_begin_shutdown (ap_relay a)\<rparr>) \<longleftrightarrow> wired_well a"
  by (cases "ap_relay a"; simp add: same_frame_def listening_def begin_shutdown_shape wired_well_def wired_publisher_def)+

lemma app_okI:
  assumes "place q a" and "relay_held a" and "listening a \<Longrightarrow> q \<in> serving \<and> has_full a \<and> ap_net a"
    and "q \<notin> callbacks_gap \<Longrightarrow> quiet a \<or> has_full a" and "q \<notin> events_gap \<Longrightarrow> wired_well a"
  shows "app_ok (q, a)"
  using assms by (simp add: app_ok_def wired_well_def)

lemma app_okD:
  assumes "app_ok (q, a)"
  shows "place q a" "relay_held a" "listening a \<Longrightarrow> q \<in> serving" "listening a \<Longrightarrow> has_full a"
    "listening a \<Longrightarrow> ap_net a" "q \<notin> callbacks_gap \<Longrightarrow> quiet a \<or> has_full a" "q \<notin> events_gap \<Longrightarrow> wired_well a"
  using assms by (simp_all add: app_ok_def wired_well_def)

lemmas gap_defs = serving_def callbacks_gap_def events_gap_def
lemmas quiet_defs = quiet_def routed_active_def readiness_active_def
lemmas adapter_defs = adapter_initialize_def adapter_start_def adapter_stop_def new_adapter_def

text \<open>With no relay and no server there is nothing to hold.\<close>

lemma bare_ok:
  assumes "nothing_but a" and "place q a" and "q \<notin> callbacks_gap \<Longrightarrow> quiet a"
  shows "app_ok (q, a)"
  using assms
  by (intro app_okI) (auto simp: nothing_but_def relay_held_def listening_def wired_well_def wired_publisher_def)

lemma init_config_ok: "app_ok (Init AtConfig, a) \<Longrightarrow> app_ok (init_step V AtConfig a)"
  by (cases "av_view V") (use app_okD(1) [of "Init AtConfig" a] in \<open>auto intro!: bare_ok simp: nothing_but_def quiet_defs\<close>)

lemma init_mqtt_ok: "app_ok (Init AtMqttInit, a) \<Longrightarrow> app_ok (init_step V AtMqttInit a)"
  using app_okD(1) [of "Init AtMqttInit" a]
  by (auto intro!: bare_ok simp: nothing_but_def quiet_defs adapter_defs)

lemma init_start_ok: "app_ok (Init AtMqttStart, a) \<Longrightarrow> app_ok (init_step V AtMqttStart a)"
  using app_okD(1) [of "Init AtMqttStart" a]
  by (cases "ap_mqtt a") (auto intro!: bare_ok simp: nothing_but_def quiet_defs adapter_defs)

lemma init_relay_ok:
  assumes "app_ok (Init AtRelay, a)"
  shows "app_ok (init_step V AtRelay a)"
proof -
  have p: "nothing_but a" "quiet a" "ap_sec a" "ap_mqtt a \<noteq> None" using app_okD(1) [OF assms] by simp_all
  have nl: "\<not> listening (a\<lparr>ap_relay := x\<rparr>)" "quiet (a\<lparr>ap_relay := x\<rparr>)" for x
    using p by (simp_all add: nothing_but_def listening_def quiet_defs)
  let ?i = "initialize_local (av_relay V) (av_store V) (av_catalog V) (ac_vehicle (ap_config a)) True
    (ac_keyprov (ap_config a)) (new_relay True)"
  show ?thesis
  proof (cases ?i)
    case None
    then show ?thesis
      using p nl by (auto intro!: app_okI simp: relay_held_def relay_fine_def new_relay_def wired_well_def wired_publisher_def)
  next
    case (Some x)
    then obtain ok r where i: "?i = Some (ok, r)" by (cases x) simp
    note r = initialized_local [OF i]
    have w: "wired_publisher (a\<lparr>ap_relay := Some r\<rparr>) = None" using r by (simp add: wired_publisher_def)
    have h: "relay_held (a\<lparr>ap_relay := Some r\<rparr>)"
      using r p(4) by (cases ok) (auto simp: relay_held_def relay_fine_def relay_full_def)
    show ?thesis
      using i p(1,3,4) r w h nl
      by (cases ok) (auto intro!: app_okI simp: wired_well_def has_full_def nothing_but_def)
  qed
qed

lemma init_net_ok: "app_ok (Init AtNet, a) \<Longrightarrow> app_ok (init_step V AtNet a)"
  using app_okD [of "Init AtNet" a]
  by (auto intro!: app_okI simp: gap_defs has_full_def relay_held_def quiet_defs listening_def wired_well_def wired_publisher_def)

lemma init_server_ok: "app_ok (Init AtServer, a) \<Longrightarrow> app_ok (init_step V AtServer a)"
  using app_okD [of "Init AtServer" a]
  by (auto intro!: app_okI simp: gap_defs has_full_def relay_held_def quiet_defs listening_def wired_well_def
      wired_publisher_def new_server_def)

lemma init_wire_ok:
  assumes "app_ok (Init AtWire, a)"
  shows "app_ok (init_step V AtWire a)"
proof -
  note ok = app_okD [OF assms]
  obtain r s where r: "ap_relay a = Some r" "relay_full r" "ap_server a = Some s"
    using ok(1) by (auto simp: has_full_def split: option.splits)
  then obtain g where g: "rl_gateway r = Some g" by (auto simp: relay_full_def)
  have nl: "\<not> listening a" using ok(3) by (auto simp: gap_defs)
  show ?thesis
    using ok(1,2) r g nl
    by (auto intro!: app_okI simp: has_full_def relay_full_def relay_held_def relay_fine_def quiet_defs listening_def
        relay_set_publisher_def set_event_publisher_def wired_well_def wired_publisher_def)
qed

lemma init_integration_ok:
  assumes "app_ok (Init AtIntegration, a)"
  shows "app_ok (init_step V AtIntegration a)"
proof -
  note ok = app_okD [OF assms]
  obtain r m where r: "ap_relay a = Some r" "relay_full r" "ap_mqtt a = Some m"
    using ok(1) by (auto simp: has_full_def split: option.splits)
  obtain b r' m' where i: "start_mqtt_integration (av_relay V) (r, m) = (b, r', m')" by (metis prod_cases3)
  note sh = integration_shape [OF i r(2)]
  let ?b = "a\<lparr>ap_relay := Some r', ap_mqtt := Some m', ap_stage := StRelayReady\<rparr>"
  have f: "same_frame a (a\<lparr>ap_relay := Some r'\<rparr>)" using sh by (auto intro: relay_replaced [OF r(1)])
  have "has_full ?b \<longleftrightarrow> has_full (a\<lparr>ap_relay := Some r'\<rparr>)" "wired_publisher ?b = wired_publisher (a\<lparr>ap_relay := Some r'\<rparr>)"
    "relay_held ?b \<longleftrightarrow> relay_held (a\<lparr>ap_relay := Some r'\<rparr>)"
    using r(3) by (simp_all add: has_full_def wired_publisher_def relay_held_def)
  then have h: "has_full ?b" "relay_held ?b" and w: "wired_publisher ?b = None \<longleftrightarrow> wired_publisher a = None"
    using same_frame_relay [OF f] ok(1,2) by (simp_all only: place.simps)
  have ww: "wired_well ?b"
    using wired_replaced [OF r(1), of r'] sh ok(7) by (auto simp: wired_well_def wired_publisher_def gap_defs)
  have "\<not> listening ?b" using not_serving [OF assms] by (simp add: listening_def gap_defs)
  then have "app_ok (Init AtListen, ?b)"
    using h w ww ok(1) by (intro app_okI) auto
  then show ?thesis using i r sh by simp
qed

lemma server_stop_ok:
  assumes "app_ok (q, a)" and "q \<notin> events_gap"
  shows "same_frame a (server_stop a) \<or> listening a" "\<not> listening (server_stop a)" "wired_well (server_stop a)"
    "has_full (server_stop a) \<longleftrightarrow> has_full a" "relay_held (server_stop a) \<longleftrightarrow> relay_held a" "quiet (server_stop a) \<longleftrightarrow> quiet a"
    "ap_mqtt (server_stop a) = ap_mqtt a" "ap_relay (server_stop a) = None \<longleftrightarrow> ap_relay a = None"
proof -
  let ?b = "on_publisher publisher_stop a"
  have f: "same_frame a ?b" by (rule on_publisher_frame)
  have w: "wired_well ?b" using app_okD(7) [OF assms] on_publisher_wired by blast
  have s: "ap_relay (server_stop a) = ap_relay ?b" "ap_mqtt (server_stop a) = ap_mqtt ?b"
    "map_option fs_publisher (ap_server (server_stop a)) = map_option fs_publisher (ap_server ?b)"
    by (cases "ap_server ?b"; simp add: server_stop_def set_listening_def)+
  show n: "\<not> listening (server_stop a)"
    by (simp add: server_stop_def set_listening_def listening_def split: option.split)
  show "wired_well (server_stop a)" using w s by (simp add: wired_well_def wired_publisher_def)
  show "has_full (server_stop a) \<longleftrightarrow> has_full a" "relay_held (server_stop a) \<longleftrightarrow> relay_held a"
    "quiet (server_stop a) \<longleftrightarrow> quiet a" "ap_mqtt (server_stop a) = ap_mqtt a" "ap_relay (server_stop a) = None \<longleftrightarrow> ap_relay a = None"
    using same_frame_relay [OF f] same_frameD [OF f] s
    by (simp_all add: has_full_def relay_held_def quiet_defs)
  show "same_frame a (server_stop a) \<or> listening a"
    using f n s by (auto simp: same_frame_def server_stop_def set_listening_def)
qed

lemma init_listen_ok:
  assumes "app_ok (Init AtListen, a)"
  shows "app_ok (init_step V AtListen a)"
proof -
  note ok = app_okD [OF assms]
  have nl: "\<not> listening a" using not_serving [OF assms] by (simp add: gap_defs)
  let ?b = "on_publisher publisher_start a"
  have f: "same_frame a ?b" by (rule on_publisher_frame)
  have b: "app_ok (Init AtListen, ?b)" by (rule app_ok_same [OF assms f on_publisher_wired])
  note okb = app_okD [OF b]
  show ?thesis
  proof (cases "av_listens V")
    case True
    let ?c = "(set_listening True ?b)\<lparr>ap_stage := StIpcStarted\<rparr>"
    have s: "ap_relay ?c = ap_relay ?b" "ap_mqtt ?c = ap_mqtt ?b" "ap_net ?c = ap_net ?b" "ap_sec ?c = ap_sec ?b"
      "map_option fs_publisher (ap_server ?c) = map_option fs_publisher (ap_server ?b)"
      by (cases "ap_server ?b"; simp add: set_listening_def)+
    have l: "listening ?c" using okb(1) by (auto simp: set_listening_def listening_def)
    have e: "has_full ?c \<longleftrightarrow> has_full ?b" "relay_held ?c \<longleftrightarrow> relay_held ?b" "wired_publisher ?c = wired_publisher ?b"
      "wired_well ?c \<longleftrightarrow> wired_well ?b" "ap_server ?c = None \<longleftrightarrow> ap_server ?b = None"
      using s map_option_None_eq [OF s(5)]
      by (simp_all only: has_full_def relay_held_def wired_publisher_def wired_well_def)
    have "app_ok (Executing, ?c)"
      using okb(1,2,7) l e s by (intro app_okI) (auto simp: gap_defs)
    then show ?thesis using nl True by (simp add: server_start_def listening_def Let_def split: option.splits)
  next
    case False
    let ?c = "on_publisher publisher_stop ?b"
    have g: "same_frame ?b ?c" by (rule on_publisher_frame)
    have c: "app_ok (Init AtListen, ?c)" by (rule app_ok_same [OF b g on_publisher_wired])
    note okc = app_okD [OF c]
    have "app_ok (Rollback RbServerStop, ?c)"
      using okc(1,2,6,7) not_serving [OF c] by (intro app_okI) (simp_all add: gap_defs)
    then show ?thesis using nl False by (simp add: server_start_def listening_def Let_def split: option.splits)
  qed
qed

lemma init_ok: "app_ok (Init p, a) \<Longrightarrow> app_ok (init_step V p a)"
  by (cases p) (simp_all only: init_config_ok init_mqtt_ok init_start_ok init_relay_ok init_net_ok init_server_ok
      init_wire_ok init_integration_ok init_listen_ok)

lemma rollback_ok:
  assumes "app_ok (Rollback p, a)"
  shows "app_ok (rollback_step V p a)"
proof -
  note ok = app_okD [OF assms]
  have nl: "\<not> listening a" using not_serving [OF assms] by (simp add: gap_defs)
  have dropped: "\<not> listening (a\<lparr>ap_server := None\<rparr>)" "has_full (a\<lparr>ap_server := None\<rparr>) \<longleftrightarrow> has_full a"
    "relay_held (a\<lparr>ap_server := None\<rparr>) \<longleftrightarrow> relay_held a" "quiet (a\<lparr>ap_server := None\<rparr>) \<longleftrightarrow> quiet a"
    by (simp_all add: listening_def has_full_def relay_held_def quiet_defs)
  have moved: "app_ok (Rollback q, b)"
    if "same_frame a b" "wired_well a \<Longrightarrow> wired_well b" "place (Rollback q) a"
      "Rollback q \<in> events_gap \<or> Rollback p \<notin> events_gap" "Rollback p \<notin> callbacks_gap" for q b
    using that ok same_frameD [OF that(1)] same_frame_relay [OF that(1)] place_same [OF that(1)] nl
    by (intro app_okI) auto
  show ?thesis
  proof (cases p)
    case RbServerStop
    note st = server_stop_ok [OF assms]
    have "app_ok (Rollback RbServerReset, server_stop a)"
      using ok(1,2,6) st RbServerStop by (intro app_okI) (auto simp: gap_defs)
    then show ?thesis using RbServerStop by simp
  next
    case RbServerReset
    then show ?thesis using ok(1,2,6) dropped by (auto intro!: app_okI simp: gap_defs)
  next
    case RbShutdown
    have "same_frame a (if c then a\<lparr>ap_relay := map_option relay_begin_shutdown (ap_relay a)\<rparr> else a)"
      "wired_well a \<Longrightarrow> wired_well (if c then a\<lparr>ap_relay := map_option relay_begin_shutdown (ap_relay a)\<rparr> else a)" for c
      using shut_relay_ok [of a] by (auto simp: same_frame_def)
    then show ?thesis using RbShutdown ok(1) by (simp only: rollback_step.simps) (rule moved, simp_all add: gap_defs)
  next
    case RbRelayStop
    have "app_ok (Rollback RbRelayReset, a\<lparr>ap_relay := map_option (relay_stop (av_relay V)) (ap_relay a)\<rparr>)"
      using stop_relay_ok [OF assms] ok(1) RbRelayStop by (intro moved) (simp_all add: gap_defs)
    then show ?thesis using RbRelayStop by simp
  next
    case RbRelayReset
    then show ?thesis
      using ok(1) nl by (auto intro!: app_okI simp: gap_defs relay_held_def wired_well_def wired_publisher_def listening_def)
  next
    case RbNet
    then show ?thesis
      using ok(1) nl by (auto intro!: bare_ok simp: gap_defs nothing_but_def)
  next
    case RbMqttStop
    then show ?thesis
      using ok(1) by (auto intro!: bare_ok simp: nothing_but_def quiet_defs adapter_defs split: option.splits)
  next
    case RbMqttReset
    then show ?thesis using ok(1) by (auto intro!: bare_ok simp: nothing_but_def quiet_defs)
  next
    case RbStage
    then show ?thesis using ok(1) by (auto intro!: bare_ok simp: nothing_but_def quiet_defs)
  qed
qed

text \<open>Without a relay only the server and the subscriptions are left to look at.\<close>

lemma relayless_ok:
  assumes "ap_relay a = None" and "\<not> listening a" and "place q a" and "q \<notin> callbacks_gap \<Longrightarrow> quiet a"
  shows "app_ok (q, a)"
  using assms by (intro app_okI) (auto simp: relay_held_def wired_well_def wired_publisher_def)

lemma cleanup_ok:
  assumes "app_ok (Cleanup p, a)"
  shows "app_ok (cleanup_step V p a)"
proof -
  note ok = app_okD [OF assms]
  have serve: "listening a \<Longrightarrow> Cleanup p \<in> serving \<and> has_full a \<and> ap_net a" using ok(3,4,5) by blast
  have still: "app_ok (Cleanup q, b)"
    if f: "same_frame a b" and w: "wired_well b \<longleftrightarrow> wired_well a" and p: "Cleanup p \<notin> callbacks_gap"
      and q: "q \<in> {ClRelayStop, ClServerStop}" for q b
  proof (rule app_okI)
    show "place (Cleanup q) b" using q by auto
    show "relay_held b" using ok(2) by (simp only: same_frame_relay(2) [OF f])
    show "Cleanup q \<in> serving \<and> has_full b \<and> ap_net b" if "listening b"
      using that serve q by (auto simp: same_frameD(3,6) [OF f] same_frame_relay(1) [OF f] serving_def)
    show "quiet b \<or> has_full b" using ok(6) [OF p] by (simp only: same_frameD(8) [OF f] same_frame_relay(1) [OF f])
    show "wired_well b" using ok(7) w by (simp add: events_gap_def)
  qed
  show ?thesis
  proof (cases p)
    case ClShutdown
    have "app_ok (Cleanup ClRelayStop, a\<lparr>ap_relay := map_option relay_begin_shutdown (ap_relay a)\<rparr>)"
      using shut_relay_ok [of a] ClShutdown by (intro still) (simp_all add: gap_defs)
    then show ?thesis using ClShutdown by simp
  next
    case ClRelayStop
    have "app_ok (Cleanup ClServerStop, a\<lparr>ap_relay := map_option (relay_stop (av_relay V)) (ap_relay a)\<rparr>)"
      using stop_relay_ok [OF assms] ClRelayStop by (intro still) (simp_all add: gap_defs)
    then show ?thesis using ClRelayStop by simp
  next
    case ClServerStop
    note st = server_stop_ok [OF assms]
    have "app_ok (Cleanup ClRelayReset, server_stop a)"
      using ok(2,6) st ClServerStop by (intro app_okI) (auto simp: gap_defs)
    then show ?thesis using ClServerStop by simp
  next
    case ClRelayReset
    then show ?thesis
      using not_serving [OF assms] by (auto intro!: relayless_ok simp: gap_defs listening_def)
  next
    case ClMqttStop
    then show ?thesis
      using not_serving [OF assms] ok(1)
      by (auto intro!: relayless_ok simp: gap_defs listening_def quiet_defs adapter_defs split: option.splits)
  qed (use not_serving [OF assms] ok(1) in \<open>auto intro!: relayless_ok simp: gap_defs listening_def quiet_defs\<close>)
qed

lemma main_ok: "main_next V x = Some y \<Longrightarrow> app_ok x \<Longrightarrow> app_ok y"
proof (induction V x rule: main_next.induct)
  case (1 V p a)
  then show ?case using init_ok [of p a V] by simp
next
  case (2 V p a)
  then show ?case using rollback_ok [of p a V] by simp
next
  case (3 V p a)
  then show ?case using cleanup_ok [of p a V] by simp
qed simp_all

lemma begin_cleanup_ok:
  assumes "app_ok (q, a)" and "q = Executing \<or> q = Refused"
  shows "app_ok (Cleanup ClShutdown, a)"
  using app_okD [OF assms(1)] assms(2) by (intro app_okI) (auto simp: gap_defs)

lemma app_step_ok: "app_step V hash x y \<Longrightarrow> app_ok x \<Longrightarrow> app_ok y"
proof (induction rule: app_step.induct)
  case (as_main x y)
  then show ?case by (rule main_ok)
next
  case (as_shutdown a)
  then show ?case by (rule begin_cleanup_ok) simp
next
  case (as_refused a)
  then show ?case by (rule begin_cleanup_ok) simp
next
  case (as_request a r q wall raw opts)
  then show ?case by (simp add: request_ok_app)
next
  case (as_downlink a r q wall ev)
  then show ?case by (simp add: downlink_ok_app)
next
  case (as_work a r r' q)
  then show ?case by (simp add: work_ok_app)
qed

interpretation app: step_invariant "app_step V hash" app_ok for V hash
  by unfold_locales (rule app_step_ok)

lemma new_app_ok: "app_ok (Init AtConfig, new_app)"
  by (rule bare_ok) (simp_all add: nothing_but_def new_app_def quiet_defs)

lemmas app_runs = app.run [OF _ new_app_ok]

section \<open>Ownership\<close>

text \<open>
  C11. In every interleaving the process is well formed: a relay is there only while the adapter it
  publishes through is, has a gateway exactly when it has a registrar, and a coordinator only with
  a gateway; while \<open>initialize\<close> has succeeded everything is there and connected, the gateway's
  publisher being the server's; after a refused \<open>initialize\<close> neither relay, server, adapter nor
  network provider is left, and after \<open>cleanup\<close> none but the stopped server.
\<close>

theorem process_well_formed:
  assumes "(app_step V hash)\<^sup>*\<^sup>* (Init AtConfig, new_app) (q, a)"
  shows "(\<forall>r. ap_relay a = Some r \<longrightarrow> ap_mqtt a \<noteq> None \<and> rl_has_mqtt r
            \<and> (rl_gateway r = None \<longleftrightarrow> rl_registrar r = None) \<and> (rl_keyprov r \<noteq> None \<longrightarrow> rl_gateway r \<noteq> None))
    \<and> (q = Executing \<longrightarrow> ap_stage a = StIpcStarted \<and> listening a \<and> ap_net a \<and> ap_sec a \<and> ap_mqtt a \<noteq> None
        \<and> (\<exists>r p. ap_relay a = Some r \<and> rl_gateway r \<noteq> None \<and> rl_registrar r \<noteq> None \<and> rl_keyprov r \<noteq> None
            \<and> wired_publisher a = Some p \<and> map_option fs_publisher (ap_server a) = Some p))
    \<and> (q = Refused \<longrightarrow> ap_relay a = None \<and> ap_server a = None \<and> ap_mqtt a = None \<and> \<not> ap_net a \<and> ap_stage a = StNone)
    \<and> (q = Cleaned \<longrightarrow> ap_relay a = None \<and> \<not> listening a \<and> ap_mqtt a = None \<and> \<not> ap_net a \<and> \<not> ap_sec a)"
proof -
  note ok = app_okD [OF app_runs [OF assms]]
  have 1: "\<forall>r. ap_relay a = Some r \<longrightarrow> ap_mqtt a \<noteq> None \<and> rl_has_mqtt r
      \<and> (rl_gateway r = None \<longleftrightarrow> rl_registrar r = None) \<and> (rl_keyprov r \<noteq> None \<longrightarrow> rl_gateway r \<noteq> None)"
    using ok(2) by (auto simp: relay_held_def relay_fine_def)
  have 2: "q = Executing \<longrightarrow> ap_stage a = StIpcStarted \<and> listening a \<and> ap_net a \<and> ap_sec a \<and> ap_mqtt a \<noteq> None
      \<and> (\<exists>r p. ap_relay a = Some r \<and> rl_gateway r \<noteq> None \<and> rl_registrar r \<noteq> None \<and> rl_keyprov r \<noteq> None
          \<and> wired_publisher a = Some p \<and> map_option fs_publisher (ap_server a) = Some p)"
    using ok(1,7) by (auto simp: has_full_def relay_full_def wired_well_def gap_defs split: option.splits)
  have 3: "q = Refused \<longrightarrow> ap_relay a = None \<and> ap_server a = None \<and> ap_mqtt a = None \<and> \<not> ap_net a
      \<and> ap_stage a = StNone"
    using ok(1) by (auto simp: nothing_but_def)
  have 4: "q = Cleaned \<longrightarrow> ap_relay a = None \<and> \<not> listening a \<and> ap_mqtt a = None \<and> \<not> ap_net a \<and> \<not> ap_sec a"
    using ok(1,3) by (auto simp: gap_defs)
  from 1 2 3 4 show ?thesis by (intro conjI)
qed

section \<open>Use after destruction\<close>

text \<open>
  C5. A request never reaches a destroyed object: at every point of the process at which the IPC
  server listens, in every interleaving, the relay with its gateway and the network provider
  that the dispatcher calls exist.
\<close>

theorem requests_never_dangle:
  assumes "(app_step V hash)\<^sup>*\<^sup>* (Init AtConfig, new_app) (q, a)"
  shows "requests_safe a"
  using app_okD(4,5) [OF app_runs [OF assms]]
  by (auto simp: requests_safe_def has_full_def relay_full_def split: option.splits)

text \<open>
  C28. The MQTT callbacks find the gateway and the coordinator they capture, and the gateway the
  publisher it points to, at every point but those between the destruction of the relay and the end of
  the subscriptions, and between that of the server and that of the relay in a rollback; so in
  particular always while \<open>initialize\<close> builds, while the process executes, and after it.
\<close>

theorem callbacks_find_their_targets:
  assumes "(app_step V hash)\<^sup>*\<^sup>* (Init AtConfig, new_app) (q, a)"
  shows "(callbacks_safe a \<or> q \<in> {Rollback RbNet, Rollback RbMqttStop, Cleanup ClMqttStop})
    \<and> (events_safe a \<or> q \<in> {Rollback RbShutdown, Rollback RbRelayStop, Rollback RbRelayReset})"
proof -
  note ok = app_okD [OF app_runs [OF assms]]
  have "q \<notin> callbacks_gap \<Longrightarrow> callbacks_safe a"
    using ok(6) by (auto simp: callbacks_safe_def quiet_def has_full_def relay_full_def split: option.splits)
  moreover have "q \<notin> events_gap \<Longrightarrow> events_safe a"
    using ok(7) by (auto simp: events_safe_def wired_well_def)
  ultimately show ?thesis by (auto simp: gap_defs)
qed

section \<open>Termination\<close>

fun calls_left :: "point \<Rightarrow> nat" where
  "calls_left (Init p) = 9 + (case p of AtConfig \<Rightarrow> 9 | AtMqttInit \<Rightarrow> 8 | AtMqttStart \<Rightarrow> 7 | AtRelay \<Rightarrow> 6 | AtNet \<Rightarrow> 5
     | AtServer \<Rightarrow> 4 | AtWire \<Rightarrow> 3 | AtIntegration \<Rightarrow> 2 | AtListen \<Rightarrow> 1)"
| "calls_left (Rollback p) = (case p of RbServerStop \<Rightarrow> 9 | RbServerReset \<Rightarrow> 8 | RbShutdown \<Rightarrow> 7 | RbRelayStop \<Rightarrow> 6
     | RbRelayReset \<Rightarrow> 5 | RbNet \<Rightarrow> 4 | RbMqttStop \<Rightarrow> 3 | RbMqttReset \<Rightarrow> 2 | RbStage \<Rightarrow> 1)"
| "calls_left (Cleanup p) = (case p of ClShutdown \<Rightarrow> 9 | ClRelayStop \<Rightarrow> 8 | ClServerStop \<Rightarrow> 7 | ClRelayReset \<Rightarrow> 6
     | ClMqttStop \<Rightarrow> 5 | ClMqttReset \<Rightarrow> 4 | ClNet \<Rightarrow> 3 | ClSec \<Rightarrow> 2 | ClStage \<Rightarrow> 1)"
| "calls_left q = 0"

lemma calls_decrease: "main_next V x = Some y \<Longrightarrow> calls_left (fst y) < calls_left (fst x)"
proof (induction V x rule: main_next.induct)
  case (1 V p a)
  then show ?case
    by (cases p) (auto simp: Let_def split: option.splits prod.splits if_splits)
next
  case (2 V p a)
  then show ?case by (cases p) auto
next
  case (3 V p a)
  then show ?case by (cases p) auto
qed simp_all

lemma calls_end: "main_next V x = None \<longleftrightarrow> fst x \<in> {Refused, Executing, Cleaned, Thrown}"
  by (cases "(V, x)" rule: main_next.cases) simp_all


section \<open>When the start succeeds\<close>

definition default_timeout_of :: "config_view \<Rightarrow> int" where
  "default_timeout_of v = cv_int v ''tsp.vehicle_message.default_exchange_timeout_ms'' 2500 mod 2 ^ 32"

lemma read_timeout_zero:
  "gc_default_exchange_timeout_ms (ac_vehicle (read_config v)) = 0 \<longleftrightarrow> default_timeout_of v = 0"
proof -
  have "gc_default_exchange_timeout_ms (ac_vehicle (read_config v)) = 0
      \<longleftrightarrow> uint (read_u32 v ''tsp.vehicle_message.default_exchange_timeout_ms'' 2500) = 0"
    by (simp add: read_config_def read_gateway_config_def uint_0_iff)
  then show ?thesis by (simp add: read_u32_def uint_word_of_int default_timeout_of_def)
qed

lemma local_outcome:
  "initialize_local W st node (ac_vehicle (read_config v)) True kc (new_relay True) =
     (case load_from_yaml node empty_catalog of
        None \<Rightarrow> None
      | Some (Some e, _) \<Rightarrow> Some (False, new_relay True)
      | Some (None, cat) \<Rightarrow>
          if default_timeout_of v = 0 then Some (False, new_relay True)
          else Some (True, (new_relay True)\<lparr>rl_registrar := Some (new_registrar cat st),
                 rl_gateway := Some (new_gateway\<lparr>gw_config := ac_vehicle (read_config v)\<rparr>), rl_keyprov_config := kc,
                 rl_keyprov := Some (initialize (rv_coord W) kc (rv_stored W) coord0)\<rparr>))"
proof -
  have "gc_allowed_services (ac_vehicle (read_config v)) \<noteq> []"
    by (simp add: read_config_def read_gateway_config_def)
  then show ?thesis
    by (simp add: initialize_local_def new_relay_def gw_initialize_def read_timeout_zero Let_def
        split: option.split)
qed

text \<open>The first three calls, and the four that follow a relay that initialised.\<close>

lemma run_main_add: "run_main V (m + n) x = run_main V n (run_main V m x)"
proof (induction m arbitrary: x)
  case (Suc m)
  show ?case
  proof (cases "main_next V x")
    case None
    then show ?thesis by (cases n) simp_all
  next
    case (Some z)
    then show ?thesis using Suc by simp
  qed
qed simp

lemma run_main_steps: "(app_step V hash)\<^sup>*\<^sup>* x (run_main V n x)"
proof (induction n arbitrary: x)
  case (Suc n)
  show ?case
  proof (cases "main_next V x")
    case (Some z)
    then show ?thesis using Suc [of z] by (auto intro: converse_rtranclp_into_rtranclp as_main)
  qed simp
qed simp

lemma stays: "main_next V x = None \<Longrightarrow> run_main V n x = x"
  by (cases n) simp_all

definition client_ready :: "'s app_env \<Rightarrow> config_view \<Rightarrow> 's app" where
  "client_ready V v = new_app\<lparr>ap_config := read_config v, ap_sec := True,
     ap_mqtt := Some (new_adapter\<lparr>mq_initialized := True, mq_started := True\<rparr>), ap_stage := StMqttClientReady\<rparr>"

lemma run_to_relay:
  "av_view V = Some v \<Longrightarrow> run_main V 3 (Init AtConfig, new_app) = (Init AtRelay, client_ready V v)"
  by (simp add: eval_nat_numeral adapter_initialize_def adapter_start_def new_adapter_def client_ready_def)

lemma run_refused: "av_view V = None \<Longrightarrow> run_main V (Suc n) (Init AtConfig, new_app) = (Refused, new_app)"
  by (simp add: stays)

lemma rollback_ends: "fst (run_main V 9 (Rollback RbServerStop, a)) = Refused"
  by (simp add: eval_nat_numeral)

lemma run_to_listen:
  assumes "ap_mqtt a = Some m" and "ap_relay a = Some r" and "relay_full r"
  shows "\<exists>b. run_main V 4 (Init AtNet, a) = (Init AtListen, b) \<and> ap_server b \<noteq> None \<and> \<not> listening b
    \<and> (\<exists>r'. ap_relay b = Some r' \<and> relay_full r') \<and> ap_stage b = StRelayReady \<and> wired_publisher b \<noteq> None
    \<and> (case rl_gateway r of None \<Rightarrow> True | Some g \<Rightarrow> \<not> gw_running g \<longrightarrow> routed_active b = rv_routed_active (av_relay V))"
proof -
  obtain rg g c where f: "rl_registrar r = Some rg" "rl_gateway r = Some g" "rl_keyprov r = Some c"
    using assms(3) by (auto simp: relay_full_def)
  let ?p = "new_publisher (ac_downlink_queue_size (ap_config a)) (ac_slow_policy (ap_config a))"
  let ?r = "r\<lparr>rl_gateway := Some (set_event_publisher (Some ?p) g)\<rparr>"
  have full: "relay_full ?r" using f by (simp add: relay_full_def)
  obtain ok r' m' where i: "start_mqtt_integration (av_relay V) (?r, m) = (ok, r', m')" by (metis prod_cases3)
  note sh = integration_shape [OF i full]
  have m': "\<not> gw_running g \<longrightarrow> mq_routed_sub m' = rv_routed_active (av_relay V)"
    using i f by (auto simp: start_mqtt_integration_def start_gateway_def start_keyprov_def set_event_publisher_def
        subscribe_routed_downlink_def subscribe_capability_readiness_def subscribe_cloud_readiness_def)
  let ?b = "a\<lparr>ap_net := True, ap_server := Some (new_server (ap_config a)), ap_relay := Some r', ap_mqtt := Some m',
    ap_stage := StRelayReady\<rparr>"
  have "run_main V 4 (Init AtNet, a) = (Init AtListen, ?b)"
    using assms f i sh by (simp add: eval_nat_numeral relay_set_publisher_def new_server_def)
  moreover have "Option.bind (rl_gateway r') gw_publisher \<noteq> None" "relay_full r'"
    using sh full by (auto simp: set_event_publisher_def relay_full_def relay_shape_def)
  ultimately show ?thesis
    using m' f by (auto simp: listening_def new_server_def wired_publisher_def routed_active_def)
qed

lemma run_main_one: "run_main V 1 (Init p, a) = init_step V p a"
  by simp

lemma client_ready_parts:
  "ap_mqtt (client_ready V v) = Some (new_adapter\<lparr>mq_initialized := True, mq_started := True\<rparr>)"
  "ap_sec (client_ready V v)" "ap_config (client_ready V v) = read_config v" "ap_server (client_ready V v) = None"
  by (simp_all add: client_ready_def new_app_def)

lemma relay_call:
  "init_step V AtRelay (client_ready V v) =
     (case load_from_yaml (av_catalog V) empty_catalog of
        None \<Rightarrow> (Thrown, (client_ready V v)\<lparr>ap_relay := Some (new_relay True)\<rparr>)
      | Some (Some e, _) \<Rightarrow> (Rollback RbServerStop, (client_ready V v)\<lparr>ap_relay := Some (new_relay True)\<rparr>)
      | Some (None, cat) \<Rightarrow>
          if default_timeout_of v = 0 then (Rollback RbServerStop, (client_ready V v)\<lparr>ap_relay := Some (new_relay True)\<rparr>)
          else (Init AtNet, (client_ready V v)\<lparr>ap_relay := Some ((new_relay True)\<lparr>
                 rl_registrar := Some (new_registrar cat (av_store V)),
                 rl_gateway := Some (new_gateway\<lparr>gw_config := ac_vehicle (read_config v)\<rparr>),
                 rl_keyprov_config := ac_keyprov (read_config v),
                 rl_keyprov := Some (initialize (rv_coord (av_relay V)) (ac_keyprov (read_config v))
                   (rv_stored (av_relay V)) coord0)\<rparr>)\<rparr>))"
  by (simp add: client_ready_parts local_outcome split: option.split)

lemma boot_to_listen:
  assumes "av_view V = Some v" and "load_from_yaml (av_catalog V) empty_catalog = Some (None, cat)"
    and "default_timeout_of v \<noteq> 0"
  shows "\<exists>b. run_main V 8 (Init AtConfig, new_app) = (Init AtListen, b) \<and> ap_server b \<noteq> None \<and> \<not> listening b
    \<and> (\<exists>r'. ap_relay b = Some r' \<and> relay_full r') \<and> ap_stage b = StRelayReady \<and> wired_publisher b \<noteq> None
    \<and> routed_active b = rv_routed_active (av_relay V)"
proof -
  obtain a r where a: "init_step V AtRelay (client_ready V v) = (Init AtNet, a)" "ap_relay a = Some r" "relay_full r"
    "rl_gateway r = Some (new_gateway\<lparr>gw_config := ac_vehicle (read_config v)\<rparr>)"
    "ap_mqtt a = Some (new_adapter\<lparr>mq_initialized := True, mq_started := True\<rparr>)"
    using assms(2,3) relay_call [of V v] client_ready_parts(1) [of V v] by (simp add: relay_full_def)
  have "run_main V 4 (Init AtConfig, new_app) = (Init AtNet, a)"
    using run_main_add [of V 3 1 "(Init AtConfig, new_app)"] run_to_relay [OF assms(1)] run_main_one [of V AtRelay] a(1)
    by simp
  then have "run_main V 8 (Init AtConfig, new_app) = run_main V 4 (Init AtNet, a)"
    using run_main_add [of V 4 4 "(Init AtConfig, new_app)"] by simp
  moreover have "\<not> gw_running (new_gateway\<lparr>gw_config := ac_vehicle (read_config v)\<rparr>)" by (simp add: new_gateway_def)
  ultimately show ?thesis using run_to_listen [OF a(5,2,3)] a(4) by auto
qed

lemma initialize_fst:
  "fst (run_main V 18 (Init AtConfig, new_app)) =
     (case av_view V of
        None \<Rightarrow> Refused
      | Some v \<Rightarrow>
          (case load_from_yaml (av_catalog V) empty_catalog of
             None \<Rightarrow> Thrown
           | Some (Some _, _) \<Rightarrow> Refused
           | Some (None, _) \<Rightarrow> if default_timeout_of v \<noteq> 0 \<and> av_listens V then Executing else Refused))"
proof (cases "av_view V")
  case None
  then show ?thesis using run_refused [of V 17] by simp
next
  case (Some v)
  note v = this
  have four: "run_main V 18 (Init AtConfig, new_app) = run_main V 14 (init_step V AtRelay (client_ready V v))"
    using run_main_add [of V 3 15 "(Init AtConfig, new_app)"] run_main_add [of V 1 14 "(Init AtRelay, client_ready V v)"]
      run_main_one [of V AtRelay] run_to_relay [OF v] by simp
  have undone: "fst (run_main V 14 (Rollback RbServerStop, a)) = Refused" for a
    using run_main_add [of V 9 5 "(Rollback RbServerStop, a)"] rollback_ends [of V a]
      stays [of V "run_main V 9 (Rollback RbServerStop, a)" 5] calls_end [of V "run_main V 9 (Rollback RbServerStop, a)"]
    by simp
  show ?thesis
  proof (cases "load_from_yaml (av_catalog V) empty_catalog")
    case None
    then show ?thesis using v four relay_call [of V v] by (simp add: stays)
  next
    case (Some lr)
    note l = this
    obtain e cat where lr: "lr = (e, cat)" by (cases lr)
    show ?thesis
    proof (cases "e = None \<and> default_timeout_of v \<noteq> 0")
      case False
      then have "\<exists>a. init_step V AtRelay (client_ready V v) = (Rollback RbServerStop, a)"
        using relay_call [of V v] l lr by (cases e) simp_all
      then obtain a where "init_step V AtRelay (client_ready V v) = (Rollback RbServerStop, a)" ..
      then have "fst (run_main V 18 (Init AtConfig, new_app)) = Refused"
        by (simp only: four undone)
      then show ?thesis using False v l lr by (cases e) simp_all
    next
      case True
      then obtain b where b: "run_main V 8 (Init AtConfig, new_app) = (Init AtListen, b)" "ap_server b \<noteq> None"
          "\<not> listening b"
        using boot_to_listen [OF v, of cat] l lr by auto
      have "run_main V 18 (Init AtConfig, new_app) = run_main V 9 (init_step V AtListen b)"
        using run_main_add [of V 8 10 "(Init AtConfig, new_app)"] run_main_add [of V 1 9 "(Init AtListen, b)"]
          run_main_one [of V AtListen b] b(1) by simp
      moreover have "fst (init_step V AtListen b) = (if av_listens V then Executing else Rollback RbServerStop)"
        using b(3) by (simp add: server_start_def listening_def Let_def split: option.splits)
      moreover have "fst (run_main V 9 (Executing, c)) = Executing" for c by (simp add: stays)
      ultimately show ?thesis
        using True v l lr rollback_ends [of V "snd (init_step V AtListen b)"]
        by (cases "init_step V AtListen b") auto
    qed
  qed
qed


section \<open>The gaps are reached\<close>

lemma server_mqtt:
  "ap_mqtt (on_publisher f a) = ap_mqtt a" "ap_mqtt (set_listening l a) = ap_mqtt a" "ap_mqtt (server_stop a) = ap_mqtt a"
  by (simp_all add: on_publisher_def set_listening_def server_stop_def)

lemma shutdown_run:
  "\<exists>b. run_main V 4 (Cleanup ClShutdown, a) = (Cleanup ClMqttStop, b) \<and> ap_mqtt b = ap_mqtt a \<and> ap_relay b = None"
  by (simp add: eval_nat_numeral server_mqtt)

lemma on_publisher_wires: "wired_publisher (on_publisher f a) = None \<longleftrightarrow> wired_publisher a = None"
  by (rule same_frame_relay(3) [OF on_publisher_frame])

lemma rollback_run:
  assumes "wired_publisher a \<noteq> None"
  shows "\<exists>b. run_main V 2 (Rollback RbServerStop, a) = (Rollback RbShutdown, b) \<and> ap_mqtt b = ap_mqtt a
    \<and> ap_server b = None \<and> wired_publisher b \<noteq> None"
proof -
  have "wired_publisher (on_publisher publisher_stop a) \<noteq> None"
    using assms by (simp only: on_publisher_wires simp_thms)
  then show ?thesis
    by (simp add: eval_nat_numeral server_mqtt) (simp add: server_stop_def set_listening_def wired_publisher_def)
qed

text \<open>
  C29. Both gaps are real, as soon as the downlink subscription is active. A process that started reaches, in its
  \<open>cleanup\<close>, a state in which MQTT still calls back into the gateway that is destroyed; one whose IPC
  server cannot listen reaches, in its rollback, a state in which downlinks still arrive at a
  gateway whose publisher is destroyed.
\<close>

theorem teardown_gaps_reached:
  assumes "av_view V = Some v" and "load_from_yaml (av_catalog V) empty_catalog = Some (None, cat)"
    and "default_timeout_of v \<noteq> 0" and "rv_routed_active (av_relay V)"
  shows "if av_listens V
    then \<exists>a. (app_step V hash)\<^sup>*\<^sup>* (Init AtConfig, new_app) (Cleanup ClMqttStop, a)
        \<and> routed_active a \<and> ap_relay a = None \<and> \<not> callbacks_safe a
    else \<exists>a. (app_step V hash)\<^sup>*\<^sup>* (Init AtConfig, new_app) (Rollback RbShutdown, a)
        \<and> routed_active a \<and> ap_server a = None \<and> \<not> events_safe a"
proof -
  obtain b where b: "run_main V 8 (Init AtConfig, new_app) = (Init AtListen, b)" "\<not> listening b"
      "wired_publisher b \<noteq> None" "routed_active b"
    using boot_to_listen [OF assms(1-3)] assms(4) by auto
  obtain q c where c: "init_step V AtListen b = (q, c)" by (cases "init_step V AtListen b")
  have q: "q = (if av_listens V then Executing else Rollback RbServerStop)" and m: "ap_mqtt c = ap_mqtt b"
    using c b(2) by (auto simp: server_start_def listening_def Let_def server_mqtt split: option.splits if_splits)
  have "wired_publisher c \<noteq> None" if "\<not> av_listens V"
  proof -
    have "c = on_publisher publisher_stop (on_publisher publisher_start b)"
      using c b(2) that by (auto simp: server_start_def listening_def Let_def split: option.splits)
    then show ?thesis using b(3) by (simp only: on_publisher_wires simp_thms)
  qed
  note w = this
  have r: "(app_step V hash)\<^sup>*\<^sup>* (Init AtConfig, new_app) (q, c)"
    using run_main_steps [of V hash "(Init AtConfig, new_app)" 9] run_main_add [of V 8 1 "(Init AtConfig, new_app)"]
      b(1) c by simp
  show ?thesis
  proof (cases "av_listens V")
    case True
    obtain d where d: "run_main V 4 (Cleanup ClShutdown, c) = (Cleanup ClMqttStop, d)" "ap_mqtt d = ap_mqtt c" "ap_relay d = None"
      using shutdown_run by blast
    have "(app_step V hash)\<^sup>*\<^sup>* (Init AtConfig, new_app) (Cleanup ClShutdown, c)"
      using r q True by (auto intro: rtranclp.rtrancl_into_rtrancl as_shutdown)
    then have "(app_step V hash)\<^sup>*\<^sup>* (Init AtConfig, new_app) (Cleanup ClMqttStop, d)"
      using run_main_steps [of V hash "(Cleanup ClShutdown, c)" 4] d(1) by (metis rtranclp_trans)
    moreover have "routed_active d" using b(4) d(2) m by (simp add: routed_active_def)
    ultimately show ?thesis using True d(3) by (auto simp: callbacks_safe_def)
  next
    case False
    obtain d where d: "run_main V 2 (Rollback RbServerStop, c) = (Rollback RbShutdown, d)" "ap_mqtt d = ap_mqtt c"
        "ap_server d = None" "wired_publisher d \<noteq> None"
      using rollback_run [OF w [OF False]] by blast
    have "(app_step V hash)\<^sup>*\<^sup>* (Init AtConfig, new_app) (Rollback RbShutdown, d)"
      using run_main_steps [of V hash "(Rollback RbServerStop, c)" 2] d(1) r q False by (metis rtranclp_trans)
    moreover have "routed_active d" using b(4) d(2) m by (simp add: routed_active_def)
    ultimately show ?thesis using False d(3,4) by (auto simp: events_safe_def)
  qed
qed

definition lab_app_env :: "bool \<Rightarrow> (string \<rightharpoonup> string) app_env" where
  "lab_app_env listens = \<lparr>av_view = Some empty_view, av_catalog = None, av_store = Map.empty,
     av_relay = lab_relay_env, av_listens = listens\<rparr>"

lemma lab_app_starts:
  "av_view (lab_app_env b) = Some empty_view"
  "load_from_yaml (av_catalog (lab_app_env b)) empty_catalog = Some (None, catalog_replace [] empty_catalog)"
  "default_timeout_of empty_view \<noteq> 0" "rv_routed_active (av_relay (lab_app_env b))" "av_listens (lab_app_env b) = b"
  by (simp_all add: lab_app_env_def load_from_yaml_def catalog_validate_def default_timeout_of_def empty_view_def
      lab_relay_env_def)

theorem teardown_gaps_reached_witness:
  "\<exists>a. (app_step (lab_app_env True) length)\<^sup>*\<^sup>* (Init AtConfig, new_app) (Cleanup ClMqttStop, a) \<and> \<not> callbacks_safe a"
  using teardown_gaps_reached [OF lab_app_starts(1,2,3,4), of True length] by (auto simp: lab_app_starts(5))

lemma lab_app_executes:
  "\<exists>a. (app_step (lab_app_env True) length)\<^sup>*\<^sup>* (Init AtConfig, new_app) (Executing, a)"
proof -
  have "fst (run_main (lab_app_env True) 18 (Init AtConfig, new_app)) = Executing"
    by (simp add: initialize_fst lab_app_starts)
  then show ?thesis using run_main_steps [of "lab_app_env True" length "(Init AtConfig, new_app)" 18] by (metis prod.collapse)
qed

theorem process_well_formed_witness:
  "\<exists>a r. (app_step (lab_app_env True) length)\<^sup>*\<^sup>* (Init AtConfig, new_app) (Executing, a)
     \<and> ap_relay a = Some r \<and> rl_gateway r \<noteq> None \<and> listening a"
proof -
  obtain a where a: "(app_step (lab_app_env True) length)\<^sup>*\<^sup>* (Init AtConfig, new_app) (Executing, a)"
    using lab_app_executes by blast
  from process_well_formed [OF a] have "listening a \<and> (\<exists>r. ap_relay a = Some r \<and> rl_gateway r \<noteq> None)" by blast
  with a show ?thesis by blast
qed

theorem requests_never_dangle_witness:
  "\<exists>a. (app_step (lab_app_env True) length)\<^sup>*\<^sup>* (Init AtConfig, new_app) (Executing, a) \<and> requests_safe a"
  using lab_app_executes requests_never_dangle by blast

theorem callbacks_find_their_targets_witness:
  "\<exists>a. (app_step (lab_app_env True) length)\<^sup>*\<^sup>* (Init AtConfig, new_app) (Executing, a)
     \<and> callbacks_safe a \<and> events_safe a"
  using lab_app_executes callbacks_find_their_targets by blast

section \<open>The profile is fixed\<close>

text \<open>
  The budgets and margins of the provisioning profile are not configurable: whatever the
  configuration says, a coordinator initialised from it has those of its declaration.
\<close>

theorem profile_not_configurable:
  "params_of_config (read_keyprov_config v) p = params_of_config default_config p"
  by (simp add: params_of_config_def read_keyprov_config_def)

text \<open>
  One wrong sign lifts the bound on the requests in flight: with a configured limit of -1 a
  request is not refused for lack of room while fewer than 2^32 - 1 are in the table.
\<close>

theorem negative_limit_lifts_bound:
  assumes "cv_int v ''tsp.vehicle_message.max_in_flight'' 64 = -1" and "gw_config g = ac_vehicle (read_config v)"
    and "length (gw_table g) < 2 ^ 32 - 1" and "k < length (gw_calls g)"
  shows "xc_stage (gw_calls (exchange_register k g) ! k)
      \<noteq> Returned (failed_result ToRejected kPublishFailed ''max_in_flight'')"
proof -
  have "unat (gc_max_in_flight (gw_config g)) = 2 ^ 32 - 1"
    using assms(1,2) limits_taken_modulo [of v] by (simp add: read_config_def Let_def)
  then have "\<not> length (gw_table g) \<ge> unat (gc_max_in_flight (gw_config g))" using assms(3) by simp
  then show ?thesis
    using assms(4)
    by (auto simp: exchange_register_def set_stage_def count_tc_def Let_def failed_result_def)
qed

end
