(* ===== verification/EndToEnd.thy ===== *)
theory EndToEnd
  imports AppProperties GatewayCorrelation
begin

text \<open>
  What holds of the whole way of a message: from the client's call through IPC, gateway and daemon
  to the response and back, and from the daemon's event through gateway and publisher to the client.
  And the publisher as a bounded queue per service.
\<close>

section \<open>The publisher refines one bounded queue per service\<close>

text \<open>The specification: a queue per service, an event offered and taken if there is room, one removed.\<close>

record queues =
  qs_queue :: "string \<Rightarrow> vehicle_event list"
  qs_running :: bool

inductive queues_step :: "nat \<Rightarrow> queues \<times> vehicle_event option \<Rightarrow> queues \<times> vehicle_event option \<Rightarrow> bool" for cap where
  q_accept: "length (qs_queue q (vm_service ev)) < cap \<Longrightarrow>
    queues_step cap (q, h) (q\<lparr>qs_queue := (qs_queue q)(vm_service ev := qs_queue q (vm_service ev) @ [ev])\<rparr>, h)"
| q_full: "cap \<le> length (qs_queue q sv) \<Longrightarrow> queues_step cap (q, h) (q, h)"
| q_take: "qs_queue q (vm_service ev) = ev # rest \<Longrightarrow>
    queues_step cap (q, None) (q\<lparr>qs_queue := (qs_queue q)(vm_service ev := rest)\<rparr>, Some ev)"
| q_deliver: "queues_step cap (q, Some ev) (q, None)"
| q_switch: "queues_step cap (q, h) (q\<lparr>qs_running := b\<rparr>, h)"

definition queues_of :: "publisher \<Rightarrow> queues" where
  "queues_of p = \<lparr>qs_queue = (\<lambda>sv. of_service sv (ep_queue p)), qs_running = ep_running p\<rparr>"

definition abs_publisher :: "publisher \<times> vehicle_event option \<Rightarrow> queues \<times> vehicle_event option" where
  "abs_publisher x = (queues_of (fst x), snd x)"

lemma publisher_simulated:
  assumes "publisher_step E x y" and "publisher_inv cap (fst x)"
  shows "queues_step (unat cap) (abs_publisher x) (abs_publisher y)"
  using assms
proof (induction rule: publisher_step.induct)
  case (ps_publish p h sv b t r)
  let ?ev = "\<lparr>vm_service = sv, vm_envelope_bytes = b, vm_trace_id = t, vm_request_id = r\<rparr>"
  have n: "ep_service_count p sv = length (of_service sv (ep_queue p))" "ep_queue_capacity p = cap"
    using ps_publish by (simp_all add: publisher_inv_def)
  show ?case
  proof (cases "ep_service_count p sv \<ge> unat cap")
    case True
    then have "snd (publish_vehicle_message sv b t r p) = p"
      using n by (cases "ep_policy p") (simp_all add: publish_vehicle_message_def)
    then show ?thesis
      using q_full [of "unat cap" "queues_of p" sv h] True n by (simp add: abs_publisher_def queues_of_def)
  next
    case False
    then have "queues_of (snd (publish_vehicle_message sv b t r p))
        = (queues_of p)\<lparr>qs_queue := (qs_queue (queues_of p))(sv := qs_queue (queues_of p) sv @ [?ev])\<rparr>"
      using n by (auto simp: publish_vehicle_message_def queues_of_def Let_def fun_eq_iff)
    then show ?thesis
      using q_accept [of "queues_of p" ?ev "unat cap" h] False n by (simp add: abs_publisher_def queues_of_def)
  qed
next
  case (ps_take p ev p1)
  then obtain q where q: "ep_queue p = ev # q" "ep_queue p1 = q" "ep_running p1 = ep_running p"
    by (auto simp: take_event_def split: list.splits if_splits)
  have "queues_of p1 = (queues_of p)\<lparr>qs_queue := (qs_queue (queues_of p))(vm_service ev := of_service (vm_service ev) q)\<rparr>"
    using q by (auto simp: queues_of_def fun_eq_iff)
  then show ?case
    using q_take [of "queues_of p" ev "of_service (vm_service ev) q" "unat cap"] q
    by (simp add: abs_publisher_def queues_of_def)
next
  case (ps_deliver p ev)
  then show ?case using q_deliver [of "unat cap" "queues_of p" ev] by (simp add: abs_publisher_def queues_of_def)
next
  case (ps_start p h)
  then show ?case
    using q_switch [of "unat cap" "queues_of p" h True] by (simp add: abs_publisher_def queues_of_def publisher_start_def)
next
  case (ps_stop p h)
  then show ?case
    using q_switch [of "unat cap" "queues_of p" h False] by (simp add: abs_publisher_def queues_of_def publisher_stop_def)
qed

text \<open>
  C34. The publisher - one list with counters, filled by callbacks and emptied by a worker - refines a
  bounded queue per service: every run of it is, service by service, a run of the specification
  in which an event is accepted exactly while its service has room, and leaves first in first out.
\<close>

theorem publisher_refines_queues:
  assumes "(publisher_step E)\<^sup>*\<^sup>* (new_publisher queue_size policy, None) x"
  shows "(queues_step (unat (if queue_size = 0 then 256 else queue_size)))\<^sup>*\<^sup>*
      (\<lparr>qs_queue = \<lambda>_. [], qs_running = False\<rparr>, None) (abs_publisher x)"
proof -
  let ?cap = "if queue_size = 0 then 256 else queue_size"
  have i: "publisher_inv ?cap (new_publisher queue_size policy)"
    by (simp add: publisher_inv_def new_publisher_def)
  have a: "abs_publisher (new_publisher queue_size policy, None) = (\<lparr>qs_queue = \<lambda>_. [], qs_running = False\<rparr>, None)"
    by (simp add: abs_publisher_def queues_of_def new_publisher_def)
  from assms show ?thesis
  proof (induction rule: rtranclp_induct)
    case base
    show ?case using a by simp
  next
    case (step y z)
    have "publisher_inv ?cap (fst y)"
      using publishing.run [OF step.hyps(1), of ?cap] i by simp
    from publisher_simulated [OF step.hyps(2) this] step.IH show ?case by (rule rtranclp.rtrancl_into_rtrancl [rotated])
  qed
qed

theorem publisher_refines_queues_witness:
  "(queues_step 256)\<^sup>*\<^sup>* (\<lparr>qs_queue = \<lambda>_. [], qs_running = False\<rparr>, None)
     (abs_publisher (snd (publish_vehicle_message ''a'' [1] [] [] (new_publisher 0 KDrop)), None))"
proof -
  have "(publisher_step lab_push)\<^sup>*\<^sup>* (new_publisher 0 KDrop, None)
      (snd (publish_vehicle_message ''a'' [1] [] [] (new_publisher 0 KDrop)), None)"
    by (rule r_into_rtranclp) (rule ps_publish)
  from publisher_refines_queues [OF this] show ?thesis by simp
qed

section \<open>An exchange from the client to the cloud and back\<close>

text \<open>What an admitted envelope says, the validation has read off it.\<close>

lemma validated_fields:
  assumes "va_ok (validate_envelope pb cfg wall raw req)"
  shows "\<exists>env. parse_envelope pb raw = Some env
    \<and> va_message_id (validate_envelope pb cfg wall raw req) = ve_message_id env
    \<and> va_service (validate_envelope pb cfg wall raw req) = ve_service env
    \<and> va_message_kind (validate_envelope pb cfg wall raw req) = ve_message_kind env
    \<and> (ve_message_kind env = MESSAGE_KIND_RESPONSE \<longrightarrow>
        ve_correlation_id env = Some (va_correlation_id (validate_envelope pb cfg wall raw req)))"
proof (cases "parse_envelope pb raw")
  case None
  then show ?thesis using assms by (simp add: validate_envelope_def fail_with_def new_validation_def Let_def split: if_splits)
next
  case (Some env)
  have ids: "va_message_id (validate_ids env v) = ve_message_id env \<and> va_service (validate_ids env v) = va_service v
      \<and> va_message_kind (validate_ids env v) = va_message_kind v
      \<and> (va_message_kind v = MESSAGE_KIND_RESPONSE \<longrightarrow> ve_correlation_id env = Some (va_correlation_id (validate_ids env v)))"
    if "va_ok (validate_ids env v)" "\<not> va_ok v" for v
    using that by (auto simp: validate_ids_def fail_with_def Let_def split: if_splits option.splits)
  have content: "va_message_id (validate_content cfg wall env v) = ve_message_id env
      \<and> va_service (validate_content cfg wall env v) = ve_service env
      \<and> va_message_kind (validate_content cfg wall env v) = va_message_kind v
      \<and> (va_message_kind v = MESSAGE_KIND_RESPONSE \<longrightarrow>
          ve_correlation_id env = Some (va_correlation_id (validate_content cfg wall env v)))"
    if "va_ok (validate_content cfg wall env v)" "\<not> va_ok v" for v
    using that ids by (simp add: validate_content_def fail_with_def Let_def split: if_splits)
  let ?v = "new_validation\<lparr>va_message_kind := ve_message_kind env\<rparr>"
  have v: "\<not> va_ok ?v" by (simp add: new_validation_def)
  have "validate_envelope pb cfg wall raw req = validate_content cfg wall env ?v"
    using assms Some by (auto simp: validate_envelope_def fail_with_def new_validation_def Let_def split: if_splits)
  with content [OF _ v] assms Some show ?thesis by simp
qed

text \<open>A call stays with its entry, and the entry with its message id, service and limit.\<close>

definition call_of :: "nat \<Rightarrow> string \<Rightarrow> string \<Rightarrow> nat \<Rightarrow> gateway \<Rightarrow> bool" where
  "call_of k mid svc limit s \<longleftrightarrow> k < length (gw_calls s)
     \<and> xc_entry (gw_calls s ! k) < length (gw_entries s) \<and> set (gw_pending s) \<subseteq> set (gw_matched s)
     \<and> ce_message_id (call_entry k s) = mid \<and> ce_service (call_entry k s) = svc
     \<and> ce_max_response_bytes (call_entry k s) = limit"

lemma calls_kept:
  assumes "gw_step pb hash s t" "k < length (gw_calls s)"
  shows "k < length (gw_calls t) \<and> xc_entry (gw_calls t ! k) = xc_entry (gw_calls s ! k)"
  using assms
proof (induction rule: gw_step.induct)
  case (g_enter s wall raw opts)
  then show ?case by (simp add: exchange_enter_def Let_def nth_append)
next
  case (g_wait j s)
  then show ?case by (cases "ce_terminal (call_entry j s)") (simp_all add: wait_end_def count_timeout_def Let_def)
next
  case (g_close j o' b s)
  then show ?case by (simp add: exchange_close_def Let_def)
next
  case (g_register j s)
  then show ?case by (simp add: exchange_register_def Let_def)
qed (simp_all add: publish_returned_def refuse_erase_def mark_accepted_def complete_pending_def gw_start_def
    stop_begin_def stop_mark_def stop_clear_def set_event_publisher_def register_downlink_handler_def Let_def
    split: option.split)

lemma matched_kept:
  assumes "gw_step pb hash s t" "set (gw_pending s) \<subseteq> set (gw_matched s)"
  shows "set (gw_pending t) \<subseteq> set (gw_matched t)"
proof -
  have "set (gw_pending (match_response v raw s)) \<subseteq> set (gw_matched (match_response v raw s))" for v raw
    using assms(2) by (auto simp: match_response_def count_rejected_response_def Let_def split: option.split)
  moreover have "gw_pending (forward_event v ev s) = gw_pending s \<and> gw_matched (forward_event v ev s) = gw_matched s" for v ev
    by (simp add: forward_event_def Let_def split: option.split prod.split)
  ultimately have "set (gw_pending (downlink_arrives pb wall ev s)) \<subseteq> set (gw_matched (downlink_arrives pb wall ev s))" for wall ev
    using assms(2) by (simp add: downlink_arrives_def gw_handle_routed_downlink_def count_invalid_def Let_def
      split: option.split downlink_handler.split)
  then show ?thesis using step_matches_frame [OF assms(1)] assms(2) by auto
qed

lemma call_of_kept: "gw_step pb hash s t \<Longrightarrow> call_of k mid svc limit s \<Longrightarrow> call_of k mid svc limit t"
  using calls_kept [of pb hash s t k] matched_kept [of pb hash s t] entries_evolve_step [of pb hash s t]
  by (auto simp: call_of_def entries_evolve_def entry_evolves_def)

interpretation own_call: step_invariant "gw_step pb hash" "call_of k mid svc limit" for pb hash k mid svc limit
  by unfold_locales (rule call_of_kept)

lemma entered_call:
  assumes "exchange_enter pb wall b opts s = (None, s1)" "set (gw_pending s) \<subseteq> set (gw_matched s)"
    and "gw_config s = cfg"
  shows "\<exists>env. parse_envelope pb b = Some env
    \<and> call_of (length (gw_calls s)) (ve_message_id env) (ve_service env)
        (if xo_max_response_bytes opts > 0 then xo_max_response_bytes opts else unat (gc_max_envelope_bytes cfg)) s1"
proof -
  have ok: "va_ok (validate_envelope pb (gw_config s) wall b True)"
    using assms(1) by (auto simp: exchange_enter_def Let_def split: if_splits)
  from validated_fields [OF this] obtain env where env: "parse_envelope pb b = Some env"
    "va_message_id (validate_envelope pb (gw_config s) wall b True) = ve_message_id env"
    "va_service (validate_envelope pb (gw_config s) wall b True) = ve_service env" by blast
  have "s1 = snd (exchange_enter pb wall b opts s)" "\<not> gw_stopping s"
    using assms(1) by (auto simp: exchange_enter_def split: if_splits)
  with ok env assms(2,3) show ?thesis
    by (intro exI [of _ env]) (simp add: call_of_def exchange_enter_def Let_def)
qed

lemma response_names_call:
  assumes "response_for pb cfg e m"
  shows "\<exists>rsp. parse_envelope pb (mr_bytes m) = Some rsp \<and> ve_message_kind rsp = MESSAGE_KIND_RESPONSE
    \<and> ve_correlation_id rsp = Some (ce_message_id e) \<and> ve_service rsp = mr_service m"
proof -
  obtain wall where "va_ok (validate_envelope pb cfg wall (mr_bytes m) False)"
    "va_message_kind (validate_envelope pb cfg wall (mr_bytes m) False) = MESSAGE_KIND_RESPONSE"
    "va_correlation_id (validate_envelope pb cfg wall (mr_bytes m) False) = ce_message_id e"
    "va_service (validate_envelope pb cfg wall (mr_bytes m) False) = mr_service m"
    using assms by (auto simp: response_for_def Let_def)
  with validated_fields [OF this(1)] show ?thesis by auto
qed

text \<open>The call that entered the gateway returns a value only from a response that names its request.\<close>

lemma call_answered:
  assumes "(gw_step pb hash)\<^sup>*\<^sup>* (fresh_gateway cfg) s" and "exchange_enter pb wall b opts s = (None, s1)"
    and "(gw_step pb hash)\<^sup>*\<^sup>* s1 t" and "xc_stage (gw_calls t ! length (gw_calls s)) = Returned r"
    and "xr_value r = Some v"
  shows "\<exists>req rsp. parse_envelope pb b = Some req \<and> parse_envelope pb v = Some rsp
    \<and> ve_message_kind rsp = MESSAGE_KIND_RESPONSE \<and> ve_correlation_id rsp = Some (ve_message_id req)
    \<and> ve_service rsp = ve_service req
    \<and> length v \<le> (if xo_max_response_bytes opts > 0 then xo_max_response_bytes opts
                   else unat (gc_max_envelope_bytes cfg))"
proof -
  let ?k = "length (gw_calls s)"
  have s: "correlated_inv pb cfg s" by (rule correlated.run [OF assms(1) fresh_correlated])
  have c: "gw_config s = cfg"
    by (rule fixed_config.run [OF assms(1)]) (simp add: fresh_gateway_def new_gateway_def)
  obtain req where req: "parse_envelope pb b = Some req" "call_of ?k (ve_message_id req) (ve_service req)
      (if xo_max_response_bytes opts > 0 then xo_max_response_bytes opts else unat (gc_max_envelope_bytes cfg)) s1"
    using entered_call [OF assms(2) _ c] s by (auto simp: correlated_inv_def matches_ok_def)
  note t = own_call.run [OF assms(3) req(2), unfolded call_of_def]
  have "gw_step pb hash s s1" using g_enter [of pb hash s wall b opts] assms(2) by simp
  with assms(1,3) have "(gw_step pb hash)\<^sup>*\<^sup>* (fresh_gateway cfg) t" by (meson rtranclp.rtrancl_into_rtrancl rtranclp_trans)
  then have "correlated_inv pb cfg t" by (rule correlated.run [OF _ fresh_correlated])
  from value_matched [OF this _ assms(4,5)] t obtain m where m: "mr_bytes m = v"
    "response_for pb cfg (call_entry ?k t) m" "mr_service m = ve_service req"
    "length v \<le> (if xo_max_response_bytes opts > 0 then xo_max_response_bytes opts else unat (gc_max_envelope_bytes cfg))"
    by auto
  with response_names_call [OF m(2)] t req(1) show ?thesis by auto
qed

text \<open>
  C4. The whole way of an exchange: when the client gets a value for the envelope it sent - through
  its library, the wire, the dispatcher and a gateway on which any exchanges, downlinks, sweeps
  and stops interleave - the value is a response of the cloud that names the message id of this
  very envelope as its correlation, comes from the same service, and fits the limit asked for.
\<close>

theorem client_gets_own_response:
  assumes "json_spec (il_json L)" and "b64_spec L" and "id_relay D = Some f" and "f b opts ctx = r"
    and "json_returns (il_json L) (exchange_params L b opts ctx)"
    and "json_returns (il_json L) (result_json L r)" "json_returns (il_json L) (answer_json L r)"
    and "b \<noteq> []" "length (il_b64_encode L b) \<le> unat (id_max_payload_bytes D)"
    and "0 \<le> xo_timeout_ms opts" "xo_timeout_ms opts < 2 ^ 31" "xo_max_response_bytes opts < 2 ^ 32"
    and "(gw_step pb hash)\<^sup>*\<^sup>* (fresh_gateway cfg) s" and "exchange_enter pb wall b opts s = (None, s1)"
    and "(gw_step pb hash)\<^sup>*\<^sup>* s1 t" and "xc_stage (gw_calls t ! length (gw_calls s)) = Returned r"
    and "xr_value (exchange_vehicle_message L (\<lambda>_ i p. (0, ipc_dispatch L D i p)) b opts ctx) = Some v"
  shows "\<exists>req rsp. parse_envelope pb b = Some req \<and> parse_envelope pb v = Some rsp
    \<and> ve_message_kind rsp = MESSAGE_KIND_RESPONSE \<and> ve_correlation_id rsp = Some (ve_message_id req)
    \<and> ve_service rsp = ve_service req
    \<and> length v \<le> (if xo_max_response_bytes opts > 0 then xo_max_response_bytes opts
                   else unat (gc_max_envelope_bytes cfg))"
proof -
  have "xr_value r = Some v"
    using assms(17) exchange_over_wire [OF assms(1-12)] by (simp split: if_splits)
  then show ?thesis by (rule call_answered [OF assms(13-16)])
qed

theorem client_gets_own_response_witness:
  "\<exists>req rsp. parse_envelope fota_pb [1] = Some req \<and> parse_envelope fota_pb [2] = Some rsp
     \<and> ve_correlation_id rsp = Some (ve_message_id req)"
proof -
  let ?s = "gw_start (fresh_gateway default_gateway_config)"
  let ?c = "\<lparr>cx_trace_id = [], cx_request_id = []\<rparr>"
  have opts: "fota_options = lab_opts" by (simp add: fota_options_def lab_opts_def)
  have s: "(gw_step fota_pb length)\<^sup>*\<^sup>* (fresh_gateway default_gateway_config) ?s"
    by (rule r_into_rtranclp) (rule g_start)
  have enter: "exchange_enter fota_pb 5 [1] lab_opts ?s
      = (None, lab_gateway Prepared fota_entry [] (no_transport_counters\<lparr>tc_request_total := 1\<rparr>) [] [])"
    using lab_enter request_valid unfolding opts [symmetric]
    by (simp add: prod_eq_iff) (simp add: exchange_enter_def gw_start_def fresh_gateway_def new_gateway_def Let_def)
  obtain m where m: "(gw_step fota_pb length)\<^sup>*\<^sup>*
      (lab_gateway Prepared fota_entry [] (no_transport_counters\<lparr>tc_request_total := 1\<rparr>) [] [])
      (lab_gateway Waiting_response fota_answered tab1 m [] [fota_match])" by (rule lab_exchange)
  have k: "length (gw_calls ?s) = 0" by (simp add: gw_start_def fresh_gateway_def new_gateway_def)
  have r: "lab_result = exchange_result_of ToAccepted [2]" by (simp add: lab_result_def exchange_result_of_def)
  have v: "xr_value (exchange_vehicle_message lab_wire (\<lambda>_ i p. (0, ipc_dispatch lab_wire lab_dispatcher i p)) [1] lab_opts ?c)
      = Some [2]"
    by (subst exchange_over_wire [OF lab_wire_specs _ _ lab_wire_returns])
      (simp_all add: lab_dispatcher_def lab_result_def lab_opts_def,
       simp add: lab_wire_def lab_lib_def Let_def bytes_text_def)
  have "length (il_b64_encode lab_wire [1]) \<le> unat (id_max_payload_bytes lab_dispatcher)"
    by (simp add: lab_dispatcher_def) (simp add: lab_wire_def lab_lib_def Let_def bytes_text_def)
  from client_gets_own_response [OF lab_wire_specs _ _ lab_wire_returns _ this _ _ _ s enter
      rtranclp_trans [OF m lab_close(1)] _ v, where f = "\<lambda>_ _ _. lab_result"]
  show ?thesis by (auto simp: lab_dispatcher_def lab_opts_def k lab_close(2) r)
qed

section \<open>An event from the cloud to the client\<close>

text \<open>
  The worker pushes every queued event, in order, when subscribers are there; with more fuel than
  events queued it comes to rest, ended or waiting as the publisher is stopped or runs.
\<close>

definition pushed_texts :: "publisher \<Rightarrow> string list" where
  "pushed_texts p = map (\<lambda>(_, s, _). s) (ep_pushed p)"

lemma deliver_pushes:
  "pe_has_subscriber E = Some (\<lambda>_. True) \<Longrightarrow> pe_push E = Some g \<Longrightarrow>
     pushed_texts (deliver_event E ev p) = pushed_texts p @ [encode_vehicle_message E ev]"
  by (simp add: deliver_event_def pushed_texts_def Let_def)

lemma worker_pushes:
  assumes "pe_has_subscriber E = Some (\<lambda>_. True)" "pe_push E = Some g"
  shows "length (ep_queue p) < n \<Longrightarrow> \<exists>q. worker_loop E n p = Some (\<not> ep_running p, q) \<and> ep_queue q = []
    \<and> pushed_texts q = pushed_texts p @ map (encode_vehicle_message E) (ep_queue p)"
proof (induction n arbitrary: p)
  case (Suc n)
  show ?case
  proof (cases "take_event p")
    case (Taken ev p1)
    then have p1: "ep_queue p = ev # ep_queue p1" "ep_running p1 = ep_running p" "pushed_texts p1 = pushed_texts p"
      by (auto simp: take_event_def pushed_texts_def split: list.splits if_splits)
    from Suc.IH [of "deliver_event E ev p1"] Suc.prems p1
    show ?thesis by (simp add: Taken deliver_pushes [OF assms])
  qed (auto simp: take_event_def split: list.splits if_splits)
qed simp

text \<open>A valid event for the vehicle-message route is the next one in the queue.\<close>

lemma event_queued:
  assumes "rl_gateway r = Some g" "gw_dispatcher g = Some d"
    and "dispatch (dl_owner ev) (dl_route_id ev) (dl_target ev) d = Some VehicleHandler"
    and "dl_owner ev = ''tsp''" "dl_route_id ev = ''fota.downlink''" "dl_target ev = ''tsp.fota''" "\<not> gw_stopping g"
    and "va_ok (validate_envelope (e_pb E) (gw_config g) wall (dl_payload ev) False)"
    and "va_message_kind (validate_envelope (e_pb E) (gw_config g) wall (dl_payload ev) False) = MESSAGE_KIND_EVENT"
    and "gw_publisher g = Some p"
    and "ep_service_count p (va_service (validate_envelope (e_pb E) (gw_config g) wall (dl_payload ev) False))
           < unat (ep_queue_capacity p)"
  shows "\<exists>g' p'. rl_gateway (relay_downlink E wall ev r) = Some g' \<and> gw_publisher g' = Some p'
    \<and> ep_queue p' = ep_queue p @ [\<lparr>vm_service = va_service (validate_envelope (e_pb E) (gw_config g) wall (dl_payload ev) False),
         vm_envelope_bytes = dl_payload ev, vm_trace_id = dl_trace_id ev, vm_request_id = dl_request_id ev\<rparr>]
    \<and> pushed_texts p' = pushed_texts p \<and> ep_running p' = ep_running p"
  using assms
  by (simp add: relay_downlink_def gw_handle_routed_downlink_def forward_event_def publish_vehicle_message_def
      pushed_texts_def Let_def)

text \<open>
  C14. The whole way of an event: when a valid event of a service arrives for the vehicle-message route while
  the publisher has room for that service and a subscriber, the worker - which comes to rest with
  one unit of fuel more than events are queued - pushes it after all earlier ones, and the
  client's handler of that service, and of no other, gets exactly the bytes that came from the cloud.
\<close>

theorem event_end_to_end:
  assumes "rl_gateway r = Some g" "gw_dispatcher g = Some d"
    and "dispatch (dl_owner ev) (dl_route_id ev) (dl_target ev) d = Some VehicleHandler"
    and "dl_owner ev = ''tsp''" "dl_route_id ev = ''fota.downlink''" "dl_target ev = ''tsp.fota''" "\<not> gw_stopping g"
    and "va_ok (validate_envelope (e_pb E) (gw_config g) wall (dl_payload ev) False)"
    and "parse_envelope (e_pb E) (dl_payload ev) = Some env" "ve_message_kind env = MESSAGE_KIND_EVENT"
    and "gw_publisher g = Some p" "ep_service_count p (ve_service env) < unat (ep_queue_capacity p)"
    and "pe_has_subscriber PE = Some (\<lambda>_. True)" "pe_push PE = Some f"
    and "json_spec (il_json L)" "b64_spec L" "pe_json PE = il_json L" "pe_base64 PE = il_b64_encode L"
    and "il_b64_encode L [] = []" "ve_service env \<noteq> []"
    and "json_returns (il_json L) (event_json L \<lparr>vm_service = ve_service env, vm_envelope_bytes = dl_payload ev,
           vm_trace_id = dl_trace_id ev, vm_request_id = dl_request_id ev\<rparr>)"
    and "length (ep_queue p) + 1 < n"
  shows "\<exists>g' p' q x. rl_gateway (relay_downlink E wall ev r) = Some g' \<and> gw_publisher g' = Some p'
    \<and> worker_loop PE n p' = Some (\<not> ep_running p, q) \<and> ep_queue q = []
    \<and> pushed_texts q = pushed_texts p @ map (encode_vehicle_message PE) (ep_queue p) @ [x]
    \<and> (\<forall>svc. on_vehicle_event L svc x = (if svc = ve_service env then Some (dl_payload ev) else None))"
proof -
  let ?ev = "\<lparr>vm_service = ve_service env, vm_envelope_bytes = dl_payload ev,
      vm_trace_id = dl_trace_id ev, vm_request_id = dl_request_id ev\<rparr>"
  have v: "va_service (validate_envelope (e_pb E) (gw_config g) wall (dl_payload ev) False) = ve_service env"
    "va_message_kind (validate_envelope (e_pb E) (gw_config g) wall (dl_payload ev) False) = MESSAGE_KIND_EVENT"
    using validated_fields [OF assms(8)] assms(9,10) by auto
  obtain g' p' where g': "rl_gateway (relay_downlink E wall ev r) = Some g'" "gw_publisher g' = Some p'"
      and p': "ep_queue p' = ep_queue p @ [?ev]" "pushed_texts p' = pushed_texts p" "ep_running p' = ep_running p"
    using event_queued [OF assms(1-8) v(2) assms(11)] assms(12) by (auto simp: v(1))
  obtain q where q: "worker_loop PE n p' = Some (\<not> ep_running p, q)" "ep_queue q = []"
      "pushed_texts q = pushed_texts p @ map (encode_vehicle_message PE) (ep_queue p) @ [encode_vehicle_message PE ?ev]"
    using worker_pushes [OF assms(13,14), of p' n] assms(22) p' by auto
  have "dl_payload ev \<noteq> []"
    using assms(8) by (auto simp: validate_envelope_def fail_with_def new_validation_def Let_def split: if_splits)
  then have "on_vehicle_event L svc (encode_vehicle_message PE ?ev) = (if svc = ve_service env then Some (dl_payload ev) else None)" for svc
    using event_over_wire [OF assms(15-19,21), of svc] assms(20) by auto
  with g' q show ?thesis by blast
qed

text \<open>A relay at rest whose gateway forwards to an empty, running publisher.\<close>

definition lab_event_gateway :: gateway where
  "lab_event_gateway = (fresh_gateway default_gateway_config)\<lparr>gw_dispatcher := Some fota_dispatcher, gw_stopping := False,
     gw_publisher := Some (publisher_start (new_publisher 4 KReject))\<rparr>"

lemma lab_event_gateway_simps:
  "gw_dispatcher lab_event_gateway = Some fota_dispatcher" "\<not> gw_stopping lab_event_gateway"
  "gw_config lab_event_gateway = default_gateway_config"
  "gw_publisher lab_event_gateway = Some (publisher_start (new_publisher 4 KReject))"
  by (simp_all add: lab_event_gateway_def fresh_gateway_def)

theorem event_end_to_end_witness:
  "\<exists>g' p' q x. rl_gateway (relay_downlink (lab_env\<lparr>e_pb := fota_pb\<rparr>) 5 ((fota_downlink 3)\<lparr>dl_request_id := ''q''\<rparr>)
       ((new_relay True :: unit relay)\<lparr>rl_gateway := Some lab_event_gateway\<rparr>)) = Some g'
     \<and> gw_publisher g' = Some p'
     \<and> worker_loop (lab_push\<lparr>pe_json := il_json event_lib, pe_base64 := il_b64_encode event_lib\<rparr>) 2 p' = Some (False, q)
     \<and> pushed_texts q = [x] \<and> on_vehicle_event event_lib ''vehicle.fota'' x = Some [3]"
proof -
  let ?E = "lab_env\<lparr>e_pb := fota_pb\<rparr>" and ?d = "(fota_downlink 3)\<lparr>dl_request_id := ''q''\<rparr>"
  let ?r = "(new_relay True :: unit relay)\<lparr>rl_gateway := Some lab_event_gateway\<rparr>"
  let ?p = "publisher_start (new_publisher 4 KReject)"
  let ?PE = "lab_push\<lparr>pe_json := il_json event_lib, pe_base64 := il_b64_encode event_lib\<rparr>"
  let ?env = "fota_envelope 3 ''m3'' None"
  have d: "dl_owner ?d = ''tsp''" "dl_route_id ?d = ''fota.downlink''" "dl_target ?d = ''tsp.fota''" "dl_payload ?d = [3]"
    "dl_trace_id ?d = []" "dl_request_id ?d = ''q''"
    by (simp_all add: fota_downlink_def)
  have r: "rl_gateway ?r = Some lab_event_gateway" by simp
  have route: "dispatch (dl_owner ?d) (dl_route_id ?d) (dl_target ?d) fota_dispatcher = Some VehicleHandler"
    unfolding d by (rule fota_route)
  have ok: "va_ok (validate_envelope (e_pb ?E) (gw_config lab_event_gateway) 5 (dl_payload ?d) False)"
    "parse_envelope (e_pb ?E) (dl_payload ?d) = Some ?env" "ve_message_kind ?env = MESSAGE_KIND_EVENT"
    "ve_service ?env = ''vehicle.fota''"
    unfolding d lab_event_gateway_simps by (simp add: event_valid, simp_all add: fota_pb_def fota_envelope_def)
  have room: "ep_service_count ?p (ve_service ?env) < unat (ep_queue_capacity ?p)" "length (ep_queue ?p) + 1 < 2"
    "pushed_texts ?p = []" "ep_queue ?p = []" "ep_running ?p"
    by (simp_all add: publisher_start_def new_publisher_def pushed_texts_def)
  have push: "pe_has_subscriber ?PE = Some (\<lambda>_. True)" "pe_push ?PE = Some (\<lambda>_. True)"
    "pe_json ?PE = il_json event_lib" "pe_base64 ?PE = il_b64_encode event_lib" by (simp_all add: lab_push_def)
  from event_lib_returns have js: "json_returns (il_json event_lib) (event_json event_lib \<lparr>vm_service = ve_service ?env,
      vm_envelope_bytes = dl_payload ?d, vm_trace_id = dl_trace_id ?d, vm_request_id = dl_request_id ?d\<rparr>)"
    by (simp add: lab_event_def d ok(4))
  from event_end_to_end [OF r lab_event_gateway_simps(1) route d(1-3) lab_event_gateway_simps(2) ok(1-3)
      lab_event_gateway_simps(4) room(1) push(1,2) event_lib_specs(1,2) push(3,4) event_lib_specs(3) _ js room(2), unfolded ok(4) d(4) room(3,4)]
  obtain g' p' q x where w: "rl_gateway (relay_downlink ?E 5 ?d ?r) = Some g'" "gw_publisher g' = Some p'"
      "worker_loop ?PE 2 p' = Some (\<not> ep_running ?p, q)" "pushed_texts q = [x]"
      "on_vehicle_event event_lib ''vehicle.fota'' x = Some [3]" by auto
  show ?thesis
    by (rule exI [of _ g'], rule exI [of _ p'], rule exI [of _ q], rule exI [of _ x]) (use w room(5) in simp)
qed

end
