(* ===== verification/CoordLiveness.thy ===== *)
theory CoordLiveness
  imports CoordRestart
begin

text \<open>
  Provisioning gets done: when the environment behaves - the gate stays open, the clock is sound, SEC
  imports, publications are taken - a Request goes out at the first tick, and a valid response, one
  tick and the confirmation of the acknowledgement take the coordinator to ACTIVE.

  \<open>flow\<close> reads off the members that decide the way of an attempt; each operation is described by
  one equation over it. \<open>f_sent\<close> is the trace without the stores.
\<close>

section \<open>What decides the way of an attempt\<close>

record flow =
  f_config :: coord_config
  f_state :: coord_state
  f_stopping :: bool
  f_cloud :: cloud_readiness
  f_capability :: capability_readiness
  f_identity :: session_identity
  f_identity_valid :: bool
  f_pending_items :: "wrapped_item list"
  f_response_binding :: "ack_binding list"
  f_last_response_message_id :: string
  f_import_attempted :: bool
  f_ack_items :: "import_item list"
  f_ack_sent :: bool
  f_status_sent :: bool
  f_recovering_ack :: bool
  f_budget :: budget_ledger
  f_kl1_params :: kl1_params
  f_lease_expires_at_ms :: int
  f_ack_safe_deadline_ms :: int
  f_awaiting_active :: bool
  f_awaiting_generation :: u64
  f_awaiting_fingerprint :: fingerprint
  f_store_generation :: u64
  f_frozen_fingerprint :: fingerprint
  f_sec_lease_admission_supported :: bool
  f_kl1_snapshot_available :: bool
  f_next_retry_ms :: int
  f_fingerprint_version :: u32
  f_frozen_snapshot :: attempt_snapshot
  f_sec_outcome_unknown :: bool
  f_successor_request_id :: string
  f_submission :: string
  f_import_invocation_recorded :: bool
  f_calls :: nat
  f_rid :: string
  f_idempotency :: string
  f_stored_generation :: u64
  f_sent :: "effect list"

definition not_stored :: "effect \<Rightarrow> bool" where
  "not_stored e \<longleftrightarrow> (case e of EvtPersist r \<Rightarrow> False | _ \<Rightarrow> True)"

definition flow :: "coord \<Rightarrow> flow" where
  "flow s = \<lparr>f_config = c_config s, f_state = c_state s, f_stopping = c_stopping s, f_cloud = c_cloud s,
     f_capability = c_capability s, f_identity = c_identity s, f_identity_valid = c_identity_valid s,
     f_pending_items = c_pending_items s, f_response_binding = c_response_binding s,
     f_last_response_message_id = c_last_response_message_id s,
     f_import_attempted = c_import_attempted s, f_ack_items = c_ack_items s,
     f_ack_sent = c_ack_sent s, f_status_sent = c_status_sent s,
     f_recovering_ack = c_recovering_ack s, f_budget = c_budget s, f_kl1_params = c_kl1_params s,
     f_lease_expires_at_ms = c_lease_expires_at_ms s,
     f_ack_safe_deadline_ms = c_ack_safe_deadline_ms s, f_awaiting_active = c_awaiting_active s,
     f_awaiting_generation = c_awaiting_generation s,
     f_awaiting_fingerprint = c_awaiting_fingerprint s, f_store_generation = c_store_generation s,
     f_frozen_fingerprint = c_frozen_fingerprint s,
     f_sec_lease_admission_supported = c_sec_lease_admission_supported s,
     f_kl1_snapshot_available = c_kl1_snapshot_available s, f_next_retry_ms = c_next_retry_ms s,
     f_fingerprint_version = c_fingerprint_version s, f_frozen_snapshot = c_frozen_snapshot s,
     f_sec_outcome_unknown = c_sec_outcome_unknown s,
     f_successor_request_id = c_successor_request_id s, f_submission = c_submission s,
     f_import_invocation_recorded = c_import_invocation_recorded s, f_calls = c_calls s,
     f_rid = r_request_id (c_record s),
     f_idempotency = r_idempotency_digest (c_record s), f_stored_generation = r_store_generation (c_record s), f_sent = filter not_stored (c_trace s)\<rparr>"

lemma flow_select:
  "f_config (flow s) = c_config s" "f_state (flow s) = c_state s"
  "f_stopping (flow s) = c_stopping s" "f_cloud (flow s) = c_cloud s"
  "f_capability (flow s) = c_capability s" "f_identity (flow s) = c_identity s"
  "f_identity_valid (flow s) = c_identity_valid s" "f_pending_items (flow s) = c_pending_items s"
  "f_response_binding (flow s) = c_response_binding s"
  "f_last_response_message_id (flow s) = c_last_response_message_id s"
  "f_import_attempted (flow s) = c_import_attempted s" "f_ack_items (flow s) = c_ack_items s"
  "f_ack_sent (flow s) = c_ack_sent s" "f_status_sent (flow s) = c_status_sent s"
  "f_recovering_ack (flow s) = c_recovering_ack s" "f_budget (flow s) = c_budget s"
  "f_kl1_params (flow s) = c_kl1_params s"
  "f_lease_expires_at_ms (flow s) = c_lease_expires_at_ms s"
  "f_ack_safe_deadline_ms (flow s) = c_ack_safe_deadline_ms s"
  "f_awaiting_active (flow s) = c_awaiting_active s"
  "f_awaiting_generation (flow s) = c_awaiting_generation s"
  "f_awaiting_fingerprint (flow s) = c_awaiting_fingerprint s"
  "f_store_generation (flow s) = c_store_generation s"
  "f_frozen_fingerprint (flow s) = c_frozen_fingerprint s"
  "f_sec_lease_admission_supported (flow s) = c_sec_lease_admission_supported s"
  "f_kl1_snapshot_available (flow s) = c_kl1_snapshot_available s"
  "f_next_retry_ms (flow s) = c_next_retry_ms s"
  "f_fingerprint_version (flow s) = c_fingerprint_version s"
  "f_frozen_snapshot (flow s) = c_frozen_snapshot s"
  "f_sec_outcome_unknown (flow s) = c_sec_outcome_unknown s"
  "f_successor_request_id (flow s) = c_successor_request_id s"
  "f_submission (flow s) = c_submission s"
  "f_import_invocation_recorded (flow s) = c_import_invocation_recorded s"
  "f_calls (flow s) = c_calls s" "f_rid (flow s) = r_request_id (c_record s)"
  "f_idempotency (flow s) = r_idempotency_digest (c_record s)"
  "f_stored_generation (flow s) = r_store_generation (c_record s)"
  "f_sent (flow s) = filter not_stored (c_trace s)"
  by (simp_all add: flow_def)

text \<open>Reading a member is reading it off the flow.\<close>

lemmas reads = flow_select [symmetric]

lemma flow_update [simp]:
  "flow (c_config_update f0 s) = f_config_update f0 (flow s)"
  "flow (c_state_update f1 s) = f_state_update f1 (flow s)"
  "flow (c_stopping_update f2 s) = f_stopping_update f2 (flow s)"
  "flow (c_cloud_update f3 s) = f_cloud_update f3 (flow s)"
  "flow (c_capability_update f4 s) = f_capability_update f4 (flow s)"
  "flow (c_identity_update f5 s) = f_identity_update f5 (flow s)"
  "flow (c_identity_valid_update f6 s) = f_identity_valid_update f6 (flow s)"
  "flow (c_pending_items_update f7 s) = f_pending_items_update f7 (flow s)"
  "flow (c_response_binding_update f8 s) = f_response_binding_update f8 (flow s)"
  "flow (c_last_response_message_id_update f9 s) = f_last_response_message_id_update f9 (flow s)"
  "flow (c_import_attempted_update f10 s) = f_import_attempted_update f10 (flow s)"
  "flow (c_ack_items_update f11 s) = f_ack_items_update f11 (flow s)"
  "flow (c_ack_sent_update f12 s) = f_ack_sent_update f12 (flow s)"
  "flow (c_status_sent_update f13 s) = f_status_sent_update f13 (flow s)"
  "flow (c_recovering_ack_update f14 s) = f_recovering_ack_update f14 (flow s)"
  "flow (c_budget_update f15 s) = f_budget_update f15 (flow s)"
  "flow (c_kl1_params_update f16 s) = f_kl1_params_update f16 (flow s)"
  "flow (c_lease_expires_at_ms_update f17 s) = f_lease_expires_at_ms_update f17 (flow s)"
  "flow (c_ack_safe_deadline_ms_update f18 s) = f_ack_safe_deadline_ms_update f18 (flow s)"
  "flow (c_awaiting_active_update f19 s) = f_awaiting_active_update f19 (flow s)"
  "flow (c_awaiting_generation_update f20 s) = f_awaiting_generation_update f20 (flow s)"
  "flow (c_awaiting_fingerprint_update f21 s) = f_awaiting_fingerprint_update f21 (flow s)"
  "flow (c_store_generation_update f22 s) = f_store_generation_update f22 (flow s)"
  "flow (c_frozen_fingerprint_update f23 s) = f_frozen_fingerprint_update f23 (flow s)"
  "flow (c_sec_lease_admission_supported_update f24 s) = f_sec_lease_admission_supported_update f24 (flow s)"
  "flow (c_kl1_snapshot_available_update f25 s) = f_kl1_snapshot_available_update f25 (flow s)"
  "flow (c_next_retry_ms_update f26 s) = f_next_retry_ms_update f26 (flow s)"
  "flow (c_fingerprint_version_update f27 s) = f_fingerprint_version_update f27 (flow s)"
  "flow (c_frozen_snapshot_update f28 s) = f_frozen_snapshot_update f28 (flow s)"
  "flow (c_sec_outcome_unknown_update f29 s) = f_sec_outcome_unknown_update f29 (flow s)"
  "flow (c_successor_request_id_update f30 s) = f_successor_request_id_update f30 (flow s)"
  "flow (c_submission_update f31 s) = f_submission_update f31 (flow s)"
  "flow (c_import_invocation_recorded_update f32 s) = f_import_invocation_recorded_update f32 (flow s)"
  "flow (c_calls_update f33 s) = f_calls_update f33 (flow s)"
  "flow (s\<lparr>c_record := r\<rparr>) = (flow s)\<lparr>f_rid := r_request_id r,
     f_idempotency := r_idempotency_digest r, f_stored_generation := r_store_generation r\<rparr>"
  by (simp_all add: flow_def)

lemma flow_frame [simp]:
  "flow (c_publish_session_supported_update f0 s) = flow s"
  "flow (c_last_cloud_sequence_update f1 s) = flow s"
  "flow (c_capability_ready_update f2 s) = flow s" "flow (c_clock_synced_update f3 s) = flow s"
  "flow (c_gate_reason_update f4 s) = flow s" "flow (c_supersedes_request_id_update f5 s) = flow s"
  "flow (c_superseded_by_request_id_update f6 s) = flow s"
  "flow (c_blocked_reason_update f7 s) = flow s"
  "flow (c_legacy_snapshot_unknown_update f8 s) = flow s" "flow (c_resolution_update f9 s) = flow s"
  "flow (c_pending_callback_update f10 s) = flow s"
  "flow (c_last_sec_evidence_kind_update f11 s) = flow s"
  "flow (c_sec_import_result_contract_version_update f12 s) = flow s"
  "flow (c_stab_update f13 s) = flow s" "flow (c_recovery_phase_update f14 s) = flow s"
  "flow (c_cached_vmd_status_update f15 s) = flow s"
  "flow (c_cached_vmd_error_update f16 s) = flow s"
  "flow (c_sec_result_contract_version_update f17 s) = flow s"
  "flow (c_sec_query_semantics_version_update f18 s) = flow s"
  "flow (c_sec_kl1_profile_version_update f19 s) = flow s"
  "flow (c_successor_request_id_digest_update f20 s) = flow s"
  "flow (c_current_sec_capability_epoch_update f21 s) = flow s"
  "flow (c_sec_capability_unavailable_update f22 s) = flow s"
  "flow (c_last_sec_capability_contract_update f23 s) = flow s"
  "flow (c_last_capability_not_found_flag_update f24 s) = flow s"
  "flow (c_status_backoff_ms_update f25 s) = flow s"
  "flow (c_nf_first_wall_ms_update f26 s) = flow s" "flow (c_nf_last_wall_ms_update f27 s) = flow s"
  "flow (c_last_obs_valid_update f28 s) = flow s"
  "flow (c_last_obs_vmd_status_update f29 s) = flow s"
  "flow (c_last_obs_kind_update f30 s) = flow s"
  "flow (c_last_obs_error_code_update f31 s) = flow s"
  "flow (c_last_obs_error_action_update f32 s) = flow s"
  "flow (c_last_obs_generation_update f33 s) = flow s"
  "flow (c_sec_unknown_rounds_update f34 s) = flow s"
  "flow (c_sec_unknown_alerted_update f35 s) = flow s"
  "flow (c_reconcile_status_sent_update f36 s) = flow s"
  "flow (c_conflict_vmd_code_update f37 s) = flow s"
  "flow (c_awaiting_request_id_update f38 s) = flow s" "flow (c_readiness_update f39 s) = flow s"
  "flow (c_deadline_ms_update f40 s) = flow s" "flow (c_backoff_ms_update f41 s) = flow s"
  "flow (c_capability_event_seen_update f42 s) = flow s" "flow (c_running_update f43 s) = flow s"
  "flow (c_counters_update f44 s) = flow s"
  by (simp_all add: flow_def)

lemma flow_emit [simp]:
  "flow (emit e s) = (if not_stored e then (flow s)\<lparr>f_sent := e # f_sent (flow s)\<rparr> else flow s)"
  by (simp add: flow_def emit_def)

lemma flow_called [simp]: "flow (called s) = (flow s)\<lparr>f_calls := Suc (f_calls (flow s))\<rparr>"
  by (simp add: called_def flow_select)

lemma flow_count [simp]: "flow (count_in f s) = flow s"
  by (simp add: count_in_def)

lemma flow_error [simp]: "flow (set_last_error e s) = flow s"
  by (simp add: set_last_error_def) (simp add: flow_def)

lemma flow_persist [simp]:
  "flow (persist E s) = (flow s)\<lparr>f_stored_generation := f_store_generation (flow s), f_calls := f_calls (flow s) + 2\<rparr>"
  by (simp add: persist_def now_ms_def record_of_members_def not_stored_def reads Let_def)

section \<open>The open gate\<close>

definition sec_ready :: "env \<Rightarrow> nat \<Rightarrow> bool" where
  "sec_ready E n \<longleftrightarrow> (case e_sec_capability E n of (ec, cap) \<Rightarrow> ec = EcSuccess
     \<and> readiness_all (keyprov_apply_sec_capability (e_sc E) cap
          (keyprov_build_lock_readiness (e_lock E) (e_runtime_check E))))"

definition sec_admits :: "env \<Rightarrow> nat \<Rightarrow> bool" where
  "sec_admits E n \<longleftrightarrow>
     (case e_sec_contract E n of (kc, snap) \<Rightarrow> kc = EcSuccess \<and> ks_supports_lease_admission snap)"

definition cloud_open :: "cloud_readiness \<Rightarrow> capability_readiness \<Rightarrow> bool" where
  "cloud_open cl cy \<longleftrightarrow>
     cloud_gate (coord0\<lparr>c_cloud := cl, c_capability := cy, c_publish_session_supported := True\<rparr>) = None
     \<and> kMqttPublishSessionContractVersion \<le> cl_publish_contract_version cl
     \<and> (\<exists>u. keyprov_validate_identity (cloud_identity cl) = Inr u)"

lemma cloud_gate_reads:
  "c_cloud s = c_cloud t \<Longrightarrow> c_capability s = c_capability t \<Longrightarrow>
     c_publish_session_supported s = c_publish_session_supported t \<Longrightarrow> cloud_gate s = cloud_gate t"
  by (simp only: cloud_gate_def)

lemma flow_epoch [simp]: "flow (update_sec_capability_epoch ec cap s) = flow s"
  by (simp add: update_sec_capability_epoch_def Let_def)

lemma sec_readiness_flow:
  assumes "sec_ready E (f_calls (flow s))" "sec_admits E (Suc (f_calls (flow s)))"
  shows "flow (refresh_sec_readiness E s)
      = (flow s)\<lparr>f_sec_lease_admission_supported := True, f_kl1_snapshot_available := True, f_calls := f_calls (flow s) + 2\<rparr>
    \<and> readiness_all (c_readiness (refresh_sec_readiness E s))"
proof -
  obtain cap where cap: "e_sec_capability E (f_calls (flow s)) = (EcSuccess, cap)"
      "readiness_all (keyprov_apply_sec_capability (e_sc E) cap (keyprov_build_lock_readiness (e_lock E) (e_runtime_check E)))"
    using assms(1) by (auto simp: sec_ready_def split: prod.splits)
  obtain snap where k: "e_sec_contract E (Suc (f_calls (flow s))) = (EcSuccess, snap)" "ks_supports_lease_admission snap"
    using assms(2) by (auto simp: sec_admits_def split: prod.splits)
  show ?thesis
    using k(2) cap(2) by (simp add: refresh_sec_readiness_def cap(1) k(1) Let_def reads)
qed

lemma gate_opens:
  assumes "cfg_enabled (f_config (flow s))" "\<not> f_stopping (flow s)"
    and "sec_ready E (f_calls (flow s))" "sec_admits E (Suc (f_calls (flow s)))"
    and "cloud_open (f_cloud (flow s)) (f_capability (flow s))"
  shows "\<exists>t. capability_gate E s = (Inr (), t) \<and> flow t = (flow s)\<lparr>f_sec_lease_admission_supported := True,
      f_kl1_snapshot_available := True, f_identity := cloud_identity (f_cloud (flow s)), f_identity_valid := True,
      f_calls := f_calls (flow s) + 2\<rparr>"
proof -
  let ?r = "refresh_sec_readiness E s"
  have r: "flow ?r = (flow s)\<lparr>f_sec_lease_admission_supported := True, f_kl1_snapshot_available := True,
      f_calls := f_calls (flow s) + 2\<rparr>" "readiness_all (c_readiness ?r)"
    using sec_readiness_flow [OF assms(3,4)] by auto
  have cl: "c_cloud ?r = f_cloud (flow s)" "c_capability ?r = f_capability (flow s)" by (simp_all add: reads r)
  have "cloud_gate (?r\<lparr>c_publish_session_supported := True\<rparr>) = None"
    using assms(5) cloud_gate_reads [of "?r\<lparr>c_publish_session_supported := True\<rparr>"
        "coord0\<lparr>c_cloud := f_cloud (flow s), c_capability := f_capability (flow s), c_publish_session_supported := True\<rparr>"]
    by (simp add: cloud_open_def cl)
  moreover have "kMqttPublishSessionContractVersion \<le> cl_publish_contract_version (c_cloud ?r)"
    "\<exists>u. keyprov_validate_identity (cloud_identity (c_cloud ?r)) = Inr u"
    using assms(5) by (simp_all add: cloud_open_def cl)
  ultimately show ?thesis
    using assms(1,2) r by (auto simp: capability_gate_def reads Let_def)
qed

lemma tick_runs:
  assumes "cfg_enabled (f_config (flow s))" "\<not> f_stopping (flow s)"
    and "sec_ready E (f_calls (flow s))" "sec_admits E (Suc (f_calls (flow s)))"
    and "cloud_open (f_cloud (flow s)) (f_capability (flow s))" "e_clock_sync E (f_calls (flow s) + 2)"
  shows "\<exists>t. tick E s = run_state E (e_utc E (f_calls (flow s) + 3)) t \<and> flow t = (flow s)\<lparr>f_sec_lease_admission_supported := True,
      f_kl1_snapshot_available := True, f_identity := cloud_identity (f_cloud (flow s)), f_identity_valid := True,
      f_calls := f_calls (flow s) + 4\<rparr>"
proof -
  obtain t where t: "capability_gate E s = (Inr (), t)" "flow t = (flow s)\<lparr>f_sec_lease_admission_supported := True,
      f_kl1_snapshot_available := True, f_identity := cloud_identity (f_cloud (flow s)), f_identity_valid := True,
      f_calls := f_calls (flow s) + 2\<rparr>"
    using gate_opens [OF assms(1-5)] by blast
  have n: "f_calls (flow t) = f_calls (flow s) + 2" by (simp add: t(2))
  show ?thesis
    using assms(1,6)
    by (intro exI [of _ "called ((called (t\<lparr>c_capability_ready := True\<rparr>))\<lparr>c_clock_synced := True, c_gate_reason := []\<rparr>)"])
      (simp add: tick_def t clock_check_ok_def now_ms_def reads n Let_def eval_nat_numeral)
qed

section \<open>Clock and publication\<close>

definition clock_at :: "env \<Rightarrow> nat \<Rightarrow> clock_source" where
  "clock_at E n = (case e_health E of Some h \<Rightarrow> h n
     | None \<Rightarrow> clock_default\<lparr>cs_utc_now_ms := e_utc E n, cs_monotonic_ms := e_mono E (Suc n),
         cs_trusted := e_clock_sync E (Suc (Suc n))\<rparr>)"

definition clock_calls :: "env \<Rightarrow> nat" where
  "clock_calls E = (if e_health E = None then 3 else 1)"

lemma clock_source_flow:
  "\<exists>t. clock_source_of E s = (clock_at E (f_calls (flow s)), t)
    \<and> flow t = (flow s)\<lparr>f_calls := f_calls (flow s) + clock_calls E\<rparr>"
  by (cases "e_health E")
    (simp_all add: clock_source_of_def clock_at_def clock_calls_def now_ms_def now_monotonic_ms_def
      clock_check_ok_def reads Let_def)

definition taken_up :: "publish_result \<Rightarrow> bool" where
  "taken_up pr \<longleftrightarrow> pu_accepted pr \<or> pu_outcome pr = DeliveryUnknown"

lemma publish_flow:
  assumes "f_identity_valid (flow s)" "taken_up (e_publish E (f_calls (flow s)))"
  shows "\<exists>t. publish_keyprov E kind mid bs rid s = (True, t) \<and> flow t = (flow s)\<lparr>
      f_calls := f_calls (flow s) + 1,
      f_sent := EvtPublish kind rid (si_session (f_identity (flow s))) True # f_sent (flow s)\<rparr>"
  using assms by (simp add: publish_keyprov_def taken_up_def not_stored_def reads Let_def)

text \<open>The environment behaves in the calls from \<open>i\<close> on up to \<open>j\<close>.\<close>

definition behaves :: "env \<Rightarrow> nat \<Rightarrow> nat \<Rightarrow> bool" where
  "behaves E i j \<longleftrightarrow> (\<forall>n. i \<le> n \<and> n < j \<longrightarrow>
     sec_ready E n \<and> sec_admits E n \<and> e_clock_sync E n \<and> taken_up (e_publish E n))"

text \<open>What comes for the attempt is not refused as late.\<close>

definition awaited :: "flow \<Rightarrow> bool" where
  "awaited f \<longleftrightarrow> (f_awaiting_active f \<longrightarrow> f_store_generation f = f_awaiting_generation f
     \<and> f_stored_generation f = f_awaiting_generation f
     \<and> keyprov_fingerprint_equal (f_frozen_fingerprint f) (f_awaiting_fingerprint f))"

section \<open>From the first tick to the Request\<close>

definition candidate_of ::
  "env \<Rightarrow> coord_config \<Rightarrow> session_identity \<Rightarrow> business_key_status list \<Rightarrow> attempt_snapshot \<Rightarrow> fingerprint \<Rightarrow> bool" where
  "candidate_of E cfg idn items cand fp \<longleftrightarrow> (\<exists>u. keyprov_validate_identity idn = Inr u)
     \<and> keyprov_build_attempt_snapshot (e_hash E) (cfg_business_domain cfg) (cfg_purposes cfg) idn items
         (keyprov_protocol_lock_digest_v1 (e_hash E) (e_lock E)) = Inr cand
     \<and> keyprov_compute_attempt_fingerprint_v1 (e_hash E) cand = Inr fp"

lemma candidate_built:
  "e_sec_status E (f_calls (flow s)) = (EcSuccess, items) \<Longrightarrow> f_identity_valid (flow s) \<Longrightarrow>
     candidate_of E (f_config (flow s)) (f_identity (flow s)) items cand fp \<Longrightarrow>
     build_candidate E s = (Inr (cand, fp), called s)"
  by (auto simp: build_candidate_def query_sec_status_def candidate_of_def reads)

text \<open>The Request of an attempt frozen on \<open>cand\<close> can be encoded.\<close>

definition encodes_request ::
  "env \<Rightarrow> coord_config \<Rightarrow> session_identity \<Rightarrow> attempt_snapshot \<Rightarrow> string \<Rightarrow> string \<Rightarrow> bool" where
  "encodes_request E cfg idn cand rid dig \<longleftrightarrow>
     (\<forall>u now mid. c_config u = cfg \<and> c_frozen_snapshot u = cand \<and> r_request_id (c_record u) = rid
        \<and> r_idempotency_digest (c_record u) = dig \<longrightarrow>
        (\<exists>b. build_keyprov_request_envelope (e_pb E) idn (request_of_attempt now u) mid [] = Inr b))"

lemma request_flow:
  assumes "e_sec_status E (f_calls (flow s)) = (EcSuccess, items)" "f_identity_valid (flow s)"
    and "candidate_of E (f_config (flow s)) (f_identity (flow s)) items cand fp" "f_frozen_fingerprint (flow s) = fp"
    and "request_ok (f_kl1_params (flow s)) (e_utc E (f_calls (flow s) + 1)) (f_budget (flow s))"
    and "encodes_request E (f_config (flow s)) (f_identity (flow s)) (f_frozen_snapshot (flow s)) (f_rid (flow s)) (f_idempotency (flow s))"
    and "taken_up (e_publish E (f_calls (flow s) + 5))"
  shows "flow (do_request E s) = (flow s)\<lparr>f_state := WAIT_RESPONSE,
      f_budget := preconsume_request (f_kl1_params (flow s)) (e_utc E (f_calls (flow s) + 2)) (f_budget (flow s)),
      f_awaiting_active := True, f_awaiting_generation := f_store_generation (flow s), f_awaiting_fingerprint := fp,
      f_submission := kSubmissionSubmitted, f_stored_generation := f_store_generation (flow s),
      f_sent := EvtPublish MkRequest (f_rid (flow s)) (si_session (f_identity (flow s))) True # f_sent (flow s),
      f_calls := f_calls (flow s) + 8\<rparr>"
proof -
  let ?n = "f_calls (flow s)" and ?s2 = "called (called s)"
  have r: "do_request E s = send_request E ?s2"
    using assms(4,5) by (simp add: do_request_def candidate_built [OF assms(1-3)] now_ms_def reads keyprov_fingerprint_equal_def Let_def)
  obtain mid s3 where g: "generate_id E ''msg'' (called ?s2) = (mid, s3)" by (cases "generate_id E ''msg'' (called ?s2)")
  then have s3: "flow s3 = (flow s)\<lparr>f_calls := ?n + 5\<rparr>"
    by (auto simp: generate_id_def Let_def)
  define now where "now = e_utc E (?n + 2)"
  have "\<exists>b. build_keyprov_request_envelope (e_pb E) (f_identity (flow s)) (request_of_attempt now s3) mid [] = Inr b"
    using assms(6) s3 by (simp add: encodes_request_def reads)
  then obtain b where b: "build_keyprov_request_envelope (e_pb E) (f_identity (flow s)) (request_of_attempt now s3) mid [] = Inr b"
    by blast
  obtain t where t: "publish_keyprov E MkRequest mid b (f_rid (flow s)) s3 = (True, t)"
    "flow t = (flow s)\<lparr>f_calls := ?n + 6,
      f_sent := EvtPublish MkRequest (f_rid (flow s)) (si_session (f_identity (flow s))) True # f_sent (flow s)\<rparr>"
    using publish_flow [of s3 E MkRequest mid b "f_rid (flow s)"] assms(2,7) by (auto simp: s3)
  have n: "now_ms E ?s2 = (now, called ?s2)" by (simp add: now_ms_def now_def reads)
  have i: "c_identity s3 = f_identity (flow s)" "r_request_id (c_record s3) = f_rid (flow s)" by (simp_all add: reads s3)
  show ?thesis
    by (simp add: r send_request_def n g i b t(1) Let_def)
      (simp add: mark_awaiting_def reads t(2) s3 assms(4) now_def)
qed

text \<open>The id drawn for a new attempt by the two draws from call \<open>n\<close> on.\<close>

definition drawn_id :: "env \<Rightarrow> nat \<Rightarrow> string" where
  "drawn_id E n = ''kp'' @ ''-'' @ hex_encode (be64 (e_rand E n)) @ hex_encode (be64 (e_rand E (Suc n)))"

lemma flow_terminalize [simp]: "flow (terminalize_old s) = flow s"
  by (simp add: terminalize_old_def Let_def) (simp add: flow_def)

lemma attempt_flow:
  fixes E s
  defines "rid \<equiv> drawn_id E (f_calls (flow s) + 1)"
  assumes "\<not> f_sec_outcome_unknown (flow s)" "f_successor_request_id (flow s) = []" "f_identity_valid (flow s)"
    and "\<And>n. f_calls (flow s) \<le> n \<Longrightarrow> n < f_calls (flow s) + 20 \<Longrightarrow> e_sec_status E n = (EcSuccess, items)"
    and "candidate_of E (f_config (flow s)) (f_identity (flow s)) items cand fp"
    and "0 < kp_request_limit (f_kl1_params (flow s))"
    and "encodes_request E (f_config (flow s)) (f_identity (flow s)) cand rid
           (generate_digest E (rid @ ''|'' @ cfg_business_domain (f_config (flow s))))"
    and "taken_up (e_publish E (f_calls (flow s) + 5 + 5))"
  shows "\<exists>f. flow (create_new_attempt E s) = f \<and> f_state f = WAIT_RESPONSE \<and> f_rid f = rid \<and> awaited f
    \<and> bl_ack_send_count (f_budget f) = 0 \<and> f_config f = f_config (flow s) \<and> f_stopping f = f_stopping (flow s)
    \<and> f_cloud f = f_cloud (flow s) \<and> f_capability f = f_capability (flow s) \<and> f_kl1_params f = f_kl1_params (flow s)
    \<and> f_sent f = EvtPublish MkRequest rid (si_session (f_identity (flow s))) True # EvtNewAttempt rid # f_sent (flow s)"
proof -
  let ?n = "f_calls (flow s)"
  let ?t = "terminalize_old (called s)"
  obtain c where c: "choose_request_id E ?t = c" "flow c = (flow s)\<lparr>f_rid := rid, f_calls := ?n + 3\<rparr>"
    using assms(3) by (simp add: choose_request_id_def generate_id_def rid_def drawn_id_def reads Let_def)
  let ?f = "reset_attempt_members (freeze_attempt E cand fp c)"
  let ?dig = "generate_digest E (rid @ ''|'' @ cfg_business_domain (f_config (flow s)))"
  have f: "flow ?f = (flow s)\<lparr>f_frozen_snapshot := cand, f_frozen_fingerprint := fp, f_fingerprint_version := 1,
      f_rid := rid, f_idempotency := ?dig, f_import_attempted := False, f_ack_sent := False, f_status_sent := False,
      f_recovering_ack := False, f_pending_items := [], f_response_binding := [], f_ack_items := [],
      f_submission := kSubmissionNone, f_sec_outcome_unknown := False,
      f_budget := (reset_for_new_attempt (f_budget (flow s)))\<lparr>bl_ack_safe_deadline_at_ms := 0\<rparr>,
      f_lease_expires_at_ms := 0, f_ack_safe_deadline_ms := 0, f_import_invocation_recorded := False,
      f_store_generation := f_store_generation (flow s) + 1, f_awaiting_active := False, f_state := REQUESTING,
      f_calls := ?n + 3\<rparr>"
    by (simp add: reset_attempt_members_def freeze_attempt_def reads c(2))
  let ?p = "persist E (emit (EvtNewAttempt rid) ?f)"
  have "create_new_attempt E s = do_request E ?p"
    using assms(2,4,6) assms(5) [of ?n] f c(1)
    by (simp add: create_new_attempt_def candidate_built reads Let_def)
  moreover have p: "flow ?p = (flow ?f)\<lparr>f_sent := EvtNewAttempt rid # f_sent (flow ?f),
      f_stored_generation := f_store_generation (flow ?f), f_calls := ?n + 5\<rparr>"
    by (simp add: f not_stored_def)
  have ok: "request_ok (f_kl1_params (flow ?p)) now (f_budget (flow ?p))" for now
    using assms(7) by (simp add: request_ok_def p f reset_for_new_attempt_def)
  have st: "e_sec_status E (?n + 5) = (EcSuccess, items)" using assms(5) [of "?n + 5"] by simp
  have q: "flow (do_request E ?p) = (flow ?p)\<lparr>f_state := WAIT_RESPONSE,
      f_budget := preconsume_request (f_kl1_params (flow ?p)) (e_utc E (f_calls (flow ?p) + 2)) (f_budget (flow ?p)),
      f_awaiting_active := True, f_awaiting_generation := f_store_generation (flow ?p), f_awaiting_fingerprint := fp,
      f_submission := kSubmissionSubmitted, f_stored_generation := f_store_generation (flow ?p),
      f_sent := EvtPublish MkRequest (f_rid (flow ?p)) (si_session (f_identity (flow ?p))) True # f_sent (flow ?p),
      f_calls := f_calls (flow ?p) + 8\<rparr>"
    by (rule request_flow [of E _ items cand fp]) (use assms(4,6,8,9) st ok [unfolded p f] in \<open>simp_all add: p f del: flow_persist flow_emit\<close>)
  ultimately show ?thesis
    by (simp add: q p f awaited_def keyprov_fingerprint_equal_def preconsume_request_def reset_for_new_attempt_def not_stored_def)
qed

text \<open>
  C9. A Request goes out. A coordinator that waits for the cloud and has no attempt yet, with the
  retry time reached, the gate open and SEC reporting that a key is missing, leaves its next tick in
  \<open>WAIT_RESPONSE\<close>: it froze an attempt on the key state SEC reported, under an id drawn in that
  tick, announced it and published its Request - once each, in this order - and what comes for that
  id is accepted as belonging to it, with no acknowledgement used up.
\<close>

theorem request_goes_out:
  fixes E s
  defines "rid \<equiv> drawn_id E (c_calls s + 7)"
  assumes "c_state s = WAIT_CLOUD" "cfg_enabled (c_config s)" "\<not> c_stopping s" "cloud_open (c_cloud s) (c_capability s)"
    and "c_next_retry_ms s \<le> e_utc E (c_calls s + 3)" "c_fingerprint_version s = 0 \<or> r_request_id (c_record s) = []"
    and "\<not> c_sec_outcome_unknown s" "c_successor_request_id s = []"
    and "behaves E (c_calls s) (c_calls s + 30)" "0 < kp_request_limit (c_kl1_params s)"
    and "\<And>n. c_calls s \<le> n \<Longrightarrow> n < c_calls s + 30 \<Longrightarrow> e_sec_status E n = (EcSuccess, items)"
    and "\<not> purposes_complete (c_config s) items"
    and "candidate_of E (c_config s) (cloud_identity (c_cloud s)) items cand fp"
    and "encodes_request E (c_config s) (cloud_identity (c_cloud s)) cand rid
           (generate_digest E (rid @ ''|'' @ cfg_business_domain (c_config s)))"
  shows "c_state (tick E s) = WAIT_RESPONSE \<and> r_request_id (c_record (tick E s)) = rid \<and> awaited (flow (tick E s))
    \<and> bl_ack_send_count (c_budget (tick E s)) = 0 \<and> c_config (tick E s) = c_config s
    \<and> c_stopping (tick E s) = c_stopping s \<and> c_cloud (tick E s) = c_cloud s
    \<and> c_capability (tick E s) = c_capability s \<and> c_kl1_params (tick E s) = c_kl1_params s
    \<and> filter not_stored (c_trace (tick E s)) =
        EvtPublish MkRequest rid (cl_session (c_cloud s)) True # EvtNewAttempt rid # filter not_stored (c_trace s)"
proof -
  note fl = assms(2-) [unfolded reads]
  let ?c = "f_calls (flow s)"
  obtain t where k: "tick E s = run_state E (e_utc E (?c + 3)) t"
    and t: "flow t = (flow s)\<lparr>f_sec_lease_admission_supported := True, f_kl1_snapshot_available := True,
      f_identity := cloud_identity (f_cloud (flow s)), f_identity_valid := True, f_calls := ?c + 4\<rparr>"
    using tick_runs [of s E] fl(2-4,9) by (auto simp: behaves_def)
  define u where "u = called (called (t\<lparr>c_state := CHECKING\<rparr>))"
  have u: "flow u = (flow t)\<lparr>f_state := CHECKING, f_calls := ?c + 6\<rparr>"
    by (simp add: u_def t)
  have st: "e_sec_status E (?c + 4) = (EcSuccess, items)" "e_sec_status E (?c + 5) = (EcSuccess, items)"
    using fl(11) by simp_all
  have b: "build_candidate E (called (t\<lparr>c_state := CHECKING\<rparr>)) = (Inr (cand, fp), u)"
    by (unfold u_def, rule candidate_built) (use st fl(13) in \<open>simp_all add: u_def t eval_nat_numeral\<close>)
  have "tick E s = do_check E (t\<lparr>c_state := CHECKING\<rparr>)"
    using fl(1,5) by (simp add: k run_state_def reads t)
  also have "\<dots> = check_incomplete E (called (t\<lparr>c_state := CHECKING\<rparr>))"
    using st(1) fl(12) by (simp add: do_check_def query_sec_status_def reads t)
  also have "\<dots> = create_new_attempt E u"
    using fl(6) by (auto simp: check_incomplete_def b reads u t)
  finally have e: "tick E s = create_new_attempt E u" .
  have pub: "taken_up (e_publish E (f_calls (flow u) + 5 + 5))" using fl(9) by (simp add: behaves_def u)
  have rid: "rid = drawn_id E (f_calls (flow u) + 1)" by (simp add: rid_def u reads eval_nat_numeral)
  have "\<exists>f. flow (create_new_attempt E u) = f \<and> f_state f = WAIT_RESPONSE \<and> f_rid f = drawn_id E (f_calls (flow u) + 1) \<and> awaited f
    \<and> bl_ack_send_count (f_budget f) = 0 \<and> f_config f = f_config (flow u) \<and> f_stopping f = f_stopping (flow u)
    \<and> f_cloud f = f_cloud (flow u) \<and> f_capability f = f_capability (flow u) \<and> f_kl1_params f = f_kl1_params (flow u)
    \<and> f_sent f = EvtPublish MkRequest (drawn_id E (f_calls (flow u) + 1)) (si_session (f_identity (flow u))) True
        # EvtNewAttempt (drawn_id E (f_calls (flow u) + 1)) # f_sent (flow u)"
    by (rule attempt_flow [where items = items and cand = cand and fp = fp])
      (use fl(7,8,10,11,13,14) pub in \<open>simp_all add: u t rid\<close>)
  moreover have "drawn_id E (7 + ?c) = rid" by (simp add: rid_def reads add.commute)
  ultimately show ?thesis by (simp add: e reads u t cloud_identity_def)
qed

section \<open>A response is taken up\<close>

definition for_keyprov :: "coord_config \<Rightarrow> routed_downlink \<Rightarrow> bool" where
  "for_keyprov cfg ev \<longleftrightarrow>
     rde_owner ev = ''tsp'' \<and> rde_route_id ev = cfg_route_down cfg \<and> rde_target ev = ''tsp.keyprov''"

lemma downlink_delivered:
  assumes "for_keyprov (f_config (flow s)) ev" "awaited (flow s)"
    and "decode_keyprov_envelope (e_pb E) (e_sc E) (rde_payload ev) = Inr d"
    and "dc_request_id (dc_body d) = f_rid (flow s)" "f_rid (flow s) \<noteq> []"
  shows "\<exists>t. flow t = flow s \<and> handle_routed_downlink E ev s =
    (case dc_body d of DecResponse r \<Rightarrow> handle_response E (dc_message_id d) r t
       | DecAckResult a \<Rightarrow> handle_ack_result E a t | DecStatusResponse st \<Rightarrow> handle_status_response E st t)"
proof -
  let ?t = "count_in (\<lambda>n. n\<lparr>cn_responses_received := cn_responses_received n + 1\<rparr>) s"
  have "\<not> (c_awaiting_active s \<and> (r_store_generation (c_record s) \<noteq> c_awaiting_generation s
      \<or> \<not> keyprov_fingerprint_equal (c_frozen_fingerprint s) (c_awaiting_fingerprint s)))"
    using assms(2) by (auto simp: awaited_def flow_select)
  with assms(1,3-5) show ?thesis
    by (intro exI [of _ ?t]) (auto simp: handle_routed_downlink_def for_keyprov_def flow_select Let_def)
qed

text \<open>A response whose lease holds long enough at the given time.\<close>

definition good_response :: "env \<Rightarrow> coord_config \<Rightarrow> kl1_params \<Rightarrow> int \<Rightarrow> response_data \<Rightarrow> bool" where
  "good_response E cfg p u r \<longleftrightarrow> rd_result r = kKeyProvResultSucceeded
     \<and> keyprov_response_valid (e_sc E) cfg r = None
     \<and> rd_expire_at_ms r > 0 \<and> u < rd_expire_at_ms r \<and> keyprov_lease_acceptable u (rd_expire_at_ms r) p"

lemma response_taken:
  assumes "f_state (flow s) = WAIT_RESPONSE"
    and "good_response E (f_config (flow s)) (f_kl1_params (flow s)) (utc_upper (clock_at E (f_calls (flow s)))) r"
  shows "flow (handle_response E mid r s) = (flow s)\<lparr>f_state := IMPORTING, f_pending_items := rd_items r,
      f_response_binding := map binding_of (rd_items r), f_last_response_message_id := mid, f_import_attempted := False,
      f_lease_expires_at_ms := rd_expire_at_ms r,
      f_ack_safe_deadline_ms := keyprov_ack_safe_deadline_ms (rd_expire_at_ms r) (f_kl1_params (flow s)),
      f_budget := (f_budget (flow s))\<lparr>bl_ack_safe_deadline_at_ms :=
        keyprov_ack_safe_deadline_ms (rd_expire_at_ms r) (f_kl1_params (flow s))\<rparr>,
      f_stored_generation := f_store_generation (flow s), f_calls := f_calls (flow s) + clock_calls E + 2\<rparr>"
proof -
  obtain t where t: "clock_source_of E s = (clock_at E (f_calls (flow s)), t)"
      "flow t = (flow s)\<lparr>f_calls := f_calls (flow s) + clock_calls E\<rparr>"
    using clock_source_flow by blast
  show ?thesis
    using assms(2)
    by (simp add: handle_response_def accept_response_def good_response_def t keyprov_lease_expired_def reads assms(1) Let_def)
qed

section \<open>The import and its acknowledgement\<close>

text \<open>The committed result binds to the response that was accepted.\<close>

definition binds :: "sec_consts \<Rightarrow> coord_config \<Rightarrow> ack_binding list \<Rightarrow> import_result \<Rightarrow> bool" where
  "binds sc cfg bs res \<longleftrightarrow> ir_state res = ImpCommitted \<and> length (ir_items res) = length (cfg_purposes cfg)
     \<and> cfg_purposes cfg \<noteq> [] \<and> import_purposes_ok sc bs (cfg_purposes cfg) (ir_items res) = None"

lemma ack_sent_flow:
  assumes "f_identity_valid (flow s)" "taken_up (e_publish E (f_calls (flow s) + 2))"
    and "\<And>mid. \<exists>b. build_keyprov_ack_envelope (e_pb E) (f_identity (flow s)) (f_rid (flow s)) (f_ack_items (flow s))
           now mid (f_last_response_message_id (flow s)) = Inr b"
  shows "flow (send_ack E now s) = (flow s)\<lparr>f_ack_sent := True,
      f_budget := preconsume_ack (f_kl1_params (flow s)) now (f_budget (flow s)),
      f_stored_generation := f_store_generation (flow s), f_calls := f_calls (flow s) + 5,
      f_sent := EvtPublish (MkAck (f_ack_items (flow s))) (f_rid (flow s)) (si_session (f_identity (flow s))) True
        # f_sent (flow s)\<rparr>"
proof -
  obtain mid s1 where g: "generate_id E ''msg'' s = (mid, s1)" by (cases "generate_id E ''msg'' s")
  then have s1: "flow s1 = (flow s)\<lparr>f_calls := f_calls (flow s) + 2\<rparr>"
    by (auto simp: generate_id_def Let_def)
  obtain b where b: "build_keyprov_ack_envelope (e_pb E) (f_identity (flow s)) (f_rid (flow s)) (f_ack_items (flow s))
      now mid (f_last_response_message_id (flow s)) = Inr b" using assms(3) by blast
  obtain t where t: "publish_keyprov E (MkAck (f_ack_items (flow s))) mid b (f_rid (flow s)) s1 = (True, t)"
    "flow t = (flow s)\<lparr>f_calls := f_calls (flow s) + 3,
      f_sent := EvtPublish (MkAck (f_ack_items (flow s))) (f_rid (flow s)) (si_session (f_identity (flow s))) True # f_sent (flow s)\<rparr>"
    using publish_flow [of s1 E "MkAck (f_ack_items (flow s))" mid b "f_rid (flow s)"] assms(1,2)
    by (auto simp: s1 eval_nat_numeral)
  show ?thesis by (simp add: send_ack_def g b t reads s1 Let_def)
qed

lemma fresh_ack_flow:
  assumes "f_ack_items (flow s) \<noteq> []" "\<not> f_ack_sent (flow s)" "f_identity_valid (flow s)"
    and "e_utc E (f_calls (flow s)) < f_ack_safe_deadline_ms (flow s)"
    and "ack_ok (f_kl1_params (flow s)) (e_utc E (f_calls (flow s))) (f_budget (flow s))"
    and "taken_up (e_publish E (f_calls (flow s) + 3))"
    and "\<And>now mid. \<exists>b. build_keyprov_ack_envelope (e_pb E) (f_identity (flow s)) (f_rid (flow s)) (f_ack_items (flow s))
           now mid (f_last_response_message_id (flow s)) = Inr b"
  shows "flow (do_ack E s) = (flow s)\<lparr>f_ack_sent := True,
      f_budget := preconsume_ack (f_kl1_params (flow s)) (e_utc E (f_calls (flow s))) (f_budget (flow s)),
      f_stored_generation := f_store_generation (flow s), f_calls := f_calls (flow s) + 6,
      f_sent := EvtPublish (MkAck (f_ack_items (flow s))) (f_rid (flow s)) (si_session (f_identity (flow s))) True
        # f_sent (flow s)\<rparr>"
proof -
  have t: "flow (called s) = (flow s)\<lparr>f_calls := Suc (f_calls (flow s))\<rparr>" by simp
  have "do_ack E s = send_ack E (e_utc E (f_calls (flow s))) (called s)"
    using assms(1,2,4,5) by (simp add: do_ack_def ack_with_items_def now_ms_def reads Let_def)
  then show ?thesis
    using ack_sent_flow [of "called s" E "e_utc E (f_calls (flow s))"] assms(3,6,7)
    by (simp add: eval_nat_numeral)
qed

text \<open>What is called between the store of the intent and the publication of the acknowledgement.\<close>

lemma import_flow:
  fixes E s res
  defines "n \<equiv> f_calls (flow s) + (if f_import_invocation_recorded (flow s) then 0 else 2)"
    and "items \<equiv> build_ack_items (e_sc E) res"
  assumes "\<not> f_import_attempted (flow s)" "f_identity_valid (flow s)" "f_sec_lease_admission_supported (flow s)"
    and "f_lease_expires_at_ms (flow s) > 0"
    and "keyprov_lease_acceptable (utc_upper (clock_at E n)) (f_lease_expires_at_ms (flow s)) (f_kl1_params (flow s))"
    and "e_sec_import E (n + clock_calls E) = (EcSuccess, res)"
    and "binds (e_sc E) (f_config (flow s)) (f_response_binding (flow s)) res"
    and "e_utc E (n + clock_calls E + 3) < f_ack_safe_deadline_ms (flow s)"
    and "ack_ok (f_kl1_params (flow s)) (e_utc E (n + clock_calls E + 3)) (f_budget (flow s))"
    and "taken_up (e_publish E (n + clock_calls E + 3 + 3))"
    and "\<And>now mid. \<exists>b. build_keyprov_ack_envelope (e_pb E) (f_identity (flow s)) (f_rid (flow s)) items
           now mid (f_last_response_message_id (flow s)) = Inr b"
  shows "flow (do_import E s) = (flow s)\<lparr>f_state := ACK_PENDING, f_import_invocation_recorded := True,
      f_import_attempted := True, f_pending_items := [], f_ack_items := items, f_ack_sent := True, f_status_sent := False,
      f_budget := preconsume_ack (f_kl1_params (flow s)) (e_utc E (n + clock_calls E + 3)) (f_budget (flow s)),
      f_stored_generation := f_store_generation (flow s), f_calls := n + clock_calls E + 9,
      f_sent := EvtPublish (MkAck items) (f_rid (flow s)) (si_session (f_identity (flow s))) True
        # EvtImport (f_rid (flow s)) (f_pending_items (flow s)) True EcSuccess res # f_sent (flow s)\<rparr>"
proof -
  let ?s1 = "if \<not> c_import_invocation_recorded s
      then persist E (s\<lparr>c_import_invocation_recorded := True, c_resolution := Unresolved\<rparr>) else s"
  have s1: "flow ?s1 = (flow s)\<lparr>f_import_invocation_recorded := True, f_calls := n,
      f_stored_generation := (if f_import_invocation_recorded (flow s) then f_stored_generation (flow s)
        else f_store_generation (flow s))\<rparr>"
    by (simp add: n_def reads)
  obtain s2 where c: "clock_source_of E ?s1 = (clock_at E n, s2)"
      and s2: "flow s2 = (flow ?s1)\<lparr>f_calls := n + clock_calls E\<rparr>"
    using clock_source_flow [of E ?s1] by (auto simp: s1)
  let ?s3 = "(emit (EvtImport (f_rid (flow s)) (f_pending_items (flow s)) True EcSuccess res) (called s2))
      \<lparr>c_import_attempted := True, c_pending_items := [], c_pending_callback := False\<rparr>"
  let ?s4 = "persist E ((count_in (\<lambda>n. n\<lparr>cn_imports_committed := cn_imports_committed n + 1\<rparr>) (?s3\<lparr>c_ack_items := items\<rparr>))
      \<lparr>c_state := ACK_PENDING, c_ack_sent := False, c_status_sent := False\<rparr>)"
  have r: "ir_state res = ImpCommitted" "length items = length (cfg_purposes (f_config (flow s)))" "items \<noteq> []"
    using assms(9) by (auto simp: binds_def items_def build_ack_items_def)
  have b: "import_result_bindable (e_sc E) ?s3 res = None"
    using assms(9) by (simp add: import_result_bindable_def binds_def reads s2 s1)
  have lc: "c_config (emit e (called s2)) = f_config (flow s)" for e by (simp add: reads s2 s1)
  have "do_import E s = call_import E s2"
    using assms(3,6,7) c by (simp add: do_import_def reads s2 s1 Let_def)
  also have "\<dots> = handle_import_result E EcSuccess res
      ((emit (EvtImport (f_rid (flow s)) (f_pending_items (flow s)) True EcSuccess res) (called s2))\<lparr>c_import_attempted := True\<rparr>)"
    using assms(5,8) by (simp add: call_import_def reads s2 s1)
  also have "\<dots> = import_committed E res
      ((emit (EvtImport (f_rid (flow s)) (f_pending_items (flow s)) True EcSuccess res) (called s2))
        \<lparr>c_import_attempted := True, c_pending_items := []\<rparr>)"
    using r(1) by (simp add: handle_import_result_def)
  also have "\<dots> = do_ack E ?s4"
    using b r(2) by (simp add: import_committed_def lc items_def [symmetric])
  finally have d: "do_import E s = do_ack E ?s4" .
  have s4: "flow ?s4 = (flow s)\<lparr>f_state := ACK_PENDING, f_import_invocation_recorded := True,
      f_import_attempted := True, f_pending_items := [], f_ack_items := items, f_ack_sent := False, f_status_sent := False,
      f_stored_generation := f_store_generation (flow s), f_calls := n + clock_calls E + 3,
      f_sent := EvtImport (f_rid (flow s)) (f_pending_items (flow s)) True EcSuccess res # f_sent (flow s)\<rparr>"
    by (simp add: s2 s1 not_stored_def)
  show ?thesis
    using fresh_ack_flow [of ?s4 E] assms(4,10-13) r(3) unfolding d s4 by (simp add: items_def)
qed

section \<open>From the response to ACTIVE\<close>

text \<open>The lease of a response holds through these calls, and the acknowledgement is in time.\<close>

definition lease_holds :: "env \<Rightarrow> kl1_params \<Rightarrow> int \<Rightarrow> nat \<Rightarrow> nat \<Rightarrow> bool" where
  "lease_holds E p e i j \<longleftrightarrow> 0 < e \<and> (\<forall>n. i \<le> n \<and> n < j \<longrightarrow> utc_upper (clock_at E n) < e
     \<and> keyprov_lease_acceptable (utc_upper (clock_at E n)) e p \<and> e_utc E n < keyprov_ack_safe_deadline_ms e p)"

lemma confirmed:
  assumes "f_state (flow s) = ACK_PENDING" "ad_result a = kKeyProvResultSucceeded"
    and "\<not> keyprov_is_idempotency_conflict (ad_error a)"
  shows "flow (handle_ack_result E a s) = (flow s)\<lparr>f_state := ACTIVE, f_submission := kSubmissionConfirmed,
      f_import_attempted := False, f_recovering_ack := False, f_stored_generation := f_store_generation (flow s), f_calls := f_calls (flow s) + 2\<rparr>"
  using assms
  by (simp add: handle_ack_result_def activate_def reads Let_def)

text \<open>The tick of a coordinator that holds an accepted response.\<close>

lemma importing_tick:
  assumes "f_state (flow s) = IMPORTING" "cfg_enabled (f_config (flow s))" "\<not> f_stopping (flow s)"
    and "cloud_open (f_cloud (flow s)) (f_capability (flow s))" "\<not> f_import_attempted (flow s)"
    and "behaves E (f_calls (flow s)) (f_calls (flow s) + 20)"
    and "lease_holds E (f_kl1_params (flow s)) (f_lease_expires_at_ms (flow s)) (f_calls (flow s)) (f_calls (flow s) + 20)"
    and "f_ack_safe_deadline_ms (flow s) = keyprov_ack_safe_deadline_ms (f_lease_expires_at_ms (flow s)) (f_kl1_params (flow s))"
    and "bl_ack_safe_deadline_at_ms (f_budget (flow s)) = f_ack_safe_deadline_ms (flow s)"
    and "bl_ack_send_count (f_budget (flow s)) < kp_ack_limit (f_kl1_params (flow s))"
    and "\<And>n. f_calls (flow s) \<le> n \<Longrightarrow> n < f_calls (flow s) + 20 \<Longrightarrow> e_sec_import E n = (EcSuccess, res)"
    and "binds (e_sc E) (f_config (flow s)) (f_response_binding (flow s)) res"
    and "\<And>now mid. \<exists>b. build_keyprov_ack_envelope (e_pb E) (cloud_identity (f_cloud (flow s))) (f_rid (flow s))
           (build_ack_items (e_sc E) res) now mid (f_last_response_message_id (flow s)) = Inr b"
  shows "\<exists>b m. flow (tick E s) = (flow s)\<lparr>f_sec_lease_admission_supported := True, f_kl1_snapshot_available := True,
      f_identity := cloud_identity (f_cloud (flow s)), f_identity_valid := True,
      f_state := ACK_PENDING, f_import_invocation_recorded := True,
      f_import_attempted := True, f_pending_items := [], f_ack_items := build_ack_items (e_sc E) res,
      f_ack_sent := True, f_status_sent := False,
      f_budget := b, f_stored_generation := f_store_generation (flow s), f_calls := m,
      f_sent := EvtPublish (MkAck (build_ack_items (e_sc E) res)) (f_rid (flow s))
          (si_session (cloud_identity (f_cloud (flow s)))) True
        # EvtImport (f_rid (flow s)) (f_pending_items (flow s)) True EcSuccess res # f_sent (flow s)\<rparr>"
proof -
  let ?c = "f_calls (flow s)"
  obtain t where k: "tick E s = run_state E (e_utc E (?c + 3)) t"
    and t: "flow t = (flow s)\<lparr>f_sec_lease_admission_supported := True, f_kl1_snapshot_available := True,
      f_identity := cloud_identity (f_cloud (flow s)), f_identity_valid := True, f_calls := ?c + 4\<rparr>"
    using tick_runs [of s E] assms(2-4,6) by (auto simp: behaves_def)
  have "tick E s = do_import E t" using assms(1) by (simp add: k run_state_def reads t)
  moreover define n where "n = ?c + 4 + (if f_import_invocation_recorded (flow s) then 0 else 2)"
  have n: "?c \<le> n" "n + clock_calls E + 6 < ?c + 20" by (simp_all add: n_def clock_calls_def)
  have l: "keyprov_lease_acceptable (utc_upper (clock_at E n)) (f_lease_expires_at_ms (flow s)) (f_kl1_params (flow s))"
    "e_utc E (n + clock_calls E + 3) < f_ack_safe_deadline_ms (flow s)" "0 < f_lease_expires_at_ms (flow s)"
    using assms(7,8) n by (auto simp: lease_holds_def)
  have a: "ack_ok (f_kl1_params (flow s)) (e_utc E (n + clock_calls E + 3)) (f_budget (flow s))"
    using l(2) assms(9,10) by (simp add: ack_ok_def)
  have p: "taken_up (e_publish E (n + clock_calls E + 3 + 3))" "e_sec_import E (n + clock_calls E) = (EcSuccess, res)"
    using assms(6,11) n by (auto simp: behaves_def)
  have "flow (do_import E t) = (flow t)\<lparr>f_state := ACK_PENDING, f_import_invocation_recorded := True,
      f_import_attempted := True, f_pending_items := [], f_ack_items := build_ack_items (e_sc E) res,
      f_ack_sent := True, f_status_sent := False,
      f_budget := preconsume_ack (f_kl1_params (flow t)) (e_utc E (n + clock_calls E + 3)) (f_budget (flow t)),
      f_stored_generation := f_store_generation (flow t), f_calls := n + clock_calls E + 9,
      f_sent := EvtPublish (MkAck (build_ack_items (e_sc E) res)) (f_rid (flow t)) (si_session (f_identity (flow t))) True
        # EvtImport (f_rid (flow t)) (f_pending_items (flow t)) True EcSuccess res # f_sent (flow t)\<rparr>"
    using import_flow [of t E res] assms(5,12,13) l a p by (simp add: t n_def)
  ultimately show ?thesis
    by (intro exI [of _ "preconsume_ack (f_kl1_params (flow t)) (e_utc E (n + clock_calls E + 3)) (f_budget (flow t))"]
        exI [of _ "n + clock_calls E + 9"]) (simp add: t)
qed

text \<open>
  C3. Provisioning completes. A coordinator waits for the response to its Request; for the next forty
  calls the gate is open, the clock sound, publications are taken and SEC answers an import with a
  committed result that binds to the response. Then the response, one tick and the confirmation of
  the acknowledgement take it to ACTIVE, and in this it does exactly two things outside: it imports
  the items of the response under its request id, and acknowledges what was committed.
\<close>

theorem provisioning_completes:
  assumes "c_state s = WAIT_RESPONSE" "cfg_enabled (c_config s)" "\<not> c_stopping s" "cloud_open (c_cloud s) (c_capability s)"
    and "r_request_id (c_record s) \<noteq> []" "awaited (flow s)"
    and "bl_ack_send_count (c_budget s) < kp_ack_limit (c_kl1_params s)"
    and "behaves E (c_calls s) (c_calls s + 40)"
    and "for_keyprov (c_config s) e1" "decode_keyprov_envelope (e_pb E) (e_sc E) (rde_payload e1) = Inr d1"
    and "dc_body d1 = DecResponse r" "dc_request_id (dc_body d1) = r_request_id (c_record s)"
    and "rd_result r = kKeyProvResultSucceeded" "keyprov_response_valid (e_sc E) (c_config s) r = None"
    and "lease_holds E (c_kl1_params s) (rd_expire_at_ms r) (c_calls s) (c_calls s + 40)"
    and "\<And>n. c_calls s \<le> n \<Longrightarrow> n < c_calls s + 40 \<Longrightarrow> e_sec_import E n = (EcSuccess, res)"
    and "binds (e_sc E) (c_config s) (map binding_of (rd_items r)) res"
    and "\<And>now mid. \<exists>b. build_keyprov_ack_envelope (e_pb E) (cloud_identity (c_cloud s)) (r_request_id (c_record s))
           (build_ack_items (e_sc E) res) now mid (dc_message_id d1) = Inr b"
    and "for_keyprov (c_config s) e2" "decode_keyprov_envelope (e_pb E) (e_sc E) (rde_payload e2) = Inr d2"
    and "dc_body d2 = DecAckResult a" "dc_request_id (dc_body d2) = r_request_id (c_record s)"
    and "ad_result a = kKeyProvResultSucceeded" "\<not> keyprov_is_idempotency_conflict (ad_error a)"
    and t: "t = foldl (\<lambda>s ev. coord_step E ev s) s [DownlinkEvent e1, TickEvent, DownlinkEvent e2]"
  shows "c_state t = ACTIVE \<and> c_submission t = kSubmissionConfirmed
    \<and> filter not_stored (c_trace t) =
        EvtPublish (MkAck (build_ack_items (e_sc E) res)) (r_request_id (c_record s)) (cl_session (c_cloud s)) True
        # EvtImport (r_request_id (c_record s)) (rd_items r) True EcSuccess res # filter not_stored (c_trace s)"
proof -
  note fl = assms(1-24) [unfolded reads]
  let ?c = "f_calls (flow s)"
  have cc: "clock_calls E \<le> 3" by (simp add: clock_calls_def)
  have good: "good_response E (f_config (flow s)) (f_kl1_params (flow s)) (utc_upper (clock_at E ?c)) r"
    using fl(13-15) by (simp add: good_response_def lease_holds_def)
  obtain s0 where s0: "flow s0 = flow s" "handle_routed_downlink E e1 s = handle_response E (dc_message_id d1) r s0"
    using downlink_delivered [OF fl(9) fl(6) fl(10) fl(12) fl(5)] fl(11) by auto
  define s1 where "s1 = handle_routed_downlink E e1 s"
  have s1: "flow s1 = (flow s)\<lparr>f_state := IMPORTING, f_pending_items := rd_items r,
      f_response_binding := map binding_of (rd_items r), f_last_response_message_id := dc_message_id d1, f_import_attempted := False,
      f_lease_expires_at_ms := rd_expire_at_ms r,
      f_ack_safe_deadline_ms := keyprov_ack_safe_deadline_ms (rd_expire_at_ms r) (f_kl1_params (flow s)),
      f_budget := (f_budget (flow s))\<lparr>bl_ack_safe_deadline_at_ms :=
        keyprov_ack_safe_deadline_ms (rd_expire_at_ms r) (f_kl1_params (flow s))\<rparr>,
      f_stored_generation := f_store_generation (flow s), f_calls := ?c + clock_calls E + 2\<rparr>"
    using response_taken [of s0 E r "dc_message_id d1"] fl(1) good by (simp add: s1_def s0)
  have later: "behaves E (f_calls (flow s1)) (f_calls (flow s1) + 20)"
    "lease_holds E (f_kl1_params (flow s1)) (f_lease_expires_at_ms (flow s1)) (f_calls (flow s1)) (f_calls (flow s1) + 20)"
    using fl(8,15) cc by (auto simp: behaves_def lease_holds_def s1)
  have imp: "e_sec_import E n = (EcSuccess, res)" if "f_calls (flow s1) \<le> n" "n < f_calls (flow s1) + 20" for n
    using fl(16) [of n] that cc by (simp add: s1)
  obtain b m where s2: "flow (tick E s1) = (flow s1)\<lparr>f_sec_lease_admission_supported := True, f_kl1_snapshot_available := True,
      f_identity := cloud_identity (f_cloud (flow s1)), f_identity_valid := True,
      f_state := ACK_PENDING, f_import_invocation_recorded := True,
      f_import_attempted := True, f_pending_items := [], f_ack_items := build_ack_items (e_sc E) res,
      f_ack_sent := True, f_status_sent := False,
      f_budget := b, f_stored_generation := f_store_generation (flow s1), f_calls := m,
      f_sent := EvtPublish (MkAck (build_ack_items (e_sc E) res)) (f_rid (flow s1))
          (si_session (cloud_identity (f_cloud (flow s1)))) True
        # EvtImport (f_rid (flow s1)) (f_pending_items (flow s1)) True EcSuccess res # f_sent (flow s1)\<rparr>"
    using importing_tick [of s1 E res, OF _ _ _ _ _ later _ _ _ imp] fl(2-4,7,17,18) by (auto simp: s1)
  have aw: "awaited (flow (tick E s1))" using fl(6) by (simp add: awaited_def s2 s1)
  obtain s3 where s3: "flow s3 = flow (tick E s1)" "handle_routed_downlink E e2 (tick E s1) = handle_ack_result E a s3"
    using downlink_delivered [of "tick E s1" e2 E d2] fl(5,19-22) aw by (auto simp: s2 s1)
  have "t = handle_ack_result E a s3" by (simp add: t s1_def [symmetric] s3(2))
  then have f: "flow t = (flow s3)\<lparr>f_state := ACTIVE, f_submission := kSubmissionConfirmed,
      f_import_attempted := False, f_recovering_ack := False, f_stored_generation := f_store_generation (flow s3),
      f_calls := f_calls (flow s3) + 2\<rparr>"
    using confirmed [of s3 a E] fl(23,24) by (simp add: s3 s2)
  show ?thesis by (simp add: reads f s3 s2 s1 cloud_identity_def)
qed

section \<open>The concrete course\<close>

text \<open>In the environment of the scenario a coordinator that waits for the cloud reaches ACTIVE.\<close>

definition lab_waiting :: coord where
  "lab_waiting = coord0\<lparr>c_config := lab_config, c_state := WAIT_CLOUD, c_cloud := lab_cloud,
     c_capability := lab_capability, c_kl1_params := kl1_default\<rparr>"

lemma lab_config_parts:
  "cfg_enabled lab_config" "cfg_business_domain lab_config = ''V2C_COMM''"
  "cfg_purposes lab_config = [''UPLINK_AEAD'', ''DOWNLINK_AEAD'']" "cfg_route_down lab_config = ''keyprov.downlink''"
  by (simp_all add: lab_config_def default_config_def)

lemma lab_identity_valid: "keyprov_validate_identity lab_identity = Inr ()"
  using identity_ex_valid by (simp add: keyprov_validate_identity_def lab_identity_def split: if_splits)

lemma lab_cloud_identity: "cloud_identity lab_cloud = lab_identity"
  by (simp add: cloud_identity_def lab_cloud_def)

lemma lab_open: "cloud_open lab_cloud lab_capability"
  by (simp add: cloud_open_def cloud_gate_def lab_cloud_identity lab_identity_valid,
      simp add: lab_cloud_def no_cloud_def lab_capability_def lab_identity_def identity_ex_def
        keyprov_is_canonical_uid_def uid_char_def)

lemma lab_lock_ready: "is_sha256_hex (rl_descriptor_set_hash lab_lock) \<and> is_sha256_hex (rl_golden_vector_set_hash lab_lock)"
  by code_simp

lemma lab_behaves: "behaves lab_env i j"
  using lab_lock_ready
  by (simp add: behaves_def sec_ready_def sec_admits_def taken_up_def lab_env_def toy_sec_def
      readiness_all_def keyprov_apply_sec_capability_def keyprov_build_lock_readiness_def)
    (simp add: lab_lock_def)

lemma lab_candidate:
  "case keyprov_build_attempt_snapshot toy_hash ''V2C_COMM'' [''UPLINK_AEAD'', ''DOWNLINK_AEAD'']
     lab_identity [] (keyprov_protocol_lock_digest_v1 toy_hash lab_lock) of Inl _ \<Rightarrow> False
   | Inr c \<Rightarrow> fingerprint_guards c = None \<and> as_business_domain c = ''V2C_COMM'' \<and> as_purposes c = [1, 2]
      \<and> as_wrapping_suites c = [2] \<and> as_envelope_formats c = [1] \<and> as_current_versions c = []"
  by code_simp

lemma lab_digests:
  "case (keyprov_normalize_digest (si_device_identity_digest lab_identity),
      keyprov_normalize_digest (si_certificate_ref lab_identity)) of
     (Some a, Some b) \<Rightarrow> a \<noteq> [] \<and> b \<noteq> [] | _ \<Rightarrow> False"
  by code_simp

lemma lab_request_encodes:
  assumes "fingerprint_guards c = None" "as_business_domain c = ''V2C_COMM''" "as_purposes c = [1, 2]"
    and "as_wrapping_suites c = [2]" "as_envelope_formats c = [1]" "as_current_versions c = []"
    and "rid \<noteq> []" "length rid \<le> 128" "dig \<noteq> []" "length dig \<le> 128"
  shows "encodes_request lab_env lab_config lab_identity c rid dig"
proof -
  obtain a b where d: "keyprov_normalize_digest (si_device_identity_digest lab_identity) = Some a" "a \<noteq> []"
    "keyprov_normalize_digest (si_certificate_ref lab_identity) = Some b" "b \<noteq> []"
    using lab_digests by (auto split: option.splits)
  show ?thesis
    using assms d
    by (simp add: encodes_request_def request_of_attempt_def lab_env_def lab_pb_def toy_pb_def build_keyprov_request_envelope_def
        request_guards_def lab_identity_valid serialize_envelope_def fill_common_def str_within_def lab_config_parts Let_def)
     (simp add: lab_identity_def identity_ex_def kKeyprovBusinessDomainV2c_def)
qed

definition lab_awaiting :: coord where
  "lab_awaiting = coord0\<lparr>c_config := lab_config, c_state := WAIT_RESPONSE, c_cloud := lab_cloud,
     c_capability := lab_capability, c_kl1_params := kl1_default,
     c_record := empty_record\<lparr>r_request_id := lab_rid\<rparr>\<rparr>"

definition lab_routed :: "u8 \<Rightarrow> routed_downlink" where
  "lab_routed b = \<lparr>rde_owner = ''tsp'', rde_route_id = ''keyprov.downlink'',
     rde_target = ''tsp.keyprov'', rde_payload = [b]\<rparr>"

definition lab_received :: response_data where
  "lab_received = \<lparr>rd_request_id = lab_rid, rd_result = kKeyProvResultSucceeded, rd_expire_at_ms = 1000000,
     rd_error = no_error, rd_items = map (wrapped_item_of toy_sec) (pr_items lab_response)\<rparr>"

lemma wrapped_ex_passes: "wrapped_item_guard wrapped_ex = None \<and> wrapped_item_guard (wrapped_ex\<lparr>pw_purpose := 2\<rparr>) = None"
  by (simp add: wrapped_ex_def wrapped_item_guard_ok keyprov_wrapping_suite_from_string_def
      kKeyprovSuiteEcdhEsP256_def kKeyprovSuiteHpkeBaseX25519_def)

lemma lab_decodes_response:
  "decode_keyprov_envelope lab_pb toy_sec [1] = Inr \<lparr>dc_message_id = ''m'', dc_body = DecResponse lab_received\<rparr>"
  using wrapped_ex_passes
  by (simp add: decode_keyprov_envelope_def decode_response_def lab_pb_def lab_envelope_def fill_common_def lab_received_def lab_response_def
      fill_error_def decode_wrapped_items_ok)

lemma lab_decodes_ack_result:
  "decode_keyprov_envelope lab_pb toy_sec [2] = Inr \<lparr>dc_message_id = ''m'', dc_body = DecAckResult
     \<lparr>ad_request_id = lab_rid, ad_result = kKeyProvResultSucceeded, ad_occurred_at_ms = 9, ad_error = no_error\<rparr>\<rparr>"
  by code_simp

lemma lab_response_valid: "keyprov_response_valid toy_sec lab_config lab_received = None"
  by code_simp

lemma lab_binds: "binds toy_sec lab_config (map binding_of (rd_items lab_received)) lab_committed"
  by code_simp

lemma lab_ack_items:
  "\<exists>items. ack_items_message (build_ack_items toy_sec lab_committed) = Inr items"
  "length (build_ack_items toy_sec lab_committed) = 2"
  by (simp_all add: build_ack_items_def lab_committed_def lab_item_def ack_item_of_def ack_item_guard_def str_within_def
      toy_sec_def)

lemma lab_ack_encodes:
  "\<exists>b. build_keyprov_ack_envelope lab_pb lab_identity lab_rid (build_ack_items toy_sec lab_committed) now mid corr = Inr b"
proof -
  obtain items where i: "ack_items_message (build_ack_items toy_sec lab_committed) = Inr items"
    using lab_ack_items(1) by blast
  have "lab_rid \<noteq> []" by (simp add: lab_rid_def)
  then show ?thesis
    by (simp add: build_keyprov_ack_envelope_def lab_identity_valid i lab_ack_items(2) lab_pb_def toy_pb_def
        serialize_envelope_def fill_common_def)
      (simp add: lab_identity_def identity_ex_def)
qed

lemma lab_lease_holds: "j \<le> 100 \<Longrightarrow> lease_holds lab_env kl1_default 1000000 i j"
  by (simp add: lease_holds_def clock_at_def lab_env_def utc_upper_def clock_default_def kl1_default_def
      keyprov_lease_acceptable_def keyprov_ack_safe_deadline_ms_def)

lemma lab_waiting_parts:
  "c_state lab_waiting = WAIT_CLOUD" "c_config lab_waiting = lab_config" "\<not> c_stopping lab_waiting"
  "c_cloud lab_waiting = lab_cloud" "c_capability lab_waiting = lab_capability"
  "c_next_retry_ms lab_waiting = 0" "c_fingerprint_version lab_waiting = 0" "\<not> c_sec_outcome_unknown lab_waiting"
  "c_successor_request_id lab_waiting = []" "c_kl1_params lab_waiting = kl1_default" "c_calls lab_waiting = 0"
  "c_trace lab_waiting = []"
  by (simp_all add: lab_waiting_def) (simp_all add: coord0_def)

theorem request_goes_out_witness:
  "c_state (tick lab_env lab_waiting) = WAIT_RESPONSE
    \<and> filter not_stored (c_trace (tick lab_env lab_waiting)) =
        [EvtPublish MkRequest lab_rid (cl_session lab_cloud) True, EvtNewAttempt lab_rid]"
proof -
  obtain c where b: "keyprov_build_attempt_snapshot toy_hash ''V2C_COMM'' [''UPLINK_AEAD'', ''DOWNLINK_AEAD'']
      lab_identity [] (keyprov_protocol_lock_digest_v1 toy_hash lab_lock) = Inr c"
    and g: "fingerprint_guards c = None" "as_business_domain c = ''V2C_COMM''" "as_purposes c = [1, 2]"
      "as_wrapping_suites c = [2]" "as_envelope_formats c = [1]" "as_current_versions c = []"
    using lab_candidate by (auto split: sum.splits)
  obtain fp where "candidate_of lab_env lab_config lab_identity [] c fp"
    using b g(1) by (auto simp: candidate_of_def lab_identity_valid lab_config_parts lab_env_def
      keyprov_compute_attempt_fingerprint_v1_def)
  moreover have rid: "drawn_id lab_env n = lab_rid" for n
    by (simp add: drawn_id_def lab_rid_def lab_env_def) code_simp
  moreover have l: "length (generate_digest lab_env x) = 64" for x
    by (simp add: generate_digest_def lab_env_def toy_hash_def)
  moreover have ne: "generate_digest lab_env x \<noteq> []" for x using l [of x] by auto
  moreover have "encodes_request lab_env lab_config lab_identity c lab_rid
      (generate_digest lab_env (lab_rid @ ''|'' @ cfg_business_domain lab_config))"
    by (rule lab_request_encodes) (use g l ne in \<open>simp_all add: lab_rid_def\<close>)
  ultimately show ?thesis
    using request_goes_out [of lab_waiting lab_env "[]" c fp] lab_open lab_behaves
    by (simp add: lab_waiting_parts lab_config_parts lab_cloud_identity kl1_default_def lab_env_def purposes_complete_def)
qed

lemma lab_awaiting_parts:
  "c_state lab_awaiting = WAIT_RESPONSE" "c_config lab_awaiting = lab_config" "\<not> c_stopping lab_awaiting"
  "c_cloud lab_awaiting = lab_cloud" "c_capability lab_awaiting = lab_capability"
  "r_request_id (c_record lab_awaiting) = lab_rid" "lab_rid \<noteq> []" "awaited (flow lab_awaiting)"
  "bl_ack_send_count (c_budget lab_awaiting) = 0" "c_kl1_params lab_awaiting = kl1_default" "c_calls lab_awaiting = 0"
  "c_trace lab_awaiting = []"
  by (simp_all add: lab_awaiting_def lab_rid_def awaited_def flow_def) (simp_all add: coord0_def empty_ledger_def)

theorem provisioning_completes_witness:
  "\<exists>t. t = foldl (\<lambda>s ev. coord_step lab_env ev s) lab_awaiting [lab_downlink 1, TickEvent, lab_downlink 2]
    \<and> c_state t = ACTIVE
    \<and> filter not_stored (c_trace t) =
        [EvtPublish (MkAck (build_ack_items toy_sec lab_committed)) lab_rid (cl_session lab_cloud) True,
         EvtImport lab_rid (rd_items lab_received) True EcSuccess lab_committed]"
proof -
  let ?a = "\<lparr>ad_request_id = lab_rid, ad_result = kKeyProvResultSucceeded, ad_occurred_at_ms = 9, ad_error = no_error\<rparr>"
  have e: "e_pb lab_env = lab_pb" "e_sc lab_env = toy_sec" "\<And>n. e_sec_import lab_env n = (EcSuccess, lab_committed)"
    by (simp_all add: lab_env_def)
  have r: "rd_result lab_received = kKeyProvResultSucceeded" "rd_expire_at_ms lab_received = 1000000"
    "rd_request_id lab_received = lab_rid" by (simp_all add: lab_received_def)
  have k: "\<not> keyprov_is_idempotency_conflict no_error" "0 < kp_ack_limit kl1_default"
    by (simp_all add: keyprov_is_idempotency_conflict_def no_error_def kl1_default_def)
  have d: "lab_downlink b = DownlinkEvent (lab_routed b)" "for_keyprov lab_config (lab_routed b)"
    "rde_payload (lab_routed b) = [b]" for b
    by (simp_all add: lab_downlink_def lab_routed_def for_keyprov_def lab_config_parts)
  have "c_state t = ACTIVE \<and> c_submission t = kSubmissionConfirmed
    \<and> filter not_stored (c_trace t) =
        EvtPublish (MkAck (build_ack_items (e_sc lab_env) lab_committed)) (r_request_id (c_record lab_awaiting))
          (cl_session (c_cloud lab_awaiting)) True
        # EvtImport (r_request_id (c_record lab_awaiting)) (rd_items lab_received) True EcSuccess lab_committed
        # filter not_stored (c_trace lab_awaiting)"
    if "t = foldl (\<lambda>s ev. coord_step lab_env ev s) lab_awaiting [lab_downlink 1, TickEvent, lab_downlink 2]" for t
    by (rule provisioning_completes [where ?e1.0 = "lab_routed 1" and ?e2.0 = "lab_routed 2"
        and ?d1.0 = "\<lparr>dc_message_id = ''m'', dc_body = DecResponse lab_received\<rparr>"
        and ?d2.0 = "\<lparr>dc_message_id = ''m'', dc_body = DecAckResult ?a\<rparr>" and a = ?a])
      (simp_all add: that d e r k lab_awaiting_parts lab_config_parts lab_open lab_behaves lab_lease_holds lab_ack_encodes
        lab_binds lab_response_valid lab_decodes_response lab_decodes_ack_result lab_cloud_identity)
  then show ?thesis by (simp add: e lab_awaiting_parts)
qed

end
