(* ===== verification/CoordWorker.thy ===== *)
theory CoordWorker
  imports CoordBehaviour
begin

text \<open>
  The worker thread of the coordinator (\<open>worker_loop\<close>, \<open>start\<close>, \<open>stop\<close>, \<open>beginShutdown\<close> and the
  readiness callbacks of v2c\_key\_provisioning\_coordinator.cpp): the mutex, the condition variable
  and the two atomics it shares with the callbacks and with whoever stops it.
\<close>

section \<open>Only start and the shutdown touch the stop flag\<close>

lemma stopping_1 [simp]:
  "c_stopping (called s) = c_stopping s" "c_stopping (emit a s) = c_stopping s"
  "c_stopping (count_in b s) = c_stopping s" "c_stopping (set_last_error w s) = c_stopping s"
  "c_stopping (snd (reconcile_obs_suppressed i c i2 i3 s)) = c_stopping s"
  "c_stopping (invalidate_identity s) = c_stopping s" "c_stopping (update_sec_capability_epoch d f s) = c_stopping s"
  "c_stopping (mark_awaiting s) = c_stopping s" "c_stopping (terminalize_old s) = c_stopping s"
  "c_stopping (freeze_attempt E g h s) = c_stopping s" "c_stopping (reset_attempt_members s) = c_stopping s"
  by (simp_all add: Let_def case_prod_beta called_def emit_def count_in_def set_last_error_def 
      reconcile_obs_suppressed_def invalidate_identity_def update_sec_capability_epoch_def mark_awaiting_def 
      terminalize_old_def freeze_attempt_def reset_attempt_members_def split: sum.split option.split)

lemma stopping_2 [simp]:
  "c_stopping (snd (now_ms E s)) = c_stopping s" "c_stopping (snd (now_monotonic_ms E s)) = c_stopping s"
  "c_stopping (snd (clock_check_ok E s)) = c_stopping s" "c_stopping (snd (generate_id E w s)) = c_stopping s"
  "c_stopping (snd (with_jitter E j s)) = c_stopping s" "c_stopping (transition_to q s) = c_stopping s"
  "c_stopping (count_blocked_reason w s) = c_stopping s" "c_stopping (apply_cloud_readiness l s) = c_stopping s"
  "c_stopping (apply_capability_readiness m s) = c_stopping s" "c_stopping (refresh_sec_readiness E s) = c_stopping s"
  "c_stopping (snd (query_sec_status E s)) = c_stopping s" "c_stopping (count_fingerprint_change g s) = c_stopping s"
  "c_stopping (count_status_request s) = c_stopping s" "c_stopping (snd (query_import_result E s)) = c_stopping s"
  "c_stopping (count_import_failed s) = c_stopping s" "c_stopping (activate s) = c_stopping s"
  "c_stopping (count_stabilization w s) = c_stopping s" "c_stopping (count_rejected s) = c_stopping s"
  "c_stopping (count_conflict s) = c_stopping s"
  by (simp_all add: Let_def case_prod_beta now_ms_def now_monotonic_ms_def clock_check_ok_def generate_id_def 
      with_jitter_def transition_to_def count_blocked_reason_def apply_cloud_readiness_def 
      apply_capability_readiness_def refresh_sec_readiness_def query_sec_status_def count_fingerprint_change_def 
      count_status_request_def query_import_result_def count_import_failed_def activate_def 
      count_stabilization_def count_rejected_def count_conflict_def split: sum.split option.split)

lemma stopping_3 [simp]:
  "c_stopping (snd (clock_source_of E s)) = c_stopping s" "c_stopping (schedule_retry E s) = c_stopping s"
  "c_stopping (schedule_status_retry E s) = c_stopping s" "c_stopping (persist E s) = c_stopping s"
  "c_stopping (record_conflict_facts w s) = c_stopping s" "c_stopping (refresh_readiness E s) = c_stopping s"
  "c_stopping (snd (capability_gate E s)) = c_stopping s" "c_stopping (snd (build_candidate E s)) = c_stopping s"
  "c_stopping (choose_request_id E s) = c_stopping s" "c_stopping (reset_not_found_stabilization w s) = c_stopping s"
  "c_stopping (snd (stabilisation_reached E s)) = c_stopping s"
  "c_stopping (snd (status_deadline_passed E s)) = c_stopping s"
  by (simp_all add: Let_def case_prod_beta clock_source_of_def schedule_retry_def schedule_status_retry_def 
      persist_def record_conflict_facts_def refresh_readiness_def capability_gate_def build_candidate_def 
      choose_request_id_def reset_not_found_stabilization_def stabilisation_reached_def 
      status_deadline_passed_def split: sum.split option.split)

lemma stopping_4 [simp]:
  "c_stopping (enter_reconcile_old_attempt E w w2 s) = c_stopping s"
  "c_stopping (enter_reconcile_evidence E w s) = c_stopping s" "c_stopping (enter_hard_blocked E w s) = c_stopping s"
  "c_stopping (publish_rejected E n s) = c_stopping s" "c_stopping (candidate_failed E w s) = c_stopping s"
  "c_stopping (freeze_current_input E s) = c_stopping s" "c_stopping (retry_after E w s) = c_stopping s"
  "c_stopping (blocked_with E w s) = c_stopping s"
  "c_stopping (restart_not_found_stabilization_for p s) = c_stopping s"
  "c_stopping (prove_no_side_effects E s) = c_stopping s" "c_stopping (journal_weak_not_found E s) = c_stopping s"
  "c_stopping (note_contrary_round s) = c_stopping s" "c_stopping (matrix_wait E i r w q s) = c_stopping s"
  "c_stopping (await_remote_repair E s) = c_stopping s" "c_stopping (status_idempotency_conflict E w s) = c_stopping s"
  "c_stopping (gate_closed E w s) = c_stopping s" "c_stopping (accept_response E w t s) = c_stopping s"
  by (simp_all add: Let_def case_prod_beta enter_reconcile_old_attempt_def enter_reconcile_evidence_def 
      enter_hard_blocked_def publish_rejected_def candidate_failed_def freeze_current_input_def retry_after_def 
      blocked_with_def restart_not_found_stabilization_for_def prove_no_side_effects_def 
      journal_weak_not_found_def note_contrary_round_def matrix_wait_def await_remote_repair_def 
      status_idempotency_conflict_def gate_closed_def accept_response_def split: sum.split option.split)

lemma stopping_5 [simp]:
  "c_stopping (snd (publish_keyprov E k w bs w2 s)) = c_stopping s"
  "c_stopping (handle_expired_response E s) = c_stopping s" "c_stopping (on_response_timeout E s) = c_stopping s"
  "c_stopping (observe_not_found E p s) = c_stopping s" "c_stopping (snd (journal_contrary E p s)) = c_stopping s"
  "c_stopping (retry_or_reconcile E s) = c_stopping s" "c_stopping (handle_ack_result E u s) = c_stopping s"
  by (simp_all add: Let_def case_prod_beta publish_keyprov_def handle_expired_response_def 
      on_response_timeout_def observe_not_found_def journal_contrary_def retry_or_reconcile_def 
      handle_ack_result_def split: sum.split option.split)

lemma stopping_6 [simp]:
  "c_stopping (send_request E s) = c_stopping s" "c_stopping (send_status_request E s) = c_stopping s"
  "c_stopping (send_ack E i s) = c_stopping s" "c_stopping (ack_retry_status E i s) = c_stopping s"
  "c_stopping (stabilise E p s) = c_stopping s" "c_stopping (response_failed E t s) = c_stopping s"
  by (simp_all add: Let_def case_prod_beta send_request_def send_status_request_def send_ack_def 
      ack_retry_status_def stabilise_def response_failed_def split: sum.split option.split)

lemma stopping_7 [simp]:
  "c_stopping (do_request E s) = c_stopping s" "c_stopping (ack_with_items E s) = c_stopping s"
  "c_stopping (snd (journal_strong_not_found E p s)) = c_stopping s" "c_stopping (poll_status E i s) = c_stopping s"
  "c_stopping (handle_response E w t s) = c_stopping s"
  by (simp_all add: Let_def case_prod_beta do_request_def ack_with_items_def journal_strong_not_found_def 
      poll_status_def handle_response_def split: sum.split option.split)

lemma stopping_8 [simp]:
  "c_stopping (create_new_attempt E s) = c_stopping s" "c_stopping (snd (maybe_freshen E s)) = c_stopping s"
  "c_stopping (do_ack E s) = c_stopping s"
  by (simp_all add: Let_def case_prod_beta create_new_attempt_def maybe_freshen_def do_ack_def split: sum.split option.split)

lemma stopping_9 [simp]:
  "c_stopping (supersede_remote_once E s) = c_stopping s" "c_stopping (import_committed E v s) = c_stopping s"
  "c_stopping (check_incomplete E s) = c_stopping s" "c_stopping (journal_committed E v s) = c_stopping s"
  by (simp_all add: Let_def case_prod_beta supersede_remote_once_def import_committed_def check_incomplete_def 
      journal_committed_def split: sum.split option.split)

lemma stopping_10 [simp]:
  "c_stopping (handle_import_result E d v s) = c_stopping s" "c_stopping (do_check E s) = c_stopping s"
  "c_stopping (snd (reconcile_sec_journal E s)) = c_stopping s"
  "c_stopping (apply_cloud_matrix E i r s) = c_stopping s"
  by (simp_all add: Let_def case_prod_beta handle_import_result_def do_check_def reconcile_sec_journal_def 
      apply_cloud_matrix_def 
      split: sum.split option.split import_state.split evidence_kind.split
      reconcile_action.split decoded_body.split coord_state.split)

lemma stopping_11 [simp]:
  "c_stopping (call_import E s) = c_stopping s" "c_stopping (do_reconcile E s) = c_stopping s"
  "c_stopping (handle_reconcile_status E y s) = c_stopping s"
  by (simp_all add: Let_def case_prod_beta call_import_def do_reconcile_def handle_reconcile_status_def 
      split: sum.split option.split import_state.split evidence_kind.split
      reconcile_action.split decoded_body.split coord_state.split)

lemma stopping_12 [simp]:
  "c_stopping (do_import E s) = c_stopping s" "c_stopping (handle_status_response E y s) = c_stopping s"
  by (simp_all add: Let_def case_prod_beta do_import_def handle_status_response_def split: sum.split option.split)

lemma stopping_13 [simp]:
  "c_stopping (run_state E i s) = c_stopping s" "c_stopping (handle_routed_downlink E z s) = c_stopping s"
  by (simp_all add: Let_def case_prod_beta run_state_def handle_routed_downlink_def 
      split: sum.split option.split import_state.split evidence_kind.split
      reconcile_action.split decoded_body.split coord_state.split)

lemma stopping_14 [simp]:
  "c_stopping (tick E s) = c_stopping s"
  by (simp_all add: Let_def case_prod_beta tick_def split: sum.split option.split)

lemma stopping_event: "c_stopping (coord_step E ev s) \<longleftrightarrow> c_stopping s \<or> ev = ShutdownEvent \<or> ev = StopEvent"
  by (cases ev) (simp_all add: begin_shutdown_def stop_def)

section \<open>The thread, the mutex and the flags\<close>

text \<open>
  Where the worker stands in \<open>worker_loop\<close>. It holds the mutex in \<open>Testing\<close> (the condition of the
  \<open>while\<close>), \<open>Deciding\<close> (the predicate of \<open>wait_for\<close>), \<open>Roused\<close> (the test after the wait) and
  \<open>Ticking\<close>; it waits for the mutex in \<open>Entering\<close> and \<open>Woken\<close>, where the flag says whether the time
  of the wait has run out; in \<open>Blocked\<close> it sleeps on the condition variable.
\<close>

datatype worker_phase = Entering | Testing | Deciding | Blocked | Woken bool | Roused | Ticking | Finished

text \<open>Where the caller of \<open>stop\<close> stands: the flags are atomics, set without the mutex.\<close>

datatype stop_phase = NotCalled | FlagSet | Halted | Notified | Joined | Returned

record worker =
  wk_coord :: coord
  wk_running :: bool
  wk_phase :: worker_phase
  wk_stop :: stop_phase
  wk_moves :: nat
  wk_timeouts :: nat
  wk_ticks :: nat

definition mutex_free :: "worker \<Rightarrow> bool" where
  "mutex_free w \<longleftrightarrow> (case wk_phase w of
     Entering \<Rightarrow> True | Blocked \<Rightarrow> True | Woken b \<Rightarrow> True | Finished \<Rightarrow> True | _ \<Rightarrow> False)"

definition new_worker :: "coord \<Rightarrow> worker" where
  "new_worker s = \<lparr>wk_coord = s, wk_running = True, wk_phase = Entering, wk_stop = NotCalled,
     wk_moves = 0, wk_timeouts = 0, wk_ticks = 0\<rparr>"

section \<open>Their steps\<close>

definition next_phase :: "worker \<Rightarrow> worker_phase" where
  "next_phase w =
     (let stopping = c_stopping (wk_coord w) in
      case wk_phase w of
        Entering \<Rightarrow> Testing
      | Testing \<Rightarrow> if wk_running w \<and> \<not> stopping then Deciding else Finished
      | Deciding \<Rightarrow> if stopping then Roused else Blocked
      | Blocked \<Rightarrow> Blocked
      | Woken timed_out \<Rightarrow> if timed_out then Roused else Deciding
      | Roused \<Rightarrow> if stopping then Finished else Ticking
      | Ticking \<Rightarrow> Testing
      | Finished \<Rightarrow> Finished)"

text \<open>
  One move of the worker. A wait that times out evaluates the predicate once more and returns
  whatever it says, so it goes on to the test after the wait. \<open>tick\<close> reads \<open>stopping_\<close> once, in the
  gate: the whole of \<open>tick_locked\<close> is one step, at the moment of that read.
\<close>

definition worker_move :: "env \<Rightarrow> worker \<Rightarrow> worker" where
  "worker_move E w =
     (if wk_phase w = Ticking then w\<lparr>wk_coord := tick E (wk_coord w), wk_ticks := wk_ticks w + 1\<rparr> else w)
     \<lparr>wk_phase := next_phase w, wk_moves := wk_moves w + 1\<rparr>"

definition wait_expires :: "worker \<Rightarrow> worker" where
  "wait_expires w = w\<lparr>wk_phase := Woken True, wk_moves := wk_moves w + 1, wk_timeouts := wk_timeouts w + 1\<rparr>"

definition notify_all :: "worker \<Rightarrow> worker" where
  "notify_all w = (if wk_phase w = Blocked then w\<lparr>wk_phase := Woken False\<rparr> else w)"

definition stop_move :: "worker \<Rightarrow> worker" where
  "stop_move w =
     (case wk_stop w of
        NotCalled \<Rightarrow> w\<lparr>wk_coord := begin_shutdown (wk_coord w), wk_stop := FlagSet\<rparr>
      | FlagSet \<Rightarrow> w\<lparr>wk_running := False, wk_stop := Halted\<rparr>
      | Halted \<Rightarrow> (notify_all w)\<lparr>wk_stop := Notified\<rparr>
      | Notified \<Rightarrow> if wk_phase w = Finished then w\<lparr>wk_stop := Joined\<rparr> else w
      | Joined \<Rightarrow> w\<lparr>wk_coord := stop (wk_coord w), wk_stop := Returned\<rparr>
      | Returned \<Rightarrow> w)"

text \<open>
  All interleavings: the worker, the end of its wait, notifications, the one who stops it, and the
  sections of the callbacks - readiness, downlinks, a tick from outside - which hold the mutex from
  end to end.
\<close>

inductive worker_step :: "env \<Rightarrow> worker \<Rightarrow> worker \<Rightarrow> bool" for E where
  ws_move: "wk_phase w \<notin> {Blocked, Finished} \<Longrightarrow> worker_step E w (worker_move E w)"
| ws_expire: "wk_phase w = Blocked \<Longrightarrow> worker_step E w (wait_expires w)"
| ws_notify: "worker_step E w (notify_all w)"
| ws_shutdown: "worker_step E w (w\<lparr>wk_coord := begin_shutdown (wk_coord w)\<rparr>)"
| ws_stop: "worker_step E w (stop_move w)"
| ws_section: "mutex_free w \<Longrightarrow> ev \<noteq> StopEvent \<Longrightarrow> worker_step E w (w\<lparr>wk_coord := coord_step E ev (wk_coord w)\<rparr>)"

lemmas worker_defs = worker_move_def wait_expires_def notify_all_def stop_move_def next_phase_def mutex_free_def

inductive_cases worker_stepE: "worker_step E w v"

section \<open>What the interleavings keep\<close>

lemma section_reachable: "coord_reachable E cfg r (wk_coord w) \<Longrightarrow> worker_step E w v \<Longrightarrow> coord_reachable E cfg r (wk_coord v)"
proof -
  assume r: "coord_reachable E cfg r (wk_coord w)" and "worker_step E w v"
  note ev = coord_reachable.step [OF r]
  from \<open>worker_step E w v\<close> show ?thesis
    by (cases rule: worker_step.cases)
      (use r ev [of TickEvent] ev [of ShutdownEvent] ev [of StopEvent] ev in
        \<open>auto simp: worker_defs split: stop_phase.splits\<close>)
qed

interpretation sections: step_invariant "worker_step E" "\<lambda>w. coord_reachable E cfg r (wk_coord w)" for E cfg r
  by unfold_locales (rule section_reachable)


definition due :: "worker \<Rightarrow> nat" where
  "due w = (if wk_phase w = Woken True \<or> wk_phase w = Ticking \<or> wk_phase w = Roused \<and> \<not> c_stopping (wk_coord w) then 1 else 0)"

definition worker_inv :: "worker \<Rightarrow> bool" where
  "worker_inv w \<longleftrightarrow> wk_ticks w + due w \<le> wk_timeouts w
     \<and> (wk_stop w \<in> {Joined, Returned} \<longrightarrow> wk_phase w = Finished)
     \<and> (wk_stop w \<noteq> NotCalled \<longrightarrow> c_stopping (wk_coord w))"

lemma worker_inv_kept: "worker_inv w \<Longrightarrow> worker_step E w v \<Longrightarrow> worker_inv v"
  by (erule worker_stepE)
    (auto simp: worker_inv_def due_def worker_defs begin_shutdown_def stop_def stopping_event Let_def
      split: stop_phase.splits worker_phase.splits if_splits)

interpretation pacing: step_invariant "worker_step E" worker_inv for E
  by unfold_locales (rule worker_inv_kept)

lemma new_worker_inv: "worker_inv (new_worker s)"
  by (simp add: worker_inv_def due_def new_worker_def)

lemmas worker_inv_run = pacing.run [OF _ new_worker_inv]

text \<open>
  C38. The worker keeps its pace: in every interleaving it ticks at most as often as its wait has run
  out, so no notification - a readiness event, a shutdown - brings a tick forward.
\<close>

theorem ticks_are_paced:
  assumes "(worker_step E)\<^sup>*\<^sup>* (new_worker s) w"
  shows "wk_ticks w \<le> wk_timeouts w"
  using worker_inv_run [OF assms] by (simp add: worker_inv_def)

text \<open>A readiness event that comes while the worker sleeps: it wakes, and sleeps on.\<close>

lemma readiness_wakes_in_vain:
  assumes "wk_phase w = Blocked" "\<not> c_stopping (wk_coord w)"
  shows "worker_move E (worker_move E (notify_all w)) = w\<lparr>wk_moves := wk_moves w + 2\<rparr>"
  using assms by (simp add: worker_defs)

section \<open>The end of the worker\<close>

text \<open>The moves left to a worker that is to stop.\<close>

fun moves_left :: "worker_phase \<Rightarrow> nat" where
  "moves_left Entering = 2"
| "moves_left Testing = 1"
| "moves_left Deciding = 2"
| "moves_left Blocked = 3"
| "moves_left (Woken timed_out) = (if timed_out then 2 else 3)"
| "moves_left Roused = 1"
| "moves_left Ticking = 2"
| "moves_left Finished = 0"

definition ending :: "nat \<Rightarrow> nat \<Rightarrow> worker \<Rightarrow> bool" where
  "ending m k w \<longleftrightarrow> c_stopping (wk_coord w) \<and> wk_moves w + moves_left (wk_phase w) \<le> m
     \<and> wk_ticks w + (if wk_phase w = Ticking then 1 else 0) \<le> k"

lemma ending_kept: "ending m k w \<Longrightarrow> worker_step E w v \<Longrightarrow> ending m k v"
  by (erule worker_stepE)
    (auto simp: ending_def worker_defs begin_shutdown_def stop_def stopping_event Let_def
      split: stop_phase.splits worker_phase.splits)

interpretation ends: step_invariant "worker_step E" "ending m k" for E m k
  by unfold_locales (rule ending_kept)

lemma worker_can_move:
  assumes "wk_phase w \<noteq> Finished"
  shows "\<exists>u. worker_step E w u \<and> wk_moves u = wk_moves w + 1"
proof (cases "wk_phase w = Blocked")
  case True
  then show ?thesis using ws_expire [of w E] by (auto simp: wait_expires_def)
next
  case False
  then show ?thesis using assms ws_move [of w E] by (auto simp: worker_move_def)
qed

text \<open>Once the flag is set the tick that may still come stores, and does nothing outside.\<close>

lemma last_tick_quiet:
  "c_stopping (wk_coord w) \<Longrightarrow> only_persists (c_trace (wk_coord w)) (c_trace (wk_coord (worker_move E w)))"
  using stopping_gate [of "wk_coord w" E] closed_gate_is_quiet [of E "wk_coord w"]
  by (auto simp: worker_move_def)

text \<open>
  C18. The worker ends. Once the stop flag is set, whatever notifications, callbacks and the caller of
  \<open>stop\<close> do in between, at most three moves of the worker remain; until it has ended it always has
  one; at most one tick is still run, and only a tick that was due already, and it publishes,
  imports and asks nothing.
\<close>

theorem worker_ends:
  assumes "c_stopping (wk_coord w)" "(worker_step E)\<^sup>*\<^sup>* w v"
  shows "wk_moves v \<le> wk_moves w + 3 \<and> wk_ticks v \<le> wk_ticks w + (if wk_phase w = Ticking then 1 else 0)
    \<and> (wk_phase v = Finished \<or> (\<exists>u. worker_step E v u \<and> wk_moves u = wk_moves v + 1))
    \<and> only_persists (c_trace (wk_coord v)) (c_trace (wk_coord (worker_move E v)))"
proof -
  let ?k = "wk_ticks w + (if wk_phase w = Ticking then 1 else 0)"
  have "moves_left p \<le> 3" for p by (cases p) auto
  then have "ending (wk_moves w + 3) ?k w" using assms(1) by (simp add: ending_def)
  from ends.run [OF assms(2) this] have v: "ending (wk_moves w + 3) ?k v" .
  then have "wk_moves v \<le> wk_moves w + 3" "wk_ticks v \<le> ?k" "c_stopping (wk_coord v)"
    by (auto simp: ending_def split: if_splits)
  then show ?thesis using worker_can_move [of v E] last_tick_quiet [of v E] by blast
qed

section \<open>The caller of stop\<close>

fun stop_rank :: "stop_phase \<Rightarrow> nat" where
  "stop_rank NotCalled = 5" | "stop_rank FlagSet = 4" | "stop_rank Halted = 3"
| "stop_rank Notified = 2" | "stop_rank Joined = 1" | "stop_rank Returned = 0"

lemma stop_advances:
  assumes "worker_inv w" "wk_stop w \<notin> {Joined, Returned}"
  shows "\<exists>u. worker_step E w u \<and> 10 * stop_rank (wk_stop u) + moves_left (wk_phase u)
      < 10 * stop_rank (wk_stop w) + moves_left (wk_phase w)"
proof (cases "wk_stop w = Notified \<and> wk_phase w \<noteq> Finished")
  case True
  then have "c_stopping (wk_coord w)" using assms(1) by (simp add: worker_inv_def)
  with True show ?thesis
    by (cases "wk_phase w = Blocked")
      (use ws_expire [of w E] ws_move [of w E] in
        \<open>auto simp: worker_defs Let_def split: worker_phase.splits if_splits\<close>)
next
  case False
  then show ?thesis
    using assms(2) by (intro exI [of _ "stop_move w"] conjI ws_stop) (cases "wk_stop w"; auto simp: worker_defs)
qed

lemma stop_joins:
  "worker_inv w \<Longrightarrow> wk_stop w \<noteq> Returned \<Longrightarrow> \<exists>u. (worker_step E)\<^sup>*\<^sup>* w u \<and> wk_stop u = Joined"
proof (induction "10 * stop_rank (wk_stop w) + moves_left (wk_phase w)" arbitrary: w rule: less_induct)
  case less
  show ?case
  proof (cases "wk_stop w = Joined")
    case False
    then obtain u where u: "worker_step E w u" "10 * stop_rank (wk_stop u) + moves_left (wk_phase u)
        < 10 * stop_rank (wk_stop w) + moves_left (wk_phase w)"
      using stop_advances less.prems by blast
    have "wk_stop u \<noteq> Returned"
      using u(1) less.prems False by (elim worker_stepE) (auto simp: worker_defs split: stop_phase.splits if_splits)
    then show ?thesis
      using less.hyps [OF u(2) worker_inv_kept [OF less.prems(1) u(1)]] u(1) by (meson converse_rtranclp_into_rtranclp)
  qed auto
qed

text \<open>
  C37. \<open>stop\<close> returns: whatever the threads did before, the caller can always get through its join to
  the end - the flags set, the worker ended, the keys of the response and the acknowledgement items
  cleared.
\<close>

theorem stop_returns:
  assumes "(worker_step E)\<^sup>*\<^sup>* (new_worker s) w" "wk_stop w \<noteq> Returned"
  shows "\<exists>v. (worker_step E)\<^sup>*\<^sup>* w v \<and> wk_stop v = Returned \<and> wk_phase v = Finished
    \<and> c_stopping (wk_coord v) \<and> c_pending_items (wk_coord v) = [] \<and> c_ack_items (wk_coord v) = []"
proof -
  obtain u where u: "(worker_step E)\<^sup>*\<^sup>* w u" "wk_stop u = Joined"
    using stop_joins [OF worker_inv_run [OF assms(1)] assms(2)] by blast
  have "wk_phase u = Finished"
    using worker_inv_run [OF rtranclp_trans [OF assms(1) u(1)]] u(2) by (simp add: worker_inv_def)
  then show ?thesis
    using u by (intro exI [of _ "stop_move u"] conjI rtranclp.rtrancl_into_rtrancl [OF u(1) ws_stop])
      (simp_all add: stop_move_def stop_def)
qed

section \<open>A concrete run\<close>

text \<open>The worker of a freshly started coordinator goes to sleep; its wait runs out; it ticks.\<close>

definition lab_asleep :: worker where
  "lab_asleep = (new_worker (lab_run 0))\<lparr>wk_phase := Blocked, wk_moves := 3\<rparr>"

definition lab_ticked :: worker where
  "lab_ticked = lab_asleep\<lparr>wk_coord := tick lab_env (lab_run 0), wk_phase := Testing, wk_moves := 7,
     wk_timeouts := 1, wk_ticks := 1\<rparr>"

lemma lab_not_stopping: "\<not> c_stopping (lab_run 0)"
  by (simp add: lab_run_def coord_run_def start_def)

lemma lab_asleep_reached: "(worker_step lab_env)\<^sup>*\<^sup>* (new_worker (lab_run 0)) lab_asleep"
proof -
  let ?m = "worker_move lab_env" and ?w = "new_worker (lab_run 0)"
  have "worker_step lab_env ?w (?m ?w)" "worker_step lab_env (?m ?w) (?m (?m ?w))"
    "worker_step lab_env (?m (?m ?w)) (?m (?m (?m ?w)))"
    by (rule ws_move; simp add: worker_defs new_worker_def lab_not_stopping)+
  moreover have "?m (?m (?m ?w)) = lab_asleep"
    by (simp add: lab_asleep_def worker_defs new_worker_def lab_not_stopping)
  ultimately show ?thesis by (metis r_into_rtranclp rtranclp_trans)
qed

lemma lab_ticked_reached: "(worker_step lab_env)\<^sup>*\<^sup>* (new_worker (lab_run 0)) lab_ticked"
proof -
  let ?m = "worker_move lab_env" and ?w = "wait_expires lab_asleep"
  have "worker_step lab_env lab_asleep ?w" by (rule ws_expire) (simp add: lab_asleep_def)
  moreover have "worker_step lab_env ?w (?m ?w)" "worker_step lab_env (?m ?w) (?m (?m ?w))"
    "worker_step lab_env (?m (?m ?w)) (?m (?m (?m ?w)))"
    by (rule ws_move; simp add: worker_defs new_worker_def lab_asleep_def lab_not_stopping)+
  moreover have "?m (?m (?m ?w)) = lab_ticked"
    by (simp add: lab_ticked_def lab_asleep_def worker_defs new_worker_def lab_not_stopping)
  ultimately show ?thesis using lab_asleep_reached by (metis r_into_rtranclp rtranclp_trans)
qed


theorem ticks_are_paced_witness: "wk_ticks lab_ticked \<le> 1"
  using ticks_are_paced [OF lab_ticked_reached] by (simp add: lab_ticked_def)

definition lab_overtaken :: worker where
  "lab_overtaken = lab_asleep\<lparr>wk_coord := begin_shutdown (lab_run 0), wk_phase := Ticking\<rparr>"

theorem worker_ends_witness:
  "wk_moves (worker_move lab_env lab_overtaken) \<le> 6 \<and> wk_ticks (worker_move lab_env lab_overtaken) \<le> 1
    \<and> only_persists (c_trace (wk_coord (worker_move lab_env lab_overtaken)))
        (c_trace (wk_coord (worker_move lab_env (worker_move lab_env lab_overtaken))))"
proof -
  have p: "wk_phase lab_overtaken = Ticking" "c_stopping (wk_coord lab_overtaken)" "wk_moves lab_overtaken = 3"
    "wk_ticks lab_overtaken = 0"
    by (simp_all add: lab_overtaken_def lab_asleep_def begin_shutdown_def new_worker_def)
  have "(worker_step lab_env)\<^sup>*\<^sup>* lab_overtaken (worker_move lab_env lab_overtaken)"
    by (rule r_into_rtranclp, rule ws_move) (simp add: p)
  from worker_ends [OF p(2) this] show ?thesis by (simp add: p)
qed

theorem stop_returns_witness:
  "\<exists>v. (worker_step lab_env)\<^sup>*\<^sup>* lab_ticked v \<and> wk_stop v = Returned \<and> wk_phase v = Finished"
  using stop_returns [OF lab_ticked_reached] by (auto simp: lab_ticked_def lab_asleep_def new_worker_def)

end
