(* ===== verification/RuntimeSupport.thy ===== *)
theory RuntimeSupport
  imports CoordBehaviour IpcBridge
begin

text \<open>
  What the components take from the runtime at start: the self test of the protobuf runtime
  (\<open>keyprov_deterministic_proto_runtime_check\<close> of keyprov\_protocol.cpp), the default clock gate of
  the coordinator, the log adapter (log\_adapter.cpp), and the subscription a client opens
  (\<open>subscribe_vehicle_message\<close> of tsp\_client.cpp) as the server takes it. The linked descriptors, the
  serialisation and the files of the system are parameters.
\<close>

section \<open>The self test of the protobuf runtime\<close>

text \<open>A linked message: the package of its file, if it has one, and the numbers of its fields.\<close>

record message_descriptor =
  md_package :: "string option"
  md_field :: "string \<Rightarrow> int option"

record linked_descriptors =
  ld_request :: "message_descriptor option"
  ld_wrapped_key_item :: "message_descriptor option"
  ld_import_item_result :: "message_descriptor option"

record ecdh_parameters =
  ep_format_version :: u32
  ep_server_ephemeral_public_key :: bytes
  ep_hkdf_salt :: bytes
  ep_hkdf_context_version :: string
  ep_nonce :: bytes
  ep_authentication_tag :: bytes
  ep_canonical_aad :: string
  ep_aad_digest :: bytes
  ep_root_key_version :: u32
  ep_derivation_version :: string
  ep_recipient_certificate_digest :: bytes
  ep_operation_id :: string

definition probe_parameters :: ecdh_parameters where
  "probe_parameters = \<lparr>ep_format_version = 1, ep_server_ephemeral_public_key = replicate 65 4,
     ep_hkdf_salt = replicate 32 1, ep_hkdf_context_version = ''v1'', ep_nonce = replicate 12 2,
     ep_authentication_tag = replicate 16 3, ep_canonical_aad = ''aad'', ep_aad_digest = replicate 32 4,
     ep_root_key_version = 1, ep_derivation_version = ''v1'',
     ep_recipient_certificate_digest = replicate 32 5, ep_operation_id = ''op''\<rparr>"

text \<open>\<open>ser m i\<close> is what the \<open>i\<close>-th serialisation of \<open>m\<close> yields.\<close>

definition keyprov_deterministic_proto_runtime_check ::
  "linked_descriptors \<Rightarrow> (ecdh_parameters \<Rightarrow> nat \<Rightarrow> bytes option) \<Rightarrow> bool" where
  "keyprov_deterministic_proto_runtime_check ld ser =
     (case ld_request ld of None \<Rightarrow> False | Some req \<Rightarrow>
      if md_package req \<noteq> Some kKeyprovPackage then False
      else if md_field req ''supported_envelope_formats'' = None then False
      else
        (case (ld_wrapped_key_item ld, ld_import_item_result ld) of
           (Some wrap, Some imp) \<Rightarrow>
             if md_field wrap ''envelope_digest'' \<noteq> Some 10 \<or> md_field wrap ''key_check_value'' \<noteq> Some 11
                \<or> md_field wrap ''envelope_format'' \<noteq> Some 12 then False
             else if md_field imp ''import_proof_algorithm'' \<noteq> Some 10
                \<or> md_field imp ''recipient_certificate_digest'' \<noteq> Some 11 then False
             else (case (ser probe_parameters 0, ser probe_parameters 1) of
                     (Some a, Some b) \<Rightarrow> a = b \<and> a \<noteq> [] | _ \<Rightarrow> False)
         | _ \<Rightarrow> False))"

definition keyprov_import_proof_algorithm_to_string :: "int \<Rightarrow> string" where
  "keyprov_import_proof_algorithm_to_string a =
     (if a = kKeyProvImportProofAlgorithmEcdsaP256P1363 then ''ECDSA_P256_SHA256_P1363'' else ''UNSPECIFIED'')"


definition moved_field :: linked_descriptors where
  "moved_field = \<lparr>ld_request = Some \<lparr>md_package = Some kKeyprovPackage, md_field = (\<lambda>f. Some 8)\<rparr>,
     ld_wrapped_key_item = Some \<lparr>md_package = Some kKeyprovPackage,
       md_field = [''envelope_digest'' \<mapsto> 10, ''key_check_value'' \<mapsto> 12, ''envelope_format'' \<mapsto> 11]\<rparr>,
     ld_import_item_result = Some \<lparr>md_package = Some kKeyprovPackage,
       md_field = [''import_proof_algorithm'' \<mapsto> 10, ''recipient_certificate_digest'' \<mapsto> 11]\<rparr>\<rparr>"


section \<open>The default clock gate\<close>

definition kTimesyncDir :: string where "kTimesyncDir = ''/run/systemd/timesync''"
definition kTimesyncMarker :: string where "kTimesyncMarker = ''/run/systemd/timesync/synchronized''"

text \<open>\<open>path_exists\<close> stands for \<open>access(path, F_OK) == 0\<close>; the directory is not there on a system without timesyncd.\<close>

definition default_clock_synchronized :: "(string \<Rightarrow> bool) \<Rightarrow> bool" where
  "default_clock_synchronized path_exists =
     (if \<not> path_exists kTimesyncDir then True else path_exists kTimesyncMarker)"

lemma unsynchronized_iff:
  "\<not> default_clock_synchronized path_exists \<longleftrightarrow> path_exists kTimesyncDir \<and> \<not> path_exists kTimesyncMarker"
  by (simp add: default_clock_synchronized_def)

section \<open>The loggers\<close>

datatype log_module = LogRoute | LogFota | LogMqttClient | LogSomeipBridge | LogRelay
  | LogIpcServer | LogApplication | LogSubscription | LogKeyprov

text \<open>The name under which each accessor of \<open>LogAdapter\<close> gets its logger.\<close>

definition logger_name :: "log_module \<Rightarrow> string" where
  "logger_name m = (case m of LogRoute \<Rightarrow> ''route'' | LogFota \<Rightarrow> ''fota'' | LogMqttClient \<Rightarrow> ''mqtt_client''
     | LogSomeipBridge \<Rightarrow> ''someip_bridge'' | LogRelay \<Rightarrow> ''relay'' | LogIpcServer \<Rightarrow> ''ipc_server''
     | LogApplication \<Rightarrow> ''application'' | LogSubscription \<Rightarrow> ''subscription'' | LogKeyprov \<Rightarrow> ''keyprov'')"

lemma logger_names_differ: "logger_name m = logger_name n \<longleftrightarrow> m = n"
  by (cases m; cases n) (simp_all add: logger_name_def)

text \<open>\<open>logger_init\<close> is the framework's; it yields its result and whether that is \<open>kOk\<close>.\<close>

definition log_init :: "(string \<Rightarrow> 'c \<Rightarrow> 'r \<times> bool) \<Rightarrow> string \<Rightarrow> 'c \<Rightarrow> bool \<Rightarrow> 'r \<times> bool" where
  "log_init logger_init service config initialized =
     (let (result, ok) = logger_init service config in (result, if ok then True else initialized))"

lemma log_init_keeps: "initialized \<Longrightarrow> snd (log_init f service config initialized)"
  by (simp add: log_init_def split: prod.split)

section \<open>The subscription of a client\<close>

text \<open>What the client hands to the framework: method, event type, parameters and the wrapped handler.\<close>

definition subscribe_vehicle_message :: "ipc_lib \<Rightarrow> string \<Rightarrow> u32 \<times> u32 \<times> string \<times> (string \<Rightarrow> bytes option)" where
  "subscribe_vehicle_message L service =
     (method_id SubscribeVehicleMessage, kEventVehicleMessage,
      js_dump (il_json L) (jobj [(''service'', JStr service)]), on_vehicle_event L service)"

text \<open>
  A subscription takes effect: the server registers the connection for exactly the event type the
  client listens on, keeps the others, and answers with success; an event the publisher then pushes
  reaches the handler with its bytes exactly when it is of the service subscribed to and not empty.
\<close>

theorem subscription_takes_effect:
  assumes "json_spec (il_json L)" and "b64_spec L"
    and "pe_json E = il_json L" and "pe_base64 E = il_b64_encode L" and "il_b64_encode L [] = []"
    and "json_returns (il_json L) (event_json L ev)" and "vm_service ev \<noteq> []"
    and "json_returns (il_json L) (jobj [(''success'', JBool True)])"
  shows "case subscribe_vehicle_message L service of (i, event_type, params, handler) \<Rightarrow>
    (case request_handler L D i params client_fd subs of (answer, subs') \<Rightarrow>
       subs' = subs @ [(client_fd, event_type)]
       \<and> answer = js_dump (il_json L) (jobj [(''success'', JBool True), (''status'', JNum 0)])
       \<and> handler (encode_vehicle_message E ev)
           = (if vm_service ev = service \<and> vm_envelope_bytes ev \<noteq> [] then Some (vm_envelope_bytes ev) else None))"
proof -
  have "ipc_dispatch L D (method_id SubscribeVehicleMessage) params
      = js_dump (il_json L) (jobj [(''success'', JBool True), (''status'', JNum 0)])" for params
    using assms(8) by (simp add: ipc_dispatch_def handle_method_def handle_subscribe_def json_returns_def make_json_response_def jobj_def)
  then show ?thesis
    using event_over_wire [OF assms(1-7), of service]
    by (simp add: subscribe_vehicle_message_def request_handler_def)
qed

definition subscribed_lib :: ipc_lib where
  "subscribed_lib = (let ev = event_json (lab_lib JNull JNull JNull) lab_event; ok = jobj [(''success'', JBool True)]
     in lab_lib ev ok ev)"

lemma subscribed_lib_specs:
  "json_spec (il_json subscribed_lib)" "b64_spec subscribed_lib" "il_b64_encode subscribed_lib [] = []"
  "json_returns (il_json subscribed_lib) (event_json subscribed_lib lab_event)"
  "json_returns (il_json subscribed_lib) (jobj [(''success'', JBool True)])"
proof -
  have "event_json subscribed_lib = event_json (lab_lib JNull JNull JNull)"
    by (simp add: fun_eq_iff event_json_def subscribed_lib_def Let_def lab_lib_def)
  then show "json_returns (il_json subscribed_lib) (event_json subscribed_lib lab_event)"
    by (simp add: subscribed_lib_def Let_def json_returns_def) (simp add: lab_lib_def)
  show "json_returns (il_json subscribed_lib) (jobj [(''success'', JBool True)])"
    by (simp add: subscribed_lib_def Let_def json_returns_def) (simp add: lab_lib_def)
qed (simp_all add: subscribed_lib_def Let_def lab_lib_specs, simp add: lab_lib_def bytes_text_def)

theorem subscription_takes_effect_witness:
  "case subscribe_vehicle_message subscribed_lib ''vehicle.fota'' of (i, event_type, params, handler) \<Rightarrow>
    snd (request_handler subscribed_lib lab_dispatcher i params 7 [(5, 100)]) = [(5, 100), (7, event_type)]
    \<and> handler (encode_vehicle_message
        (lab_push\<lparr>pe_json := il_json subscribed_lib, pe_base64 := il_b64_encode subscribed_lib\<rparr>) lab_event) = Some [3]"
  using subscription_takes_effect [OF subscribed_lib_specs(1,2),
      of "lab_push\<lparr>pe_json := il_json subscribed_lib, pe_base64 := il_b64_encode subscribed_lib\<rparr>" lab_event,
      OF _ _ subscribed_lib_specs(3,4) _ subscribed_lib_specs(5), where service = "''vehicle.fota''" and D = lab_dispatcher
        and client_fd = 7 and subs = "[(5, 100)]"]
  by (simp add: lab_event_def split_beta)

end
