(* ===== verification/Spec2Isabelle.thy ===== *)
theory Spec2Isabelle
  imports CoordProperties CoordRestart SubscriptionRegistrar GatewayProperties IpcBridge MqttAdapter
    SecAdapter AppProperties EndToEnd CoordLiveness CoordWorker RuntimeSupport
begin

text \<open>
  TBOX-TSP is the telematics service of a vehicle: a process that relays messages between local
  clients (over IPC) and the cloud (over an MQTT daemon), registers the subscriptions this needs,
  and provisions the initial keys of the vehicle with a secure element (SEC). This development
  models the C++ code under src/src and src/include and proves what makes its parts correct.

  \<^bold>\<open>Parts and theories.\<close>

  \<^item> TspPrelude: machine integers (uint8/32/64 are words, so they wrap as in the code; signed
    types are \<open>int\<close>), bytes and strings, hexadecimal, counter maps, the locales \<open>self_delimiting\<close>
    (an encoding marks its own end) and \<open>step_invariant\<close> (what every step keeps holds in every run),
    on which the invariants of all components rest by interpretation.

  \<^item> KeyprovProtocol, KeyprovCodec: the provisioning messages (keyprov\_protocol.cpp): identities,
    builders and decoder of envelopes. KeyprovAttempt: the snapshot of an attempt, its canonical
    text and fingerprint (keyprov\_attempt.cpp). KeyprovLifecycle: the decision table and the budget
    ledger (keyprov\_lifecycle.cpp). KeyprovStore: the persistent record with its migrations
    (v2c\_key\_provisioning\_store.cpp). SecEvidence: evidence about imports and readiness
    (sec\_business\_key\_adapter.cpp, keyprov\_readiness.cpp); SecAdapter: the adapter's calls.

  \<^item> CoordState, CoordCore, CoordSession, CoordAttempt, CoordImport, CoordReconcile, CoordEvents: the
    provisioning coordinator (v2c\_key\_provisioning\_coordinator.cpp), one definition per operation,
    over the record \<open>coord\<close>. AttemptProtocol: the abstract protocol of an attempt. CoordRefine: each
    step of the coordinator is a sequence of its steps. CoordProperties, CoordBehaviour,
    CoordRestart: what follows, and what a restart keeps. CoordLiveness: an attempt completes in an
    environment that behaves, followed operation by operation on the projection \<open>flow\<close> of the state.
    CoordWorker: the worker thread with mutex, condition variable and atomics, interleaved with
    callbacks and stop (\<open>worker_step\<close>). CoordScenario: concrete runs.

  \<^item> SubscriptionCatalog, SubscriptionRegistrar: the catalogue of subscriptions, its digest and
    generation, and their submission to the daemon (subscription\_*.cpp, snapshot\_builder.cpp,
    registration\_state.cpp).

  \<^item> DownlinkRoute, EventPublisher, GatewayModel, GatewayExchange, GatewayTable, GatewayCorrelation,
    GatewayProperties: the vehicle message gateway with its route table and event publisher
    (downlink\_route\_dispatcher.cpp, tsp\_event\_publisher.cpp, vehicle\_message\_gateway.cpp); the
    operations are split at their critical sections and \<open>gw_step\<close> interleaves them.

  \<^item> IpcBridge: dispatcher and client on the two sides of the local IPC (tsp\_ipc\_dispatcher.cpp,
    tsp\_client.cpp, tsp\_retry\_policy.cpp, tsp\_error\_codes.cpp). MqttAdapter: the adapter to the client
    library of the MQTT daemon (mqtt\_client\_adapter.cpp).

  \<^item> AppConfig: the reading of the configuration, the network status provider. RelayService,
    RelayProperties: registrar, gateway and coordinator together (tsp\_relay\_service.cpp).
    TspApplication, AppProperties: the process and its IPC server, call by call
    (tsp\_application.cpp, tsp\_framework\_server.cpp).

  \<^item> RuntimeSupport: the self test of the protobuf runtime (keyprov\_protocol.cpp), the default clock
    gate, the log adapter (log\_adapter.cpp), a client's subscription (tsp\_client.cpp).

  \<^item> EndToEnd: the way of an exchange from the client to the cloud and back, the way of an event from
    the cloud to the client, and the publisher as a bounded queue per service (\<open>queues\<close>).

  \<^bold>\<open>How the parts interact.\<close> The application builds the adapter, the relay and the server and wires
  the server's publisher into the gateway. A client's request goes through dispatcher and relay
  to the gateway, which publishes it and waits for the correlated response; a downlink goes from
  the adapter through the route table either to the gateway (responses and events) or to the
  coordinator; an event goes from the gateway through the publisher to the subscribed clients.
  In the model the relay's state holds those of its components, and the application's step relation
  interleaves the main thread with requests, downlinks and the threads of the relay.

  \<^bold>\<open>What is shown.\<close> Invariants over every interleaving (correlations, queue, registration,
  ownership in the process), safety of the provisioning protocol by refinement (no import without
  a valid response, no second attempt before the first is resolved, bounded sends), the publisher as
  a refinement of bounded queues, the composition of the parts from client to cloud, round trips of
  the formats (records, envelopes, the wire between client and dispatcher), the exact conditions
  under which envelopes, catalogues and \<open>initialize\<close> succeed, that an attempt at provisioning gets
  from the first tick to ACTIVE, termination of both worker threads, of waits and of the main thread, and that the effect of each stop is complete. Some theorems state what
  the code does although it seems not meant: identifiers freed by an unknown publication,
  separators confused in a digest or a route, callbacks into destroyed objects during teardown.

  \<^bold>\<open>Conventions.\<close> What the program does not contain - clocks, random numbers, SHA-256, protobuf, JSON,
  base64, YAML, the key/value store, the MQTT, SEC and IPC libraries - is a parameter: an environment
  record whose functions answer by the number of calls made before, or an argument. Laws assumed of
  a library are named (\<open>hash_spec\<close>, \<open>json_spec\<close>, \<open>kv_spec\<close>, \<open>b64_spec\<close>) and have instances. An
  exception that the code does not catch, or catches at once, is \<open>None\<close>. Histories kept for the
  statements only (\<open>c_trace\<close>, \<open>rg_trace\<close>, \<open>gw_matched\<close>, \<open>ep_pushed\<close>) are said to be so where declared.

  \<^bold>\<open>Bounds and fuel.\<close> Loops are structural recursions. The worker of the publisher runs with fuel, and
  a queue of n events needs n + 1; the main thread runs at most 18 calls from any point
  (\<open>calls_left\<close> decreases with each), which is the fuel of \<open>run_main\<close> used.

  \<^bold>\<open>Not modelled.\<close> What is logged, and main.cpp, which only runs the framework's application; the
  texts of \<open>error_code_to_string\<close>; the scheduling of threads beyond their interleaving, and memory
  orders; the moments of \<open>start\<close> of the coordinator before it returns; the libraries named above and
  the framework's base class of the application; tests, tools, configuration files and build.
\<close>

end
